(* ===== verification/Prelude.thy ===== *)
theory Prelude
  imports Main "HOL-Library.Word" "HOL-Library.Char_ord" "HOL-Library.List_Lexorder"
    "HOL-Library.Sublist"
begin

text \<open>
  Shared vocabulary of the development: machine integers, outcomes of fallible Rust code,
  UTF-8 byte strings with the operations of the Rust string library that the sources call,
  ordered maps with the contract of \<^verbatim>\<open>BTreeMap\<close>, instants and durations, and
  exponential back-off. The named collections below feed the component proofs.
\<close>

named_theorems outcome_simps \<open>elimination of binds and guards of outcomes\<close>
named_theorems ascii_simps \<open>evaluation of the ASCII character classes\<close>
named_theorems frame_simps \<open>fields an operation leaves alone\<close>

section \<open>Machine integers\<close>

type_synonym u8 = "8 word"
type_synonym u16 = "16 word"
type_synonym u32 = "32 word"
type_synonym u64 = "64 word"

definition saturating_add :: "'a::len word \<Rightarrow> 'a word \<Rightarrow> 'a word" where
  "saturating_add a b = (if unat a + unat b < 2 ^ LENGTH('a) then a + b else - 1)"

definition saturating_sub :: "'a::len word \<Rightarrow> 'a word \<Rightarrow> 'a word" where
  "saturating_sub a b = (if b \<le> a then a - b else 0)"

lemma unat_pos_iff: "0 < unat a \<longleftrightarrow> a \<noteq> 0" for a :: "'a::len word"
  using unsigned_eq_0_iff [of a] by (metis neq0_conv unsigned_eq_0_iff)

lemma uint_le_of_unat: "unat a \<le> numeral n \<Longrightarrow> uint a \<le> numeral n" for a :: "'a::len word"
  unfolding unat_eq_nat_uint by (simp only: nat_le_iff of_nat_numeral)

lemma unat_max_word: "unat (- 1 :: 'a::len word) = 2 ^ LENGTH('a) - 1"
  by (simp add: unsigned_minus_1_eq_mask mask_eq_exp_minus_1)

lemma unat_le_max: "unat a \<le> 2 ^ LENGTH('a) - 1" for a :: "'a::len word"
  using word_order.extremum [of a] by (simp add: word_le_nat_alt unat_max_word)

lemma unat_saturating_add:
  "unat (saturating_add a b) = min (unat a + unat b) (2 ^ LENGTH('a) - 1)" for a b :: "'a::len word"
  by (auto simp: saturating_add_def unat_word_ariths unat_max_word)

lemma unat_saturating_sub: "unat (saturating_sub a b) = unat a - unat b" for a b :: "'a::len word"
  by (auto simp: saturating_sub_def unat_sub word_le_nat_alt)

lemma saturating_add_mono: "a \<le> saturating_add a b" for a b :: "'a::len word"
  using unat_le_max [of a] by (simp add: word_le_nat_alt unat_saturating_add del: One_nat_def)

section \<open>Outcomes of fallible code\<close>

text \<open>
  A Rust function that returns \<^verbatim>\<open>Result\<close> yields \<open>Ok\<close> or \<open>Err\<close>; \<open>Panic\<close>
  stands for a thread that unwinds (an arithmetic overflow in the time library, an index out of
  range, an \<^verbatim>\<open>expect\<close> that fails). A function that returns a plain value but can panic
  yields an \<open>option\<close>, with \<open>None\<close> for the panic.
\<close>

datatype ('e, 'a) outcome = Ok 'a | Err 'e | Panic

fun and_then :: "('e, 'a) outcome \<Rightarrow> ('a \<Rightarrow> ('e, 'b) outcome) \<Rightarrow> ('e, 'b) outcome" where
  "and_then (Ok x) f = f x"
| "and_then (Err e) f = Err e"
| "and_then Panic f = Panic"

fun map_err :: "('e \<Rightarrow> 'f) \<Rightarrow> ('e, 'a) outcome \<Rightarrow> ('f, 'a) outcome" where
  "map_err g (Ok x) = Ok x"
| "map_err g (Err e) = Err (g e)"
| "map_err g Panic = Panic"

definition ensure :: "bool \<Rightarrow> 'e \<Rightarrow> ('e, unit) outcome" where
  "ensure b e = (if b then Ok () else Err e)"

definition ok_or :: "'a option \<Rightarrow> 'e \<Rightarrow> ('e, 'a) outcome" where
  "ok_or x e = (case x of None \<Rightarrow> Err e | Some v \<Rightarrow> Ok v)"

definition or_panic :: "'a option \<Rightarrow> ('e, 'a) outcome" where
  "or_panic x = (case x of None \<Rightarrow> Panic | Some v \<Rightarrow> Ok v)"

text \<open>A Rust \<^verbatim>\<open>for\<close> loop over a slice whose body may return early with an error.\<close>

fun for_each :: "('a \<Rightarrow> ('e, unit) outcome) \<Rightarrow> 'a list \<Rightarrow> ('e, unit) outcome" where
  "for_each f [] = Ok ()"
| "for_each f (x # xs) = and_then (f x) (\<lambda>_. for_each f xs)"

lemma and_then_Ok_iff [outcome_simps]:
  "and_then m f = Ok y \<longleftrightarrow> (\<exists>x. m = Ok x \<and> f x = Ok y)"
  by (cases m) auto

lemma and_then_Err_iff [outcome_simps]:
  "and_then m f = Err e \<longleftrightarrow> m = Err e \<or> (\<exists>x. m = Ok x \<and> f x = Err e)"
  by (cases m) auto

lemma and_then_Panic_iff [outcome_simps]:
  "and_then m f = Panic \<longleftrightarrow> m = Panic \<or> (\<exists>x. m = Ok x \<and> f x = Panic)"
  by (cases m) auto

lemma map_err_iffs [outcome_simps]:
  "map_err g m = Ok x \<longleftrightarrow> m = Ok x"
  "map_err g m = Panic \<longleftrightarrow> m = Panic"
  by (cases m; auto)+

lemma ensure_iffs [outcome_simps]:
  "ensure b e = Ok u \<longleftrightarrow> b"
  "ensure b e = Err e' \<longleftrightarrow> \<not> b \<and> e' = e"
  "ensure b e \<noteq> Panic"
  by (auto simp: ensure_def)

lemma ensure_simps [simp]: "ensure True e = Ok ()" "ensure False e = Err e"
  by (simp_all add: ensure_def)

lemma ok_or_iffs [outcome_simps]:
  "ok_or x e = Ok v \<longleftrightarrow> x = Some v"
  "ok_or x e = Err e' \<longleftrightarrow> x = None \<and> e' = e"
  "ok_or x e \<noteq> Panic"
  by (auto simp: ok_or_def split: option.splits)

lemma ok_or_simps [simp]: "ok_or (Some v) e = Ok v" "ok_or None e = Err e"
  by (simp_all add: ok_or_def)

lemma or_panic_iffs [outcome_simps]:
  "or_panic x = Ok v \<longleftrightarrow> x = Some v"
  "or_panic x \<noteq> Err e"
  "or_panic x = Panic \<longleftrightarrow> x = None"
  by (auto simp: or_panic_def split: option.splits)

lemma or_panic_simps [simp]: "or_panic (Some v) = Ok v" "or_panic None = Panic"
  by (simp_all add: or_panic_def)

lemma for_each_Ok_iff [outcome_simps]: "for_each f xs = Ok u \<longleftrightarrow> (\<forall>x \<in> set xs. f x = Ok ())"
  by (induction xs) (auto simp: and_then_Ok_iff)

lemma for_each_no_panic: "(\<And>x. x \<in> set xs \<Longrightarrow> f x \<noteq> Panic) \<Longrightarrow> for_each f xs \<noteq> Panic"
  by (induction xs) (auto simp: and_then_Panic_iff)

lemma for_each_Err: "for_each f xs = Err e \<Longrightarrow> \<exists>x \<in> set xs. f x = Err e"
  by (induction xs) (auto simp: and_then_Err_iff)

text \<open>Sequencing of steps that carry a state along, which stays as it was when a step fails.\<close>

fun io_then ::
  "('e, 'a) outcome \<times> 's \<Rightarrow> ('a \<Rightarrow> 's \<Rightarrow> ('e, 'b) outcome \<times> 's) \<Rightarrow> ('e, 'b) outcome \<times> 's" where
  "io_then (Ok x, s) f = f x s"
| "io_then (Err e, s) f = (Err e, s)"
| "io_then (Panic, s) f = (Panic, s)"

lemma io_then_iffs [outcome_simps]:
  "io_then m f = (Ok y, s') \<longleftrightarrow> (\<exists>x s. m = (Ok x, s) \<and> f x s = (Ok y, s'))"
  "io_then m f = (Err e, s') \<longleftrightarrow> m = (Err e, s') \<or> (\<exists>x s. m = (Ok x, s) \<and> f x s = (Err e, s'))"
  "io_then m f = (Panic, s') \<longleftrightarrow> m = (Panic, s') \<or> (\<exists>x s. m = (Ok x, s) \<and> f x s = (Panic, s'))"
  by (cases "(m, f)" rule: io_then.cases; auto)+

lemma io_then_ensure: "io_then (ensure b e, s) f = (if b then f () s else (Err e, s))"
  by (simp add: ensure_def)

lemma io_then_ok_or: "io_then (ok_or x e, s) f = (case x of None \<Rightarrow> (Err e, s) | Some v \<Rightarrow> f v s)"
  by (simp split: option.split)

lemma snd_io_then_return [simp]: "snd (io_then m (\<lambda>x s. (g x, s))) = snd m"
  by (cases m; cases "fst m") auto

lemma io_then_state:
  "P (snd m) \<Longrightarrow> (\<And>x s. m = (Ok x, s) \<Longrightarrow> P s \<Longrightarrow> P (snd (f x s))) \<Longrightarrow> P (snd (io_then m f))"
  by (cases m; cases "fst m") auto

section \<open>Processes\<close>

text \<open>What \<^verbatim>\<open>Child::try_wait\<close> returns; the number is the exit code when there is one.\<close>

datatype wait_result = Exited "int option" | StillRunning | WaitError

section \<open>Strings\<close>

text \<open>
  A Rust string is its UTF-8 encoding: one \<^typ>\<open>char\<close> per byte, so that
  \<^verbatim>\<open>len()\<close> is \<^const>\<open>length\<close> and \<^verbatim>\<open>as_bytes()\<close> the identity. The ASCII
  tests of the sources inspect single bytes; a byte below 128 never occurs inside a longer
  encoding.
\<close>

abbreviation byte_of :: "char \<Rightarrow> nat" where
  "byte_of c \<equiv> of_char c"

definition is_ascii_digit :: "char \<Rightarrow> bool" where
  "is_ascii_digit c \<longleftrightarrow> 48 \<le> byte_of c \<and> byte_of c \<le> 57"

definition is_ascii_lowercase :: "char \<Rightarrow> bool" where
  "is_ascii_lowercase c \<longleftrightarrow> 97 \<le> byte_of c \<and> byte_of c \<le> 122"

definition is_ascii_uppercase :: "char \<Rightarrow> bool" where
  "is_ascii_uppercase c \<longleftrightarrow> 65 \<le> byte_of c \<and> byte_of c \<le> 90"

definition is_ascii_alphabetic :: "char \<Rightarrow> bool" where
  "is_ascii_alphabetic c \<longleftrightarrow> is_ascii_lowercase c \<or> is_ascii_uppercase c"

definition is_ascii_alphanumeric :: "char \<Rightarrow> bool" where
  "is_ascii_alphanumeric c \<longleftrightarrow> is_ascii_alphabetic c \<or> is_ascii_digit c"

lemmas ascii_class_defs [ascii_simps] = is_ascii_digit_def is_ascii_lowercase_def
  is_ascii_uppercase_def is_ascii_alphabetic_def is_ascii_alphanumeric_def

definition ascii_lower :: "char \<Rightarrow> char" where
  "ascii_lower c = (if is_ascii_uppercase c then char_of (byte_of c + 32) else c)"

definition to_ascii_lowercase :: "string \<Rightarrow> string" where
  "to_ascii_lowercase s = map ascii_lower s"

definition eq_ignore_ascii_case :: "string \<Rightarrow> string \<Rightarrow> bool" where
  "eq_ignore_ascii_case s t \<longleftrightarrow> to_ascii_lowercase s = to_ascii_lowercase t"

text \<open>\<^verbatim>\<open>contains\<close> with an array of characters, and with a substring.\<close>

definition contains_any :: "char list \<Rightarrow> string \<Rightarrow> bool" where
  "contains_any cs s \<longleftrightarrow> list_ex (\<lambda>c. c \<in> set cs) s"

definition line_breaks :: "char list" where
  "line_breaks = [CHR 0x00, CHR 0x0D, CHR 0x0A]"

fun contains_str :: "string \<Rightarrow> string \<Rightarrow> bool" where
  "contains_str p [] = (p = [])"
| "contains_str p (c # s) = (prefix p (c # s) \<or> contains_str p s)"

definition strip_prefix :: "string \<Rightarrow> string \<Rightarrow> string option" where
  "strip_prefix p s = (if prefix p s then Some (drop (length p) s) else None)"

definition strip_suffix :: "string \<Rightarrow> string \<Rightarrow> string option" where
  "strip_suffix p s = (if suffix p s then Some (take (length s - length p) s) else None)"

lemma contains_str_iff: "contains_str p s \<longleftrightarrow> sublist p s"
  by (induction s) (auto simp: sublist_Cons_right)

lemma strip_prefix_Some: "strip_prefix p s = Some t \<longleftrightarrow> s = p @ t"
  by (auto simp: strip_prefix_def prefix_def)

lemma strip_suffix_Some: "strip_suffix p s = Some t \<longleftrightarrow> s = t @ p"
  by (auto simp: strip_suffix_def suffix_def)

lemma eq_ignore_ascii_case_refl [simp]: "eq_ignore_ascii_case s s"
  by (simp add: eq_ignore_ascii_case_def)

text \<open>
  \<^verbatim>\<open>chars().count()\<close> counts the bytes that are not UTF-8 continuation bytes, and
  \<^verbatim>\<open>encode_utf16().count()\<close> counts a four-byte encoding twice.
\<close>

definition is_continuation :: "char \<Rightarrow> bool" where
  "is_continuation c \<longleftrightarrow> 128 \<le> byte_of c \<and> byte_of c < 192"

definition chars_count :: "string \<Rightarrow> nat" where
  "chars_count s = length (filter (\<lambda>c. \<not> is_continuation c) s)"

definition utf16_count :: "string \<Rightarrow> nat" where
  "utf16_count s =
     sum_list (map (\<lambda>c. if is_continuation c then 0 else if 240 \<le> byte_of c then 2 else 1) s)"

lemma chars_count_le: "chars_count s \<le> length s"
  by (simp add: chars_count_def)

text \<open>The byte sequences that are UTF-8, by the table the Rust library decodes with.\<close>

fun valid_utf8 :: "string \<Rightarrow> bool" where
  "valid_utf8 [] = True"
| "valid_utf8 (a # s) \<longleftrightarrow>
     (if byte_of a < 128 then valid_utf8 s
      else (case s of
        [] \<Rightarrow> False
      | b # s1 \<Rightarrow>
          if 194 \<le> byte_of a \<and> byte_of a < 224 then is_continuation b \<and> valid_utf8 s1
          else (case s1 of
            [] \<Rightarrow> False
          | c # s2 \<Rightarrow>
              if 224 \<le> byte_of a \<and> byte_of a < 240 then
                is_continuation b \<and> (byte_of a = 224 \<longrightarrow> 160 \<le> byte_of b) \<and> (byte_of a = 237 \<longrightarrow> byte_of b < 160)
                \<and> is_continuation c \<and> valid_utf8 s2
              else (case s2 of
                [] \<Rightarrow> False
              | d # s3 \<Rightarrow>
                  240 \<le> byte_of a \<and> byte_of a < 245
                  \<and> is_continuation b \<and> (byte_of a = 240 \<longrightarrow> 144 \<le> byte_of b)
                  \<and> (byte_of a = 244 \<longrightarrow> byte_of b < 144)
                  \<and> is_continuation c \<and> is_continuation d \<and> valid_utf8 s3))))"

lemma valid_utf8_ascii: "(\<And>c. c \<in> set s \<Longrightarrow> byte_of c < 128) \<Longrightarrow> valid_utf8 s"
  by (induction s) simp_all

text \<open>
  \<^verbatim>\<open>trim\<close> removes characters with the Unicode property White\_Space from both ends; the
  list holds their UTF-8 encodings.
\<close>

definition white_space :: "string list" where
  "white_space =
     map (\<lambda>n. [char_of n]) [9, 10, 11, 12, 13, 32 :: nat] @
     map (map char_of) [[194, 133], [194, 160], [225, 154, 128 :: nat],
       [226, 128, 128], [226, 128, 129], [226, 128, 130], [226, 128, 131], [226, 128, 132],
       [226, 128, 133], [226, 128, 134], [226, 128, 135], [226, 128, 136], [226, 128, 137],
       [226, 128, 138], [226, 128, 168], [226, 128, 169], [226, 128, 175], [226, 129, 159],
       [227, 128, 128]]"

function strip_encodings :: "string list \<Rightarrow> string \<Rightarrow> string" where
  "strip_encodings es s =
     (case find (\<lambda>e. e \<noteq> [] \<and> prefix e s) es of
        None \<Rightarrow> s
      | Some e \<Rightarrow> strip_encodings es (drop (length e) s))"
  by pat_completeness auto
termination
  by (relation "measure (\<lambda>(es, s). length s)") (auto simp: find_Some_iff prefix_def)

declare strip_encodings.simps [simp del]

definition trim_start :: "string \<Rightarrow> string" where
  "trim_start s = strip_encodings white_space s"

definition trim_end :: "string \<Rightarrow> string" where
  "trim_end s = rev (strip_encodings (map rev white_space) (rev s))"

definition trim :: "string \<Rightarrow> string" where
  "trim s = trim_end (trim_start s)"

lemma strip_encodings_suffix: "suffix (strip_encodings es s) s"
proof (induction es s rule: strip_encodings.induct)
  case (1 es s)
  show ?case
  proof (cases "find (\<lambda>e. e \<noteq> [] \<and> prefix e s) es")
    case None
    then show ?thesis by (simp add: strip_encodings.simps [of es s])
  next
    case (Some e)
    with "1.IH" have "suffix (strip_encodings es (drop (length e) s)) (drop (length e) s)"
      by blast
    with Some show ?thesis
      using suffix_drop [of "length e" s]
      by (simp add: strip_encodings.simps [of es s])
  qed
qed

lemma strip_encodings_None:
  "find (\<lambda>e. e \<noteq> [] \<and> prefix e s) es = None \<Longrightarrow> strip_encodings es s = s"
  by (subst strip_encodings.simps) simp

definition printable :: "char \<Rightarrow> bool" where
  "printable c \<longleftrightarrow> 33 \<le> byte_of c \<and> byte_of c < 127"

lemma white_space_ends:
  "list_all (\<lambda>e. e \<noteq> [] \<and> \<not> printable (hd e) \<and> \<not> printable (last e)) white_space"
  by (simp add: white_space_def printable_def)

lemma strip_encodings_printable:
  assumes "list_all (\<lambda>e. e \<noteq> [] \<and> \<not> printable (hd e)) es" and "s = [] \<or> printable (hd s)"
  shows "strip_encodings es s = s"
proof (rule strip_encodings_None)
  show "find (\<lambda>e. e \<noteq> [] \<and> prefix e s) es = None"
    using assms by (cases s) (auto simp: find_None_iff list_all_iff prefix_Cons)
qed

lemma trim_printable: "s \<noteq> [] \<Longrightarrow> printable (hd s) \<Longrightarrow> printable (last s) \<Longrightarrow> trim s = s"
  using white_space_ends
  by (simp add: trim_def trim_start_def trim_end_def strip_encodings_printable list_all_iff hd_rev)

lemma set_trim: "set (trim s) \<subseteq> set s"
proof -
  have "set (strip_encodings es t) \<subseteq> set t" for es t
    using strip_encodings_suffix [of es t] by (rule set_mono_suffix)
  then show ?thesis
    unfolding trim_def trim_end_def trim_start_def by (metis set_rev subset_trans)
qed

text \<open>The decimal digits of a number, as \<^verbatim>\<open>to_string\<close> prints them, and their reading.\<close>

definition digit_char :: "nat \<Rightarrow> char" where
  "digit_char n = char_of (48 + n)"

fun decimal :: "nat \<Rightarrow> string" where
  "decimal n = (if n < 10 then [digit_char n] else decimal (n div 10) @ [digit_char (n mod 10)])"

declare decimal.simps [simp del]

definition decimal_value :: "string \<Rightarrow> nat" where
  "decimal_value s = foldl (\<lambda>r c. r * 10 + (byte_of c - 48)) 0 s"

lemma code_digit_char: "n < 10 \<Longrightarrow> byte_of (digit_char n) = 48 + n"
  by (simp add: digit_char_def)

lemma decimal_nonempty [simp]: "decimal n \<noteq> []"
  by (subst decimal.simps) simp

lemma decimal_digits: "c \<in> set (decimal n) \<Longrightarrow> is_ascii_digit c"
  by (induction n rule: decimal.induct)
    (subst (asm) (2) decimal.simps, auto simp: is_ascii_digit_def code_digit_char split: if_splits)

lemma decimal_value_decimal [simp]: "decimal_value (decimal n) = n"
proof (induction n rule: decimal.induct)
  case (1 n)
  then show ?case
    by (subst decimal.simps) (simp add: decimal_value_def code_digit_char)
qed

section \<open>Ordered maps\<close>

text \<open>
  A \<^verbatim>\<open>BTreeMap\<close> is the list of its entries in key order, which is the order in which the
  sources iterate over it. The locale states the contract its clients use; the interpretation
  discharges it for the association lists of the model.
\<close>

type_synonym ('k, 'v) btree = "('k \<times> 'v) list"

fun bt_insert :: "'k::linorder \<Rightarrow> 'v \<Rightarrow> ('k, 'v) btree \<Rightarrow> ('k, 'v) btree" where
  "bt_insert k v [] = [(k, v)]"
| "bt_insert k v ((k', v') # m) =
     (if k < k' then (k, v) # (k', v') # m
      else if k = k' then (k, v) # m
      else (k', v') # bt_insert k v m)"

definition bt_remove :: "'k::linorder \<Rightarrow> ('k, 'v) btree \<Rightarrow> ('k, 'v) btree" where
  "bt_remove k m = filter (\<lambda>(k', _). k' \<noteq> k) m"

definition bt_get :: "('k::linorder, 'v) btree \<Rightarrow> 'k \<Rightarrow> 'v option" where
  "bt_get m k = map_of m k"

definition bt_keys :: "('k, 'v) btree \<Rightarrow> 'k list" where
  "bt_keys m = map fst m"

definition bt_values :: "('k, 'v) btree \<Rightarrow> 'v list" where
  "bt_values m = map snd m"

definition bt_wf :: "('k::linorder, 'v) btree \<Rightarrow> bool" where
  "bt_wf m \<longleftrightarrow> sorted_wrt (<) (bt_keys m)"

datatype ('k, 'v) map_update = Put 'k 'v | Drop 'k

fun updated_key :: "('k, 'v) map_update \<Rightarrow> 'k" where
  "updated_key (Put k v) = k"
| "updated_key (Drop k) = k"

locale ordered_map =
  fixes empty :: "'m"
    and insert :: "'k \<Rightarrow> 'v \<Rightarrow> 'm \<Rightarrow> 'm"
    and remove :: "'k \<Rightarrow> 'm \<Rightarrow> 'm"
    and get :: "'m \<Rightarrow> 'k \<Rightarrow> 'v option"
    and wf :: "'m \<Rightarrow> bool"
  assumes get_empty: "get empty k = None"
    and get_insert: "wf m \<Longrightarrow> get (insert k v m) = (get m)(k \<mapsto> v)"
    and get_remove: "wf m \<Longrightarrow> get (remove k m) = (get m)(k := None)"
    and wf_empty: "wf empty"
    and wf_insert: "wf m \<Longrightarrow> wf (insert k v m)"
    and wf_remove: "wf m \<Longrightarrow> wf (remove k m)"
begin

fun apply_update :: "('k, 'v) map_update \<Rightarrow> 'm \<Rightarrow> 'm" where
  "apply_update (Put k v) m = insert k v m"
| "apply_update (Drop k) m = remove k m"

lemma wf_apply_update: "wf m \<Longrightarrow> wf (apply_update u m)"
  by (cases u) (simp_all add: wf_insert wf_remove)

lemma wf_updates: "wf m \<Longrightarrow> wf (fold apply_update us m)"
  by (induction us arbitrary: m) (simp_all add: wf_apply_update)

lemma get_apply_update_other:
  "wf m \<Longrightarrow> k \<noteq> updated_key u \<Longrightarrow> get (apply_update u m) k = get m k"
  by (cases u) (simp_all add: get_insert get_remove)

lemma get_updates_other:
  "wf m \<Longrightarrow> k \<notin> updated_key ` set us \<Longrightarrow> get (fold apply_update us m) k = get m k"
  by (induction us arbitrary: m) (simp_all add: wf_apply_update get_apply_update_other)

lemma get_updates_distinct:
  assumes "wf m" and "distinct (map updated_key us)" and "u \<in> set us"
  shows "get (fold apply_update us m) (updated_key u) =
    (case u of Put k v \<Rightarrow> Some v | Drop k \<Rightarrow> None)"
  using assms
proof (induction us arbitrary: m)
  case Nil
  then show ?case by simp
next
  case (Cons w us)
  show ?case
  proof (cases "u = w")
    case True
    with Cons.prems have "updated_key u \<notin> updated_key ` set us"
      by auto
    then have "get (fold apply_update us (apply_update u m)) (updated_key u) =
        get (apply_update u m) (updated_key u)"
      by (simp add: Cons.prems(1) get_updates_other wf_apply_update)
    also have "\<dots> = (case u of Put k v \<Rightarrow> Some v | Drop k \<Rightarrow> None)"
      by (cases u) (simp_all add: Cons.prems(1) get_insert get_remove)
    finally show ?thesis
      by (simp add: True)
  next
    case False
    with Cons show ?thesis
      by (simp add: wf_apply_update)
  qed
qed

end

lemma set_bt_insert_keys: "fst ` set (bt_insert k v m) = insert k (fst ` set m)"
  by (induction k v m rule: bt_insert.induct) auto

lemma bt_wf_Cons: "bt_wf ((k, v) # m) \<longleftrightarrow> (\<forall>k' \<in> fst ` set m. k < k') \<and> bt_wf m"
  by (auto simp: bt_wf_def bt_keys_def)

lemma bt_wf_insert: "bt_wf m \<Longrightarrow> bt_wf (bt_insert k v m)"
  by (induction k v m rule: bt_insert.induct)
    (auto simp: bt_wf_Cons set_bt_insert_keys bt_wf_def bt_keys_def)

lemma map_of_bt_insert: "bt_wf m \<Longrightarrow> map_of (bt_insert k v m) = (map_of m)(k \<mapsto> v)"
  by (induction k v m rule: bt_insert.induct) (auto simp: bt_wf_Cons fun_upd_twist)

lemma map_of_bt_remove: "map_of (bt_remove k m) = (map_of m)(k := None)"
  by (induction m) (auto simp: bt_remove_def fun_upd_twist)

lemma bt_wf_remove: "bt_wf m \<Longrightarrow> bt_wf (bt_remove k m)"
  unfolding bt_wf_def bt_keys_def bt_remove_def
  by (induction m) auto

interpretation bt: ordered_map "[]" bt_insert bt_remove bt_get bt_wf
proof (unfold_locales, goal_cases)
  case (1 k)
  then show ?case by (simp add: bt_get_def)
next
  case (2 m k v)
  then show ?case by (simp add: bt_get_def map_of_bt_insert fun_eq_iff)
next
  case (3 m k)
  then show ?case by (simp add: bt_get_def map_of_bt_remove fun_eq_iff)
next
  case 4
  then show ?case by (simp add: bt_wf_def bt_keys_def)
next
  case (5 m k v)
  then show ?case by (rule bt_wf_insert)
next
  case (6 m k)
  then show ?case by (rule bt_wf_remove)
qed

lemma bt_get_iff: "bt_wf m \<Longrightarrow> bt_get m k = Some v \<longleftrightarrow> (k, v) \<in> set m"
  unfolding bt_get_def bt_wf_def bt_keys_def
  by (rule map_of_eq_Some_iff) (simp add: strict_sorted_iff)

lemma bt_get_values: "bt_get m k = Some v \<Longrightarrow> v \<in> set (bt_values m)"
  by (force simp: bt_get_def bt_values_def dest: map_of_SomeD)

section \<open>Instants and durations\<close>

text \<open>
  A \<^verbatim>\<open>DateTime<Utc>\<close> is the number of nanoseconds since the epoch. The time library
  represents only the instants between two limits, and its durations only a bounded number of
  seconds; both limits are parameters of the operations that can fail because of them.
\<close>

type_synonym datetime = int
type_synonym duration = int

record chrono =
  MIN_UTC :: datetime
  MAX_UTC :: datetime
  MAX_SECONDS :: int

definition seconds :: "int \<Rightarrow> duration" where
  "seconds n = n * 1000000000"

definition minutes :: "int \<Rightarrow> duration" where
  "minutes n = seconds (60 * n)"

definition hours :: "int \<Rightarrow> duration" where
  "hours n = minutes (60 * n)"

definition days :: "int \<Rightarrow> duration" where
  "days n = hours (24 * n)"

lemmas duration_defs = seconds_def minutes_def hours_def days_def

text \<open>\<open>None\<close> is the overflow: \<^verbatim>\<open>checked_add_signed\<close> returns it, the operator
  \<^verbatim>\<open>+\<close> panics there, and so does \<^verbatim>\<open>Duration::seconds\<close> out of range.\<close>

definition checked_add_signed :: "chrono \<Rightarrow> datetime \<Rightarrow> duration \<Rightarrow> datetime option" where
  "checked_add_signed K t d =
     (if MIN_UTC K \<le> t + d \<and> t + d \<le> MAX_UTC K then Some (t + d) else None)"

definition duration_seconds :: "chrono \<Rightarrow> int \<Rightarrow> duration option" where
  "duration_seconds K n = (if \<bar>n\<bar> \<le> MAX_SECONDS K then Some (seconds n) else None)"

text \<open>
  What the operations rely on: the clock is read inside the range of the time library with more
  than a day to spare, and a duration can hold a day.
\<close>

definition clock_ok :: "chrono \<Rightarrow> datetime \<Rightarrow> bool" where
  "clock_ok K t \<longleftrightarrow> MIN_UTC K \<le> t \<and> t + days 1 \<le> MAX_UTC K \<and> 86400 \<le> MAX_SECONDS K"

lemma clock_ok_add:
  "clock_ok K t \<Longrightarrow> 0 \<le> d \<Longrightarrow> d \<le> days 1 \<Longrightarrow> checked_add_signed K t d = Some (t + d)"
  by (simp add: clock_ok_def checked_add_signed_def)

lemma checked_add_signed_Some:
  "checked_add_signed K t d = Some u \<Longrightarrow> u = t + d"
  by (auto simp: checked_add_signed_def split: if_splits)

end
