(* ===== verification/Paths.thy ===== *)
theory Paths
  imports Prelude
begin

text \<open>
  Windows paths as the Rust path library reads them. A path is its text (the configured paths come
  from TOML or JSON text, so they are valid UTF-8 and \<^verbatim>\<open>to_string_lossy\<close> is the identity);
  \<open>components\<close> splits it into a prefix, a root and names the way
  \<^verbatim>\<open>Path::components\<close> does, with the separators and the prefix kinds of Windows.
\<close>

type_synonym path = string

datatype path_prefix =
    Disk char
  | VerbatimDisk char
  | UNC string string
  | VerbatimUNC string string
  | DeviceNS string
  | Verbatim string

datatype path_component =
    Prefix path_prefix
  | RootDir
  | CurDir
  | ParentDir
  | Normal string

abbreviation backslash :: char where
  "backslash \<equiv> CHR 0x5C"

abbreviation slash :: char where
  "slash \<equiv> CHR 0x2F"

definition is_sep :: "char \<Rightarrow> bool" where
  "is_sep c \<longleftrightarrow> c = backslash \<or> c = slash"

definition is_verbatim_sep :: "char \<Rightarrow> bool" where
  "is_verbatim_sep c \<longleftrightarrow> c = backslash"

section \<open>Prefixes\<close>

definition next_component :: "(char \<Rightarrow> bool) \<Rightarrow> string \<Rightarrow> string \<times> string" where
  "next_component sep s = (takeWhile (\<lambda>c. \<not> sep c) s, drop 1 (dropWhile (\<lambda>c. \<not> sep c) s))"

definition ascii_upper :: "char \<Rightarrow> char" where
  "ascii_upper c = (if is_ascii_lowercase c then char_of (byte_of c - 32) else c)"

fun parse_drive :: "string \<Rightarrow> char option" where
  "parse_drive (d # c # s) =
     (if is_ascii_alphabetic d \<and> c = CHR '':'' then Some (ascii_upper d) else None)"
| "parse_drive s = None"

definition parse_drive_exact :: "string \<Rightarrow> char option" where
  "parse_drive_exact s = (case drop 2 s of [] \<Rightarrow> parse_drive s
     | c # _ \<Rightarrow> if is_sep c then parse_drive s else None)"

text \<open>\<open>strip_seps\<close> strips a pattern in which a backslash matches either separator.\<close>

fun strip_seps :: "string \<Rightarrow> string \<Rightarrow> string option" where
  "strip_seps [] s = Some s"
| "strip_seps (p # ps) [] = None"
| "strip_seps (p # ps) (c # s) =
     (if (if p = backslash then is_sep c else c = p) then strip_seps ps s else None)"

definition parse_verbatim :: "string \<Rightarrow> path_prefix" where
  "parse_verbatim s =
     (case strip_prefix (''UNC'' @ [backslash]) s of
        Some rest \<Rightarrow>
          (let (server, rest') = next_component is_verbatim_sep rest
           in VerbatimUNC server (fst (next_component is_verbatim_sep rest')))
      | None \<Rightarrow>
          (case parse_drive_exact s of
             Some d \<Rightarrow> VerbatimDisk d
           | None \<Rightarrow> Verbatim (fst (next_component is_verbatim_sep s))))"

definition parse_prefix :: "path \<Rightarrow> path_prefix option" where
  "parse_prefix s =
     (case strip_seps [backslash, backslash] s of
        None \<Rightarrow> map_option Disk (parse_drive s)
      | Some rest \<Rightarrow>
          (case strip_prefix [backslash, backslash, CHR ''?'', backslash] s of
             Some rest' \<Rightarrow> Some (parse_verbatim rest')
           | None \<Rightarrow>
               (case strip_seps [CHR ''.'', backslash] rest of
                  Some rest' \<Rightarrow> Some (DeviceNS (fst (next_component is_sep rest')))
                | None \<Rightarrow>
                    (let (server, rest') = next_component is_sep rest;
                         share = fst (next_component is_sep rest')
                     in if server \<noteq> [] \<and> share \<noteq> [] then Some (UNC server share) else None))))"

fun prefix_len :: "path_prefix \<Rightarrow> nat" where
  "prefix_len (Disk _) = 2"
| "prefix_len (VerbatimDisk _) = 6"
| "prefix_len (UNC x y) = 2 + length x + (if y = [] then 0 else 1 + length y)"
| "prefix_len (VerbatimUNC x y) = 8 + length x + (if y = [] then 0 else 1 + length y)"
| "prefix_len (DeviceNS x) = 4 + length x"
| "prefix_len (Verbatim x) = 4 + length x"

fun is_verbatim :: "path_prefix \<Rightarrow> bool" where
  "is_verbatim (VerbatimDisk _) = True"
| "is_verbatim (VerbatimUNC _ _) = True"
| "is_verbatim (Verbatim _) = True"
| "is_verbatim _ = False"

fun has_implicit_root :: "path_prefix \<Rightarrow> bool" where
  "has_implicit_root (Disk _) = False"
| "has_implicit_root _ = True"

section \<open>Components\<close>

fun split_on :: "(char \<Rightarrow> bool) \<Rightarrow> string \<Rightarrow> string list" where
  "split_on sep [] = [[]]"
| "split_on sep (c # s) =
     (if sep c then [] # split_on sep s
      else (case split_on sep s of [] \<Rightarrow> [[c]] | w # ws \<Rightarrow> (c # w) # ws))"

definition single_component :: "bool \<Rightarrow> string \<Rightarrow> path_component option" where
  "single_component verbatim s =
     (if s = ''.'' then (if verbatim then Some CurDir else None)
      else if s = ''..'' then Some ParentDir
      else if s = [] then None
      else Some (Normal s))"

definition body_components :: "bool \<Rightarrow> string \<Rightarrow> path_component list" where
  "body_components verbatim s =
     List.map_filter (single_component verbatim)
       (split_on (if verbatim then is_verbatim_sep else is_sep) s)"

definition has_physical_root :: "string \<Rightarrow> bool" where
  "has_physical_root s \<longleftrightarrow> (case s of [] \<Rightarrow> False | c # _ \<Rightarrow> is_sep c)"

definition include_cur_dir :: "string \<Rightarrow> bool" where
  "include_cur_dir s \<longleftrightarrow>
     (case s of [] \<Rightarrow> False
      | c # s' \<Rightarrow> c = CHR ''.'' \<and> (case s' of [] \<Rightarrow> True | d # _ \<Rightarrow> is_sep d))"

definition components :: "path \<Rightarrow> path_component list" where
  "components s =
     (case parse_prefix s of
        Some p \<Rightarrow>
          (let rest = drop (prefix_len p) s;
               body = body_components (is_verbatim p)
           in Prefix p #
              (if has_physical_root rest then RootDir # body (drop 1 rest)
               else if has_implicit_root p \<and> \<not> is_verbatim p then RootDir # body rest
               else body rest))
      | None \<Rightarrow>
          (if has_physical_root s then RootDir # body_components False (drop 1 s)
           else if include_cur_dir s then CurDir # body_components False (drop 1 s)
           else body_components False s))"

text \<open>\<^verbatim>\<open>is_absolute\<close> asks for a prefix and a root, physical or implied by the prefix.\<close>

definition is_absolute :: "path \<Rightarrow> bool" where
  "is_absolute s \<longleftrightarrow>
     (case parse_prefix s of
        None \<Rightarrow> False
      | Some p \<Rightarrow> has_physical_root (drop (prefix_len p) s) \<or> has_implicit_root p)"

definition starts_with_path :: "path \<Rightarrow> path \<Rightarrow> bool" where
  "starts_with_path s base \<longleftrightarrow> prefix (components base) (components s)"

lemma is_absolute_prefix:
  "is_absolute s \<Longrightarrow> \<exists>p cs. components s = Prefix p # cs"
  by (auto simp: is_absolute_def components_def Let_def split: option.splits)

lemma components_prefix:
  "components s = Prefix p # cs \<Longrightarrow> parse_prefix s = Some p"
  by (auto simp: components_def Let_def body_components_def List.map_filter_def
      single_component_def filter_eq_Cons_iff Cons_eq_map_conv
      split: option.splits if_splits)

lemma absolute_disk_path:
  "is_ascii_alphabetic d \<Longrightarrow>
   components (d # CHR '':'' # backslash # s) = Prefix (Disk (ascii_upper d)) # RootDir # body_components False s"
  "is_ascii_alphabetic d \<Longrightarrow> is_absolute (d # CHR '':'' # backslash # s)"
  by (auto simp: components_def is_absolute_def parse_prefix_def is_sep_def has_physical_root_def
      ascii_simps)

text \<open>\<^verbatim>\<open>PathBuf::push\<close> on a path without a verbatim prefix.\<close>

definition push_path :: "path \<Rightarrow> path \<Rightarrow> path" where
  "push_path buf p =
     (if parse_prefix p \<noteq> None then p
      else if p \<noteq> [] \<and> is_sep (hd p)
        then take (case parse_prefix buf of None \<Rightarrow> 0 | Some q \<Rightarrow> prefix_len q) buf @ p
      else if buf = [] \<or> is_sep (last buf)
          \<or> (case parse_prefix buf of Some (Disk d) \<Rightarrow> prefix_len (Disk d) = length buf | _ \<Rightarrow> False)
        then buf @ p
      else buf @ [backslash] @ p)"

end
