(* ===== verification/Net.thy ===== *)
theory Net
  imports Prelude
begin

text \<open>
  Textual network addresses as \<^verbatim>\<open>str::parse::<IpAddr>\<close> of the Rust library reads them, and the
  parts of a URL that the sources inspect. The URL parser itself is third-party code: operations
  that call it take it as an argument.
\<close>

record url =
  url_scheme :: string
  url_host :: "string option"
  url_username :: string
  url_password :: "string option"
  url_fragment :: "string option"

type_synonym url_parser = "string \<Rightarrow> url option"

section \<open>IP addresses\<close>

datatype ip_addr = V4 "nat list" | V6 "nat list"

definition to_digit :: "nat \<Rightarrow> char \<Rightarrow> nat option" where
  "to_digit radix c =
     (let d = (if is_ascii_digit c then byte_of c - 48
               else if is_ascii_lowercase c then byte_of c - 87
               else if is_ascii_uppercase c then byte_of c - 55
               else radix)
      in if d < radix then Some d else None)"

definition read_number :: "nat \<Rightarrow> nat \<Rightarrow> bool \<Rightarrow> nat \<Rightarrow> string \<Rightarrow> (nat \<times> string) option" where
  "read_number radix max_digits allow_zero_prefix bound s =
     (let ds = takeWhile (\<lambda>c. to_digit radix c \<noteq> None) s;
          n = foldl (\<lambda>r c. r * radix + the (to_digit radix c)) 0 ds
      in if length ds > max_digits \<or> ds = []
           \<or> (\<not> allow_zero_prefix \<and> hd s = CHR ''0'' \<and> 1 < length ds) \<or> bound \<le> n
         then None else Some (n, drop (length ds) s))"

definition read_separator ::
  "char \<Rightarrow> nat \<Rightarrow> (string \<Rightarrow> ('a \<times> string) option) \<Rightarrow> string \<Rightarrow> ('a \<times> string) option" where
  "read_separator sep i inner s =
     (if i = 0 then inner s
      else (case s of [] \<Rightarrow> None | c # s' \<Rightarrow> if c = sep then inner s' else None))"

fun read_octets :: "nat \<Rightarrow> nat \<Rightarrow> string \<Rightarrow> (nat list \<times> string) option" where
  "read_octets i 0 s = Some ([], s)"
| "read_octets i (Suc n) s =
     (case read_separator CHR ''.'' i (read_number 10 3 False 256) s of
        None \<Rightarrow> None
      | Some (x, s') \<Rightarrow> map_option (apfst (Cons x)) (read_octets (Suc i) n s'))"

definition read_ipv4 :: "string \<Rightarrow> (nat list \<times> string) option" where
  "read_ipv4 s = read_octets 0 4 s"

text \<open>
  \<open>read_groups i left s\<close> reads up to \<open>left\<close> groups, the next one with index \<open>i\<close>; the flag says
  that an embedded IPv4 address ended the sequence.
\<close>

fun read_groups :: "nat \<Rightarrow> nat \<Rightarrow> string \<Rightarrow> nat list \<times> bool \<times> string" where
  "read_groups i 0 s = ([], False, s)"
| "read_groups i (Suc left) s =
     (case (if 0 < left then read_separator CHR '':'' i read_ipv4 s else None) of
        Some (os, s') \<Rightarrow> ([os ! 0 * 256 + os ! 1, os ! 2 * 256 + os ! 3], True, s')
      | None \<Rightarrow>
          (case read_separator CHR '':'' i (read_number 16 4 True 65536) s of
             None \<Rightarrow> ([], False, s)
           | Some (g, s') \<Rightarrow>
               (let (gs, v4, s'') = read_groups (Suc i) left s' in (g # gs, v4, s''))))"

definition read_ipv6 :: "string \<Rightarrow> (nat list \<times> string) option" where
  "read_ipv6 s =
     (let (head, head_ipv4, s') = read_groups 0 8 s
      in if length head = 8 then Some (head, s')
         else if head_ipv4 then None
         else (case strip_prefix ''::'' s' of
                 None \<Rightarrow> None
               | Some s'' \<Rightarrow>
                   (let (tail, _, s3) = read_groups 0 (8 - (length head + 1)) s''
                    in Some (head @ replicate (8 - length head - length tail) 0 @ tail, s3))))"

definition parse_ip :: "string \<Rightarrow> ip_addr option" where
  "parse_ip s =
     (case read_ipv4 s of
        Some (os, s') \<Rightarrow> if s' = [] then Some (V4 os) else None
      | None \<Rightarrow>
          (case read_ipv6 s of
             Some (gs, s') \<Rightarrow> if s' = [] then Some (V6 gs) else None
           | None \<Rightarrow> None))"

fun is_loopback :: "ip_addr \<Rightarrow> bool" where
  "is_loopback (V4 os) \<longleftrightarrow> hd os = 127"
| "is_loopback (V6 gs) \<longleftrightarrow> gs = [0, 0, 0, 0, 0, 0, 0, 1]"

definition loopback_host :: "string \<Rightarrow> bool" where
  "loopback_host host \<longleftrightarrow>
     eq_ignore_ascii_case host ''localhost''
     \<or> (case parse_ip host of None \<Rightarrow> False | Some a \<Rightarrow> is_loopback a)"

lemma read_octets_numeral:
  "read_octets i (numeral n) s =
     (case read_separator CHR ''.'' i (read_number 10 3 False 256) s of
        None \<Rightarrow> None
      | Some (x, s') \<Rightarrow> map_option (apfst (Cons x)) (read_octets (Suc i) (pred_numeral n) s'))"
  by (simp add: numeral_eq_Suc)

lemma read_groups_numeral:
  "read_groups i (numeral n) s =
     (case (if 0 < pred_numeral n then read_separator CHR '':'' i read_ipv4 s else None) of
        Some (os, s') \<Rightarrow> ([os ! 0 * 256 + os ! 1, os ! 2 * 256 + os ! 3], True, s')
      | None \<Rightarrow>
          (case read_separator CHR '':'' i (read_number 16 4 True 65536) s of
             None \<Rightarrow> ([], False, s)
           | Some (g, s') \<Rightarrow>
               (let (gs, v4, s'') = read_groups (Suc i) (pred_numeral n) s' in (g # gs, v4, s''))))"
  by (simp add: numeral_eq_Suc)

lemma replicate_pred_numeral: "replicate (numeral n) x = x # replicate (pred_numeral n) x"
  by (simp add: numeral_eq_Suc)

lemmas net_simps = replicate_pred_numeral loopback_host_def eq_ignore_ascii_case_def to_ascii_lowercase_def ascii_lower_def
  parse_ip_def read_ipv4_def read_ipv6_def read_separator_def read_number_def to_digit_def
  strip_prefix_def ascii_class_defs read_octets_numeral read_groups_numeral

lemma loopback_host_examples:
  "loopback_host ''127.0.0.1''" "loopback_host ''LocalHost''" "loopback_host ''::1''"
  "\<not> loopback_host ''127.0.0.1.example.com''" "\<not> loopback_host ''10.0.0.1''"
  "\<not> loopback_host ''[::1]''"
  by (simp_all add: net_simps char_of_def bit_0)

end
