(* ===== verification/Config.thy ===== *)
theory Config
  imports Paths Net
begin

text \<open>
  \<^verbatim>\<open>crates/resticpal-core/src/config.rs\<close>: the local configuration layer, the effective
  configuration, and the validation of both. The lemmas after the definitions characterise what an
  accepted configuration promises to the rest of the program.
\<close>

section \<open>Limits\<close>

definition CONFIG_SCHEMA_VERSION :: u32 where "CONFIG_SCHEMA_VERSION = 1"
definition MAX_BACKUP_PATHS :: nat where "MAX_BACKUP_PATHS = 128"
definition MAX_EXCLUSIONS :: nat where "MAX_EXCLUSIONS = 512"
definition MAX_PATH_CHARACTERS :: nat where "MAX_PATH_CHARACTERS = 32767"
definition MAX_EXCLUSION_CHARACTERS :: nat where "MAX_EXCLUSION_CHARACTERS = 1024"
definition MAX_REPOSITORY_URL_CHARACTERS :: nat where "MAX_REPOSITORY_URL_CHARACTERS = 8 * 1024"
definition MAX_REPOSITORY_DISPLAY_NAME_CHARACTERS :: nat where
  "MAX_REPOSITORY_DISPLAY_NAME_CHARACTERS = 256"
definition MAX_REPOSITORY_OPTIONS :: nat where "MAX_REPOSITORY_OPTIONS = 64"
definition MAX_REPOSITORY_OPTION_VALUE_CHARACTERS :: nat where
  "MAX_REPOSITORY_OPTION_VALUE_CHARACTERS = 4 * 1024"
definition MAX_SECRET_REFERENCE_BYTES :: nat where "MAX_SECRET_REFERENCE_BYTES = 64"
definition MAX_SCHEDULE_INTERVAL_HOURS :: u32 where "MAX_SCHEDULE_INTERVAL_HOURS = 24 * 365"
definition MAX_RETENTION_COUNT :: u32 where "MAX_RETENTION_COUNT = 10000"
definition MAX_PRUNE_INTERVAL_DAYS :: u32 where "MAX_PRUNE_INTERVAL_DAYS = 365"
definition MAX_MANAGEMENT_URL_CHARACTERS :: nat where "MAX_MANAGEMENT_URL_CHARACTERS = 8 * 1024"
definition MAX_MANAGEMENT_ID_CHARACTERS :: nat where "MAX_MANAGEMENT_ID_CHARACTERS = 256"
definition MIN_MANAGEMENT_REFRESH_MINUTES :: u32 where "MIN_MANAGEMENT_REFRESH_MINUTES = 5"
definition MAX_MANAGEMENT_REFRESH_MINUTES :: u32 where "MAX_MANAGEMENT_REFRESH_MINUTES = 24 * 60"

lemmas config_limits = CONFIG_SCHEMA_VERSION_def MAX_BACKUP_PATHS_def MAX_EXCLUSIONS_def
  MAX_PATH_CHARACTERS_def MAX_EXCLUSION_CHARACTERS_def MAX_REPOSITORY_URL_CHARACTERS_def
  MAX_REPOSITORY_DISPLAY_NAME_CHARACTERS_def MAX_REPOSITORY_OPTIONS_def
  MAX_REPOSITORY_OPTION_VALUE_CHARACTERS_def MAX_SECRET_REFERENCE_BYTES_def
  MAX_SCHEDULE_INTERVAL_HOURS_def MAX_RETENTION_COUNT_def MAX_PRUNE_INTERVAL_DAYS_def
  MAX_MANAGEMENT_URL_CHARACTERS_def MAX_MANAGEMENT_ID_CHARACTERS_def
  MIN_MANAGEMENT_REFRESH_MINUTES_def MAX_MANAGEMENT_REFRESH_MINUTES_def

section \<open>Enumerations\<close>

datatype management_mode = Disabled | PlainManifest | SignedManifest

datatype repository_mode = Standard | AppendOnly

datatype secret_variable =
    ResticPassword
  | AwsAccessKeyId
  | AwsSecretAccessKey
  | AwsSessionToken
  | AzureAccountKey
  | B2AccountKey
  | GoogleApplicationCredentials
  | RcloneConfigPassword

fun secret_rank :: "secret_variable \<Rightarrow> nat" where
  "secret_rank ResticPassword = 0"
| "secret_rank AwsAccessKeyId = 1"
| "secret_rank AwsSecretAccessKey = 2"
| "secret_rank AwsSessionToken = 3"
| "secret_rank AzureAccountKey = 4"
| "secret_rank B2AccountKey = 5"
| "secret_rank GoogleApplicationCredentials = 6"
| "secret_rank RcloneConfigPassword = 7"

instantiation secret_variable :: linorder
begin

definition less_eq_secret_variable :: "secret_variable \<Rightarrow> secret_variable \<Rightarrow> bool" where
  "less_eq_secret_variable a b \<longleftrightarrow> secret_rank a \<le> secret_rank b"

definition less_secret_variable :: "secret_variable \<Rightarrow> secret_variable \<Rightarrow> bool" where
  "less_secret_variable a b \<longleftrightarrow> secret_rank a < secret_rank b"

instance
proof
  fix a b :: secret_variable
  show "a \<le> b \<Longrightarrow> b \<le> a \<Longrightarrow> a = b"
    by (cases a; cases b) (simp_all add: less_eq_secret_variable_def)
qed (auto simp: less_eq_secret_variable_def less_secret_variable_def)

end

fun variable_name :: "secret_variable \<Rightarrow> string" where
  "variable_name ResticPassword = ''RESTIC_PASSWORD''"
| "variable_name AwsAccessKeyId = ''AWS_ACCESS_KEY_ID''"
| "variable_name AwsSecretAccessKey = ''AWS_SECRET_ACCESS_KEY''"
| "variable_name AwsSessionToken = ''AWS_SESSION_TOKEN''"
| "variable_name AzureAccountKey = ''AZURE_ACCOUNT_KEY''"
| "variable_name B2AccountKey = ''B2_ACCOUNT_KEY''"
| "variable_name GoogleApplicationCredentials = ''GOOGLE_APPLICATION_CREDENTIALS''"
| "variable_name RcloneConfigPassword = ''RCLONE_CONFIG_PASS''"

fun reference_prefix :: "secret_variable \<Rightarrow> string" where
  "reference_prefix ResticPassword = ''restic-password''"
| "reference_prefix AwsAccessKeyId = ''aws-access-key-id''"
| "reference_prefix AwsSecretAccessKey = ''aws-secret-access-key''"
| "reference_prefix AwsSessionToken = ''aws-session-token''"
| "reference_prefix AzureAccountKey = ''azure-account-key''"
| "reference_prefix B2AccountKey = ''b2-account-key''"
| "reference_prefix GoogleApplicationCredentials = ''google-credentials''"
| "reference_prefix RcloneConfigPassword = ''rclone-config-password''"

section \<open>The local layer\<close>

record local_backup =
  lb_paths :: "path list option"
  lb_exclusions :: "string list option"

record local_repository =
  lr_display_name :: "string option"
  lr_url :: "string option"
  lr_mode :: "repository_mode option"
  lr_options :: "(string, string) btree option"
  lr_secret_refs :: "(secret_variable, string) btree option"

record local_schedule =
  ls_interval_hours :: "u32 option"
  ls_wake_grace_seconds :: "u64 option"
  ls_wake_lock_timeout_seconds :: "u64 option"
  ls_allow_on_battery :: "bool option"
  ls_allow_metered_network :: "bool option"

record local_retention =
  lt_daily :: "u32 option"
  lt_weekly :: "u32 option"
  lt_monthly :: "u32 option"
  lt_yearly :: "u32 option"
  lt_prune_interval_days :: "u32 option"

record local_update =
  lu_automatic_install :: "bool option"

record local_management =
  lm_mode :: management_mode
  lm_manifest_url :: "string option"
  lm_signing_public_key :: "string option"
  lm_refresh_interval_minutes :: "u32 option"
  lm_status_url :: "string option"
  lm_device_id :: "string option"
  lm_status_token_ref :: "string option"
  lm_enrollment_key_ref :: "string option"

record local_config =
  lc_schema_version :: u32
  lc_backup :: local_backup
  lc_repository :: local_repository
  lc_schedule :: local_schedule
  lc_retention :: local_retention
  lc_updates :: local_update
  lc_management :: local_management

definition default_local_management :: local_management where
  "default_local_management =
     \<lparr>lm_mode = Disabled, lm_manifest_url = None, lm_signing_public_key = None,
      lm_refresh_interval_minutes = None, lm_status_url = None, lm_device_id = None,
      lm_status_token_ref = None, lm_enrollment_key_ref = None\<rparr>"

definition default_local_config :: local_config where
  "default_local_config =
     \<lparr>lc_schema_version = CONFIG_SCHEMA_VERSION,
      lc_backup = \<lparr>lb_paths = None, lb_exclusions = None\<rparr>,
      lc_repository = \<lparr>lr_display_name = None, lr_url = None, lr_mode = None, lr_options = None,
        lr_secret_refs = None\<rparr>,
      lc_schedule = \<lparr>ls_interval_hours = None, ls_wake_grace_seconds = None,
        ls_wake_lock_timeout_seconds = None, ls_allow_on_battery = None,
        ls_allow_metered_network = None\<rparr>,
      lc_retention = \<lparr>lt_daily = None, lt_weekly = None, lt_monthly = None, lt_yearly = None,
        lt_prune_interval_days = None\<rparr>,
      lc_updates = \<lparr>lu_automatic_install = None\<rparr>,
      lc_management = default_local_management\<rparr>"

section \<open>The effective configuration\<close>

record backup_config =
  bc_paths :: "path list"
  bc_exclusions :: "string list"

record repository_config =
  rc_display_name :: "string option"
  rc_url :: "string option"
  rc_mode :: repository_mode
  rc_options :: "(string, string) btree"
  rc_secret_refs :: "(secret_variable, string) btree"

record schedule_config =
  sc_interval_hours :: u32
  sc_wake_grace_seconds :: u64
  sc_wake_lock_timeout_seconds :: u64
  sc_allow_on_battery :: bool
  sc_allow_metered_network :: bool

record retention_config =
  tc_daily :: u32
  tc_weekly :: u32
  tc_monthly :: u32
  tc_yearly :: u32
  tc_prune_interval_days :: u32

record update_config =
  uc_automatic_install :: bool

record effective_config =
  ec_backup :: backup_config
  ec_repository :: repository_config
  ec_schedule :: schedule_config
  ec_retention :: retention_config
  ec_updates :: update_config

definition default_schedule_config :: schedule_config where
  "default_schedule_config =
     \<lparr>sc_interval_hours = 24, sc_wake_grace_seconds = 5 * 60,
      sc_wake_lock_timeout_seconds = 2 * 60 * 60, sc_allow_on_battery = True,
      sc_allow_metered_network = True\<rparr>"

definition default_retention_config :: retention_config where
  "default_retention_config =
     \<lparr>tc_daily = 7, tc_weekly = 5, tc_monthly = 12, tc_yearly = 3, tc_prune_interval_days = 7\<rparr>"

definition default_effective_config :: effective_config where
  "default_effective_config =
     \<lparr>ec_backup = \<lparr>bc_paths = [], bc_exclusions = []\<rparr>,
      ec_repository = \<lparr>rc_display_name = None, rc_url = None, rc_mode = Standard,
        rc_options = [], rc_secret_refs = []\<rparr>,
      ec_schedule = default_schedule_config,
      ec_retention = default_retention_config,
      ec_updates = \<lparr>uc_automatic_install = False\<rparr>\<rparr>"

section \<open>Validation of names and references\<close>

definition repository_option_disables_source_snapshots :: "string \<Rightarrow> bool" where
  "repository_option_disables_source_snapshots opt \<longleftrightarrow>
     list_ex (\<lambda>reserved. eq_ignore_ascii_case opt reserved)
       [''vss.exclude-volumes'', ''vss.exclude-all-mount-points'']"

fun is_valid_option_name :: "string \<Rightarrow> bool" where
  "is_valid_option_name [] = False"
| "is_valid_option_name (c # cs) \<longleftrightarrow>
     is_ascii_alphanumeric c
     \<and> list_all (\<lambda>d. is_ascii_alphanumeric d \<or> d \<in> set ''._-'') cs"

definition is_valid_secret_reference :: "string \<Rightarrow> bool" where
  "is_valid_secret_reference r \<longleftrightarrow>
     r \<noteq> [] \<and> length r \<le> MAX_SECRET_REFERENCE_BYTES
     \<and> list_all (\<lambda>b. is_ascii_lowercase b \<or> is_ascii_digit b \<or> b = CHR ''-'') r"

section \<open>Validation of the management section\<close>

datatype management_config_error =
    InvalidRefreshInterval
  | UnexpectedDisabledFields
  | MissingManifestUrl
  | InvalidUrl
  | PlainModeCannotReport
  | MissingSigningKey
  | InvalidSigningKey
  | InsecureTransport
  | IncompleteStatusConfiguration
  | InvalidDeviceId
  | InvalidStatusTokenReference
  | InvalidEnrollmentKeyReference

definition validate_management_url ::
  "url_parser \<Rightarrow> string option \<Rightarrow> (management_config_error, url) outcome" where
  "validate_management_url parse value =
     and_then (ok_or value MissingManifestUrl) (\<lambda>v.
     and_then (ensure (\<not> (MAX_MANAGEMENT_URL_CHARACTERS < chars_count v \<or> contains_any line_breaks v))
       InvalidUrl) (\<lambda>_.
     and_then (ok_or (parse v) InvalidUrl) (\<lambda>u.
     and_then (ensure (\<not> (url_scheme u \<notin> {''http'', ''https''} \<or> url_host u = None
         \<or> url_username u \<noteq> [] \<or> url_password u \<noteq> None \<or> url_fragment u \<noteq> None)) InvalidUrl) (\<lambda>_.
     Ok u))))"

definition validate_signed_transport :: "url \<Rightarrow> (management_config_error, unit) outcome" where
  "validate_signed_transport u =
     (let loopback = (case url_host u of None \<Rightarrow> False | Some host \<Rightarrow> loopback_host host)
      in ensure (url_scheme u = ''https'' \<or> loopback) InsecureTransport)"

definition secure_url ::
  "url_parser \<Rightarrow> string option \<Rightarrow> (management_config_error, unit) outcome" where
  "secure_url parse value = and_then (validate_management_url parse value) validate_signed_transport"

definition valid_device_id :: "string \<Rightarrow> bool" where
  "valid_device_id v \<longleftrightarrow>
     \<not> (v = [] \<or> MAX_MANAGEMENT_ID_CHARACTERS < length v
        \<or> \<not> list_all (\<lambda>b. is_ascii_alphanumeric b \<or> b \<in> set ''-_'') v)"

definition validate_signed_fields ::
  "url_parser \<Rightarrow> local_management \<Rightarrow> (management_config_error, unit) outcome" where
  "validate_signed_fields parse m =
     and_then (ok_or (lm_signing_public_key m) MissingSigningKey) (\<lambda>key.
     and_then (ensure (\<not> (key = [] \<or> 256 < length key \<or> contains_any line_breaks key))
       InvalidSigningKey) (\<lambda>_.
     let reporting_fields = [lm_status_url m \<noteq> None, lm_device_id m \<noteq> None,
           lm_status_token_ref m \<noteq> None] in
     and_then (ensure (\<not> (list_ex id reporting_fields \<and> \<not> list_all id reporting_fields))
       IncompleteStatusConfiguration) (\<lambda>_.
     and_then (case lm_status_url m of None \<Rightarrow> Ok () | Some u \<Rightarrow> secure_url parse (Some u)) (\<lambda>_.
     and_then (ensure (pred_option valid_device_id (lm_device_id m)) InvalidDeviceId) (\<lambda>_.
     and_then (ensure (pred_option is_valid_secret_reference (lm_status_token_ref m))
       InvalidStatusTokenReference) (\<lambda>_.
     ensure (pred_option is_valid_secret_reference (lm_enrollment_key_ref m))
       InvalidEnrollmentKeyReference))))))"

definition refresh_interval_minutes :: "local_management \<Rightarrow> u32" where
  "refresh_interval_minutes m = (case lm_refresh_interval_minutes m of None \<Rightarrow> 15 | Some n \<Rightarrow> n)"

definition validate_management ::
  "url_parser \<Rightarrow> local_management \<Rightarrow> (management_config_error, unit) outcome" where
  "validate_management parse m =
     and_then (ensure (MIN_MANAGEMENT_REFRESH_MINUTES \<le> refresh_interval_minutes m
         \<and> refresh_interval_minutes m \<le> MAX_MANAGEMENT_REFRESH_MINUTES) InvalidRefreshInterval) (\<lambda>_.
     case lm_mode m of
       Disabled \<Rightarrow>
         ensure (\<not> (lm_manifest_url m \<noteq> None \<or> lm_signing_public_key m \<noteq> None
             \<or> lm_status_url m \<noteq> None \<or> lm_device_id m \<noteq> None \<or> lm_status_token_ref m \<noteq> None
             \<or> lm_enrollment_key_ref m \<noteq> None)) UnexpectedDisabledFields
     | PlainManifest \<Rightarrow>
         and_then (secure_url parse (lm_manifest_url m)) (\<lambda>_.
         ensure (\<not> (lm_signing_public_key m \<noteq> None
             \<or> lm_status_url m \<noteq> None \<or> lm_device_id m \<noteq> None \<or> lm_status_token_ref m \<noteq> None
             \<or> lm_enrollment_key_ref m \<noteq> None)) PlainModeCannotReport)
     | SignedManifest \<Rightarrow>
         and_then (secure_url parse (lm_manifest_url m)) (\<lambda>_. validate_signed_fields parse m))"

datatype local_config_error =
    Parse
  | Serialize
  | UnsupportedSchema u32 u32
  | Management management_config_error

text \<open>The TOML library is the argument \<open>toml\<close>: the decoded configuration, or nothing.\<close>

definition from_toml ::
  "url_parser \<Rightarrow> (string \<Rightarrow> local_config option) \<Rightarrow> string \<Rightarrow> (local_config_error, local_config) outcome" where
  "from_toml parse toml input =
     and_then (ok_or (toml input) Parse) (\<lambda>config.
     and_then (ensure (lc_schema_version config = CONFIG_SCHEMA_VERSION)
       (UnsupportedSchema CONFIG_SCHEMA_VERSION (lc_schema_version config))) (\<lambda>_.
     and_then (map_err Management (validate_management parse (lc_management config))) (\<lambda>_.
     Ok config)))"

section \<open>Validation of the effective configuration\<close>

datatype config_validation_error =
    EmptyRepositoryUrl
  | InvalidRepositoryUrl
  | InvalidRepositoryDisplayName
  | InvalidScheduleInterval
  | WakeGraceTooLong
  | InvalidWakeLockTimeout
  | TooManyBackupPaths
  | InvalidBackupPath path
  | UnsupportedNetworkBackupPath path
  | UnsupportedBackupPathNamespace path
  | TooManyExclusions
  | InvalidExclusion
  | InvalidRepositoryOption string
  | SnapshotDisablingRepositoryOption string
  | InvalidRepositoryOptionValue string
  | TooManyRepositoryOptions
  | InvalidSecretReference
  | InvalidRetentionCount
  | EmptyRetentionPolicy
  | InvalidPruneInterval

definition validate_repository_names ::
  "repository_config \<Rightarrow> (config_validation_error, unit) outcome" where
  "validate_repository_names r =
     and_then (case rc_url r of None \<Rightarrow> Ok ()
       | Some u \<Rightarrow>
           and_then (ensure (trim u \<noteq> []) EmptyRepositoryUrl) (\<lambda>_.
           ensure (\<not> (MAX_REPOSITORY_URL_CHARACTERS < chars_count u \<or> contains_any line_breaks u))
             InvalidRepositoryUrl)) (\<lambda>_.
     ensure (pred_option (\<lambda>name. \<not> (trim name = []
         \<or> MAX_REPOSITORY_DISPLAY_NAME_CHARACTERS < chars_count name
         \<or> contains_any line_breaks name)) (rc_display_name r)) InvalidRepositoryDisplayName)"

definition validate_schedule :: "schedule_config \<Rightarrow> (config_validation_error, unit) outcome" where
  "validate_schedule s =
     and_then (ensure (1 \<le> sc_interval_hours s \<and> sc_interval_hours s \<le> MAX_SCHEDULE_INTERVAL_HOURS)
       InvalidScheduleInterval) (\<lambda>_.
     and_then (ensure (\<not> 24 * 60 * 60 < sc_wake_grace_seconds s) WakeGraceTooLong) (\<lambda>_.
     ensure (\<not> (sc_wake_lock_timeout_seconds s = 0 \<or> 24 * 60 * 60 < sc_wake_lock_timeout_seconds s))
       InvalidWakeLockTimeout))"

definition validate_backup_path :: "path \<Rightarrow> (config_validation_error, unit) outcome" where
  "validate_backup_path p =
     and_then (ensure (\<not> (p = [] \<or> \<not> is_absolute p \<or> MAX_PATH_CHARACTERS < utf16_count p
         \<or> CHR 0x00 \<in> set p)) (InvalidBackupPath p)) (\<lambda>_.
     case components p of
       Prefix (UNC _ _) # _ \<Rightarrow> Err (UnsupportedNetworkBackupPath p)
     | Prefix (VerbatimUNC _ _) # _ \<Rightarrow> Err (UnsupportedNetworkBackupPath p)
     | Prefix (DeviceNS _) # _ \<Rightarrow> Err (UnsupportedBackupPathNamespace p)
     | Prefix (Verbatim _) # _ \<Rightarrow> Err (UnsupportedBackupPathNamespace p)
     | _ \<Rightarrow> Ok ())"

definition validate_backup :: "backup_config \<Rightarrow> (config_validation_error, unit) outcome" where
  "validate_backup b =
     and_then (ensure (\<not> MAX_BACKUP_PATHS < length (bc_paths b)) TooManyBackupPaths) (\<lambda>_.
     and_then (for_each validate_backup_path (bc_paths b)) (\<lambda>_.
     and_then (ensure (\<not> MAX_EXCLUSIONS < length (bc_exclusions b)) TooManyExclusions) (\<lambda>_.
     for_each (\<lambda>e. ensure (\<not> (e = [] \<or> MAX_EXCLUSION_CHARACTERS < chars_count e
         \<or> contains_any line_breaks e)) InvalidExclusion) (bc_exclusions b))))"

definition validate_option :: "string \<times> string \<Rightarrow> (config_validation_error, unit) outcome" where
  "validate_option kv =
     (case kv of (key, val) \<Rightarrow>
       and_then (ensure (\<not> repository_option_disables_source_snapshots key)
         (SnapshotDisablingRepositoryOption key)) (\<lambda>_.
       and_then (ensure (is_valid_option_name key) (InvalidRepositoryOption key)) (\<lambda>_.
       ensure (\<not> (MAX_REPOSITORY_OPTION_VALUE_CHARACTERS < chars_count val
           \<or> contains_any line_breaks val)) (InvalidRepositoryOptionValue key))))"

definition validate_repository_maps ::
  "repository_config \<Rightarrow> (config_validation_error, unit) outcome" where
  "validate_repository_maps r =
     and_then (ensure (\<not> MAX_REPOSITORY_OPTIONS < length (rc_options r)) TooManyRepositoryOptions) (\<lambda>_.
     and_then (for_each validate_option (rc_options r)) (\<lambda>_.
     for_each (\<lambda>secret_id. ensure (is_valid_secret_reference secret_id) InvalidSecretReference)
       (bt_values (rc_secret_refs r))))"

definition validate_retention :: "retention_config \<Rightarrow> (config_validation_error, unit) outcome" where
  "validate_retention t =
     and_then (ensure (\<not> list_ex (\<lambda>count. MAX_RETENTION_COUNT < count)
         [tc_daily t, tc_weekly t, tc_monthly t, tc_yearly t]) InvalidRetentionCount) (\<lambda>_.
     and_then (ensure (\<not> (tc_daily t = 0 \<and> tc_weekly t = 0 \<and> tc_monthly t = 0 \<and> tc_yearly t = 0))
       EmptyRetentionPolicy) (\<lambda>_.
     ensure (1 \<le> tc_prune_interval_days t \<and> tc_prune_interval_days t \<le> MAX_PRUNE_INTERVAL_DAYS)
       InvalidPruneInterval))"

definition validate :: "effective_config \<Rightarrow> (config_validation_error, unit) outcome" where
  "validate c =
     and_then (validate_repository_names (ec_repository c)) (\<lambda>_.
     and_then (validate_schedule (ec_schedule c)) (\<lambda>_.
     and_then (validate_backup (ec_backup c)) (\<lambda>_.
     and_then (validate_repository_maps (ec_repository c)) (\<lambda>_.
     validate_retention (ec_retention c)))))"

definition is_configured :: "effective_config \<Rightarrow> bool" where
  "is_configured c \<longleftrightarrow> rc_url (ec_repository c) \<noteq> None \<and> bc_paths (ec_backup c) \<noteq> []"

section \<open>What validation promises\<close>

text \<open>
  The declarative reading of an accepted configuration. \<open>single_line\<close> is the property that
  keeps a value inside one command-line argument or one log line; \<open>local_drive\<close> says that the
  path names a folder of a drive letter, not of a network share or a device namespace.
\<close>

definition single_line :: "nat \<Rightarrow> string \<Rightarrow> bool" where
  "single_line n s \<longleftrightarrow> chars_count s \<le> n \<and> (\<forall>c \<in> set s. c \<noteq> CHR 0x00 \<and> c \<noteq> CHR 0x0D \<and> c \<noteq> CHR 0x0A)"

definition local_drive :: "path \<Rightarrow> bool" where
  "local_drive p \<longleftrightarrow>
     is_absolute p \<and> (\<exists>d. parse_prefix p = Some (Disk d) \<or> parse_prefix p = Some (VerbatimDisk d))
     \<and> utf16_count p \<le> 32767 \<and> CHR 0x00 \<notin> set p"

definition safe_option :: "string \<times> string \<Rightarrow> bool" where
  "safe_option kv \<longleftrightarrow>
     \<not> eq_ignore_ascii_case (fst kv) ''vss.exclude-volumes''
     \<and> \<not> eq_ignore_ascii_case (fst kv) ''vss.exclude-all-mount-points''
     \<and> is_valid_option_name (fst kv) \<and> single_line 4096 (snd kv)"

definition valid_schedule :: "schedule_config \<Rightarrow> bool" where
  "valid_schedule s \<longleftrightarrow>
     unat (sc_interval_hours s) \<in> {1..8760} \<and> unat (sc_wake_grace_seconds s) \<le> 86400
     \<and> unat (sc_wake_lock_timeout_seconds s) \<in> {1..86400}"

definition valid_retention :: "retention_config \<Rightarrow> bool" where
  "valid_retention t \<longleftrightarrow>
     (\<forall>n \<in> {tc_daily t, tc_weekly t, tc_monthly t, tc_yearly t}. unat n \<le> 10000)
     \<and> (\<exists>n \<in> {tc_daily t, tc_weekly t, tc_monthly t, tc_yearly t}. 0 < unat n)
     \<and> unat (tc_prune_interval_days t) \<in> {1..365}"

definition valid_config :: "effective_config \<Rightarrow> bool" where
  "valid_config c \<longleftrightarrow>
     pred_option (\<lambda>u. trim u \<noteq> [] \<and> single_line 8192 u) (rc_url (ec_repository c))
     \<and> pred_option (\<lambda>n. trim n \<noteq> [] \<and> single_line 256 n) (rc_display_name (ec_repository c))
     \<and> valid_schedule (ec_schedule c)
     \<and> length (bc_paths (ec_backup c)) \<le> 128 \<and> list_all local_drive (bc_paths (ec_backup c))
     \<and> length (bc_exclusions (ec_backup c)) \<le> 512
     \<and> list_all (\<lambda>e. e \<noteq> [] \<and> single_line 1024 e) (bc_exclusions (ec_backup c))
     \<and> length (rc_options (ec_repository c)) \<le> 64 \<and> list_all safe_option (rc_options (ec_repository c))
     \<and> list_all is_valid_secret_reference (bt_values (rc_secret_refs (ec_repository c)))
     \<and> valid_retention (ec_retention c)"

lemma single_line_iff: "single_line n s \<longleftrightarrow> chars_count s \<le> n \<and> \<not> contains_any line_breaks s"
  by (auto simp: single_line_def contains_any_def line_breaks_def list_ex_iff)

lemma unat_atLeastAtMost_one: "unat a \<in> {1..n} \<longleftrightarrow> a \<noteq> 0 \<and> unat a \<le> n"
  by (simp add: Suc_le_eq unat_pos_iff)

lemma one_le_word_iff: "1 \<le> a \<longleftrightarrow> a \<noteq> 0" for a :: "'a::len word"
  by (simp add: word_le_nat_alt Suc_le_eq unat_pos_iff)

lemma validate_schedule_iff: "validate_schedule s = Ok u \<longleftrightarrow> valid_schedule s"
  unfolding validate_schedule_def valid_schedule_def unat_atLeastAtMost_one one_le_word_iff
  by (simp add: outcome_simps config_limits word_le_nat_alt not_less)

lemma validate_retention_iff: "validate_retention t = Ok u \<longleftrightarrow> valid_retention t"
  unfolding validate_retention_def valid_retention_def unat_atLeastAtMost_one one_le_word_iff
  by (auto simp: outcome_simps config_limits word_le_nat_alt not_less unat_pos_iff)

lemma validate_backup_path_iff: "validate_backup_path p = Ok u \<longleftrightarrow> local_drive p"
proof (cases "is_absolute p")
  case True
  then obtain q cs where q: "components p = Prefix q # cs" "parse_prefix p = Some q"
    using is_absolute_prefix components_prefix by blast
  then show ?thesis
    using True by (cases q) (auto simp: validate_backup_path_def local_drive_def outcome_simps
        config_limits is_absolute_def parse_prefix_def)
next
  case False
  then show ?thesis
    by (simp add: validate_backup_path_def local_drive_def outcome_simps)
qed

lemma validate_option_iff: "validate_option kv = Ok u \<longleftrightarrow> safe_option kv"
  by (simp add: validate_option_def safe_option_def outcome_simps single_line_iff not_less
      repository_option_disables_source_snapshots_def config_limits case_prod_beta conj_assoc)

lemma validate_repository_names_iff:
  "validate_repository_names r = Ok u \<longleftrightarrow>
     pred_option (\<lambda>u. trim u \<noteq> [] \<and> single_line 8192 u) (rc_url r)
     \<and> pred_option (\<lambda>n. trim n \<noteq> [] \<and> single_line 256 n) (rc_display_name r)"
  by (cases "rc_url r"; cases "rc_display_name r")
    (simp_all add: validate_repository_names_def outcome_simps single_line_iff not_less config_limits)

lemma validate_Ok_iff: "validate c = Ok u \<longleftrightarrow> valid_config c"
  by (simp add: validate_def valid_config_def validate_backup_def validate_repository_maps_def
      outcome_simps validate_repository_names_iff validate_schedule_iff validate_retention_iff
      list_all_iff validate_backup_path_iff validate_option_iff single_line_iff not_less
      config_limits conj_assoc)

lemma for_each_ensure_no_panic [simp]: "for_each (\<lambda>x. ensure (P x) e) xs \<noteq> Panic"
  by (rule for_each_no_panic) (simp add: outcome_simps)

lemma validate_backup_path_no_panic: "validate_backup_path p \<noteq> Panic"
  by (simp add: validate_backup_path_def outcome_simps split: list.split path_component.split path_prefix.split)

lemma validate_option_no_panic: "validate_option kv \<noteq> Panic"
  by (simp add: validate_option_def outcome_simps split: prod.split)

lemma validate_no_panic: "validate c \<noteq> Panic"
  by (simp add: validate_def validate_repository_names_def validate_schedule_def validate_backup_def
      validate_repository_maps_def validate_retention_def outcome_simps for_each_no_panic
      validate_backup_path_no_panic validate_option_no_panic split: option.split)

section \<open>What management validation promises\<close>

definition trusted_endpoint :: "url \<Rightarrow> bool" where
  "trusted_endpoint u \<longleftrightarrow>
     (url_scheme u = ''https'' \<or> url_scheme u = ''http'' \<and> (\<exists>h. url_host u = Some h \<and> loopback_host h))
     \<and> url_host u \<noteq> None \<and> url_username u = [] \<and> url_password u = None \<and> url_fragment u = None"

definition trusted_url :: "url_parser \<Rightarrow> string \<Rightarrow> bool" where
  "trusted_url parse v \<longleftrightarrow> single_line 8192 v \<and> (\<exists>u. parse v = Some u \<and> trusted_endpoint u)"

lemma secure_url_iff:
  "secure_url parse value = Ok u \<longleftrightarrow> (\<exists>v. value = Some v \<and> trusted_url parse v)"
  by (auto simp: secure_url_def validate_management_url_def validate_signed_transport_def
      trusted_url_def trusted_endpoint_def outcome_simps single_line_iff not_less config_limits
      split: option.splits)

lemma secure_url_no_panic [simp]: "secure_url parse value \<noteq> Panic"
  by (auto simp: secure_url_def validate_management_url_def validate_signed_transport_def
      outcome_simps)

lemma validate_signed_fields_OkD:
  assumes "validate_signed_fields parse m = Ok u"
  shows "\<exists>k. lm_signing_public_key m = Some k \<and> k \<noteq> []"
    and "lm_status_url m = Some v \<Longrightarrow> trusted_url parse v
      \<and> (\<exists>d. lm_device_id m = Some d \<and> valid_device_id d)
      \<and> (\<exists>r. lm_status_token_ref m = Some r \<and> is_valid_secret_reference r)"
  using assms
  by (auto simp: validate_signed_fields_def Let_def outcome_simps secure_url_iff split: option.splits)

lemma refresh_bounds_iff:
  "MIN_MANAGEMENT_REFRESH_MINUTES \<le> n \<and> n \<le> MAX_MANAGEMENT_REFRESH_MINUTES
     \<longleftrightarrow> unat n \<in> {5..1440}"
  by (simp add: config_limits word_le_nat_alt)

lemma validate_management_refresh:
  "validate_management parse m = Ok u \<Longrightarrow> unat (refresh_interval_minutes m) \<in> {5..1440}"
  unfolding validate_management_def and_then_Ok_iff ensure_iffs refresh_bounds_iff by blast

section \<open>Properties\<close>

text \<open>
  C1. Validation of an effective configuration never panics, and it accepts exactly the
  configurations that satisfy the declarative reading: single-line bounded texts, local drive
  paths, no repository option that switches Windows snapshots off, a schedule between an hour and
  a year, and a bounded retention policy that keeps at least one snapshot.
\<close>

theorem validate_exact: "validate c \<noteq> Panic \<and> (validate c = Ok () \<longleftrightarrow> valid_config c)"
  by (simp add: validate_no_panic validate_Ok_iff)

text \<open>
  C15. An accepted management section fetches its manifest only over HTTPS or from the loopback
  interface, without credentials in the URL; it reports status only in signed mode, to such a URL
  and with a device id and a token reference; signed mode pins a key; a disabled section names no
  endpoint; and the refresh interval lies between five minutes and a day.
\<close>

theorem management_validation_sound:
  assumes "validate_management parse m = Ok ()"
  shows "(lm_mode m \<noteq> Disabled \<longrightarrow> (\<exists>v. lm_manifest_url m = Some v \<and> trusted_url parse v))
    \<and> (\<forall>v. lm_status_url m = Some v \<longrightarrow> lm_mode m = SignedManifest \<and> trusted_url parse v
        \<and> (\<exists>d. lm_device_id m = Some d \<and> valid_device_id d)
        \<and> (\<exists>r. lm_status_token_ref m = Some r \<and> is_valid_secret_reference r))
    \<and> (lm_mode m = SignedManifest \<longrightarrow> (\<exists>k. lm_signing_public_key m = Some k \<and> k \<noteq> []))
    \<and> (lm_mode m = Disabled \<longrightarrow> lm_manifest_url m = None \<and> lm_status_url m = None)
    \<and> unat (refresh_interval_minutes m) \<in> {5..1440}"
proof (cases "lm_mode m")
  case Disabled
  with assms validate_management_refresh [OF assms] show ?thesis
    by (auto simp: validate_management_def outcome_simps)
next
  case PlainManifest
  with assms validate_management_refresh [OF assms] show ?thesis
    by (auto simp: validate_management_def outcome_simps secure_url_iff)
next
  case SignedManifest
  with assms have "validate_signed_fields parse m = Ok ()"
    and "\<exists>v. lm_manifest_url m = Some v \<and> trusted_url parse v"
    by (auto simp: validate_management_def outcome_simps secure_url_iff)
  with SignedManifest validate_management_refresh [OF assms] show ?thesis
    using validate_signed_fields_OkD by auto
qed

theorem management_validation_sound_witness:
  "validate_management
     (\<lambda>_. Some \<lparr>url_scheme = ''https'', url_host = Some ''h'', url_username = [],
       url_password = None, url_fragment = None\<rparr>)
     (default_local_management\<lparr>lm_mode := PlainManifest, lm_manifest_url := Some ''u''\<rparr>) = Ok ()
   \<and> 5 \<le> unat (refresh_interval_minutes
       (default_local_management\<lparr>lm_mode := PlainManifest, lm_manifest_url := Some ''u''\<rparr>))"
proof -
  let ?parse = "\<lambda>_. Some \<lparr>url_scheme = ''https'', url_host = Some ''h'', url_username = [],
       url_password = None, url_fragment = None\<rparr>"
  let ?m = "default_local_management\<lparr>lm_mode := PlainManifest, lm_manifest_url := Some ''u''\<rparr>"
  have "validate_management ?parse ?m = Ok ()"
    by (simp add: validate_management_def default_local_management_def refresh_interval_minutes_def
        outcome_simps secure_url_iff trusted_url_def trusted_endpoint_def single_line_def
        chars_count_def config_limits)
  with management_validation_sound [OF this] show ?thesis
    by simp
qed

end
