(* ===== verification/Policy.thy ===== *)
theory Policy
  imports Config
begin

text \<open>
  \<^verbatim>\<open>crates/resticpal-core/src/policy.rs\<close>: the managed policy and its resolution with the
  local layer and the product defaults into the effective configuration. The lemmas state the
  precedence of the layers, that locked fields are out of reach of the local layer, and that a
  resolved configuration has passed validation.
\<close>

section \<open>The managed policy\<close>

definition MAX_POLICY_REVISION_CHARACTERS :: nat where "MAX_POLICY_REVISION_CHARACTERS = 256"
definition MANAGED_POLICY_SCHEMA_VERSION :: u32 where "MANAGED_POLICY_SCHEMA_VERSION = 2"
definition LEGACY_MANAGED_POLICY_SCHEMA_VERSION :: u32 where
  "LEGACY_MANAGED_POLICY_SCHEMA_VERSION = 1"

record 'a managed =
  mg_value :: 'a
  mg_locked :: bool

record managed_backup =
  mb_paths :: "(path list) managed option"
  mb_exclusions :: "(string list) managed option"

record managed_repository =
  mr_display_name :: "(string option) managed option"
  mr_url :: "(string option) managed option"
  mr_mode :: "(repository_mode) managed option"
  mr_options :: "((string, string) btree) managed option"
  mr_secret_refs :: "((secret_variable, string) btree) managed option"

record managed_schedule =
  ms_interval_hours :: "(u32) managed option"
  ms_wake_grace_seconds :: "(u64) managed option"
  ms_wake_lock_timeout_seconds :: "(u64) managed option"
  ms_allow_on_battery :: "(bool) managed option"
  ms_allow_metered_network :: "(bool) managed option"

record managed_retention =
  mt_daily :: "(u32) managed option"
  mt_weekly :: "(u32) managed option"
  mt_monthly :: "(u32) managed option"
  mt_yearly :: "(u32) managed option"
  mt_prune_interval_days :: "(u32) managed option"

record managed_update =
  mu_automatic_install :: "(bool) managed option"

record managed_policy =
  mp_schema_version :: u32
  mp_revision :: string
  mp_backup :: managed_backup
  mp_repository :: managed_repository
  mp_schedule :: managed_schedule
  mp_retention :: managed_retention
  mp_updates :: "managed_update option"

definition no_backup :: managed_backup where
  "no_backup = \<lparr>mb_paths = None, mb_exclusions = None\<rparr>"

definition no_repository :: managed_repository where
  "no_repository = \<lparr>mr_display_name = None, mr_url = None, mr_mode = None, mr_options = None, mr_secret_refs = None\<rparr>"

definition no_schedule :: managed_schedule where
  "no_schedule = \<lparr>ms_interval_hours = None, ms_wake_grace_seconds = None, ms_wake_lock_timeout_seconds = None, ms_allow_on_battery = None, ms_allow_metered_network = None\<rparr>"

definition no_retention :: managed_retention where
  "no_retention = \<lparr>mt_daily = None, mt_weekly = None, mt_monthly = None, mt_yearly = None, mt_prune_interval_days = None\<rparr>"

definition no_updates :: managed_update where
  "no_updates = \<lparr>mu_automatic_install = None\<rparr>"

definition default_managed_policy :: managed_policy where
  "default_managed_policy =
     \<lparr>mp_schema_version = MANAGED_POLICY_SCHEMA_VERSION, mp_revision = [], mp_backup = no_backup,
      mp_repository = no_repository, mp_schedule = no_schedule, mp_retention = no_retention,
      mp_updates = None\<rparr>"

section \<open>Fields and their resolution\<close>

datatype policy_field =
    BackupPaths
  | BackupExclusions
  | RepositoryDisplayName
  | RepositoryUrl
  | RepositoryMode
  | RepositoryOptions
  | RepositorySecretRefs
  | ScheduleIntervalHours
  | ScheduleWakeGraceSeconds
  | ScheduleWakeLockTimeoutSeconds
  | ScheduleAllowOnBattery
  | ScheduleAllowMeteredNetwork
  | RetentionDaily
  | RetentionWeekly
  | RetentionMonthly
  | RetentionYearly
  | RetentionPruneIntervalDays
  | UpdateAutomaticInstall

fun field_rank :: "policy_field \<Rightarrow> nat" where
  "field_rank BackupPaths = 0"
| "field_rank BackupExclusions = 1"
| "field_rank RepositoryDisplayName = 2"
| "field_rank RepositoryUrl = 3"
| "field_rank RepositoryMode = 4"
| "field_rank RepositoryOptions = 5"
| "field_rank RepositorySecretRefs = 6"
| "field_rank ScheduleIntervalHours = 7"
| "field_rank ScheduleWakeGraceSeconds = 8"
| "field_rank ScheduleWakeLockTimeoutSeconds = 9"
| "field_rank ScheduleAllowOnBattery = 10"
| "field_rank ScheduleAllowMeteredNetwork = 11"
| "field_rank RetentionDaily = 12"
| "field_rank RetentionWeekly = 13"
| "field_rank RetentionMonthly = 14"
| "field_rank RetentionYearly = 15"
| "field_rank RetentionPruneIntervalDays = 16"
| "field_rank UpdateAutomaticInstall = 17"

lemma field_rank_inject: "field_rank a = field_rank b \<Longrightarrow> a = b"
  by (cases a; cases b) simp_all

instantiation policy_field :: linorder
begin

definition less_eq_policy_field :: "policy_field \<Rightarrow> policy_field \<Rightarrow> bool" where
  "less_eq_policy_field a b \<longleftrightarrow> field_rank a \<le> field_rank b"

definition less_policy_field :: "policy_field \<Rightarrow> policy_field \<Rightarrow> bool" where
  "less_policy_field a b \<longleftrightarrow> field_rank a < field_rank b"

instance
  by standard
    (auto simp: less_eq_policy_field_def less_policy_field_def intro: field_rank_inject)

end

datatype value_source = ProductDefault | LocalAdministrator | ManagedRecommendation | ManagedLocked

record field_resolution =
  fr_source :: value_source
  fr_locked :: bool

type_synonym resolutions = "(policy_field, field_resolution) btree"

record resolved_config =
  rs_effective :: effective_config
  rs_managed_revision :: "string option"
  rs_fields :: resolutions

definition locked_fields :: "resolved_config \<Rightarrow> policy_field list" where
  "locked_fields r =
     List.map_filter (\<lambda>(field, resolution). if fr_locked resolution then Some field else None)
       (rs_fields r)"

datatype policy_error =
    UnsupportedLocalSchema u32
  | UnsupportedManagedSchema u32
  | UpdatesRequireManagedSchemaV2
  | InvalidManagedRevision
  | InvalidEffectiveConfig config_validation_error

definition choose_value ::
  "policy_field \<Rightarrow> 'a \<Rightarrow> 'a option \<Rightarrow> 'a managed option \<Rightarrow> resolutions \<Rightarrow> 'a \<times> resolutions" where
  "choose_value field dflt loc man fs =
     (let (v, source, locked) =
        (case man of
           Some g \<Rightarrow>
             if mg_locked g then (mg_value g, ManagedLocked, True)
             else (case loc of
                     Some l \<Rightarrow> (l, LocalAdministrator, False)
                   | None \<Rightarrow> (mg_value g, ManagedRecommendation, False))
         | None \<Rightarrow>
             (case loc of
                Some l \<Rightarrow> (l, LocalAdministrator, False)
              | None \<Rightarrow> (dflt, ProductDefault, False)))
      in (v, bt_insert field \<lparr>fr_source = source, fr_locked = locked\<rparr> fs))"

definition resolve_backup ::
  "backup_config \<Rightarrow> local_backup \<Rightarrow> managed_backup \<Rightarrow> resolutions \<Rightarrow> backup_config \<times> resolutions" where
  "resolve_backup d l m fs =
     (let (paths, fs) = choose_value BackupPaths (bc_paths d) (lb_paths l) (mb_paths m) fs in
      let (exclusions, fs) = choose_value BackupExclusions (bc_exclusions d) (lb_exclusions l) (mb_exclusions m) fs in
      (\<lparr>bc_paths = paths, bc_exclusions = exclusions\<rparr>, fs))"

definition resolve_repository ::
  "repository_config \<Rightarrow> local_repository \<Rightarrow> managed_repository \<Rightarrow> resolutions \<Rightarrow> repository_config \<times> resolutions" where
  "resolve_repository d l m fs =
     (let (display_name, fs) = choose_value RepositoryDisplayName (rc_display_name d) (map_option Some (lr_display_name l)) (mr_display_name m) fs in
      let (url, fs) = choose_value RepositoryUrl (rc_url d) (map_option Some (lr_url l)) (mr_url m) fs in
      let (mode, fs) = choose_value RepositoryMode (rc_mode d) (lr_mode l) (mr_mode m) fs in
      let (options, fs) = choose_value RepositoryOptions (rc_options d) (lr_options l) (mr_options m) fs in
      let (secret_refs, fs) = choose_value RepositorySecretRefs (rc_secret_refs d) (lr_secret_refs l) (mr_secret_refs m) fs in
      (\<lparr>rc_display_name = display_name, rc_url = url, rc_mode = mode, rc_options = options, rc_secret_refs = secret_refs\<rparr>, fs))"

definition resolve_schedule ::
  "schedule_config \<Rightarrow> local_schedule \<Rightarrow> managed_schedule \<Rightarrow> resolutions \<Rightarrow> schedule_config \<times> resolutions" where
  "resolve_schedule d l m fs =
     (let (interval_hours, fs) = choose_value ScheduleIntervalHours (sc_interval_hours d) (ls_interval_hours l) (ms_interval_hours m) fs in
      let (wake_grace_seconds, fs) = choose_value ScheduleWakeGraceSeconds (sc_wake_grace_seconds d) (ls_wake_grace_seconds l) (ms_wake_grace_seconds m) fs in
      let (wake_lock_timeout_seconds, fs) = choose_value ScheduleWakeLockTimeoutSeconds (sc_wake_lock_timeout_seconds d) (ls_wake_lock_timeout_seconds l) (ms_wake_lock_timeout_seconds m) fs in
      let (allow_on_battery, fs) = choose_value ScheduleAllowOnBattery (sc_allow_on_battery d) (ls_allow_on_battery l) (ms_allow_on_battery m) fs in
      let (allow_metered_network, fs) = choose_value ScheduleAllowMeteredNetwork (sc_allow_metered_network d) (ls_allow_metered_network l) (ms_allow_metered_network m) fs in
      (\<lparr>sc_interval_hours = interval_hours, sc_wake_grace_seconds = wake_grace_seconds, sc_wake_lock_timeout_seconds = wake_lock_timeout_seconds, sc_allow_on_battery = allow_on_battery, sc_allow_metered_network = allow_metered_network\<rparr>, fs))"

definition resolve_retention ::
  "retention_config \<Rightarrow> local_retention \<Rightarrow> managed_retention \<Rightarrow> resolutions \<Rightarrow> retention_config \<times> resolutions" where
  "resolve_retention d l m fs =
     (let (daily, fs) = choose_value RetentionDaily (tc_daily d) (lt_daily l) (mt_daily m) fs in
      let (weekly, fs) = choose_value RetentionWeekly (tc_weekly d) (lt_weekly l) (mt_weekly m) fs in
      let (monthly, fs) = choose_value RetentionMonthly (tc_monthly d) (lt_monthly l) (mt_monthly m) fs in
      let (yearly, fs) = choose_value RetentionYearly (tc_yearly d) (lt_yearly l) (mt_yearly m) fs in
      let (prune_interval_days, fs) = choose_value RetentionPruneIntervalDays (tc_prune_interval_days d) (lt_prune_interval_days l) (mt_prune_interval_days m) fs in
      (\<lparr>tc_daily = daily, tc_weekly = weekly, tc_monthly = monthly, tc_yearly = yearly, tc_prune_interval_days = prune_interval_days\<rparr>, fs))"

definition resolve_updates ::
  "update_config \<Rightarrow> local_update \<Rightarrow> managed_update \<Rightarrow> resolutions \<Rightarrow> update_config \<times> resolutions" where
  "resolve_updates d l m fs =
     (let (automatic_install, fs) = choose_value UpdateAutomaticInstall (uc_automatic_install d) (lu_automatic_install l) (mu_automatic_install m) fs in
      (\<lparr>uc_automatic_install = automatic_install\<rparr>, fs))"

definition check_managed_policy :: "managed_policy \<Rightarrow> (policy_error, unit) outcome" where
  "check_managed_policy policy =
     and_then (ensure (mp_schema_version policy
           \<in> {LEGACY_MANAGED_POLICY_SCHEMA_VERSION, MANAGED_POLICY_SCHEMA_VERSION})
         (UnsupportedManagedSchema (mp_schema_version policy))) (\<lambda>_.
     and_then (ensure (\<not> (mp_schema_version policy = LEGACY_MANAGED_POLICY_SCHEMA_VERSION
           \<and> mp_updates policy \<noteq> None)) UpdatesRequireManagedSchemaV2) (\<lambda>_.
     ensure (\<not> (trim (mp_revision policy) = []
           \<or> MAX_POLICY_REVISION_CHARACTERS < chars_count (mp_revision policy)
           \<or> contains_any line_breaks (mp_revision policy))) InvalidManagedRevision))"

definition resolve_layers ::
  "effective_config \<Rightarrow> local_config \<Rightarrow> managed_policy option \<Rightarrow> effective_config \<times> resolutions" where
  "resolve_layers defaults loc man =
     (let managed_backup = (case man of None \<Rightarrow> no_backup | Some p \<Rightarrow> mp_backup p);
          managed_repository = (case man of None \<Rightarrow> no_repository | Some p \<Rightarrow> mp_repository p);
          managed_schedule = (case man of None \<Rightarrow> no_schedule | Some p \<Rightarrow> mp_schedule p);
          managed_retention = (case man of None \<Rightarrow> no_retention | Some p \<Rightarrow> mp_retention p);
          managed_updates = (case Option.bind man mp_updates of None \<Rightarrow> no_updates | Some u \<Rightarrow> u);
          (backup, fs) = resolve_backup (ec_backup defaults) (lc_backup loc) managed_backup [];
          (repository, fs) =
            resolve_repository (ec_repository defaults) (lc_repository loc) managed_repository fs;
          (schedule, fs) =
            resolve_schedule (ec_schedule defaults) (lc_schedule loc) managed_schedule fs;
          (retention, fs) =
            resolve_retention (ec_retention defaults) (lc_retention loc) managed_retention fs;
          (updates, fs) =
            resolve_updates (ec_updates defaults) (lc_updates loc) managed_updates fs
      in (\<lparr>ec_backup = backup, ec_repository = repository, ec_schedule = schedule,
           ec_retention = retention, ec_updates = updates\<rparr>, fs))"

definition resolve_config ::
  "effective_config \<Rightarrow> local_config \<Rightarrow> managed_policy option \<Rightarrow> (policy_error, resolved_config) outcome"
where
  "resolve_config defaults loc man =
     and_then (ensure (lc_schema_version loc = CONFIG_SCHEMA_VERSION)
       (UnsupportedLocalSchema (lc_schema_version loc))) (\<lambda>_.
     and_then (case man of None \<Rightarrow> Ok () | Some policy \<Rightarrow> check_managed_policy policy) (\<lambda>_.
     let (effective, fs) = resolve_layers defaults loc man in
     and_then (map_err InvalidEffectiveConfig (validate effective)) (\<lambda>_.
     Ok \<lparr>rs_effective = effective, rs_managed_revision = map_option mp_revision man,
         rs_fields = fs\<rparr>)))"

section \<open>Precedence of the layers\<close>

text \<open>
  The specification: \<open>precedence\<close> is the value and \<open>provenance\<close> the recorded origin. The views
  \<open>policy_locks\<close> and \<open>same_field\<close> let statements range over the eighteen fields.
\<close>

definition precedence :: "'a \<Rightarrow> 'a option \<Rightarrow> 'a managed option \<Rightarrow> 'a" where
  "precedence dflt loc man =
     (case man of
        Some g \<Rightarrow> if mg_locked g then mg_value g else case_option (mg_value g) id loc
      | None \<Rightarrow> case_option dflt id loc)"

definition is_locked :: "'a managed option \<Rightarrow> bool" where
  "is_locked man \<longleftrightarrow> (\<exists>g. man = Some g \<and> mg_locked g)"

definition provenance :: "'a option \<Rightarrow> 'a managed option \<Rightarrow> field_resolution" where
  "provenance loc man =
     \<lparr>fr_source = (if is_locked man then ManagedLocked
        else if loc \<noteq> None then LocalAdministrator
        else if man \<noteq> None then ManagedRecommendation else ProductDefault),
      fr_locked = is_locked man\<rparr>"

lemma choose_value_eq:
  "choose_value field d l m fs = (precedence d l m, bt_insert field (provenance l m) fs)"
  by (auto simp: choose_value_def precedence_def provenance_def is_locked_def split: option.splits)

definition policy_updates :: "managed_policy \<Rightarrow> managed_update" where
  "policy_updates p = (case mp_updates p of None \<Rightarrow> no_updates | Some u \<Rightarrow> u)"

definition sections ::
  "managed_policy option \<Rightarrow> managed_backup \<times> managed_repository \<times> managed_schedule
     \<times> managed_retention \<times> managed_update" where
  "sections man = (case man of
     None \<Rightarrow> (no_backup, no_repository, no_schedule, no_retention, no_updates)
   | Some p \<Rightarrow> (mp_backup p, mp_repository p, mp_schedule p, mp_retention p, policy_updates p))"

fun policy_locks :: "managed_policy option \<Rightarrow> policy_field \<Rightarrow> bool" where
  "policy_locks man BackupPaths = (case sections man of (b, _) \<Rightarrow> is_locked (mb_paths b))"
| "policy_locks man BackupExclusions = (case sections man of (b, _) \<Rightarrow> is_locked (mb_exclusions b))"
| "policy_locks man RepositoryDisplayName = (case sections man of (_, r, _) \<Rightarrow> is_locked (mr_display_name r))"
| "policy_locks man RepositoryUrl = (case sections man of (_, r, _) \<Rightarrow> is_locked (mr_url r))"
| "policy_locks man RepositoryMode = (case sections man of (_, r, _) \<Rightarrow> is_locked (mr_mode r))"
| "policy_locks man RepositoryOptions = (case sections man of (_, r, _) \<Rightarrow> is_locked (mr_options r))"
| "policy_locks man RepositorySecretRefs = (case sections man of (_, r, _) \<Rightarrow> is_locked (mr_secret_refs r))"
| "policy_locks man ScheduleIntervalHours = (case sections man of (_, _, s, _) \<Rightarrow> is_locked (ms_interval_hours s))"
| "policy_locks man ScheduleWakeGraceSeconds = (case sections man of (_, _, s, _) \<Rightarrow> is_locked (ms_wake_grace_seconds s))"
| "policy_locks man ScheduleWakeLockTimeoutSeconds = (case sections man of (_, _, s, _) \<Rightarrow> is_locked (ms_wake_lock_timeout_seconds s))"
| "policy_locks man ScheduleAllowOnBattery = (case sections man of (_, _, s, _) \<Rightarrow> is_locked (ms_allow_on_battery s))"
| "policy_locks man ScheduleAllowMeteredNetwork = (case sections man of (_, _, s, _) \<Rightarrow> is_locked (ms_allow_metered_network s))"
| "policy_locks man RetentionDaily = (case sections man of (_, _, _, t, _) \<Rightarrow> is_locked (mt_daily t))"
| "policy_locks man RetentionWeekly = (case sections man of (_, _, _, t, _) \<Rightarrow> is_locked (mt_weekly t))"
| "policy_locks man RetentionMonthly = (case sections man of (_, _, _, t, _) \<Rightarrow> is_locked (mt_monthly t))"
| "policy_locks man RetentionYearly = (case sections man of (_, _, _, t, _) \<Rightarrow> is_locked (mt_yearly t))"
| "policy_locks man RetentionPruneIntervalDays = (case sections man of (_, _, _, t, _) \<Rightarrow> is_locked (mt_prune_interval_days t))"
| "policy_locks man UpdateAutomaticInstall = (case sections man of (_, _, _, _, u) \<Rightarrow> is_locked (mu_automatic_install u))"

fun same_field :: "policy_field \<Rightarrow> effective_config \<Rightarrow> effective_config \<Rightarrow> bool" where
  "same_field BackupPaths a b \<longleftrightarrow> bc_paths (ec_backup a) = bc_paths (ec_backup b)"
| "same_field BackupExclusions a b \<longleftrightarrow> bc_exclusions (ec_backup a) = bc_exclusions (ec_backup b)"
| "same_field RepositoryDisplayName a b \<longleftrightarrow> rc_display_name (ec_repository a) = rc_display_name (ec_repository b)"
| "same_field RepositoryUrl a b \<longleftrightarrow> rc_url (ec_repository a) = rc_url (ec_repository b)"
| "same_field RepositoryMode a b \<longleftrightarrow> rc_mode (ec_repository a) = rc_mode (ec_repository b)"
| "same_field RepositoryOptions a b \<longleftrightarrow> rc_options (ec_repository a) = rc_options (ec_repository b)"
| "same_field RepositorySecretRefs a b \<longleftrightarrow> rc_secret_refs (ec_repository a) = rc_secret_refs (ec_repository b)"
| "same_field ScheduleIntervalHours a b \<longleftrightarrow> sc_interval_hours (ec_schedule a) = sc_interval_hours (ec_schedule b)"
| "same_field ScheduleWakeGraceSeconds a b \<longleftrightarrow> sc_wake_grace_seconds (ec_schedule a) = sc_wake_grace_seconds (ec_schedule b)"
| "same_field ScheduleWakeLockTimeoutSeconds a b \<longleftrightarrow> sc_wake_lock_timeout_seconds (ec_schedule a) = sc_wake_lock_timeout_seconds (ec_schedule b)"
| "same_field ScheduleAllowOnBattery a b \<longleftrightarrow> sc_allow_on_battery (ec_schedule a) = sc_allow_on_battery (ec_schedule b)"
| "same_field ScheduleAllowMeteredNetwork a b \<longleftrightarrow> sc_allow_metered_network (ec_schedule a) = sc_allow_metered_network (ec_schedule b)"
| "same_field RetentionDaily a b \<longleftrightarrow> tc_daily (ec_retention a) = tc_daily (ec_retention b)"
| "same_field RetentionWeekly a b \<longleftrightarrow> tc_weekly (ec_retention a) = tc_weekly (ec_retention b)"
| "same_field RetentionMonthly a b \<longleftrightarrow> tc_monthly (ec_retention a) = tc_monthly (ec_retention b)"
| "same_field RetentionYearly a b \<longleftrightarrow> tc_yearly (ec_retention a) = tc_yearly (ec_retention b)"
| "same_field RetentionPruneIntervalDays a b \<longleftrightarrow> tc_prune_interval_days (ec_retention a) = tc_prune_interval_days (ec_retention b)"
| "same_field UpdateAutomaticInstall a b \<longleftrightarrow> uc_automatic_install (ec_updates a) = uc_automatic_install (ec_updates b)"

definition layered :: "effective_config \<Rightarrow> local_config \<Rightarrow> managed_policy option \<Rightarrow> effective_config" where
  "layered d l man = (case sections man of (b, r, s, t, u) \<Rightarrow>
     \<lparr>ec_backup = \<lparr>bc_paths = precedence (bc_paths (ec_backup d)) (lb_paths (lc_backup l)) (mb_paths b),
        bc_exclusions = precedence (bc_exclusions (ec_backup d)) (lb_exclusions (lc_backup l)) (mb_exclusions b)\<rparr>,
      ec_repository = \<lparr>rc_display_name = precedence (rc_display_name (ec_repository d)) (map_option Some (lr_display_name (lc_repository l))) (mr_display_name r),
        rc_url = precedence (rc_url (ec_repository d)) (map_option Some (lr_url (lc_repository l))) (mr_url r),
        rc_mode = precedence (rc_mode (ec_repository d)) (lr_mode (lc_repository l)) (mr_mode r),
        rc_options = precedence (rc_options (ec_repository d)) (lr_options (lc_repository l)) (mr_options r),
        rc_secret_refs = precedence (rc_secret_refs (ec_repository d)) (lr_secret_refs (lc_repository l)) (mr_secret_refs r)\<rparr>,
      ec_schedule = \<lparr>sc_interval_hours = precedence (sc_interval_hours (ec_schedule d)) (ls_interval_hours (lc_schedule l)) (ms_interval_hours s),
        sc_wake_grace_seconds = precedence (sc_wake_grace_seconds (ec_schedule d)) (ls_wake_grace_seconds (lc_schedule l)) (ms_wake_grace_seconds s),
        sc_wake_lock_timeout_seconds = precedence (sc_wake_lock_timeout_seconds (ec_schedule d)) (ls_wake_lock_timeout_seconds (lc_schedule l)) (ms_wake_lock_timeout_seconds s),
        sc_allow_on_battery = precedence (sc_allow_on_battery (ec_schedule d)) (ls_allow_on_battery (lc_schedule l)) (ms_allow_on_battery s),
        sc_allow_metered_network = precedence (sc_allow_metered_network (ec_schedule d)) (ls_allow_metered_network (lc_schedule l)) (ms_allow_metered_network s)\<rparr>,
      ec_retention = \<lparr>tc_daily = precedence (tc_daily (ec_retention d)) (lt_daily (lc_retention l)) (mt_daily t),
        tc_weekly = precedence (tc_weekly (ec_retention d)) (lt_weekly (lc_retention l)) (mt_weekly t),
        tc_monthly = precedence (tc_monthly (ec_retention d)) (lt_monthly (lc_retention l)) (mt_monthly t),
        tc_yearly = precedence (tc_yearly (ec_retention d)) (lt_yearly (lc_retention l)) (mt_yearly t),
        tc_prune_interval_days = precedence (tc_prune_interval_days (ec_retention d)) (lt_prune_interval_days (lc_retention l)) (mt_prune_interval_days t)\<rparr>,
      ec_updates = \<lparr>uc_automatic_install = precedence (uc_automatic_install (ec_updates d)) (lu_automatic_install (lc_updates l)) (mu_automatic_install u)\<rparr>\<rparr>)"

definition origins :: "local_config \<Rightarrow> managed_policy option \<Rightarrow> resolutions" where
  "origins l man = (case sections man of (b, r, s, t, u) \<Rightarrow>
     [(BackupPaths, provenance (lb_paths (lc_backup l)) (mb_paths b)),
      (BackupExclusions, provenance (lb_exclusions (lc_backup l)) (mb_exclusions b)),
      (RepositoryDisplayName, provenance (map_option Some (lr_display_name (lc_repository l))) (mr_display_name r)),
      (RepositoryUrl, provenance (map_option Some (lr_url (lc_repository l))) (mr_url r)),
      (RepositoryMode, provenance (lr_mode (lc_repository l)) (mr_mode r)),
      (RepositoryOptions, provenance (lr_options (lc_repository l)) (mr_options r)),
      (RepositorySecretRefs, provenance (lr_secret_refs (lc_repository l)) (mr_secret_refs r)),
      (ScheduleIntervalHours, provenance (ls_interval_hours (lc_schedule l)) (ms_interval_hours s)),
      (ScheduleWakeGraceSeconds, provenance (ls_wake_grace_seconds (lc_schedule l)) (ms_wake_grace_seconds s)),
      (ScheduleWakeLockTimeoutSeconds, provenance (ls_wake_lock_timeout_seconds (lc_schedule l)) (ms_wake_lock_timeout_seconds s)),
      (ScheduleAllowOnBattery, provenance (ls_allow_on_battery (lc_schedule l)) (ms_allow_on_battery s)),
      (ScheduleAllowMeteredNetwork, provenance (ls_allow_metered_network (lc_schedule l)) (ms_allow_metered_network s)),
      (RetentionDaily, provenance (lt_daily (lc_retention l)) (mt_daily t)),
      (RetentionWeekly, provenance (lt_weekly (lc_retention l)) (mt_weekly t)),
      (RetentionMonthly, provenance (lt_monthly (lc_retention l)) (mt_monthly t)),
      (RetentionYearly, provenance (lt_yearly (lc_retention l)) (mt_yearly t)),
      (RetentionPruneIntervalDays, provenance (lt_prune_interval_days (lc_retention l)) (mt_prune_interval_days t)),
      (UpdateAutomaticInstall, provenance (lu_automatic_install (lc_updates l)) (mu_automatic_install u))])"

lemma field_less_iff [simp]: "a < b \<longleftrightarrow> field_rank a < field_rank b" for a b :: policy_field
  by (simp add: less_policy_field_def)

lemma resolve_layers_eq: "resolve_layers d l man = (layered d l man, origins l man)"
  by (cases man)
    (simp_all add: resolve_layers_def resolve_backup_def resolve_repository_def
      resolve_schedule_def resolve_retention_def resolve_updates_def choose_value_eq layered_def
      origins_def sections_def policy_updates_def Let_def)

lemma resolve_config_Ok_iff:
  "resolve_config d l man = Ok r \<longleftrightarrow>
     lc_schema_version l = CONFIG_SCHEMA_VERSION
     \<and> (\<forall>p. man = Some p \<longrightarrow> check_managed_policy p = Ok ())
     \<and> valid_config (layered d l man)
     \<and> r = \<lparr>rs_effective = layered d l man, rs_managed_revision = map_option mp_revision man,
          rs_fields = origins l man\<rparr>"
  by (auto simp: resolve_config_def resolve_layers_eq outcome_simps validate_Ok_iff
      split: option.splits)

lemma resolve_config_no_panic: "resolve_config d l man \<noteq> Panic"
  by (auto simp: resolve_config_def resolve_layers_eq outcome_simps validate_no_panic
      check_managed_policy_def split: option.splits)

lemma origins_wf: "bt_wf (origins l man)"
  by (simp add: origins_def bt_wf_def bt_keys_def split: prod.split)

lemma provenance_locked [simp]: "fr_locked (provenance l m) = is_locked m"
  by (simp add: provenance_def)

lemma origins_locked:
  "\<exists>res. bt_get (origins l man) f = Some res \<and> (fr_locked res \<longleftrightarrow> policy_locks man f)"
  by (cases "sections man"; cases f) (simp_all add: origins_def bt_get_def)

lemma locked_fields_iff:
  "f \<in> set (locked_fields r) \<longleftrightarrow> (\<exists>res. (f, res) \<in> set (rs_fields r) \<and> fr_locked res)"
  by (force simp: locked_fields_def List.map_filter_def split: if_splits)

lemma precedence_locked: "is_locked m \<Longrightarrow> precedence d l m = mg_value (the m)"
  by (auto simp: is_locked_def precedence_def)

lemma layered_locked:
  "policy_locks man f \<Longrightarrow> same_field f (layered d l man) (layered d' l' man)"
  by (cases "sections man"; cases f) (simp_all add: layered_def precedence_locked)

section \<open>Properties\<close>

text \<open>
  C2. Resolution takes every one of the eighteen settings from the layer that has precedence (a
  locked managed value, then the local value, then an unlocked managed value, then the product
  default), records where it came from, and returns a configuration only after validating it.
\<close>

theorem resolve_config_layers:
  assumes "resolve_config d l man = Ok r"
  shows "rs_effective r = layered d l man \<and> rs_fields r = origins l man
    \<and> validate (rs_effective r) = Ok () \<and> rs_managed_revision r = map_option mp_revision man"
  using assms by (simp add: resolve_config_Ok_iff validate_Ok_iff)

lemma default_resolves:
  "resolve_config default_effective_config default_local_config None =
     Ok \<lparr>rs_effective = default_effective_config, rs_managed_revision = None,
        rs_fields = origins default_local_config None\<rparr>"
  by (auto simp: resolve_config_Ok_iff layered_def precedence_def sections_def valid_config_def
      default_effective_config_def default_local_config_def default_schedule_config_def
      default_retention_config_def valid_schedule_def valid_retention_def bt_values_def
      no_backup_def no_repository_def no_schedule_def no_retention_def no_updates_def)

theorem resolve_config_layers_witness:
  "default_effective_config = layered default_effective_config default_local_config None"
  using resolve_config_layers [OF default_resolves] by simp

text \<open>
  A setting that the managed policy locks is out of reach of the local layer: two local
  configurations, whatever they say, resolve to the same value of it, and the reported locked
  fields are exactly the fields the policy locks.
\<close>

theorem locked_fields_ignore_local:
  assumes "resolve_config d l man = Ok r" and "resolve_config d' l' man = Ok r'"
  shows "(\<forall>f. policy_locks man f \<longrightarrow> same_field f (rs_effective r) (rs_effective r'))
    \<and> (\<forall>f. f \<in> set (locked_fields r) \<longleftrightarrow> policy_locks man f)"
proof (intro conjI allI)
  fix f
  show "policy_locks man f \<longrightarrow> same_field f (rs_effective r) (rs_effective r')"
    using assms by (auto simp: resolve_config_Ok_iff layered_locked)
  have "rs_fields r = origins l man"
    using assms(1) by (simp add: resolve_config_Ok_iff)
  then have "f \<in> set (locked_fields r) \<longleftrightarrow>
      (\<exists>res. bt_get (origins l man) f = Some res \<and> fr_locked res)"
    using origins_wf [of l man]
    by (simp add: locked_fields_iff bt_get_iff)
  then show "f \<in> set (locked_fields r) \<longleftrightarrow> policy_locks man f"
    using origins_locked [of l man f] by force
qed

theorem locked_fields_ignore_local_witness:
  "BackupPaths \<in> set (locked_fields
       \<lparr>rs_effective = default_effective_config, rs_managed_revision = None,
        rs_fields = origins default_local_config None\<rparr>) \<longleftrightarrow> policy_locks None BackupPaths"
  using locked_fields_ignore_local [OF default_resolves default_resolves] by blast

end
