(* ===== verification/Status.thy ===== *)
theory Status
  imports Config
begin

text \<open>
  \<^verbatim>\<open>crates/resticpal-core/src/status.rs\<close>: the published state of the service, the record of
  one finished run, and the test that keeps a reported source item printable.
\<close>

definition MAX_BACKUP_FAILED_ITEMS :: nat where "MAX_BACKUP_FAILED_ITEMS = 100"
definition MAX_BACKUP_FAILED_ITEM_BYTES :: nat where "MAX_BACKUP_FAILED_ITEM_BYTES = 4 * 1024"

text \<open>
  The characters the test rejects, read off the UTF-8 bytes: the control characters U+0000 to
  U+001F, U+007F and U+0080 to U+009F, and the bidirectional overrides and isolates U+202A to
  U+202E and U+2066 to U+2069.
\<close>

fun starts_unsafe :: "nat list \<Rightarrow> bool" where
  "starts_unsafe [] = False"
| "starts_unsafe (a # bs) \<longleftrightarrow>
     a < 32 \<or> a = 127
     \<or> (case bs of
          [] \<Rightarrow> False
        | b # cs \<Rightarrow>
            a = 194 \<and> 128 \<le> b \<and> b \<le> 159
            \<or> (case cs of
                 [] \<Rightarrow> False
               | c # _ \<Rightarrow> a = 226 \<and> (b = 128 \<and> 170 \<le> c \<and> c \<le> 174 \<or> b = 129 \<and> 166 \<le> c \<and> c \<le> 169)))"

fun has_unsafe_character :: "string \<Rightarrow> bool" where
  "has_unsafe_character [] = False"
| "has_unsafe_character (c # s) \<longleftrightarrow>
     starts_unsafe (map of_char (c # s)) \<or> has_unsafe_character s"

definition is_safe_backup_failed_item :: "string \<Rightarrow> bool" where
  "is_safe_backup_failed_item item \<longleftrightarrow>
     item \<noteq> [] \<and> length item \<le> MAX_BACKUP_FAILED_ITEM_BYTES \<and> \<not> has_unsafe_character item"

datatype waiting_reason =
    WakeGrace
  | Network
  | PolicyBackoff
  | Battery
  | MeteredNetwork
  | RepositoryValidation
  | UpdateWait

datatype backup_phase =
    PreparingSnapshot
  | Scanning
  | Uploading
  | Finalizing
  | Retention
  | Checking

datatype backup_state =
    Unconfigured
  | Idle
  | Waiting waiting_reason
  | Running backup_phase
  | Succeeded
  | SucceededWithWarnings
  | Failed string
  | Cancelled
  | Paused

record backup_progress =
  bp_percent_done :: "u8 option"
  bp_files_done :: u64
  bp_total_files :: "u64 option"
  bp_bytes_done :: u64
  bp_total_bytes :: "u64 option"
  bp_error_count :: u64

record service_status =
  ss_state :: backup_state
  ss_state_since :: datetime
  ss_last_attempt :: "datetime option"
  ss_last_success :: "datetime option"
  ss_next_deadline :: "datetime option"
  ss_repository_display_name :: "string option"
  ss_repository_mode :: repository_mode
  ss_managed_revision :: "string option"
  ss_progress :: "backup_progress option"

datatype run_outcome = RunSucceeded | RunSucceededWithWarnings | RunFailed | RunCancelled

record run_record =
  rr_id :: u64
  rr_started_at :: datetime
  rr_completed_at :: datetime
  rr_outcome :: run_outcome
  rr_error_code :: "string option"
  rr_files_processed :: "u64 option"
  rr_bytes_processed :: "u64 option"
  rr_data_added :: "u64 option"
  rr_snapshot_id :: "string option"
  rr_failed_item_count :: u64

lemma has_unsafe_character_iff:
  "has_unsafe_character s \<longleftrightarrow> (\<exists>t. suffix t s \<and> starts_unsafe (map of_char t))"
  by (induction s) (auto simp: suffix_Cons)

lemma safe_item_single_line:
  "is_safe_backup_failed_item s \<Longrightarrow> c \<in> set s \<Longrightarrow> 32 \<le> byte_of c"
proof -
  assume safe: "is_safe_backup_failed_item s" and "c \<in> set s"
  then obtain us vs where "s = us @ c # vs"
    by (auto simp: in_set_conv_decomp)
  then have "suffix (c # vs) s"
    by (simp add: suffix_def)
  with safe have "\<not> starts_unsafe (map of_char (c # vs))"
    by (auto simp: is_safe_backup_failed_item_def has_unsafe_character_iff)
  then show ?thesis
    by simp
qed

end
