(* ===== verification/Manifests.thy ===== *)
theory Manifests
  imports Policy Status
begin

text \<open>
  \<^verbatim>\<open>crates/resticpal-core/src/management.rs\<close>: policy manifests, plain and signed, and the enrolment
  documents. Bytes and strings are both \<open>string\<close>. The JSON codec, the Base64 codec, the form
  decoder, the URL library and the cryptographic primitives are arguments: a decoder that fails is
  \<open>None\<close>. Zeroing of freed memory has no counterpart.
\<close>

section \<open>Documents\<close>

definition MANAGEMENT_SCHEMA_VERSION :: u32 where "MANAGEMENT_SCHEMA_VERSION = 1"
definition MAX_MANIFEST_BYTES :: nat where "MAX_MANIFEST_BYTES = 1024 * 1024"
definition MAX_ENROLLMENT_BYTES :: nat where "MAX_ENROLLMENT_BYTES = 1024 * 1024"
definition MAX_SIGNED_MANIFEST_LIFETIME_DAYS :: int where "MAX_SIGNED_MANIFEST_LIFETIME_DAYS = 30"
definition MAX_CLOCK_SKEW_MINUTES :: int where "MAX_CLOCK_SKEW_MINUTES = 5"

record manifest_payload =
  mf_schema_version :: u32
  mf_sequence :: u64
  mf_issued_at :: datetime
  mf_expires_at :: "datetime option"
  mf_policy :: managed_policy

record signed_manifest_envelope =
  se_schema_version :: u32
  se_algorithm :: string
  se_key_id :: string
  se_payload :: string
  se_signature :: string

text \<open>The enrolment envelope has the same fields.\<close>

type_synonym signed_enrollment_envelope = signed_manifest_envelope

record verified_manifest =
  vm_payload :: manifest_payload
  vm_signed :: bool

record device_status_report =
  dr_schema_version :: u32
  dr_device_id :: string
  dr_hostname :: string
  dr_app_version :: string
  dr_architecture :: string
  dr_reported_at :: datetime
  dr_status :: service_status

record bootstrap_descriptor =
  bd_endpoint_url :: string
  bd_token :: string
  bd_public_key :: string
  bd_key_id :: string

record enrollment_request =
  eq_schema_version :: u32
  eq_device_public_key :: string
  eq_request_nonce :: string
  eq_hostname :: string
  eq_app_version :: string
  eq_architecture :: string

record enrollment_secret_bundle =
  eb_schema_version :: u32
  eb_status_token :: string
  eb_repository_secrets :: "(secret_variable, string) btree"

record sealed_secret_bundle =
  sb_algorithm :: string
  sb_ephemeral_public_key :: string
  sb_salt :: string
  sb_nonce :: string
  sb_ciphertext :: string

record enrollment_payload =
  ep_schema_version :: u32
  ep_device_id :: string
  ep_request_nonce :: string
  ep_issued_at :: datetime
  ep_expires_at :: datetime
  ep_manifest_url :: string
  ep_status_url :: string
  ep_refresh_interval_minutes :: u32
  ep_initial_manifest :: signed_manifest_envelope
  ep_secrets :: sealed_secret_bundle

record enrollment_material =
  em_device_id :: string
  em_manifest_url :: string
  em_status_url :: string
  em_refresh_interval_minutes :: u32
  em_initial_manifest_document :: string
  em_initial_manifest :: verified_manifest
  em_status_token :: string
  em_repository_secrets :: "(secret_variable, string) btree"

record enrollment_request_context =
  rx_request :: enrollment_request
  rx_private_key :: string
  rx_request_nonce :: string

section \<open>Libraries\<close>

text \<open>
  \<open>cy_verify key message signature\<close> is the strict Ed25519 check and \<open>cy_valid_key\<close> says whether the
  key is a curve point; \<open>cy_shared\<close> gives the X25519 secret and whether it was contributory.
\<close>

record crypto =
  cy_decode :: "string \<Rightarrow> string option"
  cy_encode :: "string \<Rightarrow> string"
  cy_valid_key :: "string \<Rightarrow> bool"
  cy_verify :: "string \<Rightarrow> string \<Rightarrow> string \<Rightarrow> bool"
  cy_public :: "string \<Rightarrow> string"
  cy_shared :: "string \<Rightarrow> string \<Rightarrow> string \<times> bool"
  cy_hkdf :: "string \<Rightarrow> string \<Rightarrow> string \<Rightarrow> string option"
  cy_decrypt :: "string \<Rightarrow> string \<Rightarrow> string \<Rightarrow> string \<Rightarrow> string option"

record json =
  js_manifest :: "string \<Rightarrow> manifest_payload option"
  js_envelope :: "string \<Rightarrow> signed_manifest_envelope option"
  js_print_envelope :: "signed_manifest_envelope \<Rightarrow> string option"
  js_enrollment_envelope :: "string \<Rightarrow> signed_enrollment_envelope option"
  js_enrollment :: "string \<Rightarrow> enrollment_payload option"
  js_secrets :: "string \<Rightarrow> enrollment_secret_bundle option"

record url_library =
  ul_parse :: url_parser
  ul_form :: "string \<Rightarrow> (string \<times> string) list"
  ul_without_fragment :: "string \<Rightarrow> string"

section \<open>Errors\<close>

datatype manifest_error =
    InvalidDocumentSize
  | InvalidJson
  | UnsupportedEnvelopeSchema u32
  | UnsupportedPayloadSchema u32
  | UnsupportedAlgorithm
  | InvalidKeyId
  | InvalidPayloadEncoding
  | InvalidPublicKey
  | InvalidSignature
  | SignatureVerificationFailed
  | RollbackAttempt
  | InvalidSequence
  | IssuedInFuture
  | MissingExpiry
  | InvalidLifetime
  | Expired

datatype enrollment_error =
    InvalidBootstrapUrl
  | MissingBootstrapFields
  | InvalidRequestMetadata
  | InvalidEnrollmentSize
  | InvalidEnvelope
  | EnrollmentSignatureFailed
  | InvalidPayload
  | InvalidEncryption
  | DecryptionFailed
  | InvalidSecrets
  | InvalidEnrollmentJson
  | RandomUnavailable
  | EnrollmentManifest manifest_error

section \<open>Text\<close>

definition valid_text :: "string \<Rightarrow> nat \<Rightarrow> bool" where
  "valid_text v limit \<longleftrightarrow> v \<noteq> [] \<and> length v \<le> limit \<and> \<not> contains_any line_breaks v"

definition valid_id :: "string \<Rightarrow> bool" where
  "valid_id v \<longleftrightarrow>
     v \<noteq> [] \<and> length v \<le> 256 \<and> list_all (\<lambda>b. is_ascii_alphanumeric b \<or> b = CHR ''-'' \<or> b = CHR ''_'') v"

definition signed_transport_allowed :: "url \<Rightarrow> bool" where
  "signed_transport_allowed u \<longleftrightarrow>
     url_scheme u = ''https'' \<or> (case url_host u of None \<Rightarrow> False | Some host \<Rightarrow> loopback_host host)"

text \<open>Base64 of exactly \<open>n\<close> bytes.\<close>

definition decode_array :: "crypto \<Rightarrow> nat \<Rightarrow> string \<Rightarrow> 'e \<Rightarrow> ('e, string) outcome" where
  "decode_array C n v e =
     and_then (ok_or (cy_decode C v) e) (\<lambda>bytes. if length bytes = n then Ok bytes else Err e)"

section \<open>Manifests\<close>

definition validate_document_size :: "string \<Rightarrow> (manifest_error, unit) outcome" where
  "validate_document_size document =
     ensure (\<not> (document = [] \<or> MAX_MANIFEST_BYTES < length document)) InvalidDocumentSize"

text \<open>Adding the clock skew panics outside the range of the time library.\<close>

definition validate_payload ::
  "chrono \<Rightarrow> manifest_payload \<Rightarrow> datetime \<Rightarrow> u64 option \<Rightarrow> bool \<Rightarrow> (manifest_error, unit) outcome" where
  "validate_payload K payload now minimum require_expiry =
     and_then (ensure (mf_schema_version payload = MANAGEMENT_SCHEMA_VERSION)
       (UnsupportedPayloadSchema (mf_schema_version payload))) (\<lambda>_.
     and_then (ensure (mf_sequence payload \<noteq> 0) InvalidSequence) (\<lambda>_.
     and_then (ensure (\<not> (case minimum of None \<Rightarrow> False | Some m \<Rightarrow> mf_sequence payload < m)) RollbackAttempt) (\<lambda>_.
     and_then (or_panic (checked_add_signed K now (minutes MAX_CLOCK_SKEW_MINUTES))) (\<lambda>latest.
     and_then (ensure (\<not> latest < mf_issued_at payload) IssuedInFuture) (\<lambda>_.
     case mf_expires_at payload of
       None \<Rightarrow> ensure (\<not> require_expiry) MissingExpiry
     | Some expires_at \<Rightarrow>
         and_then (ensure (\<not> (expires_at \<le> mf_issued_at payload
             \<or> days MAX_SIGNED_MANIFEST_LIFETIME_DAYS < expires_at - mf_issued_at payload)) InvalidLifetime) (\<lambda>_.
         ensure (\<not> expires_at < now) Expired))))))"

definition parse_plain_manifest ::
  "chrono \<Rightarrow> json \<Rightarrow> string \<Rightarrow> datetime \<Rightarrow> u64 option \<Rightarrow> (manifest_error, verified_manifest) outcome" where
  "parse_plain_manifest K J document now minimum =
     and_then (validate_document_size document) (\<lambda>_.
     and_then (ok_or (js_manifest J document) InvalidJson) (\<lambda>payload.
     and_then (validate_payload K payload now minimum False) (\<lambda>_.
     Ok \<lparr>vm_payload = payload, vm_signed = False\<rparr>)))"

definition verify_signed_manifest ::
  "chrono \<Rightarrow> crypto \<Rightarrow> json \<Rightarrow> string \<Rightarrow> string \<Rightarrow> datetime \<Rightarrow> u64 option \<Rightarrow>
     (manifest_error, verified_manifest) outcome" where
  "verify_signed_manifest K C J document public_key validation_time minimum =
     and_then (validate_document_size document) (\<lambda>_.
     and_then (ok_or (js_envelope J document) InvalidJson) (\<lambda>envelope.
     and_then (ensure (se_schema_version envelope = MANAGEMENT_SCHEMA_VERSION)
       (UnsupportedEnvelopeSchema (se_schema_version envelope))) (\<lambda>_.
     and_then (ensure (se_algorithm envelope = ''ed25519'') UnsupportedAlgorithm) (\<lambda>_.
     and_then (ensure (\<not> (se_key_id envelope = [] \<or> 256 < length (se_key_id envelope)
         \<or> contains_any line_breaks (se_key_id envelope))) InvalidKeyId) (\<lambda>_.
     and_then (ok_or (cy_decode C (se_payload envelope)) InvalidPayloadEncoding) (\<lambda>payload_bytes.
     and_then (validate_document_size payload_bytes) (\<lambda>_.
     and_then (decode_array C 32 public_key InvalidPublicKey) (\<lambda>key.
     and_then (decode_array C 64 (se_signature envelope) InvalidSignature) (\<lambda>signature.
     and_then (ensure (cy_valid_key C key) InvalidPublicKey) (\<lambda>_.
     and_then (ensure (cy_verify C key payload_bytes signature) SignatureVerificationFailed) (\<lambda>_.
     and_then (ok_or (js_manifest J payload_bytes) InvalidJson) (\<lambda>payload.
     and_then (validate_payload K payload validation_time minimum True) (\<lambda>_.
     Ok \<lparr>vm_payload = payload, vm_signed = True\<rparr>)))))))))))))"

section \<open>Enrolment\<close>

text \<open>The fields of the fragment, each at most once and no other.\<close>

record bootstrap_fields =
  bf_token :: "string option"
  bf_key :: "string option"
  bf_key_id :: "string option"

fun collect_fields ::
  "(string \<times> string) list \<Rightarrow> bootstrap_fields \<Rightarrow> (enrollment_error, bootstrap_fields) outcome" where
  "collect_fields [] f = Ok f"
| "collect_fields ((name, v) # rest) f =
     (if name = ''token'' then
        and_then (ensure (bf_token f = None) InvalidBootstrapUrl) (\<lambda>_. collect_fields rest (f\<lparr>bf_token := Some v\<rparr>))
      else if name = ''key'' then
        and_then (ensure (bf_key f = None) InvalidBootstrapUrl) (\<lambda>_. collect_fields rest (f\<lparr>bf_key := Some v\<rparr>))
      else if name = ''key_id'' then
        and_then (ensure (bf_key_id f = None) InvalidBootstrapUrl) (\<lambda>_. collect_fields rest (f\<lparr>bf_key_id := Some v\<rparr>))
      else Err InvalidBootstrapUrl)"

definition filter_option :: "('a \<Rightarrow> bool) \<Rightarrow> 'a option \<Rightarrow> 'a option" where
  "filter_option P x = (case x of None \<Rightarrow> None | Some v \<Rightarrow> if P v then Some v else None)"

definition parse_bootstrap ::
  "crypto \<Rightarrow> url_library \<Rightarrow> string \<Rightarrow> (enrollment_error, bootstrap_descriptor) outcome" where
  "parse_bootstrap C U value =
     and_then (ensure (\<not> (value = [] \<or> 16 * 1024 < length value \<or> contains_any line_breaks value))
       InvalidBootstrapUrl) (\<lambda>_.
     and_then (ok_or (ul_parse U value) InvalidBootstrapUrl) (\<lambda>u.
     and_then (ensure (\<not> (url_scheme u \<notin> {''http'', ''https''} \<or> url_host u = None \<or> url_username u \<noteq> []
         \<or> url_password u \<noteq> None \<or> \<not> signed_transport_allowed u)) InvalidBootstrapUrl) (\<lambda>_.
     and_then (ok_or (url_fragment u) MissingBootstrapFields) (\<lambda>fragment.
     and_then (collect_fields (ul_form U fragment) \<lparr>bf_token = None, bf_key = None, bf_key_id = None\<rparr>) (\<lambda>f.
     case (filter_option (\<lambda>v. valid_text v 4096) (bf_token f),
           filter_option (\<lambda>v. decode_array C 32 v () \<noteq> Err ()) (bf_key f),
           filter_option (\<lambda>v. valid_text v 256) (bf_key_id f)) of
       (Some token, Some key, Some key_id) \<Rightarrow>
         Ok \<lparr>bd_endpoint_url = ul_without_fragment U value, bd_token = token, bd_public_key = key, bd_key_id = key_id\<rparr>
     | _ \<Rightarrow> Err MissingBootstrapFields)))))"

definition new_enrollment_request ::
  "crypto \<Rightarrow> string \<Rightarrow> string option \<Rightarrow> string \<Rightarrow> string \<Rightarrow> string \<Rightarrow>
     (enrollment_error, enrollment_request_context) outcome" where
  "new_enrollment_request C private_key random hostname app_version architecture =
     and_then (ensure (\<not> (\<not> valid_text hostname 256 \<or> \<not> valid_text app_version 64 \<or> \<not> valid_text architecture 32))
       InvalidRequestMetadata) (\<lambda>_.
     and_then (ok_or random RandomUnavailable) (\<lambda>nonce.
     Ok \<lparr>rx_request = \<lparr>eq_schema_version = MANAGEMENT_SCHEMA_VERSION,
            eq_device_public_key = cy_encode C (cy_public C private_key),
            eq_request_nonce = cy_encode C nonce, eq_hostname = hostname, eq_app_version = app_version,
            eq_architecture = architecture\<rparr>,
         rx_private_key = private_key, rx_request_nonce = nonce\<rparr>))"

definition check_enrollment_url :: "url_library \<Rightarrow> string \<Rightarrow> (enrollment_error, unit) outcome" where
  "check_enrollment_url U value =
     and_then (ok_or (ul_parse U value) InvalidPayload) (\<lambda>u.
     ensure (\<not> (url_scheme u \<notin> {''http'', ''https''} \<or> url_host u = None \<or> url_username u \<noteq> []
         \<or> url_password u \<noteq> None \<or> url_fragment u \<noteq> None \<or> \<not> signed_transport_allowed u)) InvalidPayload)"

text \<open>The signed part of an enrolment document.\<close>

definition open_enrollment ::
  "crypto \<Rightarrow> json \<Rightarrow> string \<Rightarrow> bootstrap_descriptor \<Rightarrow> (enrollment_error, enrollment_payload) outcome" where
  "open_enrollment C J document descriptor =
     and_then (ensure (\<not> (document = [] \<or> MAX_ENROLLMENT_BYTES < length document)) InvalidEnrollmentSize) (\<lambda>_.
     and_then (ok_or (js_enrollment_envelope J document) InvalidEnrollmentJson) (\<lambda>envelope.
     and_then (ensure (\<not> (se_schema_version envelope \<noteq> MANAGEMENT_SCHEMA_VERSION \<or> se_algorithm envelope \<noteq> ''ed25519''
         \<or> se_key_id envelope \<noteq> bd_key_id descriptor)) InvalidEnvelope) (\<lambda>_.
     and_then (ok_or (cy_decode C (se_payload envelope)) InvalidEnvelope) (\<lambda>payload_bytes.
     and_then (decode_array C 32 (bd_public_key descriptor) InvalidEnvelope) (\<lambda>key.
     and_then (decode_array C 64 (se_signature envelope) InvalidEnvelope) (\<lambda>signature.
     and_then (ensure (cy_valid_key C key) InvalidEnvelope) (\<lambda>_.
     and_then (ensure (cy_verify C key payload_bytes signature) EnrollmentSignatureFailed) (\<lambda>_.
     ok_or (js_enrollment J payload_bytes) InvalidEnrollmentJson))))))))"

definition check_enrollment_payload ::
  "chrono \<Rightarrow> crypto \<Rightarrow> enrollment_payload \<Rightarrow> bootstrap_descriptor \<Rightarrow> string \<Rightarrow> datetime \<Rightarrow>
     (enrollment_error, unit) outcome" where
  "check_enrollment_payload K C payload descriptor nonce now =
     and_then (ensure (\<not> (ep_schema_version payload \<noteq> MANAGEMENT_SCHEMA_VERSION
         \<or> ep_request_nonce payload \<noteq> cy_encode C nonce \<or> \<not> valid_id (ep_device_id payload))) InvalidPayload) (\<lambda>_.
     and_then (or_panic (checked_add_signed K now (minutes MAX_CLOCK_SKEW_MINUTES))) (\<lambda>latest.
     ensure (\<not> (latest < ep_issued_at payload \<or> ep_expires_at payload < now
         \<or> ep_expires_at payload \<le> ep_issued_at payload
         \<or> minutes 15 < ep_expires_at payload - ep_issued_at payload
         \<or> \<not> (5 \<le> ep_refresh_interval_minutes payload \<and> ep_refresh_interval_minutes payload \<le> 24 * 60)
         \<or> se_key_id (ep_initial_manifest payload) \<noteq> bd_key_id descriptor)) InvalidPayload))"

definition decrypt_secrets ::
  "crypto \<Rightarrow> json \<Rightarrow> enrollment_payload \<Rightarrow> string \<Rightarrow> (enrollment_error, enrollment_secret_bundle) outcome" where
  "decrypt_secrets C J payload private_key =
     (let sealed = ep_secrets payload in
      and_then (ensure (sb_algorithm sealed = ''x25519-hkdf-sha256-chacha20poly1305'') InvalidEncryption) (\<lambda>_.
      and_then (decode_array C 32 (sb_ephemeral_public_key sealed) InvalidEncryption) (\<lambda>ephemeral.
      and_then (decode_array C 32 (sb_salt sealed) InvalidEncryption) (\<lambda>salt.
      and_then (decode_array C 12 (sb_nonce sealed) InvalidEncryption) (\<lambda>nonce_bytes.
      and_then (ok_or (cy_decode C (sb_ciphertext sealed)) InvalidEncryption) (\<lambda>ciphertext.
      let (shared_secret, contributory) = cy_shared C private_key ephemeral in
      and_then (ensure contributory InvalidEncryption) (\<lambda>_.
      and_then (ok_or (cy_hkdf C salt shared_secret ''resticpal enrollment secret bundle v1'') InvalidEncryption) (\<lambda>encryption_key.
      and_then (ok_or (cy_decrypt C encryption_key nonce_bytes ciphertext (ep_device_id payload)) DecryptionFailed) (\<lambda>plaintext.
      and_then (ok_or (js_secrets J plaintext) InvalidEnrollmentJson) (\<lambda>secrets.
      and_then (ensure (\<not> (eb_schema_version secrets \<noteq> MANAGEMENT_SCHEMA_VERSION \<or> eb_status_token secrets = []
          \<or> 4096 < length (eb_status_token secrets) \<or> contains_any line_breaks (eb_status_token secrets)
          \<or> list_ex (\<lambda>(_, secret). secret = [] \<or> 32 * 1024 < length secret \<or> CHR 0x00 \<in> set secret)
               (eb_repository_secrets secrets))) InvalidSecrets) (\<lambda>_.
      Ok secrets)))))))))))"

definition verify_and_decrypt_enrollment ::
  "chrono \<Rightarrow> crypto \<Rightarrow> json \<Rightarrow> url_library \<Rightarrow> string \<Rightarrow> bootstrap_descriptor \<Rightarrow> string \<Rightarrow> string \<Rightarrow> datetime \<Rightarrow>
     (enrollment_error, enrollment_material) outcome" where
  "verify_and_decrypt_enrollment K C J U document descriptor private_key nonce now =
     and_then (open_enrollment C J document descriptor) (\<lambda>payload.
     and_then (check_enrollment_payload K C payload descriptor nonce now) (\<lambda>_.
     and_then (for_each (check_enrollment_url U) [ep_manifest_url payload, ep_status_url payload]) (\<lambda>_.
     and_then (ok_or (js_print_envelope J (ep_initial_manifest payload)) InvalidEnrollmentJson) (\<lambda>initial_document.
     and_then (map_err EnrollmentManifest (verify_signed_manifest K C J initial_document
         (bd_public_key descriptor) now None)) (\<lambda>initial_manifest.
     and_then (decrypt_secrets C J payload private_key) (\<lambda>secrets.
     Ok \<lparr>em_device_id = ep_device_id payload, em_manifest_url = ep_manifest_url payload,
         em_status_url = ep_status_url payload,
         em_refresh_interval_minutes = ep_refresh_interval_minutes payload,
         em_initial_manifest_document = initial_document, em_initial_manifest = initial_manifest,
         em_status_token = eb_status_token secrets,
         em_repository_secrets = eb_repository_secrets secrets\<rparr>))))))"

section \<open>What an accepted document guarantees\<close>

text \<open>The bytes carry a valid signature under the Base64 encoded key.\<close>

definition signed_by :: "crypto \<Rightarrow> string \<Rightarrow> string \<Rightarrow> bool" where
  "signed_by C key bytes \<longleftrightarrow>
     (\<exists>k s. cy_decode C key = Some k \<and> length k = 32 \<and> cy_valid_key C k \<and> length s = 64 \<and> cy_verify C k bytes s)"

definition in_force :: "manifest_payload \<Rightarrow> datetime \<Rightarrow> bool" where
  "in_force p now \<longleftrightarrow>
     mf_schema_version p = MANAGEMENT_SCHEMA_VERSION \<and> mf_sequence p \<noteq> 0 \<and> mf_issued_at p \<le> now + minutes 5
     \<and> (\<forall>e. mf_expires_at p = Some e \<longrightarrow> mf_issued_at p < e \<and> e \<le> mf_issued_at p + days 30 \<and> now \<le> e)"

lemma decode_array_Ok: "decode_array C n v e = Ok bytes \<longleftrightarrow> cy_decode C v = Some bytes \<and> length bytes = n"
  by (auto simp: decode_array_def outcome_simps split: if_splits)

lemma decode_array_no_panic [simp]: "decode_array C n v e \<noteq> Panic"
  by (auto simp: decode_array_def outcome_simps)

lemma validate_payload_iff:
  assumes "checked_add_signed K now (minutes 5) = Some t"
  shows "validate_payload K p now minimum expiring = Ok u \<longleftrightarrow>
    in_force p now \<and> (\<forall>m. minimum = Some m \<longrightarrow> m \<le> mf_sequence p) \<and> (expiring \<longrightarrow> mf_expires_at p \<noteq> None)"
  using assms checked_add_signed_Some [OF assms]
  by (auto simp: validate_payload_def in_force_def outcome_simps MAX_CLOCK_SKEW_MINUTES_def
      MAX_SIGNED_MANIFEST_LIFETIME_DAYS_def not_less not_le algebra_simps split: option.splits)

lemma validate_payload_Ok:
  assumes "validate_payload K p now minimum expiring = Ok u"
  shows "in_force p now \<and> (\<forall>m. minimum = Some m \<longrightarrow> m \<le> mf_sequence p) \<and> (expiring \<longrightarrow> mf_expires_at p \<noteq> None)"
proof (cases "checked_add_signed K now (minutes 5)")
  case None
  with assms show ?thesis
    by (auto simp: validate_payload_def outcome_simps MAX_CLOCK_SKEW_MINUTES_def)
next
  case (Some t)
  with assms validate_payload_iff [OF Some] show ?thesis by blast
qed

lemma verify_signed_manifest_Ok:
  assumes "verify_signed_manifest K C J document key now minimum = Ok v"
  obtains bytes where "signed_by C key bytes" "js_manifest J bytes = Some (vm_payload v)" "vm_signed v"
    "in_force (vm_payload v) now" "mf_expires_at (vm_payload v) \<noteq> None"
    "\<And>m. minimum = Some m \<Longrightarrow> m \<le> mf_sequence (vm_payload v)"
proof -
  from assms obtain envelope bytes k s p where
    "cy_decode C key = Some k" "length k = 32" "cy_valid_key C k" "length s = 64" "cy_verify C k bytes s"
    and manifest: "js_manifest J bytes = Some p" and valid: "validate_payload K p now minimum True = Ok ()"
    and v: "v = \<lparr>vm_payload = p, vm_signed = True\<rparr>"
    by (auto simp: verify_signed_manifest_def outcome_simps decode_array_Ok)
  then have "signed_by C key bytes" by (auto simp: signed_by_def)
  with manifest validate_payload_Ok [OF valid] v show thesis by (intro that) auto
qed

lemma parse_plain_manifest_Ok:
  assumes "parse_plain_manifest K J document now minimum = Ok v"
  shows "js_manifest J document = Some (vm_payload v)" and "in_force (vm_payload v) now"
    and "\<And>m. minimum = Some m \<Longrightarrow> m \<le> mf_sequence (vm_payload v)"
  using assms by (auto simp: parse_plain_manifest_def outcome_simps dest!: validate_payload_Ok)

text \<open>
  The acceptance of a document at one time carries over to another time at which it is in force,
  and to any minimum that its sequence number meets.
\<close>

lemma verify_signed_manifest_again:
  assumes "verify_signed_manifest K C J document key now minimum = Ok v"
    and "in_force (vm_payload v) later" and "checked_add_signed K later (minutes 5) \<noteq> None"
  shows "verify_signed_manifest K C J document key later None = Ok v"
proof -
  obtain t where "checked_add_signed K later (minutes 5) = Some t"
    using assms(3) by blast
  from validate_payload_iff [OF this] assms(1,2) show ?thesis
    by (auto simp: verify_signed_manifest_def outcome_simps dest!: validate_payload_Ok)
qed

lemma parse_plain_manifest_again:
  assumes "parse_plain_manifest K J document now minimum = Ok v"
    and "in_force (vm_payload v) later" and "checked_add_signed K later (minutes 5) \<noteq> None"
  shows "parse_plain_manifest K J document later None = Ok v"
proof -
  obtain t where "checked_add_signed K later (minutes 5) = Some t"
    using assms(3) by blast
  from validate_payload_iff [OF this] assms(1,2) show ?thesis
    by (auto simp: parse_plain_manifest_def outcome_simps)
qed

text \<open>What an accepted enrolment document proves about its content.\<close>

definition authentic_enrollment ::
  "crypto \<Rightarrow> json \<Rightarrow> url_library \<Rightarrow> bootstrap_descriptor \<Rightarrow> string \<Rightarrow> datetime \<Rightarrow> enrollment_material \<Rightarrow> bool" where
  "authentic_enrollment C J U d nonce now material \<longleftrightarrow>
     (\<exists>bytes p. signed_by C (bd_public_key d) bytes \<and> js_enrollment J bytes = Some p
        \<and> ep_request_nonce p = cy_encode C nonce
        \<and> ep_issued_at p \<le> now + minutes 5 \<and> now \<le> ep_expires_at p \<and> ep_expires_at p \<le> ep_issued_at p + minutes 15
        \<and> em_device_id material = ep_device_id p \<and> em_manifest_url material = ep_manifest_url p
        \<and> em_status_url material = ep_status_url p
        \<and> em_refresh_interval_minutes material = ep_refresh_interval_minutes p)
     \<and> (\<exists>bytes. signed_by C (bd_public_key d) bytes \<and> js_manifest J bytes = Some (vm_payload (em_initial_manifest material))
        \<and> in_force (vm_payload (em_initial_manifest material)) now)
     \<and> (\<forall>v \<in> {em_manifest_url material, em_status_url material}.
          \<exists>u. ul_parse U v = Some u \<and> trusted_endpoint u)
     \<and> valid_id (em_device_id material) \<and> valid_text (em_status_token material) 4096
     \<and> (\<forall>(variable, secret) \<in> set (em_repository_secrets material).
          secret \<noteq> [] \<and> length secret \<le> 32 * 1024 \<and> CHR 0x00 \<notin> set secret)"

lemma open_enrollment_Ok:
  assumes "open_enrollment C J document d = Ok p"
  obtains bytes where "signed_by C (bd_public_key d) bytes" "js_enrollment J bytes = Some p"
  using assms by (auto simp: open_enrollment_def outcome_simps decode_array_Ok signed_by_def)

lemma check_enrollment_payload_Ok:
  assumes "check_enrollment_payload K C p d nonce now = Ok u"
  shows "ep_request_nonce p = cy_encode C nonce" "valid_id (ep_device_id p)"
    "ep_issued_at p \<le> now + minutes 5" "now \<le> ep_expires_at p" "ep_expires_at p \<le> ep_issued_at p + minutes 15"
  using assms by (auto simp: check_enrollment_payload_def outcome_simps MAX_CLOCK_SKEW_MINUTES_def
      dest!: checked_add_signed_Some)

lemma check_enrollment_url_Ok:
  "check_enrollment_url U v = Ok x \<Longrightarrow> \<exists>u. ul_parse U v = Some u \<and> trusted_endpoint u"
  by (auto simp: check_enrollment_url_def outcome_simps trusted_endpoint_def signed_transport_allowed_def
      split: option.splits)

lemma decrypt_secrets_Ok:
  assumes "decrypt_secrets C J p private_key = Ok secrets"
  shows "valid_text (eb_status_token secrets) 4096"
    "\<forall>(variable, secret) \<in> set (eb_repository_secrets secrets).
       secret \<noteq> [] \<and> length secret \<le> 32 * 1024 \<and> CHR 0x00 \<notin> set secret"
  using assms by (auto simp: decrypt_secrets_def Let_def split_beta outcome_simps valid_text_def list_ex_iff not_less)

lemma verify_and_decrypt_authentic:
  assumes "verify_and_decrypt_enrollment K C J U document d private_key nonce now = Ok material"
  shows "authentic_enrollment C J U d nonce now material"
proof -
  from assms obtain p initial_document m secrets where
    p: "open_enrollment C J document d = Ok p" "check_enrollment_payload K C p d nonce now = Ok ()"
    and urls: "check_enrollment_url U (ep_manifest_url p) = Ok ()" "check_enrollment_url U (ep_status_url p) = Ok ()"
    and m: "verify_signed_manifest K C J initial_document (bd_public_key d) now None = Ok m"
    and secrets: "decrypt_secrets C J p private_key = Ok secrets"
    and material: "material = \<lparr>em_device_id = ep_device_id p, em_manifest_url = ep_manifest_url p,
       em_status_url = ep_status_url p, em_refresh_interval_minutes = ep_refresh_interval_minutes p,
       em_initial_manifest_document = initial_document, em_initial_manifest = m,
       em_status_token = eb_status_token secrets, em_repository_secrets = eb_repository_secrets secrets\<rparr>"
    unfolding verify_and_decrypt_enrollment_def outcome_simps by auto
  obtain bytes where "signed_by C (bd_public_key d) bytes" "js_enrollment J bytes = Some p"
    using p(1) by (rule open_enrollment_Ok)
  moreover obtain bytes' where "signed_by C (bd_public_key d) bytes'" "js_manifest J bytes' = Some (vm_payload m)"
    "in_force (vm_payload m) now"
    using m by (rule verify_signed_manifest_Ok)
  ultimately show ?thesis
    using check_enrollment_payload_Ok [OF p(2)] urls [THEN check_enrollment_url_Ok] decrypt_secrets_Ok [OF secrets]
    unfolding authentic_enrollment_def material by auto
qed

end
