(* ===== verification/Schedule.thy ===== *)
theory Schedule
  imports Config
begin

text \<open>
  \<^verbatim>\<open>crates/resticpal-core/src/schedule.rs\<close>: the decision whether a backup starts now. The
  decision is a function of the schedule settings and of a snapshot of the service state; the
  result \<open>None\<close> is the panic of \<^verbatim>\<open>Duration::seconds\<close> on a period that a duration cannot hold.
\<close>

record scheduler_snapshot =
  sn_now :: datetime
  sn_last_success :: "datetime option"
  sn_resumed_at :: "datetime option"
  sn_not_before :: "datetime option"
  sn_manual_requested :: bool
  sn_backup_running :: bool
  sn_network_required :: bool
  sn_network_available :: bool
  sn_on_battery :: bool
  sn_metered_network :: bool

datatype backup_trigger = Manual | Scheduled | ResumeCatchUp

datatype schedule_blocker =
    WakeGraceBlocker
  | NetworkUnavailable
  | BatteryDisallowed
  | MeteredNetworkDisallowed

datatype schedule_decision =
    AlreadyRunning
  | IdleUntil datetime
  | WaitingFor backup_trigger "schedule_blocker list" "datetime option"
  | Start backup_trigger

definition completion_deadline ::
  "chrono \<Rightarrow> datetime option \<Rightarrow> datetime \<Rightarrow> u32 \<Rightarrow> datetime" where
  "completion_deadline K last_success now interval_hours =
     (case Option.bind (map_option (\<lambda>completed. min completed now) last_success)
         (\<lambda>completed. checked_add_signed K completed (hours (int (unat interval_hours)))) of
        None \<Rightarrow> now
      | Some t \<Rightarrow> t)"

definition i64_of_u64 :: "u64 \<Rightarrow> int" where
  "i64_of_u64 n = (if unat n < 2 ^ 63 then int (unat n) else 2 ^ 63 - 1)"

definition next_deadline :: "chrono \<Rightarrow> schedule_config \<Rightarrow> scheduler_snapshot \<Rightarrow> datetime" where
  "next_deadline K config s =
     (let scheduled = completion_deadline K (sn_last_success s) (sn_now s) (sc_interval_hours config)
      in if sn_manual_requested s then scheduled
         else (case sn_not_before s of None \<Rightarrow> scheduled | Some nb \<Rightarrow> max scheduled nb))"

definition grace_end :: "chrono \<Rightarrow> schedule_config \<Rightarrow> scheduler_snapshot \<Rightarrow> datetime \<Rightarrow> datetime option" where
  "grace_end K config s resumed_at =
     map_option (\<lambda>grace. case checked_add_signed K resumed_at grace of None \<Rightarrow> sn_now s | Some t \<Rightarrow> t)
       (duration_seconds K (i64_of_u64 (sc_wake_grace_seconds config)))"

definition wake_blocker ::
  "chrono \<Rightarrow> schedule_config \<Rightarrow> scheduler_snapshot \<Rightarrow> (schedule_blocker list \<times> datetime option) option"
where
  "wake_blocker K config s =
     (case (if sn_manual_requested s then None else sn_resumed_at s) of
        None \<Rightarrow> Some ([], None)
      | Some resumed_at \<Rightarrow>
          map_option (\<lambda>t. if sn_now s < t then ([WakeGraceBlocker], Some t) else ([], None))
            (grace_end K config s resumed_at))"

definition condition_blockers :: "schedule_config \<Rightarrow> scheduler_snapshot \<Rightarrow> schedule_blocker list" where
  "condition_blockers config s =
     (if sn_network_required s \<and> \<not> sn_network_available s then [NetworkUnavailable] else [])
     @ (if \<not> sn_manual_requested s \<and> sn_on_battery s \<and> \<not> sc_allow_on_battery config
        then [BatteryDisallowed] else [])
     @ (if sn_metered_network s \<and> \<not> sc_allow_metered_network config
        then [MeteredNetworkDisallowed] else [])"

definition decide :: "chrono \<Rightarrow> schedule_config \<Rightarrow> scheduler_snapshot \<Rightarrow> schedule_decision option" where
  "decide K config s =
     (if sn_backup_running s then Some AlreadyRunning
      else
        let deadline = next_deadline K config s;
            due = sn_manual_requested s \<or> deadline \<le> sn_now s
        in if \<not> due then Some (IdleUntil deadline)
           else
             let trigger = (if sn_manual_requested s then Manual
                            else if sn_resumed_at s \<noteq> None then ResumeCatchUp else Scheduled)
             in map_option (\<lambda>(wake, retry_at).
                  let blockers = wake @ condition_blockers config s
                  in if blockers = [] then Start trigger else WaitingFor trigger blockers retry_at)
                (wake_blocker K config s))"

section \<open>Deadlines\<close>

lemma completion_deadline_le:
  "completion_deadline K done now n \<le> now + hours (int (unat n))"
  by (auto simp: completion_deadline_def checked_add_signed_def duration_defs
      split: option.splits Option.bind_splits)

lemma completion_deadline_None [simp]: "completion_deadline K None now n = now"
  by (simp add: completion_deadline_def)

lemma completion_deadline_Some:
  assumes "MIN_UTC K \<le> min t now" and "now + hours (int (unat n)) \<le> MAX_UTC K"
  shows "completion_deadline K (Some t) now n = min t now + hours (int (unat n))"
proof -
  have "0 \<le> hours (int (unat n))"
    by (simp add: duration_defs)
  with assms have "MIN_UTC K \<le> min t now + hours (int (unat n))"
    and "min t now + hours (int (unat n)) \<le> MAX_UTC K"
    by linarith+
  then show ?thesis
    by (simp add: completion_deadline_def checked_add_signed_def)
qed

lemma next_deadline_le:
  "next_deadline K config s \<le>
     (case sn_not_before s of
        None \<Rightarrow> sn_now s + hours (int (unat (sc_interval_hours config)))
      | Some nb \<Rightarrow> max nb (sn_now s + hours (int (unat (sc_interval_hours config)))))"
  using completion_deadline_le [of K "sn_last_success s" "sn_now s" "sc_interval_hours config"]
  by (auto simp: next_deadline_def Let_def split: option.split)

section \<open>Decisions\<close>

lemma i64_of_u64_small: "unat n < 2 ^ 63 \<Longrightarrow> i64_of_u64 n = int (unat n)"
  by (simp add: i64_of_u64_def)

lemma wake_blocker_total:
  assumes "valid_schedule config" and "86400 \<le> MAX_SECONDS K"
  shows "wake_blocker K config s \<noteq> None"
proof -
  have "unat (sc_wake_grace_seconds config) \<le> 86400"
    using assms(1) by (simp add: valid_schedule_def)
  moreover from this have "uint (sc_wake_grace_seconds config) \<le> 86400"
    by (rule uint_le_of_unat)
  ultimately have "duration_seconds K (i64_of_u64 (sc_wake_grace_seconds config)) \<noteq> None"
    using assms(2) by (simp add: duration_seconds_def i64_of_u64_small)
  then have "grace_end K config s r \<noteq> None" for r
    by (simp add: grace_end_def)
  then show ?thesis
    by (cases "sn_resumed_at s") (simp_all add: wake_blocker_def del: not_None_eq)
qed

text \<open>The reading of a blocker: the condition under which it holds the backup back.\<close>

fun blocked_by :: "chrono \<Rightarrow> schedule_config \<Rightarrow> scheduler_snapshot \<Rightarrow> schedule_blocker \<Rightarrow> bool" where
  "blocked_by K config s WakeGraceBlocker \<longleftrightarrow>
     \<not> sn_manual_requested s
     \<and> (\<exists>r. sn_resumed_at s = Some r \<and> r + seconds (int (unat (sc_wake_grace_seconds config))) \<le> MAX_UTC K
          \<and> sn_now s < r + seconds (int (unat (sc_wake_grace_seconds config))))"
| "blocked_by K config s NetworkUnavailable \<longleftrightarrow> sn_network_required s \<and> \<not> sn_network_available s"
| "blocked_by K config s BatteryDisallowed \<longleftrightarrow>
     \<not> sn_manual_requested s \<and> sn_on_battery s \<and> \<not> sc_allow_on_battery config"
| "blocked_by K config s MeteredNetworkDisallowed \<longleftrightarrow>
     sn_metered_network s \<and> \<not> sc_allow_metered_network config"

definition is_due :: "chrono \<Rightarrow> schedule_config \<Rightarrow> scheduler_snapshot \<Rightarrow> bool" where
  "is_due K config s \<longleftrightarrow> sn_manual_requested s \<or> next_deadline K config s \<le> sn_now s"

lemma condition_blockers_iff:
  "b \<in> set (condition_blockers config s) \<longleftrightarrow> b \<noteq> WakeGraceBlocker \<and> blocked_by K config s b"
  by (cases b) (auto simp: condition_blockers_def)

lemma wake_blocker_iff:
  assumes "valid_schedule config" and "86400 \<le> MAX_SECONDS K" and "MIN_UTC K \<le> sn_now s"
    and "wake_blocker K config s = Some (wake, retry_at)"
  shows "b \<in> set wake \<longleftrightarrow> b = WakeGraceBlocker \<and> blocked_by K config s b"
proof -
  have "unat (sc_wake_grace_seconds config) \<le> 86400"
    using assms(1) by (simp add: valid_schedule_def)
  then show ?thesis
    using assms(2-4)
    by (auto simp: wake_blocker_def grace_end_def duration_seconds_def i64_of_u64_small
        checked_add_signed_def split: option.splits if_splits)
qed

lemma decide_cases:
  assumes "valid_schedule config" and "86400 \<le> MAX_SECONDS K"
  obtains "sn_backup_running s" "decide K config s = Some AlreadyRunning"
  | "\<not> sn_backup_running s" "\<not> is_due K config s"
      "decide K config s = Some (IdleUntil (next_deadline K config s))"
  | wake retry_at trigger where "\<not> sn_backup_running s" "is_due K config s"
      "wake_blocker K config s = Some (wake, retry_at)"
      "trigger = Manual \<longleftrightarrow> sn_manual_requested s"
      "decide K config s = Some (let blockers = wake @ condition_blockers config s in
         if blockers = [] then Start trigger else WaitingFor trigger blockers retry_at)"
proof -
  obtain wake retry_at where "wake_blocker K config s = Some (wake, retry_at)"
    using wake_blocker_total [OF assms, of s] by (cases "wake_blocker K config s") auto
  note wake = this
  define trigger where "trigger = (if sn_manual_requested s then Manual
    else if sn_resumed_at s \<noteq> None then ResumeCatchUp else Scheduled)"
  show thesis
  proof (cases "sn_backup_running s \<or> \<not> is_due K config s")
    case True
    then show thesis
      using that(1,2) by (auto simp: decide_def is_due_def)
  next
    case False
    then show thesis
      using that(3) [of wake retry_at trigger] wake
      by (simp add: decide_def is_due_def trigger_def Let_def)
  qed
qed

lemma decide_total: "valid_schedule config \<Longrightarrow> 86400 \<le> MAX_SECONDS K \<Longrightarrow> decide K config s \<noteq> None"
  by (erule (1) decide_cases [of config K s]) simp_all

lemma decide_blockers:
  assumes "valid_schedule config" and "86400 \<le> MAX_SECONDS K" and "MIN_UTC K \<le> sn_now s"
    and "wake_blocker K config s = Some (wake, retry_at)"
  shows "b \<in> set (wake @ condition_blockers config s) \<longleftrightarrow> blocked_by K config s b"
    and "wake @ condition_blockers config s = [] \<longleftrightarrow> (\<forall>b. \<not> blocked_by K config s b)"
proof -
  have mem: "b \<in> set (wake @ condition_blockers config s) \<longleftrightarrow> blocked_by K config s b" for b
    using wake_blocker_iff [OF assms, of b] condition_blockers_iff [of b config s K] by auto
  show "b \<in> set (wake @ condition_blockers config s) \<longleftrightarrow> blocked_by K config s b"
    by (rule mem)
  show "wake @ condition_blockers config s = [] \<longleftrightarrow> (\<forall>b. \<not> blocked_by K config s b)"
    unfolding mem [symmetric] by (metis empty_iff list.set(1) list.set_intros(1) list.exhaust)
qed

lemma decide_Start_iff:
  assumes "valid_schedule config" and "86400 \<le> MAX_SECONDS K" and "MIN_UTC K \<le> sn_now s"
  shows "(\<exists>trigger. decide K config s = Some (Start trigger)) \<longleftrightarrow>
    \<not> sn_backup_running s \<and> is_due K config s \<and> (\<forall>b. \<not> blocked_by K config s b)"
proof (cases rule: decide_cases [OF assms(1,2), of s])
  case (3 wake retry_at trigger)
  with decide_blockers(2) [OF assms 3(3)] show ?thesis
    by (simp add: Let_def del: blocked_by.simps append_is_Nil_conv)
qed auto

lemma decide_Waiting_blockers:
  assumes "valid_schedule config" and "86400 \<le> MAX_SECONDS K" and "MIN_UTC K \<le> sn_now s"
    and "decide K config s = Some (WaitingFor trigger blockers retry)"
  shows "is_due K config s" and "blockers \<noteq> []" and "b \<in> set blockers \<longleftrightarrow> blocked_by K config s b"
proof (atomize (full), cases rule: decide_cases [OF assms(1,2), of s])
  case (3 wake retry_at trigger')
  with assms(4) decide_blockers(1) [OF assms(1-3) 3(3), of b]
  show "is_due K config s \<and> blockers \<noteq> [] \<and> (b \<in> set blockers \<longleftrightarrow> blocked_by K config s b)"
    by (auto simp: Let_def simp del: blocked_by.simps append_is_Nil_conv set_append split: if_splits)
qed (use assms(4) in auto)

section \<open>Properties\<close>

text \<open>
  C12. With a validated schedule the decision never panics. A backup starts exactly when none is
  running, one is due and nothing holds it back; and when a due backup waits, the reported
  blockers are exactly the conditions that hold it back.
\<close>

theorem decide_start_iff:
  assumes "valid_schedule config" and "86400 \<le> MAX_SECONDS K" and "MIN_UTC K \<le> sn_now s"
  shows "decide K config s \<noteq> None
    \<and> ((\<exists>trigger. decide K config s = Some (Start trigger)) \<longleftrightarrow>
        \<not> sn_backup_running s \<and> is_due K config s \<and> (\<forall>b. \<not> blocked_by K config s b))
    \<and> (\<forall>trigger blockers retry. decide K config s = Some (WaitingFor trigger blockers retry) \<longrightarrow>
        is_due K config s \<and> blockers \<noteq> [] \<and> (\<forall>b. b \<in> set blockers \<longleftrightarrow> blocked_by K config s b))"
  using decide_total [OF assms(1,2), of s] decide_Start_iff [OF assms]
    decide_Waiting_blockers [OF assms] by (simp del: blocked_by.simps)

theorem decide_start_iff_witness:
  "(\<exists>trigger. decide \<lparr>MIN_UTC = 0, MAX_UTC = days 4000, MAX_SECONDS = 86400\<rparr> default_schedule_config
      \<lparr>sn_now = days 10, sn_last_success = Some (days 8), sn_resumed_at = None, sn_not_before = None,
       sn_manual_requested = False, sn_backup_running = False, sn_network_required = True,
       sn_network_available = True, sn_on_battery = True, sn_metered_network = False\<rparr>
     = Some (Start trigger))"
  using decide_start_iff [of default_schedule_config
      "\<lparr>MIN_UTC = 0, MAX_UTC = days 4000, MAX_SECONDS = 86400\<rparr>"
      "\<lparr>sn_now = days 10, sn_last_success = Some (days 8), sn_resumed_at = None, sn_not_before = None,
       sn_manual_requested = False, sn_backup_running = False, sn_network_required = True,
       sn_network_available = True, sn_on_battery = True, sn_metered_network = False\<rparr>"]
  by (simp add: valid_schedule_def default_schedule_config_def duration_defs decide_def
      next_deadline_def completion_deadline_def checked_add_signed_def wake_blocker_def
      condition_blockers_def)

text \<open>
  A success time in the future, left behind by a wrong clock, cannot postpone the backups: an
  idle decision is always within one interval of now, or at the end of the retry delay when that
  is later, and it lies in the future.
\<close>

theorem decide_idle_bounded:
  assumes "decide K config s = Some (IdleUntil t)"
  shows "sn_now s < t \<and> t \<le> max (case sn_not_before s of None \<Rightarrow> sn_now s | Some nb \<Rightarrow> nb)
    (sn_now s + hours (int (unat (sc_interval_hours config))))"
proof -
  have "t = next_deadline K config s" and "sn_now s < t"
    using assms by (auto simp: decide_def Let_def split: if_splits option.splits prod.splits)
  then show ?thesis
    using next_deadline_le [of K config s] by (auto split: option.splits)
qed

theorem decide_idle_bounded_witness:
  "days 10 < days 11 \<and> days 11 \<le> max (days 10) (days 10 + hours 24)"
  using decide_idle_bounded [of "\<lparr>MIN_UTC = 0, MAX_UTC = days 4000, MAX_SECONDS = 86400\<rparr>"
      default_schedule_config
      "\<lparr>sn_now = days 10, sn_last_success = Some (days 3000), sn_resumed_at = None,
       sn_not_before = None, sn_manual_requested = False, sn_backup_running = False,
       sn_network_required = True, sn_network_available = True, sn_on_battery = True,
       sn_metered_network = False\<rparr>" "days 11"]
  by (simp add: default_schedule_config_def duration_defs decide_def
      next_deadline_def completion_deadline_def checked_add_signed_def)

text \<open>
  A manual request is always due and passes the retry delay, the wake grace period and the
  battery rule; only a missing network, or a metered one that the schedule forbids, can hold it
  back.
\<close>

theorem decide_manual:
  assumes "sn_manual_requested s" and "\<not> sn_backup_running s"
  shows "decide K config s =
    Some (if (sn_network_required s \<longrightarrow> sn_network_available s)
             \<and> (sn_metered_network s \<longrightarrow> sc_allow_metered_network config)
          then Start Manual
          else WaitingFor Manual
            ((if sn_network_required s \<and> \<not> sn_network_available s then [NetworkUnavailable] else [])
             @ (if sn_metered_network s \<and> \<not> sc_allow_metered_network config
                then [MeteredNetworkDisallowed] else [])) None)"
  using assms by (auto simp: decide_def wake_blocker_def condition_blockers_def Let_def)

theorem decide_manual_witness:
  "decide \<lparr>MIN_UTC = 0, MAX_UTC = 0, MAX_SECONDS = 0\<rparr>
     (default_schedule_config\<lparr>sc_allow_on_battery := False\<rparr>)
     \<lparr>sn_now = 10, sn_last_success = Some 9, sn_resumed_at = Some 10, sn_not_before = Some 20,
      sn_manual_requested = True, sn_backup_running = False, sn_network_required = True,
      sn_network_available = True, sn_on_battery = True, sn_metered_network = False\<rparr>
   = Some (Start Manual)"
  by (subst decide_manual) simp_all

end
