(* ===== verification/Conditions.thy ===== *)
theory Conditions
  imports Prelude
begin

text \<open>
  \<^verbatim>\<open>apps/resticpal-service/src/conditions.rs\<close>: the power and network conditions of a scheduling
  decision. The answers of the Windows calls are the arguments; a call that fails is \<open>None\<close>. A
  profile carries its connectivity, whether its cost is unrestricted, and its roaming and data
  limit flags.
\<close>

record system_conditions =
  cd_network_available :: bool
  cd_on_battery :: bool
  cd_metered_network :: bool

record connection_profile =
  cp_connected :: "bool option"
  cp_unrestricted :: "bool option"
  cp_roaming :: "bool option"
  cp_over_data_limit :: "bool option"

datatype conditions_error = ConditionsWindows

definition windows_call :: "'a option \<Rightarrow> (conditions_error, 'a) outcome" where
  "windows_call r = ok_or r ConditionsWindows"

text \<open>The disjunction is evaluated from the left and stops at the first true operand.\<close>

definition profile_is_metered :: "connection_profile \<Rightarrow> (conditions_error, bool) outcome" where
  "profile_is_metered p =
     and_then (windows_call (cp_unrestricted p)) (\<lambda>unrestricted.
     if \<not> unrestricted then Ok True
     else and_then (windows_call (cp_roaming p)) (\<lambda>roaming.
     if roaming then Ok True else windows_call (cp_over_data_limit p)))"

fun scan_profiles ::
  "connection_profile list \<Rightarrow> nat \<Rightarrow> bool \<Rightarrow> (conditions_error, nat \<times> bool) outcome" where
  "scan_profiles [] active metered = Ok (active, metered)"
| "scan_profiles (p # ps) active metered =
     and_then (windows_call (cp_connected p)) (\<lambda>connected.
     if \<not> connected then scan_profiles ps active metered
     else and_then (profile_is_metered p) (\<lambda>m. scan_profiles ps (active + 1) (metered \<and> m)))"

definition query_conditions ::
  "u8 option \<Rightarrow> connection_profile list option \<Rightarrow> (conditions_error, system_conditions) outcome" where
  "query_conditions ac_line_status connection_profiles =
     and_then (windows_call ac_line_status) (\<lambda>line.
     and_then (windows_call connection_profiles) (\<lambda>profiles.
     and_then (scan_profiles profiles 0 True) (\<lambda>(active, metered).
     Ok \<lparr>cd_network_available = 0 < active, cd_on_battery = line \<noteq> 1,
         cd_metered_network = 0 < active \<and> metered\<rparr>)))"

definition conservative :: system_conditions where
  "conservative = \<lparr>cd_network_available = False, cd_on_battery = True, cd_metered_network = True\<rparr>"

definition connected :: "connection_profile \<Rightarrow> bool" where
  "connected p \<longleftrightarrow> cp_connected p = Some True"

definition free_of_charge :: "connection_profile \<Rightarrow> bool" where
  "free_of_charge p \<longleftrightarrow>
     cp_unrestricted p = Some True \<and> cp_roaming p = Some False \<and> cp_over_data_limit p = Some False"

lemma profile_is_metered_Ok:
  "profile_is_metered p = Ok m \<Longrightarrow> m \<longleftrightarrow> \<not> free_of_charge p"
  by (auto simp: profile_is_metered_def free_of_charge_def windows_call_def outcome_simps
      split: if_splits)

lemma scan_profiles_Ok:
  "scan_profiles ps n metered = Ok (k, m) \<Longrightarrow>
     k = n + length (filter connected ps)
     \<and> (m \<longleftrightarrow> metered \<and> (\<forall>p \<in> set ps. connected p \<longrightarrow> \<not> free_of_charge p))"
proof (induction ps arbitrary: n metered)
  case (Cons p ps)
  from Cons.prems obtain c where c: "cp_connected p = Some c"
    by (auto simp: outcome_simps windows_call_def)
  show ?case
  proof (cases c)
    case True
    with Cons.prems c obtain m' where m': "profile_is_metered p = Ok m'"
      and rest: "scan_profiles ps (n + 1) (metered \<and> m') = Ok (k, m)"
      by (auto simp: outcome_simps windows_call_def)
    with c True Cons.IH [OF rest] profile_is_metered_Ok [OF m'] show ?thesis
      by (auto simp: connected_def)
  next
    case False
    with Cons c show ?thesis
      by (auto simp: windows_call_def connected_def)
  qed
qed simp

lemma query_conditions_Ok:
  assumes "query_conditions line (Some profiles) = Ok c"
  shows "(cd_network_available c \<longleftrightarrow> (\<exists>p \<in> set profiles. connected p))
    \<and> (cd_on_battery c \<longleftrightarrow> line \<noteq> Some 1)
    \<and> (cd_metered_network c \<longleftrightarrow> (\<exists>p \<in> set profiles. connected p)
         \<and> (\<forall>p \<in> set profiles. connected p \<longrightarrow> \<not> free_of_charge p))"
proof -
  from assms obtain l k m where l: "line = Some l" and scan: "scan_profiles profiles 0 True = Ok (k, m)"
    and c: "c = \<lparr>cd_network_available = 0 < k, cd_on_battery = l \<noteq> 1, cd_metered_network = 0 < k \<and> m\<rparr>"
    by (auto simp: query_conditions_def windows_call_def outcome_simps)
  from scan_profiles_Ok [OF scan] have "0 < k \<longleftrightarrow> (\<exists>p \<in> set profiles. connected p)"
    and "m \<longleftrightarrow> (\<forall>p \<in> set profiles. connected p \<longrightarrow> \<not> free_of_charge p)"
    by (simp_all add: filter_empty_conv)
  with l c show ?thesis by simp
qed

end
