(* ===== verification/Protocol.thy ===== *)
theory Protocol
  imports Status
begin

unbundle bit_operations_syntax

text \<open>
  \<^verbatim>\<open>crates/resticpal-protocol/src/lib.rs\<close>: the messages of the local interface and their framing.
  A frame is a little-endian length and a JSON payload; the JSON library is the pair of arguments
  \<open>to_vec\<close> and \<open>from_slice\<close>.
\<close>

definition PROTOCOL_VERSION :: u32 where "PROTOCOL_VERSION = 4"
definition MAX_FRAME_BYTES :: nat where "MAX_FRAME_BYTES = 1024 * 1024"

section \<open>Messages\<close>

datatype secret_update =
    SetSecret secret_variable string
  | RemoveSecret secret_variable

record update_package =
  up_version :: string
  up_url :: string
  up_signature :: string
  up_length :: u64

datatype request_command =
    GetStatus
  | GetManagement
  | Enroll string
  | Unenroll
  | GetRunHistory u16
  | GetRunFailureDetails u64
  | GetDiagnostics u16
  | GetBackupSources
  | DiscoverBackupSources
  | UpdateBackupSources "path list option" "string list option"
  | GetRepository
  | UpdateRepository "string option" "string option" "repository_mode option"
      "(string, string) btree option" "secret_update list"
  | ValidateRepository
  | InitializeRepository
  | GetSchedule
  | UpdateSchedule "u32 option" "u64 option" "u64 option" "bool option" "bool option"
  | GetRetention
  | UpdateRetention "u32 option" "u32 option" "u32 option" "u32 option" "u32 option"
  | RunBackupNow
  | CancelBackup
  | DeferBackup u32
  | PrepareForUpdate u32
  | GetUpdateSettings
  | UpdateUpdateSettings bool
  | InstallUpdate update_package

record request =
  rq_protocol_version :: u32
  rq_request_id :: u64
  rq_command :: request_command

definition new_request :: "u64 \<Rightarrow> request_command \<Rightarrow> request" where
  "new_request request_id command =
     \<lparr>rq_protocol_version = PROTOCOL_VERSION, rq_request_id = request_id, rq_command = command\<rparr>"

record management_view =
  mv_mode :: management_mode
  mv_enrolled :: bool
  mv_device_id :: "string option"
  mv_manifest_url :: "string option"

record failure_details =
  fd_run_id :: u64
  fd_items :: "string list"
  fd_omitted :: u64

record backup_sources_view =
  bv_paths :: "path list"
  bv_exclusions :: "string list"
  bv_paths_locked :: bool
  bv_exclusions_locked :: bool

datatype discovered_source_kind = Desktop | Documents | Pictures | Videos | Music

record discovered_source =
  ds_profile_name :: string
  ds_kind :: discovered_source_kind
  ds_path :: path

datatype repository_operation_kind = ValidateOp | InitializeOp

datatype repository_operation_status =
    NotRun
  | ValidationRequired
  | OpRunning repository_operation_kind
  | OpSucceeded repository_operation_kind datetime
  | OpFailed repository_operation_kind datetime string

record repository_view =
  rv_display_name :: "string option"
  rv_url :: "string option"
  rv_mode :: repository_mode
  rv_options :: "(string, string) btree"
  rv_configured_secrets :: "secret_variable list"
  rv_operation_status :: repository_operation_status
  rv_display_name_locked :: bool
  rv_url_locked :: bool
  rv_mode_locked :: bool
  rv_options_locked :: bool
  rv_secrets_locked :: bool

record schedule_view =
  sv_interval_hours :: u32
  sv_wake_grace_seconds :: u64
  sv_wake_lock_timeout_seconds :: u64
  sv_allow_on_battery :: bool
  sv_allow_metered_network :: bool
  sv_interval_hours_locked :: bool
  sv_wake_grace_seconds_locked :: bool
  sv_wake_lock_timeout_seconds_locked :: bool
  sv_allow_on_battery_locked :: bool
  sv_allow_metered_network_locked :: bool

record retention_view =
  tv_repository_mode :: repository_mode
  tv_daily :: u32
  tv_weekly :: u32
  tv_monthly :: u32
  tv_yearly :: u32
  tv_prune_interval_days :: u32
  tv_daily_locked :: bool
  tv_weekly_locked :: bool
  tv_monthly_locked :: bool
  tv_yearly_locked :: bool
  tv_prune_interval_days_locked :: bool
  tv_last_retention :: "datetime option"
  tv_last_prune :: "datetime option"
  tv_last_error :: "string option"

record update_settings_view =
  uv_automatic_install :: bool
  uv_automatic_install_locked :: bool

datatype diagnostic_level = Information | Warning | Error

record diagnostic_entry =
  de_timestamp :: datetime
  de_level :: diagnostic_level
  de_event_id :: string
  de_message :: string
  de_code :: "string option"

datatype response_payload =
    StatusResponse service_status
  | ManagementResponse management_view
  | RunHistoryResponse "run_record list"
  | RunFailureDetailsResponse failure_details
  | BackupSourcesResponse backup_sources_view
  | DiscoveredBackupSourcesResponse "discovered_source list"
  | RepositoryResponse repository_view
  | ScheduleResponse schedule_view
  | RetentionResponse retention_view
  | UpdateSettingsResponse update_settings_view
  | DiagnosticsResponse "diagnostic_entry list"
  | Accepted string
  | Rejected string string

record response =
  rp_protocol_version :: u32
  rp_request_id :: u64
  rp_payload :: response_payload

definition new_response :: "u64 \<Rightarrow> response_payload \<Rightarrow> response" where
  "new_response request_id payload =
     \<lparr>rp_protocol_version = PROTOCOL_VERSION, rp_request_id = request_id, rp_payload = payload\<rparr>"

definition incompatible :: "u64 \<Rightarrow> u32 \<Rightarrow> response" where
  "incompatible request_id received_version =
     new_response request_id
       (Rejected ''incompatible_protocol''
         (''client protocol '' @ decimal (unat received_version)
          @ '' is incompatible with service protocol '' @ decimal (unat PROTOCOL_VERSION)))"

section \<open>Frames\<close>

datatype frame_error = Io | Json | TooLarge nat | InvalidLength nat

text \<open>
  A writer is the bytes it has taken and the number of bytes it still takes before its transport
  fails; a reader is the bytes still to come. \<^verbatim>\<open>read_exact\<close> consumes what there is when it fails.
\<close>

record writer =
  w_bytes :: "u8 list"
  w_left :: "nat option"

definition write_all :: "u8 list \<Rightarrow> writer \<Rightarrow> (frame_error, unit) outcome \<times> writer" where
  "write_all bs w =
     (case w_left w of
        None \<Rightarrow> (Ok (), w\<lparr>w_bytes := w_bytes w @ bs\<rparr>)
      | Some n \<Rightarrow>
          if length bs \<le> n then (Ok (), w\<lparr>w_bytes := w_bytes w @ bs, w_left := Some (n - length bs)\<rparr>)
          else (Err Io, w\<lparr>w_bytes := w_bytes w @ take n bs, w_left := Some 0\<rparr>))"

definition read_exact :: "nat \<Rightarrow> u8 list \<Rightarrow> (frame_error, u8 list) outcome \<times> u8 list" where
  "read_exact n bs = (if length bs < n then (Err Io, []) else (Ok (take n bs), drop n bs))"

definition to_le_bytes :: "u32 \<Rightarrow> u8 list" where
  "to_le_bytes w = map (\<lambda>i. ucast (drop_bit (8 * i) w)) [0, 1, 2, 3]"

definition from_le_bytes :: "u8 list \<Rightarrow> u32" where
  "from_le_bytes bs = foldr (\<lambda>b w. ucast b OR push_bit 8 w) bs 0"

definition write_frame ::
  "('a \<Rightarrow> u8 list option) \<Rightarrow> 'a \<Rightarrow> writer \<Rightarrow> (frame_error, unit) outcome \<times> writer" where
  "write_frame to_vec v w =
     io_then (ok_or (to_vec v) Json, w) (\<lambda>payload w.
     io_then (ensure (\<not> MAX_FRAME_BYTES < length payload) (TooLarge (length payload)), w) (\<lambda>_ w.
     io_then (or_panic (if length payload < 2 ^ 32 then Some (of_nat (length payload)) else None), w)
       (\<lambda>len w.
     io_then (write_all (to_le_bytes len) w) (\<lambda>_ w.
     write_all payload w))))"

definition read_frame ::
  "(u8 list \<Rightarrow> 'a option) \<Rightarrow> u8 list \<Rightarrow> (frame_error, 'a) outcome \<times> u8 list" where
  "read_frame from_slice bs =
     io_then (read_exact 4 bs) (\<lambda>header bs.
     let n = unat (from_le_bytes header) in
     io_then (ensure (\<not> (n = 0 \<or> MAX_FRAME_BYTES < n)) (InvalidLength n), bs) (\<lambda>_ bs.
     io_then (read_exact n bs) (\<lambda>payload bs.
     (ok_or (from_slice payload) Json, bs))))"

text \<open>A connection writes and reads several frames in turn.\<close>

fun write_frames ::
  "('a \<Rightarrow> u8 list option) \<Rightarrow> 'a list \<Rightarrow> writer \<Rightarrow> (frame_error, unit) outcome \<times> writer" where
  "write_frames to_vec [] w = (Ok (), w)"
| "write_frames to_vec (v # vs) w =
     io_then (write_frame to_vec v w) (\<lambda>_ w. write_frames to_vec vs w)"

fun read_frames ::
  "(u8 list \<Rightarrow> 'a option) \<Rightarrow> nat \<Rightarrow> u8 list \<Rightarrow> (frame_error, 'a list) outcome \<times> u8 list" where
  "read_frames from_slice 0 bs = (Ok [], bs)"
| "read_frames from_slice (Suc n) bs =
     io_then (read_frame from_slice bs) (\<lambda>v bs.
     io_then (read_frames from_slice n bs) (\<lambda>vs bs. (Ok (v # vs), bs)))"

lemma length_to_le_bytes [simp]: "length (to_le_bytes w) = 4"
  by (simp add: to_le_bytes_def)

lemma from_to_le_bytes [simp]: "from_le_bytes (to_le_bytes w) = w"
proof (rule bit_word_eqI)
  fix n
  assume "n < LENGTH(32)"
  then consider "n < 8" | "8 \<le> n" "n < 16" | "16 \<le> n" "n < 24" | "24 \<le> n" "n < 32"
    by fastforce
  then show "bit (from_le_bytes (to_le_bytes w)) n \<longleftrightarrow> bit w n"
    by cases (auto simp: to_le_bytes_def from_le_bytes_def bit_simps less_diff_conv2)
qed

lemma to_from_le_bytes: "length bs = 4 \<Longrightarrow> to_le_bytes (from_le_bytes bs) = bs"
proof -
  assume "length bs = 4"
  then obtain a b c d where "bs = [a, b, c, d]"
    by (auto simp: numeral_eq_Suc length_Suc_conv)
  moreover have "ucast (from_le_bytes [a, b, c, d]) = a"
    "ucast (drop_bit 8 (from_le_bytes [a, b, c, d])) = b"
    "ucast (drop_bit 16 (from_le_bytes [a, b, c, d])) = c"
    "ucast (drop_bit 24 (from_le_bytes [a, b, c, d])) = d"
    by (rule bit_word_eqI, auto simp: from_le_bytes_def bit_simps dest: bit_imp_le_length)+
  ultimately show ?thesis
    by (simp add: to_le_bytes_def)
qed

lemma write_all_OkD:
  "write_all bs w = (Ok u, w') \<Longrightarrow> w_bytes w' = w_bytes w @ bs"
  by (auto simp: write_all_def split: option.splits if_splits)

lemma write_all_no_panic: "fst (write_all bs w) \<noteq> Panic"
  by (auto simp: write_all_def split: option.splits)

lemma read_exact_append [simp]: "n = length bs \<Longrightarrow> read_exact n (bs @ rest) = (Ok bs, rest)"
  by (simp add: read_exact_def)

lemma read_exact_OkD: "read_exact n bs = (Ok xs, rest) \<Longrightarrow> bs = xs @ rest \<and> length xs = n"
  by (auto simp: read_exact_def split: if_splits)

definition encoded_frame :: "u8 list \<Rightarrow> u8 list" where
  "encoded_frame payload = to_le_bytes (of_nat (length payload)) @ payload"

lemma unat_frame_length:
  "n \<le> MAX_FRAME_BYTES \<Longrightarrow> unat (of_nat n :: u32) = n"
  by (simp add: MAX_FRAME_BYTES_def unsigned_of_nat take_bit_nat_eq_self)

lemma write_frame_OkD:
  assumes "write_frame to_vec v w = (Ok u, w')"
  obtains payload where "to_vec v = Some payload" "length payload \<le> MAX_FRAME_BYTES"
    "w_bytes w' = w_bytes w @ encoded_frame payload"
  using assms that
  by (auto simp: write_frame_def outcome_simps encoded_frame_def not_less
      dest!: write_all_OkD split: if_splits)

lemma read_encoded_frame:
  assumes "payload \<noteq> []" and "length payload \<le> MAX_FRAME_BYTES" and "from_slice payload = Some v"
  shows "read_frame from_slice (encoded_frame payload @ rest) = (Ok v, rest)"
  using assms by (simp add: read_frame_def encoded_frame_def unat_frame_length)

lemma write_frames_OkD:
  assumes "write_frames to_vec vs w = (Ok u, w')"
    and "\<And>v b. v \<in> set vs \<Longrightarrow> to_vec v = Some b \<Longrightarrow> b \<noteq> [] \<and> from_slice b = Some v"
  shows "\<exists>bs. w_bytes w' = w_bytes w @ bs
    \<and> (\<forall>rest. read_frames from_slice (length vs) (bs @ rest) = (Ok vs, rest))"
  using assms
proof (induction vs arbitrary: w)
  case Nil
  then show ?case by simp
next
  case (Cons v vs)
  obtain w1 where w1: "write_frame to_vec v w = (Ok (), w1)" "write_frames to_vec vs w1 = (Ok u, w')"
    using Cons.prems(1) by (auto simp: outcome_simps)
  obtain payload where payload: "to_vec v = Some payload" "length payload \<le> MAX_FRAME_BYTES"
      "w_bytes w1 = w_bytes w @ encoded_frame payload"
    using write_frame_OkD [OF w1(1)] .
  obtain bs where bs: "w_bytes w' = w_bytes w1 @ bs"
      "\<forall>rest. read_frames from_slice (length vs) (bs @ rest) = (Ok vs, rest)"
    using Cons.IH [OF w1(2)] Cons.prems(2) by auto
  have "read_frame from_slice (encoded_frame payload @ bs @ rest) = (Ok v, bs @ rest)" for rest
    using Cons.prems(2) [of v payload] payload by (simp add: read_encoded_frame)
  with bs payload(3) show ?case
    by (intro exI [of _ "encoded_frame payload @ bs"]) simp
qed

lemma read_frame_no_panic: "fst (read_frame from_slice bs) \<noteq> Panic"
  by (auto simp: read_frame_def read_exact_def Let_def ensure_def ok_or_def split: option.split)

lemma write_frame_no_panic: "fst (write_frame to_vec v w) \<noteq> Panic"
proof
  assume "fst (write_frame to_vec v w) = Panic"
  then obtain w' where "write_frame to_vec v w = (Panic, w')"
    by (cases "write_frame to_vec v w") simp
  then obtain bs w1 w2 where "write_all bs w1 = (Panic, w2)"
    by (auto simp: write_frame_def outcome_simps MAX_FRAME_BYTES_def split: if_splits)
  with write_all_no_panic [of bs w1] show False
    by simp
qed

lemma read_frame_OkD:
  assumes "read_frame from_slice bs = (Ok v, rest)"
  shows "\<exists>payload. bs = encoded_frame payload @ rest \<and> from_slice payload = Some v
    \<and> payload \<noteq> [] \<and> length payload \<le> MAX_FRAME_BYTES"
proof -
  obtain header bs' payload where r: "read_exact 4 bs = (Ok header, bs')"
    "read_exact (unat (from_le_bytes header)) bs' = (Ok payload, rest)"
    "unat (from_le_bytes header) \<noteq> 0" "unat (from_le_bytes header) \<le> MAX_FRAME_BYTES"
    "from_slice payload = Some v"
    using assms by (auto simp: read_frame_def outcome_simps Let_def not_less)
  then have "of_nat (length payload) = from_le_bytes header" and "length header = 4"
    by (auto dest!: read_exact_OkD)
  with r show ?thesis
    by (intro exI [of _ payload])
      (auto simp: encoded_frame_def to_from_le_bytes dest!: read_exact_OkD)
qed

lemma read_frame_InvalidLengthD:
  "read_frame from_slice bs = (Err (InvalidLength n), rest) \<Longrightarrow> rest = drop 4 bs"
  by (auto simp: read_frame_def outcome_simps Let_def read_exact_def split: if_splits)

section \<open>Properties\<close>

text \<open>
  C18. Messages survive the framing: whatever sequence of messages one side writes without an
  error, over a transport that may fail at any byte, the other side reads back as the same
  sequence, leaving the bytes that follow untouched. The JSON library is assumed to decode what it
  encoded and never to encode to nothing.
\<close>

theorem frames_roundtrip:
  assumes "\<And>v b. v \<in> set vs \<Longrightarrow> to_vec v = Some b \<Longrightarrow> b \<noteq> [] \<and> from_slice b = Some v"
    and "write_frames to_vec vs w = (Ok (), w')"
  shows "\<exists>bs. w_bytes w' = w_bytes w @ bs
    \<and> (\<forall>rest. read_frames from_slice (length vs) (bs @ rest) = (Ok vs, rest))"
  using write_frames_OkD [OF assms(2)] assms(1) by blast

theorem frames_roundtrip_witness:
  "\<exists>bs. w_bytes \<lparr>w_bytes = [2, 0, 0, 0, 7, 7, 1, 0, 0, 0, 9], w_left = Some 0\<rparr>
       = w_bytes \<lparr>w_bytes = [], w_left = Some 11\<rparr> @ bs
     \<and> (\<forall>rest. read_frames Some (length [[7, 7], [9 :: u8]]) (bs @ rest) = (Ok [[7, 7], [9]], rest))"
  by (rule frames_roundtrip [where to_vec = Some])
    (auto simp: write_frame_def write_all_def to_le_bytes_def MAX_FRAME_BYTES_def)

text \<open>
  Reading a frame never panics and never asks for more than the frame limit: a header that
  announces nothing or too much is refused before any payload byte is taken, and a message is
  returned only when the bytes are exactly one frame of the announced length that the decoder
  accepts. Writing never panics either, and an oversized message writes nothing.
\<close>

theorem frame_bounds:
  "fst (read_frame from_slice bs) \<noteq> Panic \<and> fst (write_frame to_vec v w) \<noteq> Panic
   \<and> (\<forall>payload. to_vec v = Some payload \<longrightarrow> MAX_FRAME_BYTES < length payload \<longrightarrow>
        write_frame to_vec v w = (Err (TooLarge (length payload)), w))
   \<and> (\<forall>n rest. read_frame from_slice bs = (Err (InvalidLength n), rest) \<longrightarrow> rest = drop 4 bs)
   \<and> (\<forall>v rest. read_frame from_slice bs = (Ok v, rest) \<longrightarrow>
        (\<exists>payload. bs = encoded_frame payload @ rest \<and> from_slice payload = Some v
           \<and> payload \<noteq> [] \<and> length payload \<le> MAX_FRAME_BYTES))"
  using read_frame_no_panic write_frame_no_panic read_frame_OkD read_frame_InvalidLengthD
  by (fastforce simp: write_frame_def)

theorem frame_bounds_witness:
  "write_frame Some (replicate (MAX_FRAME_BYTES + 1) 0) \<lparr>w_bytes = [], w_left = None\<rparr>
     = (Err (TooLarge (MAX_FRAME_BYTES + 1)), \<lparr>w_bytes = [], w_left = None\<rparr>)"
  using frame_bounds [of "Some :: u8 list \<Rightarrow> u8 list option" "[]" Some
      "replicate (MAX_FRAME_BYTES + 1) 0" "\<lparr>w_bytes = [], w_left = None\<rparr>"]
  by simp

end
