(* ===== verification/Restic.thy ===== *)
theory Restic
  imports Config
begin

text \<open>
  \<^verbatim>\<open>crates/resticpal-core/src/restic.rs\<close>: the command lines given to restic, the operations a
  repository mode permits, and the lexical test that keeps the data directory of the service out
  of the backup sources. The Unicode lower-casing table is the argument \<open>lower\<close>.
\<close>

section \<open>Operations\<close>

datatype restic_operation =
    Backup
  | Unlock
  | Probe
  | Snapshots
  | Check
  | Initialize
  | Forget
  | Prune
  | Rewrite
  | Migrate
  | Repair
  | RemoveKey

fun allowed_in :: "restic_operation \<Rightarrow> repository_mode \<Rightarrow> bool" where
  "allowed_in operation Standard = True"
| "allowed_in operation AppendOnly \<longleftrightarrow> operation \<in> {Backup, Unlock, Probe, Snapshots, Check}"

record invocation =
  iv_operation :: restic_operation
  iv_executable :: path
  iv_arguments :: "string list"
  iv_environment :: "(string, string) btree"
  iv_secret_environment :: "(secret_variable, string) btree"

datatype invocation_error =
    InvalidConfiguration config_validation_error
  | MissingRepository
  | NoBackupPaths
  | SnapshotDisablingOption string
  | ProtectedBackupSource
  | UnsupportedBackupSourceNamespace
  | UnsupportedNetworkBackupSource
  | ForbiddenByRepositoryMode repository_mode restic_operation
  | NotInspectionOperation restic_operation
  | NotRepositorySetupOperation restic_operation
  | NotRetentionOperation restic_operation

definition authorize_operation ::
  "repository_mode \<Rightarrow> restic_operation \<Rightarrow> (invocation_error, unit) outcome" where
  "authorize_operation mode operation =
     (if allowed_in operation mode then Ok ()
      else Err (ForbiddenByRepositoryMode mode operation))"

definition repository_options :: "effective_config \<Rightarrow> string list" where
  "repository_options c =
     concat (map (\<lambda>(key, val). [''--option'', key @ ''='' @ val]) (rc_options (ec_repository c)))"

definition reject_snapshot_disabling_options ::
  "effective_config \<Rightarrow> (invocation_error, unit) outcome" where
  "reject_snapshot_disabling_options c =
     (case find repository_option_disables_source_snapshots (bt_keys (rc_options (ec_repository c))) of
        Some opt \<Rightarrow> Err (SnapshotDisablingOption opt)
      | None \<Rightarrow> Ok ())"

section \<open>Protected directories\<close>

fun normalized_windows_prefix :: "(string \<Rightarrow> string) \<Rightarrow> path_prefix \<Rightarrow> string" where
  "normalized_windows_prefix lower (Disk d) = ''disk:'' @ [ascii_lower d]"
| "normalized_windows_prefix lower (VerbatimDisk d) = ''disk:'' @ [ascii_lower d]"
| "normalized_windows_prefix lower (UNC server share) = ''unc:'' @ lower server @ ''/'' @ lower share"
| "normalized_windows_prefix lower (VerbatimUNC server share) =
     ''unc:'' @ lower server @ ''/'' @ lower share"
| "normalized_windows_prefix lower (DeviceNS device) = ''device:'' @ lower device"
| "normalized_windows_prefix lower (Verbatim v) = ''verbatim:'' @ lower v"

text \<open>The loop over the components: the names so far and the length below which \<open>..\<close> fails.\<close>

fun normalize_components ::
  "(string \<Rightarrow> string) \<Rightarrow> string list \<Rightarrow> nat \<Rightarrow> path_component list \<Rightarrow> string list option" where
  "normalize_components lower normalized base [] = Some normalized"
| "normalize_components lower normalized base (c # cs) =
     (case c of
        Prefix p \<Rightarrow>
          normalize_components lower (normalized @ [normalized_windows_prefix lower p])
            (length normalized + 1) cs
      | RootDir \<Rightarrow>
          normalize_components lower (normalized @ [''root'']) (length normalized + 1) cs
      | CurDir \<Rightarrow> normalize_components lower normalized base cs
      | ParentDir \<Rightarrow>
          if length normalized \<le> base then None
          else normalize_components lower (butlast normalized) base cs
      | Normal v \<Rightarrow>
          normalize_components lower (normalized @ [''name:'' @ lower v]) base cs)"

definition normalized_windows_path :: "(string \<Rightarrow> string) \<Rightarrow> path \<Rightarrow> string list option" where
  "normalized_windows_path lower p =
     (if \<not> is_absolute p then None else normalize_components lower [] 0 (components p))"

definition windows_path_is_same_or_descendant :: "(string \<Rightarrow> string) \<Rightarrow> path \<Rightarrow> path \<Rightarrow> bool" where
  "windows_path_is_same_or_descendant lower p directory =
     (case normalized_windows_path lower p of
        None \<Rightarrow> False
      | Some ps \<Rightarrow>
          (case normalized_windows_path lower directory of
             None \<Rightarrow> False
           | Some ds \<Rightarrow> length ds \<le> length ps \<and> list_all (\<lambda>(x, y). x = y) (zip ps ds)))"

section \<open>Command lines\<close>

definition validated :: "effective_config \<Rightarrow> (invocation_error, unit) outcome" where
  "validated c = map_err InvalidConfiguration (validate c)"

definition repository_invocation ::
  "path \<Rightarrow> effective_config \<Rightarrow> restic_operation \<Rightarrow> string \<Rightarrow> string list \<Rightarrow> invocation" where
  "repository_invocation executable c operation repository arguments =
     \<lparr>iv_operation = operation, iv_executable = executable, iv_arguments = arguments,
      iv_environment = [(''RESTIC_REPOSITORY'', repository)],
      iv_secret_environment = rc_secret_refs (ec_repository c)\<rparr>"

definition backup_with_required_exclusions ::
  "(string \<Rightarrow> string) \<Rightarrow> path \<Rightarrow> effective_config \<Rightarrow> path list \<Rightarrow> (invocation_error, invocation) outcome"
where
  "backup_with_required_exclusions lower executable c exclusions =
     and_then (authorize_operation (rc_mode (ec_repository c)) Backup) (\<lambda>_.
     and_then (reject_snapshot_disabling_options c) (\<lambda>_.
     and_then (validated c) (\<lambda>_.
     and_then (ok_or (rc_url (ec_repository c)) MissingRepository) (\<lambda>repository.
     and_then (ensure (bc_paths (ec_backup c) \<noteq> []) NoBackupPaths) (\<lambda>_.
     and_then (ensure (\<not> list_ex (\<lambda>source. list_ex (\<lambda>protected.
         windows_path_is_same_or_descendant lower source protected) exclusions)
         (bc_paths (ec_backup c))) ProtectedBackupSource) (\<lambda>_.
     Ok (repository_invocation executable c Backup repository
       (repository_options c
        @ [''--cleanup-cache'', ''backup'', ''--json'', ''--use-fs-snapshot'']
        @ concat (map (\<lambda>exclusion. [''--exclude'', exclusion]) (bc_exclusions (ec_backup c)))
        @ concat (map (\<lambda>exclusion. [''--iexclude'', exclusion]) exclusions)
        @ bc_paths (ec_backup c)))))))))"

definition backup_command ::
  "(string \<Rightarrow> string) \<Rightarrow> path \<Rightarrow> effective_config \<Rightarrow> (invocation_error, invocation) outcome" where
  "backup_command lower executable c = backup_with_required_exclusions lower executable c []"

definition unlock_command :: "path \<Rightarrow> effective_config \<Rightarrow> (invocation_error, invocation) outcome" where
  "unlock_command executable c =
     and_then (authorize_operation (rc_mode (ec_repository c)) Unlock) (\<lambda>_.
     and_then (validated c) (\<lambda>_.
     and_then (ok_or (rc_url (ec_repository c)) MissingRepository) (\<lambda>repository.
     Ok (repository_invocation executable c Unlock repository (repository_options c @ [''unlock''])))))"

definition inspection ::
  "path \<Rightarrow> effective_config \<Rightarrow> restic_operation \<Rightarrow> (invocation_error, invocation) outcome" where
  "inspection executable c operation =
     and_then (ensure (operation \<in> {Snapshots, Check}) (NotInspectionOperation operation)) (\<lambda>_.
     and_then (authorize_operation (rc_mode (ec_repository c)) operation) (\<lambda>_.
     and_then (validated c) (\<lambda>_.
     and_then (ok_or (rc_url (ec_repository c)) MissingRepository) (\<lambda>repository.
     case operation of
       Snapshots \<Rightarrow> Ok (repository_invocation executable c operation repository
         (repository_options c @ [''snapshots'', ''--json'']))
     | Check \<Rightarrow> Ok (repository_invocation executable c operation repository
         (repository_options c @ [''check'', ''--json'']))
     | _ \<Rightarrow> Panic))))"

definition repository_setup ::
  "path \<Rightarrow> effective_config \<Rightarrow> restic_operation \<Rightarrow> (invocation_error, invocation) outcome" where
  "repository_setup executable c operation =
     and_then (ensure (operation \<in> {Probe, Initialize}) (NotRepositorySetupOperation operation)) (\<lambda>_.
     and_then (authorize_operation (rc_mode (ec_repository c)) operation) (\<lambda>_.
     and_then (validated c) (\<lambda>_.
     and_then (ok_or (rc_url (ec_repository c)) MissingRepository) (\<lambda>repository.
     case operation of
       Probe \<Rightarrow> Ok (repository_invocation executable c operation repository
         (repository_options c @ [''cat'', ''config'']))
     | Initialize \<Rightarrow> Ok (repository_invocation executable c operation repository
         (repository_options c @ [''init'']))
     | _ \<Rightarrow> Panic))))"

definition retention_command ::
  "path \<Rightarrow> effective_config \<Rightarrow> restic_operation \<Rightarrow> (invocation_error, invocation) outcome" where
  "retention_command executable c operation =
     and_then (ensure (operation \<in> {Forget, Prune}) (NotRetentionOperation operation)) (\<lambda>_.
     and_then (authorize_operation (rc_mode (ec_repository c)) operation) (\<lambda>_.
     and_then (validated c) (\<lambda>_.
     and_then (ok_or (rc_url (ec_repository c)) MissingRepository) (\<lambda>repository.
     case operation of
       Forget \<Rightarrow> Ok (repository_invocation executable c operation repository
         (repository_options c
          @ [''forget'',
             ''--keep-daily'', decimal (unat (tc_daily (ec_retention c))),
             ''--keep-weekly'', decimal (unat (tc_weekly (ec_retention c))),
             ''--keep-monthly'', decimal (unat (tc_monthly (ec_retention c))),
             ''--keep-yearly'', decimal (unat (tc_yearly (ec_retention c)))]))
     | Prune \<Rightarrow> Ok (repository_invocation executable c operation repository
         (repository_options c @ [''prune'']))
     | _ \<Rightarrow> Panic))))"

section \<open>Lexical containment\<close>

text \<open>
  Two components are the same to Windows when they differ only in letter case or in the verbatim
  spelling of the prefix.
\<close>

fun same_component :: "(string \<Rightarrow> string) \<Rightarrow> path_component \<Rightarrow> path_component \<Rightarrow> bool" where
  "same_component lower (Prefix p) (Prefix q) \<longleftrightarrow>
     normalized_windows_prefix lower p = normalized_windows_prefix lower q"
| "same_component lower (Normal v) (Normal w) \<longleftrightarrow> lower v = lower w"
| "same_component lower RootDir RootDir \<longleftrightarrow> True"
| "same_component lower CurDir CurDir \<longleftrightarrow> True"
| "same_component lower ParentDir ParentDir \<longleftrightarrow> True"
| "same_component lower _ _ \<longleftrightarrow> False"

lemma same_component_refl [simp]: "same_component lower c c"
  by (cases c) simp_all



lemma list_all_zip_prefix:
  "length ds \<le> length ps \<and> list_all (\<lambda>(x, y). x = y) (zip ps ds) \<longleftrightarrow> prefix ds ps"
proof (induction ds arbitrary: ps)
  case (Cons d ds)
  then show ?case by (cases ps) auto
qed simp

lemma descendant_iff:
  "windows_path_is_same_or_descendant lower p d \<longleftrightarrow>
     (\<exists>ps ds. normalized_windows_path lower p = Some ps \<and> normalized_windows_path lower d = Some ds
        \<and> prefix ds ps)"
  by (auto simp: windows_path_is_same_or_descendant_def list_all_zip_prefix split: option.splits)

lemma descendant_refl:
  "normalized_windows_path lower p \<noteq> None \<Longrightarrow> windows_path_is_same_or_descendant lower p p"
  by (auto simp: descendant_iff)

lemma descendant_trans:
  "windows_path_is_same_or_descendant lower p q \<Longrightarrow> windows_path_is_same_or_descendant lower q r \<Longrightarrow>
   windows_path_is_same_or_descendant lower p r"
  by (force simp: descendant_iff intro: prefix_order.trans)


section \<open>Built invocations\<close>

inductive built :: "(string \<Rightarrow> string) \<Rightarrow> path \<Rightarrow> effective_config \<Rightarrow> invocation \<Rightarrow> bool"
  for lower :: "string \<Rightarrow> string" and executable :: path and c :: effective_config where
  built_backup: "backup_with_required_exclusions lower executable c exclusions = Ok i \<Longrightarrow>
    built lower executable c i"
| built_unlock: "unlock_command executable c = Ok i \<Longrightarrow> built lower executable c i"
| built_inspection: "inspection executable c operation = Ok i \<Longrightarrow> built lower executable c i"
| built_setup: "repository_setup executable c operation = Ok i \<Longrightarrow> built lower executable c i"
| built_retention: "retention_command executable c operation = Ok i \<Longrightarrow> built lower executable c i"

fun command_words :: "restic_operation \<Rightarrow> string list" where
  "command_words Backup = [''--cleanup-cache'', ''backup'', ''--json'', ''--use-fs-snapshot'']"
| "command_words Unlock = [''unlock'']"
| "command_words Snapshots = [''snapshots'', ''--json'']"
| "command_words Check = [''check'', ''--json'']"
| "command_words Probe = [''cat'', ''config'']"
| "command_words Initialize = [''init'']"
| "command_words Forget = [''forget'']"
| "command_words Prune = [''prune'']"
| "command_words _ = []"

definition well_built :: "effective_config \<Rightarrow> invocation \<Rightarrow> bool" where
  "well_built c i \<longleftrightarrow>
     validate c = Ok () \<and> allowed_in (iv_operation i) (rc_mode (ec_repository c))
     \<and> command_words (iv_operation i) \<noteq> []
     \<and> (\<exists>rest. iv_arguments i = repository_options c @ command_words (iv_operation i) @ rest
          \<and> (iv_operation i \<notin> {Backup, Forget} \<longrightarrow> rest = []))
     \<and> bt_get (iv_environment i) ''RESTIC_REPOSITORY'' = rc_url (ec_repository c)
     \<and> iv_secret_environment i = rc_secret_refs (ec_repository c)"

lemma authorize_Ok_iff [outcome_simps]: "authorize_operation mode op = Ok u \<longleftrightarrow> allowed_in op mode"
  by (simp add: authorize_operation_def)

lemmas command_simps = outcome_simps validated_def repository_invocation_def well_built_def bt_get_def

lemma backup_well_built:
  "backup_with_required_exclusions lower executable c exclusions = Ok i \<Longrightarrow> well_built c i"
  by (auto simp: backup_with_required_exclusions_def command_simps)

lemma unlock_well_built: "unlock_command executable c = Ok i \<Longrightarrow> well_built c i"
  by (auto simp: unlock_command_def command_simps)

lemma inspection_well_built: "inspection executable c operation = Ok i \<Longrightarrow> well_built c i"
  by (auto simp: inspection_def command_simps)

lemma setup_well_built: "repository_setup executable c operation = Ok i \<Longrightarrow> well_built c i"
  by (auto simp: repository_setup_def command_simps)

lemma retention_well_built: "retention_command executable c operation = Ok i \<Longrightarrow> well_built c i"
  by (auto simp: retention_command_def command_simps)

lemma built_well_built: "built lower executable c i \<Longrightarrow> well_built c i"
  by (induction rule: built.induct)
    (simp_all add: backup_well_built unlock_well_built inspection_well_built setup_well_built
      retention_well_built)

lemma absolute_not_flag: "is_absolute p \<Longrightarrow> \<not> prefix ''-'' p"
  by (cases p) (auto simp: is_absolute_def parse_prefix_def is_sep_def ascii_simps
      elim!: parse_drive.elims split: option.splits if_splits)

text \<open>A small configured machine, for the concrete instances of the properties.\<close>

definition sample_source :: path where
  "sample_source = [CHR ''C'', CHR '':'', backslash, CHR ''u'']"

definition sample_config :: effective_config where
  "sample_config = default_effective_config
     \<lparr>ec_backup := \<lparr>bc_paths = [sample_source], bc_exclusions = [''x'']\<rparr>,
      ec_repository := \<lparr>rc_display_name = None, rc_url = Some ''r'', rc_mode = AppendOnly,
        rc_options = [(''o'', ''v'')], rc_secret_refs = [(ResticPassword, ''p'')]\<rparr>\<rparr>"

lemma sample_source_components:
  "components sample_source = [Prefix (Disk CHR ''C''), RootDir, Normal ''u'']"
  "is_absolute sample_source" "parse_prefix sample_source = Some (Disk CHR ''C'')"
  by (simp_all add: sample_source_def components_def is_absolute_def parse_prefix_def is_sep_def
      has_physical_root_def body_components_def List.map_filter_def single_component_def
      ascii_upper_def ascii_simps)

lemma sample_config_valid: "valid_config sample_config"
  by (auto simp: sample_config_def valid_config_def default_effective_config_def
      default_schedule_config_def default_retention_config_def valid_schedule_def
      valid_retention_def local_drive_def sample_source_components single_line_def chars_count_def
      utf16_count_def is_continuation_def safe_option_def eq_ignore_ascii_case_def
      to_ascii_lowercase_def ascii_simps is_valid_secret_reference_def config_limits bt_values_def
      trim_printable printable_def, simp_all add: sample_source_def is_continuation_def)

lemma sample_directory:
  "components (CHR ''C'' # CHR '':'' # backslash # [CHR ''d'']) =
     [Prefix (Disk CHR ''C''), RootDir, Normal ''d'']"
  "is_absolute (CHR ''C'' # CHR '':'' # backslash # [CHR ''d''])"
  by (simp_all add: absolute_disk_path body_components_def List.map_filter_def is_sep_def
      single_component_def ascii_upper_def ascii_simps)

lemmas sample_config_simps = sample_config_def default_effective_config_def

lemma sample_backup:
  "backup_with_required_exclusions id ''restic'' sample_config [[CHR ''C'', CHR '':'', backslash, CHR ''d'']]
     = Ok (repository_invocation ''restic'' sample_config Backup ''r''
         [''--option'', ''o=v'', ''--cleanup-cache'', ''backup'', ''--json'', ''--use-fs-snapshot'',
          ''--exclude'', ''x'', ''--iexclude'', [CHR ''C'', CHR '':'', backslash, CHR ''d''], sample_source])"
  using sample_config_valid
  by (simp add: backup_with_required_exclusions_def command_simps validate_Ok_iff
      windows_path_is_same_or_descendant_def normalized_windows_path_def sample_directory
      sample_source_components sample_config_simps repository_options_def
      reject_snapshot_disabling_options_def repository_option_disables_source_snapshots_def
      eq_ignore_ascii_case_def to_ascii_lowercase_def ascii_lower_def ascii_simps bt_keys_def)

section \<open>Properties\<close>

text \<open>
  C3. Whatever the service asks for, a command line for an append-only repository is one of
  backup, unlock, probe, snapshots and check: no command that rewrites or removes repository data
  is ever built for it. Every command line starts with the repository options and then exactly the
  words of its operation, so the lock removal never carries an option that would break the lock of
  another client; and the repository and the secret references are those of the configuration.
\<close>

theorem append_only_is_preserved:
  assumes "built lower executable c i"
  shows "(rc_mode (ec_repository c) = AppendOnly \<longrightarrow>
      iv_operation i \<in> {Backup, Unlock, Probe, Snapshots, Check})
    \<and> (iv_operation i = Unlock \<longrightarrow> iv_arguments i = repository_options c @ [''unlock''])
    \<and> (\<exists>rest. iv_arguments i = repository_options c @ command_words (iv_operation i) @ rest)
    \<and> bt_get (iv_environment i) ''RESTIC_REPOSITORY'' = rc_url (ec_repository c)
    \<and> iv_secret_environment i = rc_secret_refs (ec_repository c)"
  using built_well_built [OF assms] by (auto simp: well_built_def)

theorem append_only_is_preserved_witness:
  "iv_operation (repository_invocation ''restic'' sample_config Backup ''r''
         [''--option'', ''o=v'', ''--cleanup-cache'', ''backup'', ''--json'', ''--use-fs-snapshot'',
          ''--exclude'', ''x'', ''--iexclude'', [CHR ''C'', CHR '':'', backslash, CHR ''d''], sample_source])
     \<in> {Backup, Unlock, Probe, Snapshots, Check}"
  using append_only_is_preserved [OF built_backup [OF sample_backup]]
  by (simp add: sample_config_simps)

text \<open>
  C16. The backup command always asks for a filesystem snapshot, passes every configured exclusion
  and every required exclusion, and names exactly the configured sources; no source can be read as
  a command-line flag, and no repository option of the command switches the snapshots off.
\<close>

theorem backup_command_line:
  assumes "backup_with_required_exclusions lower executable c exclusions = Ok i"
  shows "iv_arguments i =
      repository_options c @ [''--cleanup-cache'', ''backup'', ''--json'', ''--use-fs-snapshot'']
      @ concat (map (\<lambda>e. [''--exclude'', e]) (bc_exclusions (ec_backup c)))
      @ concat (map (\<lambda>e. [''--iexclude'', e]) exclusions) @ bc_paths (ec_backup c)
    \<and> bc_paths (ec_backup c) \<noteq> []
    \<and> (\<forall>p \<in> set (bc_paths (ec_backup c)). local_drive p \<and> \<not> prefix ''-'' p)
    \<and> (\<forall>kv \<in> set (rc_options (ec_repository c)). safe_option kv)"
proof -
  have "valid_config c"
    using backup_well_built [OF assms] by (simp add: well_built_def validate_Ok_iff)
  then show ?thesis
    using assms absolute_not_flag
    by (auto simp: backup_with_required_exclusions_def command_simps valid_config_def list_all_iff
        local_drive_def)
qed

theorem backup_command_line_witness:
  "local_drive sample_source \<and> \<not> prefix ''-'' sample_source \<and> safe_option (''o'', ''v'')"
  using backup_command_line [OF sample_backup] by (simp add: sample_config_simps)



end
