(* ===== verification/Stores.thy ===== *)
theory Stores
  imports Config
begin

text \<open>
  \<^verbatim>\<open>apps/resticpal-service/src/\<close>: \<^verbatim>\<open>atomic_file.rs\<close>, \<^verbatim>\<open>config_store.rs\<close> and
  \<^verbatim>\<open>state.rs\<close>. The disk is a map from files to contents; a fault set says which calls to the
  operating system fail. The locale \<open>persistent_store\<close> is the contract that the runtime relies
  on, interpreted on both stores; the JSON and TOML libraries are arguments.
\<close>

section \<open>Atomic replacement\<close>

type_synonym file_ref = "string \<times> string"

record disk =
  dk_files :: "file_ref \<Rightarrow> string option"
  dk_next_temp :: u64
  dk_pid :: u32

datatype file_call = CreateDirectory | CreateTemporary | WriteTemporary | SyncTemporary | MoveFile | RemoveTemporary

datatype atomic_file_error = MissingParent | AtomicIo | AtomicWindows

text \<open>A target is the parent directory, when there is one, and the file name.\<close>

type_synonym target = "string option \<times> string"

definition temporary_name :: "string \<Rightarrow> disk \<Rightarrow> string" where
  "temporary_name label d =
     ''.'' @ label @ ''-'' @ decimal (unat (dk_pid d)) @ ''-'' @ decimal (unat (dk_next_temp d)) @ ''.tmp''"

definition remove_temporary :: "file_call set \<Rightarrow> file_ref \<Rightarrow> disk \<Rightarrow> disk" where
  "remove_temporary faults temporary d =
     (if RemoveTemporary \<in> faults then d else d\<lparr>dk_files := (dk_files d)(temporary := None)\<rparr>)"

text \<open>
  The replacement, with the disk after every call: the trace is what a crash between two calls can
  leave behind. A write that fails has written the prefix of length \<open>written\<close>.
\<close>

definition replace_in ::
  "file_call set \<Rightarrow> nat \<Rightarrow> file_ref \<Rightarrow> file_ref \<Rightarrow> string \<Rightarrow> disk
     \<Rightarrow> (atomic_file_error, unit) outcome \<times> disk list" where
  "replace_in faults written target temporary contents d =
     (let cleanup = remove_temporary faults temporary;
          opened = d\<lparr>dk_files := (dk_files d)(temporary \<mapsto> [])\<rparr>;
          partly = d\<lparr>dk_files := (dk_files d)(temporary \<mapsto> take written contents)\<rparr>;
          full = d\<lparr>dk_files := (dk_files d)(temporary \<mapsto> contents)\<rparr>;
          moved = d\<lparr>dk_files := (dk_files d)(temporary := None, target \<mapsto> contents)\<rparr>
      in if CreateTemporary \<in> faults \<or> dk_files d temporary \<noteq> None then (Err AtomicIo, [cleanup d])
         else if WriteTemporary \<in> faults then (Err AtomicIo, [opened, partly, cleanup partly])
         else if SyncTemporary \<in> faults then (Err AtomicIo, [opened, full, cleanup full])
         else if MoveFile \<in> faults then (Err AtomicWindows, [opened, full, cleanup full])
         else (Ok (), [opened, full, moved]))"

definition replace ::
  "file_call set \<Rightarrow> nat \<Rightarrow> target \<Rightarrow> string \<Rightarrow> string \<Rightarrow> disk
     \<Rightarrow> (atomic_file_error, unit) outcome \<times> disk list" where
  "replace faults written target contents label d =
     (case fst target of
        None \<Rightarrow> (Err MissingParent, [])
      | Some parent \<Rightarrow>
          if CreateDirectory \<in> faults then (Err AtomicIo, [])
          else replace_in faults written (parent, snd target) (parent, temporary_name label d) contents
                 (d\<lparr>dk_next_temp := dk_next_temp d + 1\<rparr>))"

definition final_disk :: "disk \<Rightarrow> disk list \<Rightarrow> disk" where
  "final_disk d trace = last (d # trace)"

section \<open>The configuration file\<close>

definition MAX_CONFIG_BYTES :: nat where "MAX_CONFIG_BYTES = 1024 * 1024"

datatype config_store_error =
    ConfigTooLarge
  | ConfigIo
  | LocalConfigError local_config_error
  | ConfigAtomicFile atomic_file_error

definition load_config ::
  "url_parser \<Rightarrow> (string \<Rightarrow> local_config option) \<Rightarrow> bool \<Rightarrow> target \<Rightarrow> disk
     \<Rightarrow> (config_store_error, local_config) outcome" where
  "load_config parse toml io_error target d =
     (if io_error then Err ConfigIo
      else (case dk_files d (case_option [] id (fst target), snd target) of
        None \<Rightarrow> Ok default_local_config
      | Some bytes \<Rightarrow>
          (let contents = take (MAX_CONFIG_BYTES + 1) bytes in
           and_then (ensure (valid_utf8 contents) ConfigIo) (\<lambda>_.
           and_then (ensure (\<not> MAX_CONFIG_BYTES < length contents) ConfigTooLarge) (\<lambda>_.
           map_err LocalConfigError (from_toml parse toml contents))))))"

definition save_config ::
  "(local_config \<Rightarrow> string option) \<Rightarrow> file_call set \<Rightarrow> nat \<Rightarrow> target \<Rightarrow> local_config \<Rightarrow> disk
     \<Rightarrow> (config_store_error, unit) outcome \<times> disk" where
  "save_config to_toml faults written target config d =
     io_then (ok_or (to_toml config) (LocalConfigError Serialize), d) (\<lambda>text d.
     let contents = text @ [CHR 0x0A] in
     io_then (ensure (\<not> MAX_CONFIG_BYTES < length contents) ConfigTooLarge, d) (\<lambda>_ d.
     let (result, trace) = replace faults written target contents ''config'' d in
     (map_err ConfigAtomicFile result, final_disk d trace)))"

section \<open>The service state file\<close>

definition STATE_SCHEMA_VERSION :: u32 where "STATE_SCHEMA_VERSION = 2"
definition MAX_STATE_BYTES :: nat where "MAX_STATE_BYTES = 2 * 1024 * 1024"

record repository_identity =
  ri_url :: "string option"
  ri_options :: "(string, string) btree"
  ri_secret_refs :: "(secret_variable, string) btree"

definition identity_from_config :: "effective_config \<Rightarrow> repository_identity" where
  "identity_from_config c =
     \<lparr>ri_url = rc_url (ec_repository c), ri_options = rc_options (ec_repository c),
      ri_secret_refs = rc_secret_refs (ec_repository c)\<rparr>"

record service_state =
  vs_last_success :: "datetime option"
  vs_last_retention :: "datetime option"
  vs_last_prune :: "datetime option"
  vs_last_retention_error :: "string option"
  vs_repository_validation_required :: bool
  vs_verified_repository :: "repository_identity option"
  vs_repository_verified_at :: "datetime option"

definition default_service_state :: service_state where
  "default_service_state =
     \<lparr>vs_last_success = None, vs_last_retention = None, vs_last_prune = None,
      vs_last_retention_error = None, vs_repository_validation_required = False,
      vs_verified_repository = None, vs_repository_verified_at = None\<rparr>"

definition repository_requires_validation :: "service_state \<Rightarrow> effective_config \<Rightarrow> bool" where
  "repository_requires_validation s c \<longleftrightarrow>
     rc_url (ec_repository c) \<noteq> None
     \<and> (vs_repository_validation_required s
        \<or> (case vs_verified_repository s of
             None \<Rightarrow> True
           | Some verified \<Rightarrow> verified \<noteq> identity_from_config c))"

definition require_repository_validation :: "service_state \<Rightarrow> service_state" where
  "require_repository_validation s =
     s\<lparr>vs_repository_validation_required := True, vs_verified_repository := None,
       vs_repository_verified_at := None\<rparr>"

definition mark_repository_verified :: "effective_config \<Rightarrow> datetime \<Rightarrow> service_state \<Rightarrow> service_state" where
  "mark_repository_verified c completed_at s =
     s\<lparr>vs_repository_validation_required := False,
       vs_verified_repository := Some (identity_from_config c),
       vs_repository_verified_at := Some completed_at\<rparr>"

definition repository_verified_at :: "service_state \<Rightarrow> effective_config \<Rightarrow> datetime option" where
  "repository_verified_at s c =
     (if \<not> repository_requires_validation s c then vs_repository_verified_at s else None)"

record persisted_state =
  ps_schema_version :: u32
  ps_last_success :: "datetime option"
  ps_last_retention :: "datetime option"
  ps_last_prune :: "datetime option"
  ps_last_retention_error :: "string option"
  ps_repository_validation_required :: bool
  ps_verified_repository :: "repository_identity option"
  ps_repository_verified_at :: "datetime option"

datatype state_store_error =
    StateTooLarge
  | StateUnsupportedSchema u32
  | StateIo
  | StateJson
  | StateAtomicFile atomic_file_error

definition to_persisted :: "service_state \<Rightarrow> persisted_state" where
  "to_persisted s =
     \<lparr>ps_schema_version = STATE_SCHEMA_VERSION, ps_last_success = vs_last_success s,
      ps_last_retention = vs_last_retention s, ps_last_prune = vs_last_prune s,
      ps_last_retention_error = vs_last_retention_error s,
      ps_repository_validation_required = vs_repository_validation_required s,
      ps_verified_repository = vs_verified_repository s,
      ps_repository_verified_at = vs_repository_verified_at s\<rparr>"

definition of_persisted :: "persisted_state \<Rightarrow> service_state" where
  "of_persisted p =
     \<lparr>vs_last_success = ps_last_success p, vs_last_retention = ps_last_retention p,
      vs_last_prune = ps_last_prune p, vs_last_retention_error = ps_last_retention_error p,
      vs_repository_validation_required = ps_repository_validation_required p,
      vs_verified_repository = ps_verified_repository p,
      vs_repository_verified_at = ps_repository_verified_at p\<rparr>"

definition load_state ::
  "(string \<Rightarrow> persisted_state option) \<Rightarrow> bool \<Rightarrow> target \<Rightarrow> disk \<Rightarrow> (state_store_error, service_state) outcome"
where
  "load_state from_slice io_error target d =
     (if io_error then Err StateIo
      else (case dk_files d (case_option [] id (fst target), snd target) of
        None \<Rightarrow> Ok default_service_state
      | Some bytes \<Rightarrow>
          (let contents = take (MAX_STATE_BYTES + 1) bytes in
           and_then (ensure (\<not> MAX_STATE_BYTES < length contents) StateTooLarge) (\<lambda>_.
           and_then (ok_or (from_slice contents) StateJson) (\<lambda>state.
           and_then (ensure (ps_schema_version state \<in> {1, STATE_SCHEMA_VERSION})
             (StateUnsupportedSchema (ps_schema_version state))) (\<lambda>_.
           Ok (of_persisted state)))))))"

definition save_state ::
  "(persisted_state \<Rightarrow> string option) \<Rightarrow> file_call set \<Rightarrow> nat \<Rightarrow> target \<Rightarrow> service_state \<Rightarrow> disk
     \<Rightarrow> (state_store_error, unit) outcome \<times> disk" where
  "save_state to_vec faults written target s d =
     io_then (ok_or (to_vec (to_persisted s)) StateJson, d) (\<lambda>text d.
     let contents = text @ [CHR 0x0A] in
     io_then (ensure (\<not> MAX_STATE_BYTES < length contents) StateTooLarge, d) (\<lambda>_ d.
     let (result, trace) = replace faults written target contents ''state'' d in
     (map_err StateAtomicFile result, final_disk d trace)))"

section \<open>Laws of the replacement\<close>

definition target_file :: "target \<Rightarrow> file_ref" where
  "target_file target = (case_option [] id (fst target), snd target)"

lemma temporary_name_starts: "prefix ''.'' (temporary_name label d)"
  by (simp add: temporary_name_def)

lemma replace_Ok:
  assumes "replace faults written target contents label d = (Ok u, trace)"
    and "\<not> prefix ''.'' (snd target)"
  shows "dk_files (final_disk d trace) (target_file target) = Some contents"
proof -
  have "temporary_name label d \<noteq> snd target"
    using assms(2) temporary_name_starts [of label d] by metis
  with assms(1) show ?thesis
    by (auto simp: replace_def replace_in_def Let_def final_disk_def target_file_def
        split: option.splits if_splits)
qed

lemma replace_Ok_snd:
  "fst (replace faults written target contents label d) = Ok u \<Longrightarrow> \<not> prefix ''.'' (snd target) \<Longrightarrow>
   dk_files (final_disk d (snd (replace faults written target contents label d))) (target_file target)
     = Some contents"
  by (metis prod.collapse replace_Ok)

lemma replace_trace:
  assumes "replace faults written target contents label d = (r, trace)"
    and "\<not> prefix ''.'' (snd target)" and "d' \<in> set trace"
  shows "dk_files d' (target_file target) = dk_files d (target_file target)
    \<or> r = Ok () \<and> d' = last trace \<and> dk_files d' (target_file target) = Some contents"
    and "\<And>f. f \<noteq> target_file target \<Longrightarrow> \<not> prefix ''.'' (snd f) \<Longrightarrow> dk_files d' f = dk_files d f"
proof -
  have "temporary_name label d \<noteq> snd target"
    using assms(2) temporary_name_starts [of label d] by metis
  with assms(1,3) show "dk_files d' (target_file target) = dk_files d (target_file target)
    \<or> r = Ok () \<and> d' = last trace \<and> dk_files d' (target_file target) = Some contents"
    by (auto simp: replace_def replace_in_def Let_def target_file_def remove_temporary_def
        split: option.splits if_splits)
  fix f :: file_ref
  assume f: "f \<noteq> target_file target" "\<not> prefix ''.'' (snd f)"
  then have "snd f \<noteq> temporary_name label d"
    using temporary_name_starts [of label d] by metis
  with f(1) assms(1,3) show "dk_files d' f = dk_files d f"
    by (auto simp: replace_def replace_in_def Let_def target_file_def remove_temporary_def
        split: option.splits if_splits)
qed

lemma replace_not_Ok:
  assumes "replace faults written target contents label d = (r, trace)"
    and "\<not> prefix ''.'' (snd target)" and "r \<noteq> Ok ()"
  shows "dk_files (final_disk d trace) (target_file target) = dk_files d (target_file target)"
proof (cases trace)
  case Nil
  then show ?thesis by (simp add: final_disk_def)
next
  case (Cons t ts)
  then have "final_disk d trace \<in> set trace"
    by (auto simp: final_disk_def)
  then show ?thesis
    using replace_trace(1) [OF assms(1,2)] assms(3) by blast
qed

section \<open>The contract of a store\<close>

text \<open>
  \<open>attempts\<close> runs a sequence of saves, each in its own environment of faults, and remembers the
  value of the last one that reported success.
\<close>

fun attempts ::
  "('env \<Rightarrow> 'v \<Rightarrow> 'd \<Rightarrow> ('e, unit) outcome \<times> 'd) \<Rightarrow> ('env \<times> 'v) list \<Rightarrow> 'd \<Rightarrow> 'd \<times> 'v option" where
  "attempts save [] d = (d, None)"
| "attempts save ((env, v) # evs) d =
     (let (r, d') = save env v d;
          (d'', kept) = attempts save evs d'
      in (d'', case kept of Some w \<Rightarrow> Some w | None \<Rightarrow> if r = Ok () then Some v else None))"

locale persistent_store =
  fixes save :: "'env \<Rightarrow> 'v \<Rightarrow> 'd \<Rightarrow> ('e, unit) outcome \<times> 'd"
    and load :: "'d \<Rightarrow> ('f, 'v) outcome"
    and storable :: "'v \<Rightarrow> bool"
  assumes load_saved: "storable v \<Longrightarrow> save env v d = (Ok (), d') \<Longrightarrow> load d' = Ok v"
    and load_unsaved: "save env v d = (r, d') \<Longrightarrow> r \<noteq> Ok () \<Longrightarrow> load d' = load d"
begin

lemma load_after_attempts:
  assumes "\<And>env v. (env, v) \<in> set evs \<Longrightarrow> storable v"
  shows "load (fst (attempts save evs d)) =
    (case snd (attempts save evs d) of None \<Rightarrow> load d | Some v \<Rightarrow> Ok v)"
  using assms
proof (induction evs arbitrary: d)
  case Nil
  then show ?case by simp
next
  case (Cons ev evs)
  obtain env v r d' where ev: "ev = (env, v)" "save env v d = (r, d')"
    by (metis surj_pair)
  have "storable v"
    using Cons.prems [of env v] ev(1) by simp
  with ev(2) have "load d' = (if r = Ok () then Ok v else load d)"
    using load_saved load_unsaved by auto
  moreover have "load (fst (attempts save evs d')) =
      (case snd (attempts save evs d') of None \<Rightarrow> load d' | Some v \<Rightarrow> Ok v)"
    by (rule Cons.IH) (use Cons.prems in auto)
  ultimately show ?case
    using ev by (auto split: prod.split option.split)
qed

end

definition storable_config ::
  "url_parser \<Rightarrow> (local_config \<Rightarrow> string option) \<Rightarrow> (string \<Rightarrow> local_config option) \<Rightarrow> target \<Rightarrow> local_config \<Rightarrow> bool"
where
  "storable_config parse to_toml toml target c \<longleftrightarrow>
     \<not> prefix ''.'' (snd target) \<and> lc_schema_version c = CONFIG_SCHEMA_VERSION
     \<and> validate_management parse (lc_management c) = Ok ()
     \<and> (\<forall>t. to_toml c = Some t \<longrightarrow> valid_utf8 (t @ [CHR 0x0A]) \<and> toml (t @ [CHR 0x0A]) = Some c)"

definition storable_state ::
  "(persisted_state \<Rightarrow> string option) \<Rightarrow> (string \<Rightarrow> persisted_state option) \<Rightarrow> target \<Rightarrow> service_state \<Rightarrow> bool"
where
  "storable_state to_vec from_slice target s \<longleftrightarrow>
     \<not> prefix ''.'' (snd target)
     \<and> (\<forall>t. to_vec (to_persisted s) = Some t \<longrightarrow> from_slice (t @ [CHR 0x0A]) = Some (to_persisted s))"

lemma of_to_persisted [simp]: "of_persisted (to_persisted s) = s"
  by (simp add: of_persisted_def to_persisted_def)

lemma map_err_not_Ok: "map_err g m \<noteq> Ok x \<longleftrightarrow> m \<noteq> Ok x"
  by (cases m) auto

lemma save_config_Ok:
  assumes "storable_config parse to_toml toml target c"
    and "save_config to_toml faults written target c d = (Ok (), d')"
  shows "load_config parse toml False target d' = Ok c"
proof -
  obtain t where t: "to_toml c = Some t" "length t < MAX_CONFIG_BYTES"
    "fst (replace faults written target (t @ [CHR 0x0A]) ''config'' d) = Ok ()"
    "d' = final_disk d (snd (replace faults written target (t @ [CHR 0x0A]) ''config'' d))"
    using assms(2)
    by (auto simp: save_config_def outcome_simps Let_def not_less Suc_le_eq case_prod_beta)
  then have "dk_files d' (target_file target) = Some (t @ [CHR 0x0A])"
    using assms(1) replace_Ok_snd [OF t(3)] by (simp add: storable_config_def)
  with assms(1) t(1,2) show ?thesis
    by (auto simp: load_config_def target_file_def storable_config_def from_toml_def outcome_simps)
qed

lemma save_config_failed:
  assumes "\<not> prefix ''.'' (snd target)"
    and "save_config to_toml faults written target c d = (r, d')" and "r \<noteq> Ok ()"
  shows "load_config parse toml False target d' = load_config parse toml False target d"
  using assms replace_not_Ok [OF _ assms(1)]
  by (cases "to_toml c"; cases "replace faults written target (the (to_toml c) @ [CHR 0x0A]) ''config'' d")
    (auto simp: save_config_def load_config_def target_file_def Let_def ensure_def map_err_not_Ok
      split: if_splits)

lemma save_state_Ok:
  assumes "storable_state to_vec from_slice target s"
    and "save_state to_vec faults written target s d = (Ok (), d')"
  shows "load_state from_slice False target d' = Ok s"
proof -
  obtain t where t: "to_vec (to_persisted s) = Some t" "length t < MAX_STATE_BYTES"
    "fst (replace faults written target (t @ [CHR 0x0A]) ''state'' d) = Ok ()"
    "d' = final_disk d (snd (replace faults written target (t @ [CHR 0x0A]) ''state'' d))"
    using assms(2)
    by (auto simp: save_state_def outcome_simps Let_def not_less Suc_le_eq case_prod_beta)
  then have "dk_files d' (target_file target) = Some (t @ [CHR 0x0A])"
    using assms(1) replace_Ok_snd [OF t(3)] by (simp add: storable_state_def)
  with assms(1) t(1,2) show ?thesis
    by (auto simp: load_state_def target_file_def storable_state_def outcome_simps
        to_persisted_def of_persisted_def)
qed

lemma save_state_failed:
  assumes "\<not> prefix ''.'' (snd target)"
    and "save_state to_vec faults written target s d = (r, d')" and "r \<noteq> Ok ()"
  shows "load_state from_slice False target d' = load_state from_slice False target d"
  using assms replace_not_Ok [OF _ assms(1)]
  by (cases "to_vec (to_persisted s)";
      cases "replace faults written target (the (to_vec (to_persisted s)) @ [CHR 0x0A]) ''state'' d")
    (auto simp: save_state_def load_state_def target_file_def Let_def ensure_def map_err_not_Ok
      split: if_splits)

text \<open>
  The file names are those of the service, next to each other in the data directory; the
  environment of a save is its set of faults and the length of a partial write.
\<close>

definition config_target :: "string \<Rightarrow> target" where
  "config_target directory = (Some directory, ''config.toml'')"

definition state_target :: "string \<Rightarrow> target" where
  "state_target directory = (Some directory, ''state.json'')"

interpretation config_files: persistent_store
  "\<lambda>env. save_config to_toml (fst env) (snd env) (config_target directory)"
  "load_config parse toml False (config_target directory)"
  "storable_config parse to_toml toml (config_target directory)"
  for parse to_toml toml directory
  by unfold_locales
    (rule save_config_Ok, assumption+, rule save_config_failed, auto simp: config_target_def)

interpretation state_files: persistent_store
  "\<lambda>env. save_state to_vec (fst env) (snd env) (state_target directory)"
  "load_state from_slice False (state_target directory)"
  "storable_state to_vec from_slice (state_target directory)"
  for to_vec from_slice directory
  by unfold_locales
    (rule save_state_Ok, assumption+, rule save_state_failed, auto simp: state_target_def)

section \<open>Repository verification\<close>

lemma requires_after_require:
  "repository_requires_validation (require_repository_validation s) c \<longleftrightarrow> rc_url (ec_repository c) \<noteq> None"
  by (simp add: repository_requires_validation_def require_repository_validation_def)

lemma requires_after_mark:
  "repository_requires_validation (mark_repository_verified c t s) c' \<longleftrightarrow>
     rc_url (ec_repository c') \<noteq> None \<and> identity_from_config c \<noteq> identity_from_config c'"
  by (simp add: repository_requires_validation_def mark_repository_verified_def)

section \<open>Properties\<close>

text \<open>
  C11. Replacing a file is atomic: at every moment of the replacement, a crash included, the target
  holds its old contents or, once the call has succeeded, the new ones; a failed call leaves the
  old contents; and no other file that is not a temporary changes.
\<close>

theorem replace_atomic:
  assumes "replace faults written target contents label d = (r, trace)"
    and "\<not> prefix ''.'' (snd target)"
  shows "(\<forall>d' \<in> set trace. dk_files d' (target_file target) \<in>
        {dk_files d (target_file target), Some contents})
    \<and> dk_files (final_disk d trace) (target_file target) =
        (if r = Ok () then Some contents else dk_files d (target_file target))
    \<and> (\<forall>d' \<in> set trace. \<forall>f. f \<noteq> target_file target \<longrightarrow> \<not> prefix ''.'' (snd f) \<longrightarrow>
        dk_files d' f = dk_files d f)"
  using replace_trace [OF assms] replace_Ok [OF _ assms(2)] replace_not_Ok [OF assms] assms(1)
  by (cases r) auto

theorem replace_atomic_witness:
  "dk_files (final_disk \<lparr>dk_files = Map.empty, dk_next_temp = 1, dk_pid = 7\<rparr>
       (snd (replace {MoveFile} 0 (config_target ''d'') ''new'' ''config''
         \<lparr>dk_files = Map.empty, dk_next_temp = 1, dk_pid = 7\<rparr>))) (target_file (config_target ''d'')) = None"
  using replace_atomic [OF prod.collapse [symmetric], of "config_target ''d''" "{MoveFile}" 0 "''new''"
      "''config''" "\<lparr>dk_files = Map.empty, dk_next_temp = 1, dk_pid = 7\<rparr>"]
  by (simp add: config_target_def replace_def replace_in_def Let_def)

text \<open>
  The state file keeps the last state that was saved successfully: after any sequence of
  saves, each with any faults of the operating system, loading returns that state, or what was
  stored before when every save failed. The JSON library is assumed to read back what it wrote,
  followed by a newline.
\<close>

theorem saved_state_survives:
  assumes "\<And>env s. (env, s) \<in> set evs \<Longrightarrow> storable_state to_vec from_slice (state_target directory) s"
  shows "load_state from_slice False (state_target directory)
      (fst (attempts (\<lambda>env. save_state to_vec (fst env) (snd env) (state_target directory)) evs d)) =
    (case snd (attempts (\<lambda>env. save_state to_vec (fst env) (snd env) (state_target directory)) evs d) of
       None \<Rightarrow> load_state from_slice False (state_target directory) d
     | Some s \<Rightarrow> Ok s)"
  by (rule state_files.load_after_attempts) (use assms in blast)

theorem saved_state_survives_witness:
  "load_state (\<lambda>t. if t = ''s'' @ [CHR 0x0A] then Some (to_persisted default_service_state) else None)
       False (state_target ''d'')
       (fst (attempts (\<lambda>env. save_state (\<lambda>_. Some ''s'') (fst env) (snd env) (state_target ''d''))
         [(({}, 0), default_service_state), (({SyncTemporary}, 0), default_service_state)]
         \<lparr>dk_files = Map.empty, dk_next_temp = 1, dk_pid = 7\<rparr>)) = Ok default_service_state"
  by (subst saved_state_survives)
    (auto simp: storable_state_def state_target_def save_state_def replace_def replace_in_def Let_def
      MAX_STATE_BYTES_def split: prod.split)

end
