(* ===== verification/Outcomes.thy ===== *)
theory Outcomes
  imports Status
begin

text \<open>
  \<^verbatim>\<open>apps/resticpal-service/src/executor.rs\<close>, first part: what a run of restic reports and how the
  service judges it. Reading the output is a loop over the chunks that the pipe delivers; the JSON
  decoder is the argument \<open>decode\<close> and the floating-point percentage the argument \<open>percent\<close>.
\<close>

section \<open>Failure details\<close>

record backup_summary =
  bs_files_processed :: u64
  bs_bytes_processed :: u64
  bs_data_added :: u64
  bs_snapshot_id :: "string option"

record backup_failure_details =
  bf_items :: "string list"
  bf_omitted :: u64

definition no_failure_details :: backup_failure_details where
  "no_failure_details = \<lparr>bf_items = [], bf_omitted = 0\<rparr>"

definition push_item :: "string \<Rightarrow> backup_failure_details \<Rightarrow> backup_failure_details" where
  "push_item item d =
     (if list_ex (\<lambda>existing. existing = item) (bf_items d) then d
      else if \<not> is_safe_backup_failed_item item \<or> MAX_BACKUP_FAILED_ITEMS \<le> length (bf_items d)
      then d\<lparr>bf_omitted := saturating_add (bf_omitted d) 1\<rparr>
      else d\<lparr>bf_items := bf_items d @ [item]\<rparr>)"

definition merge_details ::
  "backup_failure_details \<Rightarrow> backup_failure_details \<Rightarrow> backup_failure_details" where
  "merge_details d other =
     (let d' = fold push_item (bf_items other) d
      in d'\<lparr>bf_omitted := saturating_add (bf_omitted d') (bf_omitted other)\<rparr>)"

section \<open>Outcomes\<close>

datatype backup_outcome_kind =
    BackupSucceeded
  | BackupSucceededWithWarnings
  | BackupFailed string
  | BackupCancelled

record backup_outcome =
  bo_kind :: backup_outcome_kind
  bo_summary :: "backup_summary option"
  bo_warning_code :: "string option"
  bo_failure_details :: backup_failure_details

definition backup_succeeded :: "backup_summary \<Rightarrow> backup_outcome" where
  "backup_succeeded summary =
     \<lparr>bo_kind = BackupSucceeded, bo_summary = Some summary, bo_warning_code = None,
      bo_failure_details = no_failure_details\<rparr>"

definition backup_warnings ::
  "backup_summary \<Rightarrow> string \<Rightarrow> backup_failure_details \<Rightarrow> backup_outcome" where
  "backup_warnings summary code details =
     \<lparr>bo_kind = BackupSucceededWithWarnings, bo_summary = Some summary, bo_warning_code = Some code,
      bo_failure_details = details\<rparr>"

definition backup_failed :: "string \<Rightarrow> backup_outcome" where
  "backup_failed code =
     \<lparr>bo_kind = BackupFailed code, bo_summary = None, bo_warning_code = None,
      bo_failure_details = no_failure_details\<rparr>"

definition backup_cancelled :: backup_outcome where
  "backup_cancelled =
     \<lparr>bo_kind = BackupCancelled, bo_summary = None, bo_warning_code = None,
      bo_failure_details = no_failure_details\<rparr>"

definition with_warning :: "string \<Rightarrow> backup_outcome \<Rightarrow> backup_outcome" where
  "with_warning code o' =
     (if bo_kind o' \<in> {BackupSucceeded, BackupSucceededWithWarnings}
      then (let warned = o'\<lparr>bo_kind := BackupSucceededWithWarnings\<rparr>
            in if bo_warning_code warned = None then warned\<lparr>bo_warning_code := Some code\<rparr> else warned)
      else o')"

datatype repository_outcome = RepositorySucceeded | RepositoryFailed string | RepositoryCancelled

datatype retention_outcome = RetentionSucceeded bool | RetentionFailed string | RetentionCancelled

section \<open>Classification of error output\<close>

text \<open>
  The needles are ASCII and the lossy decoding keeps every ASCII byte in place, so the test is on
  the bytes.
\<close>

definition mentions :: "string \<Rightarrow> string list \<Rightarrow> bool" where
  "mentions message needles \<longleftrightarrow> list_ex (\<lambda>n. contains_str n message) needles"

definition classify_stderr :: "string \<Rightarrow> string option" where
  "classify_stderr stderr =
     (let message = to_ascii_lowercase stderr in
      if mentions message [''vss error:'', ''failed to create snapshot for ['',
          ''failed to delete vss snapshot'', ''volume shadow copy service'', ''shadow copy provider'']
      then Some ''restic_vss_unavailable''
      else if mentions message [''access denied'', ''permission denied'', ''insufficient privilege'']
      then Some ''restic_permission_denied''
      else if mentions message [''already locked'', ''repository is locked'', ''unable to create lock'']
      then Some ''restic_repository_locked''
      else if mentions message [''unauthorized'', ''authentication failed'', ''invalid access key'',
          ''wrong password'']
      then Some ''restic_authentication_failed''
      else if mentions message [''connection refused'', ''connection reset'', ''timed out'', ''timeout'',
          ''no such host'', ''name resolution'']
      then Some ''restic_repository_unreachable''
      else if mentions message [''no such file or directory'', ''cannot find the path'',
          ''path does not exist'']
      then Some ''restic_source_unavailable''
      else None)"

section \<open>Output lines\<close>

definition MAX_JSON_LINE_BYTES :: nat where "MAX_JSON_LINE_BYTES = 1024 * 1024"
definition MAX_STDERR_BYTES :: nat where "MAX_STDERR_BYTES = 64 * 1024"

abbreviation newline :: char where
  "newline \<equiv> CHR 0x0A"

text \<open>
  A buffered reader is the list of chunks still to be delivered; \<open>fails\<close> says that the pipe ends
  with an error and not with the end of the stream. The result is the validity of the line, when
  there was one, and the line.
\<close>

fun read_bounded_line ::
  "string \<Rightarrow> bool \<Rightarrow> bool \<Rightarrow> bool \<Rightarrow> string list \<Rightarrow> (unit, bool option \<times> string) outcome \<times> string list" where
  "read_bounded_line line oversized read_any fails [] =
     (if fails then Err () else Ok (if read_any then Some (\<not> oversized) else None, line), [])"
| "read_bounded_line line oversized read_any fails (available # rest) =
     (if available = [] then (Ok (if read_any then Some (\<not> oversized) else None, line), available # rest)
      else
        let upto = takeWhile (\<lambda>b. b \<noteq> newline) available;
            consumed = (if length upto < length available then length upto + 1 else length available);
            fits = (\<not> oversized \<and> length line + consumed \<le> MAX_JSON_LINE_BYTES);
            line' = (if fits then line @ take consumed available else line);
            left = (if consumed = length available then rest else drop consumed available # rest)
        in if available ! (consumed - 1) = newline then (Ok (Some fits, line'), left)
           else read_bounded_line line' (\<not> fits) True fails rest)"

definition chunk_bytes :: "string list \<Rightarrow> nat" where
  "chunk_bytes chunks = sum_list (map length chunks)"

lemma chunk_bytes_simps [simp]:
  "chunk_bytes [] = 0" "chunk_bytes (c # cs) = length c + chunk_bytes cs"
  by (simp_all add: chunk_bytes_def)

lemma read_bounded_line_newline:
  assumes "newline \<notin> set u"
  shows "read_bounded_line line oversized read_any fails ((u @ newline # v) # rest) =
    (let fits = (\<not> oversized \<and> length line + length u + 1 \<le> MAX_JSON_LINE_BYTES)
     in (Ok (Some fits, if fits then line @ u @ [newline] else line), if v = [] then rest else v # rest))"
proof -
  have "takeWhile (\<lambda>b. b \<noteq> newline) (u @ newline # v) = u"
    using assms by (simp add: takeWhile_append)
  then show ?thesis
    by (simp add: Let_def nth_append)
qed

lemma read_bounded_line_more:
  assumes "newline \<notin> set c" and "c \<noteq> []"
  shows "read_bounded_line line oversized read_any fails (c # rest) =
    (let fits = (\<not> oversized \<and> length line + length c \<le> MAX_JSON_LINE_BYTES)
     in read_bounded_line (if fits then line @ c else line) (\<not> fits) True fails rest)"
proof -
  have "takeWhile (\<lambda>b. b \<noteq> newline) c = c"
    using assms(1) unfolding takeWhile_eq_all_conv by auto
  moreover have "c ! (length c - 1) \<noteq> newline"
    using assms by (metis diff_less length_greater_0_conv nth_mem zero_less_one)
  ultimately show ?thesis
    using assms(2) by (simp add: Let_def del: takeWhile_eq_all_conv)
qed

declare read_bounded_line.simps(2) [simp del]

lemma chunk_cases:
  obtains "c = []" | "newline \<notin> set c" "c \<noteq> []" | u v where "c = u @ newline # v" "newline \<notin> set u"
  using split_list_first [of newline c] by (cases "newline \<in> set c") blast+

lemma read_bounded_line_progress:
  "read_bounded_line line oversized read_any fails chunks = (r, rest) \<Longrightarrow>
     chunk_bytes rest \<le> chunk_bytes chunks
     \<and> (\<forall>v l. r = Ok (Some v, l) \<longrightarrow> read_any \<or> chunk_bytes rest < chunk_bytes chunks)"
proof (induction chunks arbitrary: line oversized read_any)
  case (Cons c chunks)
  show ?case
  proof (cases c rule: chunk_cases)
    case 1
    then show ?thesis
      using Cons.prems by (auto simp: read_bounded_line.simps(2) split: if_splits)
  next
    case 2
    then show ?thesis
      using Cons.prems Cons.IH [of _ _ True]
      by (fastforce simp: read_bounded_line_more Let_def intro: le_imp_less_Suc trans_le_add2
          dest: le_neq_implies_less)
  next
    case (3 u v)
    then show ?thesis
      using Cons.prems by (auto simp: read_bounded_line_newline Let_def split: if_splits)
  qed
qed (auto split: if_splits)

section \<open>Messages of restic\<close>

record 'f wire_message =
  wm_message_type :: string
  wm_percent_done :: "'f option"
  wm_total_files :: "u64 option"
  wm_files_done :: u64
  wm_total_bytes :: "u64 option"
  wm_bytes_done :: u64
  wm_error_count :: u64
  wm_total_files_processed :: u64
  wm_total_bytes_processed :: u64
  wm_data_added :: u64
  wm_snapshot_id :: "string option"
  wm_item :: "string option"
  wm_error :: "string option"

datatype output_event =
    Progress backup_progress
  | Summary backup_summary
  | FailureItem string
  | FailureItemOmitted
  | VssFallback
  | VssCleanupFailed

record parsed_output =
  po_summary :: "backup_summary option"
  po_invalid_message :: bool
  po_failure_details :: backup_failure_details
  po_vss_fallback :: bool
  po_vss_cleanup_failed :: bool

definition default_parsed_output :: parsed_output where
  "default_parsed_output =
     \<lparr>po_summary = None, po_invalid_message = False, po_failure_details = no_failure_details,
      po_vss_fallback = False, po_vss_cleanup_failed = False\<rparr>"

definition is_vss_fallback_error :: "string \<Rightarrow> bool" where
  "is_vss_fallback_error message \<longleftrightarrow>
     (let m = to_ascii_lowercase message in
      contains_str ''failed to create snapshot for ['' m
      \<or> prefix ''vss error: getsnapshotproperties()'' m \<and> contains_str ''mount point'' m)"

definition is_vss_cleanup_error :: "string \<Rightarrow> bool" where
  "is_vss_cleanup_error message \<longleftrightarrow>
     contains_str ''failed to delete vss snapshot'' (to_ascii_lowercase message)"

definition trim_line_end :: "string \<Rightarrow> string" where
  "trim_line_end line = rev (dropWhile (\<lambda>c. c = CHR 0x0D \<or> c = newline) (rev line))"

definition parse_plain_missing_item :: "string \<Rightarrow> string option" where
  "parse_plain_missing_item line =
     (if \<not> valid_utf8 line then None
      else (case strip_suffix '' does not exist, skipping'' (trim_line_end line) of
              None \<Rightarrow> None
            | Some item \<Rightarrow> if item = [] then None else Some item))"

definition parse_output_event ::
  "(string \<Rightarrow> 'f wire_message option) \<Rightarrow> ('f \<Rightarrow> u8 option) \<Rightarrow> string \<Rightarrow> (unit, output_event option) outcome"
where
  "parse_output_event decode percent line =
     (case parse_plain_missing_item line of
        Some item \<Rightarrow> Ok (Some (FailureItem item))
      | None \<Rightarrow>
          and_then (ok_or (decode line) ()) (\<lambda>message.
          if wm_message_type message = ''status'' then
            Ok (Some (Progress
              \<lparr>bp_percent_done = Option.bind (wm_percent_done message) percent,
               bp_files_done = wm_files_done message, bp_total_files = wm_total_files message,
               bp_bytes_done = wm_bytes_done message, bp_total_bytes = wm_total_bytes message,
               bp_error_count = wm_error_count message\<rparr>))
          else if wm_message_type message = ''summary'' then
            Ok (Some (Summary
              \<lparr>bs_files_processed = wm_total_files_processed message,
               bs_bytes_processed = wm_total_bytes_processed message,
               bs_data_added = wm_data_added message, bs_snapshot_id = wm_snapshot_id message\<rparr>))
          else if wm_message_type message = ''error'' then
            (let error_message = case_option [] id (wm_error message)
             in if is_vss_fallback_error error_message then Ok (Some VssFallback)
                else if is_vss_cleanup_error error_message then Ok (Some VssCleanupFailed)
                else Ok (Some (case wm_item message of
                                 Some item \<Rightarrow> FailureItem item
                               | None \<Rightarrow> FailureItemOmitted)))
          else Ok None))"

text \<open>
  The effect of one line on the parsed output, and the progress updates offered to the channel so
  far. The channel drops an update when it is full, which nothing else depends on.
\<close>

definition apply_line ::
  "(string \<Rightarrow> 'f wire_message option) \<Rightarrow> ('f \<Rightarrow> u8 option) \<Rightarrow> bool \<Rightarrow> string
     \<Rightarrow> parsed_output \<times> backup_progress list \<Rightarrow> parsed_output \<times> backup_progress list" where
  "apply_line decode percent valid line acc =
     (case acc of (parsed, offered) \<Rightarrow>
       if \<not> valid then (parsed\<lparr>po_invalid_message := True\<rparr>, offered)
       else (case parse_output_event decode percent line of
               Ok (Some (Progress update)) \<Rightarrow> (parsed, offered @ [update])
             | Ok (Some (Summary summary)) \<Rightarrow> (parsed\<lparr>po_summary := Some summary\<rparr>, offered)
             | Ok (Some (FailureItem item)) \<Rightarrow>
                 (parsed\<lparr>po_failure_details := push_item item (po_failure_details parsed)\<rparr>, offered)
             | Ok (Some FailureItemOmitted) \<Rightarrow>
                 (parsed\<lparr>po_failure_details := (po_failure_details parsed)
                    \<lparr>bf_omitted := saturating_add (bf_omitted (po_failure_details parsed)) 1\<rparr>\<rparr>, offered)
             | Ok (Some VssFallback) \<Rightarrow> (parsed\<lparr>po_vss_fallback := True\<rparr>, offered)
             | Ok (Some VssCleanupFailed) \<Rightarrow> (parsed\<lparr>po_vss_cleanup_failed := True\<rparr>, offered)
             | Ok None \<Rightarrow> (parsed, offered)
             | _ \<Rightarrow> (parsed\<lparr>po_invalid_message := True\<rparr>, offered)))"

function read_json_lines ::
  "(string \<Rightarrow> 'f wire_message option) \<Rightarrow> ('f \<Rightarrow> u8 option) \<Rightarrow> bool
     \<Rightarrow> parsed_output \<times> backup_progress list \<Rightarrow> string list
     \<Rightarrow> (unit, parsed_output) outcome \<times> backup_progress list" where
  "read_json_lines decode percent fails acc chunks =
     (case read_bounded_line [] False False fails chunks of
        (Ok (Some valid, line), rest) \<Rightarrow>
          read_json_lines decode percent fails (apply_line decode percent valid line acc) rest
      | (Ok (None, _), _) \<Rightarrow> (Ok (fst acc), snd acc)
      | (_, _) \<Rightarrow> (Err (), snd acc))"
  by pat_completeness auto
termination
  by (relation "measure (\<lambda>(decode, percent, fails, acc, chunks). chunk_bytes chunks)")
    (auto dest!: sym [of _ "read_bounded_line [] False False _ _"] read_bounded_line_progress)

declare read_json_lines.simps [simp del]

definition read_json_output ::
  "(string \<Rightarrow> 'f wire_message option) \<Rightarrow> ('f \<Rightarrow> u8 option) \<Rightarrow> bool \<Rightarrow> string list
     \<Rightarrow> (unit, parsed_output) outcome \<times> backup_progress list" where
  "read_json_output decode percent fails chunks =
     read_json_lines decode percent fails (default_parsed_output, []) chunks"

definition read_stderr_output ::
  "(string \<Rightarrow> 'f wire_message option) \<Rightarrow> ('f \<Rightarrow> u8 option) \<Rightarrow> bool \<Rightarrow> string list
     \<Rightarrow> (unit, parsed_output) outcome \<times> string \<times> backup_progress list" where
  "read_stderr_output decode percent fails chunks =
     (let (parsed, offered) = read_json_output decode percent fails chunks
      in (parsed, take MAX_STDERR_BYTES (concat chunks), offered))"

section \<open>Judging a run\<close>

text \<open>An exit status is its code, or nothing when the process was terminated.\<close>

definition decimal_int :: "int \<Rightarrow> string" where
  "decimal_int n = (if n < 0 then ''-'' @ decimal (nat (- n)) else decimal (nat n))"

definition exit_failure :: "int option \<Rightarrow> string \<Rightarrow> backup_outcome" where
  "exit_failure status stderr =
     (case status of
        Some n \<Rightarrow> backup_failed (case classify_stderr stderr of
                     Some c \<Rightarrow> c
                   | None \<Rightarrow> ''restic_exit_'' @ decimal_int n)
      | None \<Rightarrow> backup_failed ''restic_terminated'')"

definition finish_outcome ::
  "int option \<Rightarrow> (unit, parsed_output) outcome \<Rightarrow> (unit, parsed_output) outcome \<Rightarrow> string \<Rightarrow> bool
     \<Rightarrow> backup_outcome" where
  "finish_outcome status output_result stderr_output_result stderr known_vss_fallback =
     (if status = Some 130 then backup_cancelled
      else (case output_result of
        Ok parsed \<Rightarrow>
          (case po_summary parsed of
             None \<Rightarrow>
               if status = Some 0 then
                 (if po_invalid_message parsed then backup_failed ''restic_output_invalid''
                  else backup_failed ''restic_summary_missing'')
               else exit_failure status stderr
           | Some summary \<Rightarrow>
               (let fallback = (po_vss_fallback parsed \<or> known_vss_fallback);
                    cleanup = po_vss_cleanup_failed parsed;
                    details = po_failure_details parsed;
                    (details, fallback, cleanup) =
                      (case stderr_output_result of
                         Ok e \<Rightarrow> (merge_details details (po_failure_details e),
                                  fallback \<or> po_vss_fallback e, cleanup \<or> po_vss_cleanup_failed e)
                       | _ \<Rightarrow> (details, fallback, cleanup))
                in if status = Some 0 then
                     (if fallback \<and> cleanup then
                        backup_warnings summary ''restic_vss_fallback_and_cleanup_failed'' details
                      else if fallback then backup_warnings summary ''restic_vss_fallback'' details
                      else if cleanup then backup_warnings summary ''restic_vss_cleanup_failed'' details
                      else backup_succeeded summary)
                   else if status = Some 3 then
                     (if fallback \<and> cleanup then
                        backup_warnings summary ''restic_vss_fallback_partial_source_and_cleanup_failed'' details
                      else if fallback then
                        backup_warnings summary ''restic_vss_fallback_and_partial_source'' details
                      else if cleanup then
                        backup_warnings summary ''restic_partial_source_and_vss_cleanup_failed'' details
                      else backup_warnings summary ''restic_partial_source'' details)
                   else exit_failure status stderr))
      | _ \<Rightarrow> backup_failed ''restic_output_invalid''))"

section \<open>Lines do not depend on chunks\<close>

text \<open>The lines of a stream, each with its newline, and what the service makes of them in turn.\<close>

fun split_lines :: "string \<Rightarrow> string list" where
  "split_lines [] = []"
| "split_lines (c # s) =
     (if c = newline then [c] # split_lines s
      else (case split_lines s of [] \<Rightarrow> [[c]] | l # ls \<Rightarrow> (c # l) # ls))"

definition judge_lines ::
  "(string \<Rightarrow> 'f wire_message option) \<Rightarrow> ('f \<Rightarrow> u8 option) \<Rightarrow> parsed_output \<times> backup_progress list
     \<Rightarrow> string list \<Rightarrow> parsed_output \<times> backup_progress list" where
  "judge_lines decode percent acc ls =
     foldl (\<lambda>acc l. apply_line decode percent (length l \<le> MAX_JSON_LINE_BYTES) l acc) acc ls"

lemma split_lines_newline:
  "newline \<notin> set u \<Longrightarrow> split_lines (u @ newline # v) = (u @ [newline]) # split_lines v"
  by (induction u) auto

lemma split_lines_last: "newline \<notin> set u \<Longrightarrow> u \<noteq> [] \<Longrightarrow> split_lines u = [u]"
  by (induction u rule: induct_list012) auto

lemma read_bounded_line_spec:
  assumes "[] \<notin> set chunks" and "concat chunks = u @ newline # v" and "newline \<notin> set u"
  shows "\<exists>l rest. read_bounded_line line oversized read_any fails chunks =
      (Ok (Some (\<not> oversized \<and> length line + length u + 1 \<le> MAX_JSON_LINE_BYTES), l), rest)
    \<and> concat rest = v \<and> [] \<notin> set rest
    \<and> (\<not> oversized \<and> length line + length u + 1 \<le> MAX_JSON_LINE_BYTES \<longrightarrow> l = line @ u @ [newline])"
  using assms
proof (induction chunks arbitrary: line oversized read_any u)
  case Nil
  then show ?case by simp
next
  case (Cons c chunks)
  show ?case
  proof (cases c rule: chunk_cases)
    case 1
    with Cons.prems show ?thesis by simp
  next
    case 2
    then obtain u' where u': "u = c @ u'" "concat chunks = u' @ newline # v"
      using Cons.prems(2,3)
      by (auto simp: append_eq_append_conv2 append_eq_Cons_conv)
    let ?fits = "\<not> oversized \<and> length line + length c \<le> MAX_JSON_LINE_BYTES"
    show ?thesis
      using Cons.IH [of u' "if ?fits then line @ c else line" "\<not> ?fits" True] Cons.prems u' 2
      by (auto simp: read_bounded_line_more Let_def)
  next
    case (3 x y)
    then have "u = x" and "v = y @ concat chunks"
      using Cons.prems(2,3) by (auto simp: append_eq_append_conv2 append_eq_Cons_conv Cons_eq_append_conv)
    with 3 Cons.prems(1) show ?thesis
      by (auto simp: read_bounded_line_newline Let_def)
  qed
qed

lemma read_bounded_line_end:
  assumes "[] \<notin> set chunks" and "newline \<notin> set (concat chunks)" and "length line \<le> MAX_JSON_LINE_BYTES"
  shows "\<exists>l. read_bounded_line line oversized read_any False chunks =
      (Ok (if read_any \<or> chunks \<noteq> []
           then Some (\<not> oversized \<and> length line + length (concat chunks) \<le> MAX_JSON_LINE_BYTES)
           else None, l), [])
    \<and> (\<not> oversized \<and> length line + length (concat chunks) \<le> MAX_JSON_LINE_BYTES \<longrightarrow> l = line @ concat chunks)"
  using assms
proof (induction chunks arbitrary: line oversized read_any)
  case Nil
  then show ?case by simp
next
  case (Cons c chunks)
  let ?fits = "\<not> oversized \<and> length line + length c \<le> MAX_JSON_LINE_BYTES"
  show ?case
    using Cons.IH [of "if ?fits then line @ c else line" "\<not> ?fits" True] Cons.prems
    by (auto simp: read_bounded_line_more Let_def)
qed

lemma read_json_lines_eq:
  assumes "[] \<notin> set chunks"
  shows "read_json_lines decode percent False acc chunks =
    (let r = judge_lines decode percent acc (split_lines (concat chunks)) in (Ok (fst r), snd r))"
  using assms
proof (induction "length (concat chunks)" arbitrary: chunks acc rule: less_induct)
  case less
  show ?case
  proof (cases "newline \<in> set (concat chunks)")
    case True
    then obtain u v where uv: "concat chunks = u @ newline # v" "newline \<notin> set u"
      using split_list_first [of newline "concat chunks"] by blast
    define fits where "fits \<longleftrightarrow> length u + 1 \<le> MAX_JSON_LINE_BYTES"
    obtain l rest where l: "read_bounded_line [] False False False chunks = (Ok (Some fits, l), rest)"
        "concat rest = v" "[] \<notin> set rest" "fits \<longrightarrow> l = u @ [newline]"
      using read_bounded_line_spec [OF less.prems uv, of "[]" False False False]
      by (auto simp: fits_def)
    have "apply_line decode percent fits l acc = apply_line decode percent fits (u @ [newline]) acc"
      using l(4) by (cases fits) (simp_all add: apply_line_def)
    then show ?thesis
      using less.hyps [of rest] l uv
      by (subst read_json_lines.simps) (simp add: judge_lines_def split_lines_newline fits_def)
  next
    case False
    then obtain l where l: "read_bounded_line [] False False False chunks =
        (Ok (if chunks \<noteq> [] then Some (length (concat chunks) \<le> MAX_JSON_LINE_BYTES) else None, l), [])"
        "length (concat chunks) \<le> MAX_JSON_LINE_BYTES \<longrightarrow> l = concat chunks"
      using read_bounded_line_end [OF less.prems False, of "[]" False False] by auto
    show ?thesis
    proof (cases "chunks = []")
      case True
      with l show ?thesis
        by (subst read_json_lines.simps) (simp add: judge_lines_def)
    next
      case nonempty: False
      with less.prems have "concat chunks \<noteq> []"
        by (cases chunks) auto
      moreover from this have "split_lines (concat chunks) = [concat chunks]"
        using False by (simp add: split_lines_last)
      moreover have "apply_line decode percent (length (concat chunks) \<le> MAX_JSON_LINE_BYTES) l acc
          = apply_line decode percent (length (concat chunks) \<le> MAX_JSON_LINE_BYTES) (concat chunks) acc"
        using l(2)
        by (cases "length (concat chunks) \<le> MAX_JSON_LINE_BYTES") (simp_all add: apply_line_def)
      ultimately show ?thesis
        using l(1) nonempty less.hyps [of "[]"]
        by (subst read_json_lines.simps) (simp add: judge_lines_def Let_def)
    qed
  qed
qed

section \<open>Bounded collections of items\<close>

locale bounded_collector =
  fixes push :: "'i \<Rightarrow> 'c \<Rightarrow> 'c"
    and items :: "'c \<Rightarrow> 'i list"
    and omitted :: "'c \<Rightarrow> nat"
    and limit :: nat
    and cap :: nat
    and safe :: "'i \<Rightarrow> bool"
  assumes push_known: "i \<in> set (items c) \<Longrightarrow> push i c = c"
    and push_kept: "i \<notin> set (items c) \<Longrightarrow> safe i \<Longrightarrow> length (items c) < limit \<Longrightarrow>
      items (push i c) = items c @ [i] \<and> omitted (push i c) = omitted c"
    and push_omitted: "i \<notin> set (items c) \<Longrightarrow> \<not> (safe i \<and> length (items c) < limit) \<Longrightarrow>
      items (push i c) = items c \<and> omitted (push i c) = min (omitted c + 1) cap"
begin

definition good :: "'c \<Rightarrow> bool" where
  "good c \<longleftrightarrow> distinct (items c) \<and> length (items c) \<le> limit \<and> (\<forall>i \<in> set (items c). safe i)"

lemma push_cases:
  obtains "i \<in> set (items c)" "push i c = c"
  | "i \<notin> set (items c)" "safe i" "length (items c) < limit"
      "items (push i c) = items c @ [i]" "omitted (push i c) = omitted c"
  | "i \<notin> set (items c)" "items (push i c) = items c" "omitted (push i c) = min (omitted c + 1) cap"
  using push_known push_kept push_omitted by metis

lemma good_push: "good c \<Longrightarrow> good (push i c)"
  by (cases i c rule: push_cases) (auto simp: good_def)

lemma good_fold: "good c \<Longrightarrow> good (fold push is c)"
  by (induction "is" arbitrary: c) (simp_all add: good_push)

lemma items_push: "set (items c) \<subseteq> set (items (push i c))"
  by (cases i c rule: push_cases) auto

lemma items_fold: "set (items c) \<subseteq> set (items (fold push is c))"
  by (induction "is" arbitrary: c) (use items_push in force)+

lemma omitted_push: "omitted c \<le> cap \<Longrightarrow> omitted c \<le> omitted (push i c) \<and> omitted (push i c) \<le> cap"
  by (cases i c rule: push_cases) auto

lemma omitted_fold:
  "omitted c \<le> cap \<Longrightarrow> omitted c \<le> omitted (fold push is c) \<and> omitted (fold push is c) \<le> cap"
proof (induction "is" arbitrary: c)
  case (Cons i "is")
  then show ?case
    using omitted_push [of c i] by fastforce
qed simp

lemma nothing_lost:
  assumes "omitted c < cap" and "omitted (fold push is c) = omitted c"
  shows "set is \<subseteq> set (items (fold push is c))"
  using assms
proof (induction "is" arbitrary: c)
  case (Cons i "is")
  have "omitted (push i c) = omitted c"
    using Cons.prems omitted_push [of c i] omitted_fold [of "push i c" "is"] by simp
  moreover from this have "i \<in> set (items (push i c))"
    using Cons.prems(1) by (cases i c rule: push_cases) auto
  ultimately show ?case
    using Cons items_fold [of "push i c" "is"] by auto
qed simp

end

interpretation source_items: bounded_collector push_item bf_items "\<lambda>d. unat (bf_omitted d)"
  MAX_BACKUP_FAILED_ITEMS "2 ^ 64 - 1" is_safe_backup_failed_item
  by unfold_locales (auto simp: push_item_def list_ex_iff unat_saturating_add)

lemma good_no_details [simp]: "source_items.good no_failure_details"
  by (simp add: source_items.good_def no_failure_details_def)

lemma good_merge: "source_items.good d \<Longrightarrow> source_items.good (merge_details d other)"
  using source_items.good_fold [of d "bf_items other"]
  by (simp add: merge_details_def Let_def source_items.good_def)

lemma good_apply_line:
  "source_items.good (po_failure_details (fst acc)) \<Longrightarrow>
   source_items.good (po_failure_details (fst (apply_line decode percent valid l acc)))"
  using source_items.good_push
  by (auto simp: apply_line_def source_items.good_def
      split: prod.split outcome.split option.split output_event.split)

lemma good_read_json_lines:
  "source_items.good (po_failure_details (fst acc)) \<Longrightarrow>
   read_json_lines decode percent fails acc chunks = (Ok p, offered) \<Longrightarrow>
   source_items.good (po_failure_details p)"
proof (induction decode percent fails acc chunks rule: read_json_lines.induct)
  case (1 decode percent fails acc chunks)
  have "(case read_bounded_line [] False False fails chunks of
        (Ok (Some valid, line), rest) \<Rightarrow>
          read_json_lines decode percent fails (apply_line decode percent valid line acc) rest
      | (Ok (None, _), _) \<Rightarrow> (Ok (fst acc), snd acc)
      | (_, _) \<Rightarrow> (Err (), snd acc)) = (Ok p, offered)"
    using "1.prems"(2) by (simp add: read_json_lines.simps [of decode percent fails acc chunks])
  then show ?case
    using "1.IH" "1.prems"(1) good_apply_line [OF "1.prems"(1), of decode percent]
    by (auto split: prod.splits outcome.splits option.splits)
qed

lemma good_read_json_output:
  "read_json_output decode percent fails chunks = (Ok p, offered) \<Longrightarrow>
   source_items.good (po_failure_details p)"
  unfolding read_json_output_def
  by (rule good_read_json_lines) (simp_all add: default_parsed_output_def)

lemma finish_outcome_details:
  assumes "\<And>p. output_result = Ok p \<Longrightarrow> source_items.good (po_failure_details p)"
  shows "source_items.good (bo_failure_details (finish_outcome status output_result e stderr known))"
  using assms good_merge
  by (auto simp: finish_outcome_def exit_failure_def backup_failed_def backup_cancelled_def
      backup_warnings_def backup_succeeded_def Let_def
      split: outcome.split option.split)

section \<open>Properties\<close>

text \<open>
  C19. How the pipe cuts the output of restic into chunks makes no difference: the parsed output is
  the effect of the lines of the whole stream, one after the other, where a line longer than the
  limit only marks the output as containing an invalid message. In particular the loop ends.
\<close>

theorem output_independent_of_chunks:
  assumes "[] \<notin> set chunks"
  shows "read_json_output decode percent False chunks =
    (Ok (fst (judge_lines decode percent (default_parsed_output, []) (split_lines (concat chunks)))),
     snd (judge_lines decode percent (default_parsed_output, []) (split_lines (concat chunks))))"
  using read_json_lines_eq [OF assms] by (simp add: read_json_output_def Let_def)

theorem output_independent_of_chunks_witness:
  "read_json_output (\<lambda>_. None :: unit wire_message option) (\<lambda>_. None) False
       [''ab'', ''c'' @ [newline], ''d''] =
     (Ok (fst (judge_lines (\<lambda>_. None :: unit wire_message option) (\<lambda>_. None) (default_parsed_output, [])
        [''abc'' @ [newline], ''d''])),
      snd (judge_lines (\<lambda>_. None :: unit wire_message option) (\<lambda>_. None) (default_parsed_output, [])
        [''abc'' @ [newline], ''d'']))"
  by (subst output_independent_of_chunks) simp_all

text \<open>
  A run counts as a full success exactly when restic exits with code zero after printing a
  summary, its output could be read, and neither stream reported that a snapshot fell back to live
  files or could not be removed. It counts as a success with warnings exactly when the exit code is
  zero or three and a summary was printed but a snapshot problem was reported or sources were only
  partly read; then the warning is named. Every other run is a failure or a cancellation.
\<close>

theorem finish_outcome_success:
  "let vss = (\<lambda>p. po_vss_fallback p \<or> po_vss_cleanup_failed p);
       trouble = (known \<or> (\<exists>p. out = Ok p \<and> vss p) \<or> (\<exists>p. err = Ok p \<and> vss p));
       summary = (\<exists>p. out = Ok p \<and> po_summary p \<noteq> None);
       result = finish_outcome status out err stderr known
   in (bo_kind result = BackupSucceeded \<longleftrightarrow> status = Some 0 \<and> summary \<and> \<not> trouble)
    \<and> (bo_kind result = BackupSucceededWithWarnings \<longleftrightarrow>
         summary \<and> (status = Some 0 \<and> trouble \<or> status = Some 3))
    \<and> (bo_kind result = BackupSucceededWithWarnings \<longleftrightarrow> bo_warning_code result \<noteq> None)
    \<and> (bo_kind result \<in> {BackupSucceeded, BackupSucceededWithWarnings} \<longleftrightarrow> bo_summary result \<noteq> None)"
  by (cases out; cases err)
    (auto simp: finish_outcome_def exit_failure_def backup_failed_def backup_cancelled_def
      backup_warnings_def backup_succeeded_def Let_def split: option.splits)

text \<open>
  The source items kept for a run are distinct, at most a hundred, and safe to display,
  whatever restic printed; and when the count of omitted items is still zero, every item that was
  offered is among them.
\<close>

theorem failure_details_bounded:
  assumes "read_json_output decode percent fails chunks = (output_result, offered)"
  shows "distinct (bf_items (bo_failure_details (finish_outcome status output_result e stderr known)))
    \<and> length (bf_items (bo_failure_details (finish_outcome status output_result e stderr known))) \<le> 100
    \<and> (\<forall>i \<in> set (bf_items (bo_failure_details (finish_outcome status output_result e stderr known))).
         is_safe_backup_failed_item i)
    \<and> (\<forall>is. bf_omitted (fold push_item is no_failure_details) = 0 \<longrightarrow>
         set is \<subseteq> set (bf_items (fold push_item is no_failure_details)))"
proof -
  have "source_items.good (bo_failure_details (finish_outcome status output_result e stderr known))"
    by (rule finish_outcome_details) (use assms good_read_json_output in blast)
  moreover have "bf_omitted (fold push_item is no_failure_details) = 0 \<longrightarrow>
      set is \<subseteq> set (bf_items (fold push_item is no_failure_details))" for "is"
    using source_items.nothing_lost [of no_failure_details "is"]
    by (simp add: no_failure_details_def)
  ultimately show ?thesis
    unfolding source_items.good_def by (simp add: MAX_BACKUP_FAILED_ITEMS_def)
qed

theorem failure_details_bounded_witness:
  "length (bf_items (bo_failure_details
     (finish_outcome (Some 3)
       (fst (read_json_output (\<lambda>_. None :: unit wire_message option) (\<lambda>_. None) False [])) (Err ()) []
       False))) \<le> 100"
  using failure_details_bounded [OF prod.collapse [symmetric]] by blast

end
