(* ===== verification/History.thy ===== *)
theory History
  imports Outcomes "HOL-Library.Product_Lexorder"
begin

text \<open>
  \<^verbatim>\<open>apps/resticpal-service/src/history.rs\<close>: the table of finished runs. The database is its rows
  with the next automatic identifier; the statements are modelled by what they insert, select and
  delete. A failing database call leaves the table as it was, since every append is one
  transaction.
\<close>

definition MAX_STORED_RUNS :: nat where "MAX_STORED_RUNS = 200"
definition MAX_HISTORY_RESULTS :: nat where "MAX_HISTORY_RESULTS = 100"
definition MAX_IDENTIFIER_BYTES :: nat where "MAX_IDENTIFIER_BYTES = 128"

abbreviation i64_max :: int where
  "i64_max \<equiv> 2 ^ 63 - 1"

record completed_run =
  cr_started_at :: datetime
  cr_completed_at :: datetime
  cr_outcome :: run_outcome
  cr_error_code :: "string option"
  cr_files_processed :: "u64 option"
  cr_bytes_processed :: "u64 option"
  cr_data_added :: "u64 option"
  cr_snapshot_id :: "string option"
  cr_failed_items :: "string list"
  cr_failed_items_omitted :: u64

record stored_details =
  sd_items :: "string list"
  sd_omitted :: u64

record run_row =
  rw_id :: int
  rw_started_at_ms :: int
  rw_completed_at_ms :: int
  rw_outcome :: string
  rw_error_code :: "string option"
  rw_files_processed :: "int option"
  rw_bytes_processed :: "int option"
  rw_data_added :: "int option"
  rw_snapshot_id :: "string option"
  rw_failed_items_omitted :: int
  rw_failed_items :: "string list"

record history_db =
  hd_exists :: bool
  hd_rows :: "run_row list"
  hd_last_id :: int

datatype history_error =
    HistoryDatabase
  | HistoryProtection
  | UnsafeStorageEntry
  | HistoryFileSystem
  | UnsupportedHistorySchema int
  | InvalidTimestamp int
  | InvalidUnsignedValue string
  | InvalidOutcome string

section \<open>Conversions\<close>

fun outcome_name :: "run_outcome \<Rightarrow> string" where
  "outcome_name RunSucceeded = ''succeeded''"
| "outcome_name RunSucceededWithWarnings = ''succeeded_with_warnings''"
| "outcome_name RunFailed = ''failed''"
| "outcome_name RunCancelled = ''cancelled''"

definition parse_outcome :: "string \<Rightarrow> (history_error, run_outcome) outcome" where
  "parse_outcome v =
     (if v = ''succeeded'' then Ok RunSucceeded
      else if v = ''succeeded_with_warnings'' then Ok RunSucceededWithWarnings
      else if v = ''failed'' then Ok RunFailed
      else if v = ''cancelled'' then Ok RunCancelled
      else Err (InvalidOutcome v))"

definition sanitize_identifier :: "string \<Rightarrow> string option" where
  "sanitize_identifier v =
     (if v = [] \<or> MAX_IDENTIFIER_BYTES < length v
        \<or> \<not> list_all (\<lambda>b. is_ascii_alphanumeric b \<or> b = CHR ''_'' \<or> b = CHR ''-'') v
      then None else Some v)"

definition normalize_item :: "string \<Rightarrow> stored_details \<Rightarrow> stored_details" where
  "normalize_item item d =
     (if item \<in> set (sd_items d) then d
      else if MAX_BACKUP_FAILED_ITEMS \<le> length (sd_items d) \<or> \<not> is_safe_backup_failed_item item
      then d\<lparr>sd_omitted := saturating_add (sd_omitted d) 1\<rparr>
      else d\<lparr>sd_items := sd_items d @ [item]\<rparr>)"

definition normalize_failure_details :: "string list \<Rightarrow> u64 \<Rightarrow> stored_details" where
  "normalize_failure_details items omitted =
     (let d = fold normalize_item items \<lparr>sd_items = [], sd_omitted = omitted\<rparr>;
          retained = of_nat (length (sd_items d))
      in d\<lparr>sd_omitted := min (sd_omitted d) (saturating_sub (of_int i64_max) retained)\<rparr>)"

definition to_sql_integer :: "u64 \<Rightarrow> int" where
  "to_sql_integer v = (if uint v \<le> i64_max then uint v else i64_max)"

definition normalize_sql_unsigned :: "u64 \<Rightarrow> u64" where
  "normalize_sql_unsigned v = min v (of_int i64_max)"

definition from_sql_integer :: "int \<Rightarrow> string \<Rightarrow> (history_error, u64) outcome" where
  "from_sql_integer v field = (if 0 \<le> v \<and> v \<le> i64_max then Ok (of_int v) else Err (InvalidUnsignedValue field))"

definition timestamp_millis :: "datetime \<Rightarrow> int" where
  "timestamp_millis t = t div 1000000"

definition timestamp :: "chrono \<Rightarrow> int \<Rightarrow> (history_error, datetime) outcome" where
  "timestamp K ms =
     (if MIN_UTC K \<le> ms * 1000000 \<and> ms * 1000000 \<le> MAX_UTC K then Ok (ms * 1000000)
      else Err (InvalidTimestamp ms))"

fun transpose_field :: "int option \<Rightarrow> string \<Rightarrow> (history_error, u64 option) outcome" where
  "transpose_field None field = Ok None"
| "transpose_field (Some v) field = and_then (from_sql_integer v field) (\<lambda>n. Ok (Some n))"

section \<open>Operations\<close>

definition newest_first :: "run_row list \<Rightarrow> run_row list" where
  "newest_first rows = sort_key (\<lambda>r. (- rw_completed_at_ms r, - rw_id r)) rows"

definition prune_rows :: "run_row list \<Rightarrow> run_row list" where
  "prune_rows rows =
     filter (\<lambda>r. rw_id r \<in> set (map rw_id (take MAX_STORED_RUNS (newest_first rows)))) rows"

definition new_row :: "completed_run \<Rightarrow> int \<Rightarrow> run_row" where
  "new_row run id' =
     (let details = normalize_failure_details (cr_failed_items run) (cr_failed_items_omitted run)
      in \<lparr>rw_id = id', rw_started_at_ms = timestamp_millis (cr_started_at run),
          rw_completed_at_ms = timestamp_millis (cr_completed_at run),
          rw_outcome = outcome_name (cr_outcome run),
          rw_error_code = Option.bind (cr_error_code run) sanitize_identifier,
          rw_files_processed = map_option (to_sql_integer \<circ> normalize_sql_unsigned) (cr_files_processed run),
          rw_bytes_processed = map_option (to_sql_integer \<circ> normalize_sql_unsigned) (cr_bytes_processed run),
          rw_data_added = map_option (to_sql_integer \<circ> normalize_sql_unsigned) (cr_data_added run),
          rw_snapshot_id = Option.bind (cr_snapshot_id run) sanitize_identifier,
          rw_failed_items_omitted = to_sql_integer (sd_omitted details),
          rw_failed_items = sd_items details\<rparr>)"

definition append_record ::
  "chrono \<Rightarrow> completed_run \<Rightarrow> u64 \<Rightarrow> (history_error, run_record) outcome" where
  "append_record K run id' =
     (let details = normalize_failure_details (cr_failed_items run) (cr_failed_items_omitted run) in
      and_then (timestamp K (timestamp_millis (cr_started_at run))) (\<lambda>started_at.
      and_then (timestamp K (timestamp_millis (cr_completed_at run))) (\<lambda>completed_at.
      Ok \<lparr>rr_id = id', rr_started_at = started_at, rr_completed_at = completed_at,
          rr_outcome = cr_outcome run,
          rr_error_code = Option.bind (cr_error_code run) sanitize_identifier,
          rr_files_processed = map_option normalize_sql_unsigned (cr_files_processed run),
          rr_bytes_processed = map_option normalize_sql_unsigned (cr_bytes_processed run),
          rr_data_added = map_option normalize_sql_unsigned (cr_data_added run),
          rr_snapshot_id = Option.bind (cr_snapshot_id run) sanitize_identifier,
          rr_failed_item_count =
            saturating_add (of_nat (length (sd_items details))) (sd_omitted details)\<rparr>)))"

text \<open>
  \<^verbatim>\<open>initialized_connection\<close> can fail with an error of its own, and so can any statement of the
  transaction; an identifier beyond the largest one is a failing insertion. The stored columns are
  converted for the caller after the commit.
\<close>

definition initialized_connection :: "history_error option \<Rightarrow> (history_error, unit) outcome" where
  "initialized_connection opened = (case opened of None \<Rightarrow> Ok () | Some e \<Rightarrow> Err e)"

definition history_append ::
  "chrono \<Rightarrow> history_error option \<Rightarrow> bool \<Rightarrow> completed_run \<Rightarrow> history_db \<Rightarrow>
     (history_error, run_record) outcome \<times> history_db" where
  "history_append K opened transaction_ok run db =
     (let id' = hd_last_id db + 1 in
      io_then (initialized_connection opened, db) (\<lambda>_ db.
      io_then (ensure (transaction_ok \<and> id' \<le> i64_max) HistoryDatabase, db\<lparr>hd_exists := True\<rparr>) (\<lambda>_ db.
      io_then (from_sql_integer id' ''id'', db) (\<lambda>n db.
      (append_record K run n,
       db\<lparr>hd_rows := prune_rows (hd_rows db @ [new_row run id']), hd_last_id := id'\<rparr>)))))"

text \<open>The two columns that the selection re-checks, and the conversion of a selected row.\<close>

definition short_column :: "string option \<Rightarrow> string option" where
  "short_column v = (case v of None \<Rightarrow> None | Some s \<Rightarrow> if chars_count s \<le> 128 then Some s else None)"

definition record_of_row :: "chrono \<Rightarrow> run_row \<Rightarrow> (history_error, run_record) outcome" where
  "record_of_row K r =
     and_then (from_sql_integer (rw_id r) ''id'') (\<lambda>n.
     and_then (timestamp K (rw_started_at_ms r)) (\<lambda>started_at.
     and_then (timestamp K (rw_completed_at_ms r)) (\<lambda>completed_at.
     and_then (parse_outcome (rw_outcome r)) (\<lambda>outcome'.
     and_then (transpose_field (rw_files_processed r) ''files_processed'') (\<lambda>files.
     and_then (transpose_field (rw_bytes_processed r) ''bytes_processed'') (\<lambda>bytes.
     and_then (transpose_field (rw_data_added r) ''data_added'') (\<lambda>added.
     and_then (from_sql_integer (rw_failed_items_omitted r + int (length (rw_failed_items r)))
       ''failed_item_count'') (\<lambda>count.
     Ok \<lparr>rr_id = n, rr_started_at = started_at, rr_completed_at = completed_at, rr_outcome = outcome',
         rr_error_code = Option.bind (short_column (rw_error_code r)) sanitize_identifier,
         rr_files_processed = files, rr_bytes_processed = bytes, rr_data_added = added,
         rr_snapshot_id = Option.bind (short_column (rw_snapshot_id r)) sanitize_identifier,
         rr_failed_item_count = count\<rparr>))))))))"

fun collect_records :: "chrono \<Rightarrow> run_row list \<Rightarrow> (history_error, run_record list) outcome" where
  "collect_records K [] = Ok []"
| "collect_records K (r # rs) =
     and_then (record_of_row K r) (\<lambda>x. and_then (collect_records K rs) (\<lambda>xs. Ok (x # xs)))"

definition history_recent ::
  "chrono \<Rightarrow> history_error option \<Rightarrow> nat \<Rightarrow> history_db \<Rightarrow> (history_error, run_record list) outcome" where
  "history_recent K opened limit db =
     (let limit = max 1 (min limit MAX_HISTORY_RESULTS) in
      if \<not> hd_exists db then Ok []
      else and_then (initialized_connection opened) (\<lambda>_.
      collect_records K (take limit (newest_first (hd_rows db)))))"

definition history_failure_details ::
  "history_error option \<Rightarrow> u64 \<Rightarrow> history_db \<Rightarrow> (history_error, stored_details option) outcome" where
  "history_failure_details opened run_id db =
     (if \<not> hd_exists db \<or> \<not> uint run_id \<le> i64_max then Ok None
      else
        and_then (initialized_connection opened) (\<lambda>_.
        case find (\<lambda>r. rw_id r = uint run_id) (hd_rows db) of
          None \<Rightarrow> Ok None
        | Some r \<Rightarrow>
            and_then (from_sql_integer (rw_failed_items_omitted r) ''failed_items_omitted'') (\<lambda>omitted.
            and_then (from_sql_integer (int (length (rw_failed_items r))) ''failed_item_count'') (\<lambda>stored.
            let items = fold (\<lambda>item items. if is_safe_backup_failed_item item \<and> item \<notin> set items
                  then items @ [item] else items)
                (take MAX_BACKUP_FAILED_ITEMS (rw_failed_items r)) []
            in Ok (Some \<lparr>sd_items = items,
                 sd_omitted = saturating_add omitted
                   (saturating_sub stored (of_nat (length items)))\<rparr>)))))"

section \<open>Stored items\<close>

interpretation stored_items: bounded_collector normalize_item sd_items "\<lambda>d. unat (sd_omitted d)"
  MAX_BACKUP_FAILED_ITEMS "2 ^ 64 - 1" is_safe_backup_failed_item
  by unfold_locales (auto simp: normalize_item_def unat_saturating_add)

lemma normalize_good:
  "stored_items.good (normalize_failure_details items omitted)"
proof -
  have "stored_items.good (fold normalize_item items \<lparr>sd_items = [], sd_omitted = omitted\<rparr>)"
    by (rule stored_items.good_fold) (simp add: stored_items.good_def)
  then show ?thesis
    by (simp add: normalize_failure_details_def Let_def stored_items.good_def)
qed

lemma normalize_length: "length (sd_items (normalize_failure_details items omitted)) \<le> 100"
  using normalize_good [of items omitted]
  unfolding stored_items.good_def by (simp add: MAX_BACKUP_FAILED_ITEMS_def)

lemma normalize_omitted:
  "uint (sd_omitted (normalize_failure_details items omitted))
     + int (length (sd_items (normalize_failure_details items omitted))) \<le> i64_max"
proof -
  let ?d = "normalize_failure_details items omitted"
  have "unat (sd_omitted ?d) \<le> unat (saturating_sub (of_int i64_max :: u64) (of_nat (length (sd_items ?d))))"
    by (simp add: normalize_failure_details_def Let_def min_def word_le_nat_alt)
  also have "\<dots> = unat (of_int i64_max :: u64) - length (sd_items ?d)"
    using normalize_length [of items omitted]
    by (simp add: unat_saturating_sub unsigned_of_nat take_bit_nat_eq_self)
  finally have "unat (sd_omitted ?d) + length (sd_items ?d) \<le> 2 ^ 63 - 1"
    using normalize_length [of items omitted] by simp
  then have "int (unat (sd_omitted ?d) + length (sd_items ?d)) \<le> int (2 ^ 63 - 1)"
    by (rule zle_int [THEN iffD2])
  then show ?thesis by simp
qed

section \<open>Rows and records\<close>

lemma uint_i64_max: "uint (of_int i64_max :: u64) = i64_max"
  by simp

lemma normalize_sql_unsigned_bound: "uint (normalize_sql_unsigned v) \<le> i64_max"
  by (simp add: normalize_sql_unsigned_def min_def word_le_def)

lemma sql_roundtrip: "uint v \<le> i64_max \<Longrightarrow> from_sql_integer (to_sql_integer v) field = Ok v"
  by (simp add: from_sql_integer_def to_sql_integer_def)

lemma transpose_roundtrip:
  "transpose_field (map_option (to_sql_integer \<circ> normalize_sql_unsigned) v) field =
     Ok (map_option normalize_sql_unsigned v)"
proof (cases v)
  case (Some a)
  then show ?thesis
    using sql_roundtrip [OF normalize_sql_unsigned_bound [of a]] by simp
qed simp

lemma parse_outcome_name [simp]: "parse_outcome (outcome_name k) = Ok k"
  by (cases k) (simp_all add: parse_outcome_def)

lemma sanitize_short [simp]:
  "Option.bind (short_column (Option.bind v sanitize_identifier)) sanitize_identifier =
     Option.bind v sanitize_identifier"
proof (cases v)
  case (Some s)
  then show ?thesis
    using chars_count_le [of s]
    by (simp add: sanitize_identifier_def short_column_def MAX_IDENTIFIER_BYTES_def)
qed (simp add: short_column_def)

lemma failed_count_roundtrip:
  assumes "uint om + int n \<le> i64_max"
  shows "from_sql_integer (to_sql_integer om + int n) field = Ok (saturating_add (of_nat n) om)"
proof -
  have "uint om \<le> i64_max" and n: "int n \<le> i64_max"
    using assms uint_ge_0 [of om] by linarith+
  then have "unat (of_nat n :: u64) = n"
    by (simp add: unsigned_of_nat take_bit_nat_eq_self)
  moreover have "n + unat om < 2 ^ 64"
  proof -
    have "int (n + unat om) \<le> int (2 ^ 63 - 1)"
      using assms by simp
    then show ?thesis
      using zle_int [of "n + unat om" "2 ^ 63 - 1"] by simp
  qed
  ultimately have "saturating_add (of_nat n) om = of_int (uint om + int n)"
    by (simp add: saturating_add_def)
  with assms \<open>uint om \<le> i64_max\<close> show ?thesis
    by (simp add: from_sql_integer_def to_sql_integer_def)
qed

lemma record_of_new_row:
  assumes "0 \<le> n" and "n \<le> i64_max"
  shows "record_of_row K (new_row run n) = append_record K run (of_int n)"
  using assms normalize_omitted [of "cr_failed_items run" "cr_failed_items_omitted run"]
  by (simp add: record_of_row_def new_row_def append_record_def Let_def transpose_roundtrip
      failed_count_roundtrip from_sql_integer_def [of n])

lemma sort_key_append_min:
  "(\<And>x. x \<in> set xs \<Longrightarrow> k r < k x) \<Longrightarrow> sort_key k (xs @ [r]) = r # sort_key k xs"
proof (induction xs)
  case (Cons x xs)
  then have "\<not> k x \<le> k r" by (simp add: not_le)
  with Cons show ?case by simp
qed simp

section \<open>Order and size\<close>

definition row_ok :: "chrono \<Rightarrow> run_row \<Rightarrow> bool" where
  "row_ok K r \<longleftrightarrow> (\<exists>x. record_of_row K r = Ok x) \<and> distinct (rw_failed_items r)
     \<and> length (rw_failed_items r) \<le> MAX_BACKUP_FAILED_ITEMS
     \<and> list_all is_safe_backup_failed_item (rw_failed_items r)"

definition history_ok :: "chrono \<Rightarrow> history_db \<Rightarrow> bool" where
  "history_ok K db \<longleftrightarrow>
     distinct (map rw_id (hd_rows db)) \<and> (\<forall>r \<in> set (hd_rows db). 0 < rw_id r \<and> rw_id r \<le> hd_last_id db \<and> row_ok K r)
     \<and> length (hd_rows db) \<le> MAX_STORED_RUNS \<and> 0 \<le> hd_last_id db"

definition empty_history :: history_db where
  "empty_history = \<lparr>hd_exists = False, hd_rows = [], hd_last_id = 0\<rparr>"

text \<open>The instants of a run lie in the range of the time library after truncation to milliseconds.\<close>

definition run_in_range :: "chrono \<Rightarrow> completed_run \<Rightarrow> bool" where
  "run_in_range K run \<longleftrightarrow>
     list_all (\<lambda>t. MIN_UTC K \<le> timestamp_millis t * 1000000 \<and> timestamp_millis t * 1000000 \<le> MAX_UTC K)
       [cr_started_at run, cr_completed_at run]"

lemma set_newest_first [simp]: "set (newest_first rows) = set rows"
  by (simp add: newest_first_def)

lemma length_newest_first [simp]: "length (newest_first rows) = length rows"
  by (simp add: newest_first_def)

lemma distinct_newest_first [simp]: "distinct (map f (newest_first rows)) = distinct (map f rows)"
  by (simp add: newest_first_def distinct_map)

lemma filter_set_take:
  assumes "distinct (map f xs)"
  shows "filter (\<lambda>x. f x \<in> set (map f (take n xs))) xs = take n xs"
proof -
  have disjoint: "set (map f (take n xs)) \<inter> set (map f (drop n xs)) = {}"
    using assms by (metis append_take_drop_id distinct_append map_append)
  have "filter (\<lambda>x. f x \<in> set (map f (take n xs))) (take n xs @ drop n xs) = take n xs"
    using disjoint by (auto simp: filter_empty_conv filter_id_conv simp del: append_take_drop_id)
  then show ?thesis by simp
qed

lemma newest_first_filter: "newest_first (filter P rows) = filter P (newest_first rows)"
  by (simp add: newest_first_def filter_sort)

lemma newest_first_prune_rows:
  assumes "distinct (map rw_id rows)"
  shows "newest_first (prune_rows rows) = take MAX_STORED_RUNS (newest_first rows)"
proof -
  let ?kept = "\<lambda>r. rw_id r \<in> set (map rw_id (take MAX_STORED_RUNS (newest_first rows)))"
  have "newest_first (prune_rows rows) = filter ?kept (newest_first rows)"
    unfolding prune_rows_def by (rule newest_first_filter)
  then show ?thesis
    using assms by (simp only: filter_set_take [of rw_id "newest_first rows"] distinct_newest_first)
qed

lemma set_prune_rows: "set (prune_rows rows) \<subseteq> set rows"
  by (auto simp: prune_rows_def)

lemma length_prune_rows:
  assumes "distinct (map rw_id rows)"
  shows "length (prune_rows rows) \<le> MAX_STORED_RUNS"
  using newest_first_prune_rows [OF assms] by (metis length_newest_first length_take min.cobounded2)

lemma new_row_ok:
  assumes "run_in_range K run" and "0 \<le> n" and "n \<le> i64_max"
  shows "row_ok K (new_row run n)"
proof -
  have "\<exists>x. append_record K run (of_int n) = Ok x"
    using assms(1) by (simp add: append_record_def Let_def timestamp_def run_in_range_def)
  moreover have "row_ok K (new_row run n) \<longleftrightarrow> (\<exists>x. append_record K run (of_int n) = Ok x)"
    using normalize_good [of "cr_failed_items run" "cr_failed_items_omitted run"]
    unfolding row_ok_def record_of_new_row [OF assms(2,3)] stored_items.good_def
    by (simp add: new_row_def Let_def list_all_iff)
  ultimately show ?thesis by simp
qed

lemma appended_rows_ok:
  assumes "history_ok K db" and "run_in_range K run" and "hd_last_id db + 1 \<le> i64_max"
  defines "rows \<equiv> hd_rows db @ [new_row run (hd_last_id db + 1)]"
  shows "distinct (map rw_id rows)"
    and "\<forall>r \<in> set rows. 0 < rw_id r \<and> rw_id r \<le> hd_last_id db + 1 \<and> row_ok K r"
proof -
  have id_new: "rw_id (new_row run n) = n" for n
    by (simp add: new_row_def Let_def)
  have "hd_last_id db + 1 \<notin> set (map rw_id (hd_rows db))"
    using assms(1) by (auto simp: history_ok_def)
  then show "distinct (map rw_id rows)"
    using assms(1) by (simp add: rows_def history_ok_def id_new)
  show "\<forall>r \<in> set rows. 0 < rw_id r \<and> rw_id r \<le> hd_last_id db + 1 \<and> row_ok K r"
    using assms new_row_ok [of K run "hd_last_id db + 1"] by (auto simp: history_ok_def id_new)
qed

lemma history_append_cases:
  assumes "history_ok K db"
  shows "history_append K opened transaction_ok run db =
     (if opened = None \<and> transaction_ok \<and> hd_last_id db + 1 \<le> i64_max then
        (append_record K run (of_int (hd_last_id db + 1)),
         db\<lparr>hd_exists := True, hd_rows := prune_rows (hd_rows db @ [new_row run (hd_last_id db + 1)]),
            hd_last_id := hd_last_id db + 1\<rparr>)
      else (Err (case opened of None \<Rightarrow> HistoryDatabase | Some e \<Rightarrow> e),
            db\<lparr>hd_exists := hd_exists db \<or> opened = None\<rparr>))"
  using assms
  by (cases opened; cases transaction_ok)
    (simp_all add: history_append_def initialized_connection_def Let_def from_sql_integer_def history_ok_def)

lemma history_append_ok:
  assumes "history_ok K db" and "run_in_range K run"
  shows "history_ok K (snd (history_append K opened transaction_ok run db))"
proof (cases "opened = None \<and> transaction_ok \<and> hd_last_id db + 1 \<le> i64_max")
  case True
  let ?rows = "hd_rows db @ [new_row run (hd_last_id db + 1)]"
  have rows: "distinct (map rw_id ?rows)"
    "\<forall>r \<in> set ?rows. 0 < rw_id r \<and> rw_id r \<le> hd_last_id db + 1 \<and> row_ok K r"
    using appended_rows_ok [OF assms] True by blast+
  have "distinct (map rw_id (prune_rows ?rows))"
    using rows(1) unfolding prune_rows_def by (rule distinct_map_filter)
  moreover have "\<forall>r \<in> set (prune_rows ?rows). 0 < rw_id r \<and> rw_id r \<le> hd_last_id db + 1 \<and> row_ok K r"
    using rows(2) set_prune_rows by blast
  ultimately show ?thesis
    using assms(1) True length_prune_rows [OF rows(1)]
    by (simp only: history_append_cases [OF assms(1)] if_True snd_conv) (simp add: history_ok_def)
next
  case False
  then show ?thesis
    using assms(1) by (simp only: history_append_cases [OF assms(1)] if_False snd_conv) (simp add: history_ok_def)
qed

lemma collect_records_ok:
  "(\<And>r. r \<in> set rows \<Longrightarrow> row_ok K r) \<Longrightarrow> \<exists>rs. collect_records K rows = Ok rs \<and> length rs = length rows"
proof (induction rows)
  case (Cons r rows)
  from Cons.prems obtain x where "record_of_row K r = Ok x"
    by (auto simp: row_ok_def)
  with Cons show ?case by fastforce
qed simp

lemma history_recent_ok:
  assumes "history_ok K db"
  shows "\<exists>rs. history_recent K None limit db = Ok rs \<and> length rs \<le> MAX_HISTORY_RESULTS"
proof -
  have "\<exists>rs. collect_records K (take n (newest_first (hd_rows db))) = Ok rs \<and> length rs \<le> n" for n
  proof -
    have "row_ok K r" if "r \<in> set (take n (newest_first (hd_rows db)))" for r
      using in_set_takeD [OF that] assms by (simp add: history_ok_def)
    from collect_records_ok [OF this] show ?thesis by fastforce
  qed
  from this [of "max 1 (min limit MAX_HISTORY_RESULTS)"] show ?thesis
    by (auto simp: history_recent_def initialized_connection_def MAX_HISTORY_RESULTS_def Let_def)
qed

fun append_all ::
  "chrono \<Rightarrow> (history_error option \<times> bool \<times> completed_run) list \<Rightarrow> history_db \<Rightarrow> history_db" where
  "append_all K [] db = db"
| "append_all K ((opened, transaction_ok, run) # runs) db =
     append_all K runs (snd (history_append K opened transaction_ok run db))"

lemma append_all_ok:
  "list_all (\<lambda>(_, _, run). run_in_range K run) runs \<Longrightarrow> history_ok K db \<Longrightarrow> history_ok K (append_all K runs db)"
  by (induction K runs db rule: append_all.induct) (auto simp: history_append_ok)

section \<open>Properties\<close>

definition sample_run :: completed_run where
  "sample_run = \<lparr>cr_started_at = 5000000, cr_completed_at = 7000000, cr_outcome = RunFailed,
     cr_error_code = Some ''restic_exit_3'', cr_files_processed = Some 3, cr_bytes_processed = None,
     cr_data_added = Some (- 1), cr_snapshot_id = Some ''../x'', cr_failed_items = [''a'', ''b'', ''a''],
     cr_failed_items_omitted = 2\<rparr>"

definition sample_chrono :: chrono where
  "sample_chrono = \<lparr>MIN_UTC = 0, MAX_UTC = 10 ^ 18, MAX_SECONDS = 10 ^ 12\<rparr>"

text \<open>
  C20. The run history stays bounded and readable: after any sequence of appended runs, with any
  database failures in between, at most 200 rows with distinct identifiers are stored, each with at
  most 100 distinct display-safe items, and a later selection succeeds with at most 100 records.
\<close>

theorem history_bounded:
  assumes "list_all (\<lambda>(_, _, run). run_in_range K run) runs"
  shows "let db = append_all K runs empty_history in
    length (hd_rows db) \<le> 200 \<and> distinct (map rw_id (hd_rows db))
    \<and> (\<forall>r \<in> set (hd_rows db). distinct (rw_failed_items r) \<and> length (rw_failed_items r) \<le> 100
         \<and> list_all is_safe_backup_failed_item (rw_failed_items r))
    \<and> (\<exists>rs. history_recent K None limit db = Ok rs \<and> length rs \<le> 100)"
proof -
  have ok: "history_ok K (append_all K runs empty_history)"
    using assms by (rule append_all_ok) (simp add: history_ok_def empty_history_def)
  with history_recent_ok [OF ok, of limit] show ?thesis
    by (auto simp: Let_def history_ok_def row_ok_def MAX_STORED_RUNS_def MAX_HISTORY_RESULTS_def
        MAX_BACKUP_FAILED_ITEMS_def)
qed

theorem history_bounded_witness:
  "\<exists>rs. history_recent sample_chrono None 5
     (append_all sample_chrono [(None, True, sample_run), (Some HistoryProtection, True, sample_run)] empty_history) = Ok rs
     \<and> length rs \<le> 100"
  using history_bounded [of sample_chrono "[(None, True, sample_run), (Some HistoryProtection, True, sample_run)]" 5]
  by (simp add: Let_def run_in_range_def sample_chrono_def sample_run_def timestamp_millis_def)

text \<open>
  C21. A run appended to the history is found again: as long as no stored run was completed later,
  the newest record of the next selection is the record that the append returned, field by field
  (sanitised codes, saturated counters, number of failed items), with a fresh identifier, and the
  pruning to 200 rows never removes it.
\<close>

theorem history_append_recorded:
  assumes "history_ok K db" and "run_in_range K run" and "hd_last_id db < i64_max"
    and "\<forall>r \<in> set (hd_rows db). rw_completed_at_ms r \<le> timestamp_millis (cr_completed_at run)"
  shows "\<exists>rec db' older. history_append K None True run db = (Ok rec, db')
    \<and> rr_id rec = of_int (hd_last_id db + 1) \<and> rr_outcome rec = cr_outcome run
    \<and> history_recent K None limit db' = Ok (rec # older)"
proof -
  let ?n = "hd_last_id db + 1" and ?row = "new_row run (hd_last_id db + 1)"
  let ?rows = "hd_rows db @ [?row]"
  let ?db' = "db\<lparr>hd_exists := True, hd_rows := prune_rows ?rows, hd_last_id := ?n\<rparr>"
  have n: "0 \<le> ?n" "?n \<le> i64_max"
    using assms(1,3) by (simp_all add: history_ok_def)
  have rows: "distinct (map rw_id ?rows)" "\<forall>r \<in> set ?rows. row_ok K r"
    using appended_rows_ok [OF assms(1,2) n(2)] by blast+
  obtain rec where rec: "append_record K run (of_int ?n) = Ok rec"
    and fields: "rr_id rec = of_int ?n" "rr_outcome rec = cr_outcome run"
    using assms(2) by (simp add: append_record_def Let_def timestamp_def run_in_range_def)
  have "newest_first ?rows = ?row # newest_first (hd_rows db)"
    unfolding newest_first_def
  proof (rule sort_key_append_min)
    fix x assume "x \<in> set (hd_rows db)"
    with assms(1,4) show "(- rw_completed_at_ms ?row, - rw_id ?row) < (- rw_completed_at_ms x, - rw_id x)"
      by (auto simp: new_row_def Let_def history_ok_def less_le)
  qed
  then obtain rest where newest: "newest_first (prune_rows ?rows) = ?row # rest"
    by (simp add: newest_first_prune_rows [OF rows(1)] MAX_STORED_RUNS_def)
  then have "set rest \<subseteq> set ?rows"
    using set_prune_rows [of ?rows] set_newest_first [of "prune_rows ?rows"] by auto
  with rows(2) have "\<exists>older. collect_records K (take m rest) = Ok older" for m
    using collect_records_ok [of "take m rest" K] by (meson in_set_takeD subsetD)
  then obtain older where older: "collect_records K (take (max 1 (min limit MAX_HISTORY_RESULTS) - 1) rest) = Ok older"
    by blast
  have "history_recent K None limit ?db' = Ok (rec # older)"
    using older rec
    by (simp add: history_recent_def initialized_connection_def Let_def newest take_Cons' record_of_new_row [OF n])
  moreover have "history_append K None True run db = (Ok rec, ?db')"
    using n(2) rec by (simp add: history_append_cases [OF assms(1)])
  ultimately show ?thesis using fields by blast
qed

theorem history_append_recorded_witness:
  "\<exists>rec db' older. history_append sample_chrono None True sample_run empty_history = (Ok rec, db')
     \<and> rr_id rec = 1 \<and> rr_outcome rec = RunFailed
     \<and> history_recent sample_chrono None 5 db' = Ok (rec # older)"
  using history_append_recorded [of sample_chrono empty_history sample_run 5]
  by (simp add: history_ok_def empty_history_def run_in_range_def sample_chrono_def sample_run_def
      timestamp_millis_def MAX_STORED_RUNS_def)

end
