(* ===== verification/Credentials.thy ===== *)
theory Credentials
  imports Config
begin

text \<open>
  \<^verbatim>\<open>crates/resticpal-windows/src/credentials.rs\<close>: the protected credential directory. A directory is
  the map from file names to entries. The data protection interface, the random numbers and the
  calls that fail are the fields of an environment, one environment for each call of the store.
  Access control lists are set by calls that can fail and have no other effect here.
\<close>

section \<open>The directory\<close>

datatype credential_entry = CredentialFile string | OtherEntry

type_synonym credential_directory = "(string, credential_entry) btree"

datatype credential_call =
    RandomCall | ExistsCall | CreateTempCall | WriteTempCall | RemoveTempCall | ProtectTempCall
  | MoveCall | ProtectTargetCall | MetadataCall | ReadCall | RemoveCall | CreateDirectoryCall
  | ListCall | ProtectEntryCall

record credential_env =
  ce_protect :: "string \<Rightarrow> string option"
  ce_unprotect :: "string \<Rightarrow> string option"
  ce_random :: "u8 list list"
  ce_faults :: "credential_call set"
  ce_temporary :: string
  ce_partial :: string

datatype credential_error =
    InvalidReference
  | ReferenceGenerationFailed
  | EmptySecret
  | SecretTooLarge
  | ProtectedDataTooLarge
  | CredentialNotFound
  | InvalidFormat
  | InvalidPlaintext
  | UnsafeStoreDirectory
  | UnexpectedStoreEntry
  | InvalidSecurityDescriptor
  | InvalidTokenInformation
  | CredentialIo
  | CredentialWindows
  | SidEncoding

definition FILE_MAGIC :: string where "FILE_MAGIC = ''RESTICPAL-CREDENTIAL'' @ [CHR 0x01]"
definition FILE_EXTENSION :: string where "FILE_EXTENSION = ''credential''"
definition MAX_SECRET_BYTES :: nat where "MAX_SECRET_BYTES = 32 * 1024"
definition MAX_PROTECTED_BYTES :: nat where "MAX_PROTECTED_BYTES = 128 * 1024"
definition RANDOM_REFERENCE_BYTES :: nat where "RANDOM_REFERENCE_BYTES = 16"
definition REFERENCE_GENERATION_ATTEMPTS :: nat where "REFERENCE_GENERATION_ATTEMPTS = 8"

definition call_ok :: "credential_env \<Rightarrow> credential_call \<Rightarrow> bool" where
  "call_ok env call \<longleftrightarrow> call \<notin> ce_faults env"

definition validate_reference :: "string \<Rightarrow> (credential_error, unit) outcome" where
  "validate_reference reference = ensure (is_valid_secret_reference reference) InvalidReference"

definition path_for :: "string \<Rightarrow> (credential_error, string) outcome" where
  "path_for reference =
     and_then (validate_reference reference) (\<lambda>_. Ok (reference @ ''.'' @ FILE_EXTENSION))"

definition is_internal_temporary_name :: "string \<Rightarrow> bool" where
  "is_internal_temporary_name name =
     (case strip_prefix ''.tmp-'' name of
        None \<Rightarrow> False
      | Some rest \<Rightarrow>
          let process = takeWhile (\<lambda>c. c \<noteq> CHR ''-'') rest;
              counter = drop (length process + 1) rest
          in CHR ''-'' \<in> set rest \<and> process \<noteq> [] \<and> counter \<noteq> []
             \<and> list_all is_ascii_digit process \<and> list_all is_ascii_digit counter)"

section \<open>Operations\<close>

text \<open>An error before the move drops the temporary file, unless its removal fails too.\<close>

definition drop_temporary :: "credential_env \<Rightarrow> credential_directory \<Rightarrow> credential_directory" where
  "drop_temporary env dir =
     (if call_ok env RemoveTempCall then dir
      else bt_insert (ce_temporary env) (CredentialFile (ce_partial env)) dir)"

definition write_atomically ::
  "credential_env \<Rightarrow> string \<Rightarrow> string \<Rightarrow> credential_directory \<Rightarrow>
     (credential_error, unit) outcome \<times> credential_directory" where
  "write_atomically env reference contents dir =
     io_then (path_for reference, dir) (\<lambda>target dir.
     if \<not> call_ok env CreateTempCall then (Err CredentialIo, dir)
     else if \<not> call_ok env WriteTempCall then (Err CredentialIo, drop_temporary env dir)
     else if \<not> call_ok env ProtectTempCall then (Err CredentialWindows, drop_temporary env dir)
     else if \<not> call_ok env MoveCall then (Err CredentialWindows, drop_temporary env dir)
     else (ensure (call_ok env ProtectTargetCall) CredentialWindows,
           bt_insert target (CredentialFile contents) dir))"

definition put_secret ::
  "credential_env \<Rightarrow> string \<Rightarrow> string \<Rightarrow> credential_directory \<Rightarrow>
     (credential_error, unit) outcome \<times> credential_directory" where
  "put_secret env reference secret dir =
     io_then (validate_reference reference, dir) (\<lambda>_ dir.
     io_then (ensure (secret \<noteq> []) EmptySecret, dir) (\<lambda>_ dir.
     io_then (ensure (length secret \<le> MAX_SECRET_BYTES) SecretTooLarge, dir) (\<lambda>_ dir.
     io_then (ok_or (ce_protect env secret) CredentialWindows, dir) (\<lambda>protected dir.
     io_then (ensure (length protected \<le> MAX_PROTECTED_BYTES) ProtectedDataTooLarge, dir) (\<lambda>_ dir.
     write_atomically env reference (FILE_MAGIC @ protected) dir)))))"

definition hex_digit :: "nat \<Rightarrow> char" where
  "hex_digit n = (if n < 10 then char_of (48 + n) else char_of (87 + n))"

definition hex_byte :: "u8 \<Rightarrow> string" where
  "hex_byte b = [hex_digit (unat b div 16), hex_digit (unat b mod 16)]"

fun put_new_attempts ::
  "credential_env \<Rightarrow> string \<Rightarrow> string \<Rightarrow> u8 list list \<Rightarrow> credential_directory \<Rightarrow>
     (credential_error, string) outcome \<times> credential_directory" where
  "put_new_attempts env pre secret [] dir = (Err ReferenceGenerationFailed, dir)"
| "put_new_attempts env pre secret (random # rest) dir =
     io_then (ensure (call_ok env RandomCall) CredentialWindows, dir) (\<lambda>_ dir.
     let reference = pre @ ''-'' @ concat (map hex_byte random) in
     io_then (path_for reference, dir) (\<lambda>target dir.
     io_then (ensure (call_ok env ExistsCall) CredentialIo, dir) (\<lambda>_ dir.
     if bt_get dir target \<noteq> None then put_new_attempts env pre secret rest dir
     else io_then (put_secret env reference secret dir) (\<lambda>_ dir. (Ok reference, dir)))))"

text \<open>The loop draws at most eight random suffixes of sixteen bytes.\<close>

definition put_new ::
  "credential_env \<Rightarrow> string \<Rightarrow> string \<Rightarrow> credential_directory \<Rightarrow>
     (credential_error, string) outcome \<times> credential_directory" where
  "put_new env pre secret dir =
     io_then (validate_reference pre, dir) (\<lambda>_ dir.
     put_new_attempts env pre secret
       (map (take RANDOM_REFERENCE_BYTES) (take REFERENCE_GENERATION_ATTEMPTS (ce_random env))) dir)"

definition get_secret ::
  "credential_env \<Rightarrow> string \<Rightarrow> credential_directory \<Rightarrow> (credential_error, string) outcome" where
  "get_secret env reference dir =
     and_then (path_for reference) (\<lambda>target.
     and_then (ensure (call_ok env MetadataCall) CredentialIo) (\<lambda>_.
     case bt_get dir target of
       None \<Rightarrow> Err CredentialNotFound
     | Some OtherEntry \<Rightarrow> Err UnexpectedStoreEntry
     | Some (CredentialFile contents) \<Rightarrow>
         and_then (ensure (call_ok env ReadCall) CredentialIo) (\<lambda>_.
         and_then (ensure (length contents \<le> MAX_PROTECTED_BYTES + length FILE_MAGIC) ProtectedDataTooLarge) (\<lambda>_.
         and_then (case strip_prefix FILE_MAGIC contents of
             None \<Rightarrow> Err InvalidFormat
           | Some value \<Rightarrow> if value = [] then Err InvalidFormat else Ok value) (\<lambda>protected.
         and_then (ok_or (ce_unprotect env protected) CredentialWindows) (\<lambda>plaintext.
         and_then (ensure (plaintext \<noteq> [] \<and> length plaintext \<le> MAX_SECRET_BYTES) InvalidPlaintext) (\<lambda>_.
         Ok plaintext)))))))"

definition remove_secret ::
  "credential_env \<Rightarrow> string \<Rightarrow> credential_directory \<Rightarrow>
     (credential_error, unit) outcome \<times> credential_directory" where
  "remove_secret env reference dir =
     io_then (path_for reference, dir) (\<lambda>target dir.
     if bt_get dir target = None then (Ok (), dir)
     else if call_ok env RemoveCall then (Ok (), bt_remove target dir)
     else (Err CredentialIo, dir))"

fun open_entries ::
  "credential_env \<Rightarrow> (string \<times> credential_entry) list \<Rightarrow> credential_directory \<Rightarrow>
     (credential_error, unit) outcome \<times> credential_directory" where
  "open_entries env [] dir = (Ok (), dir)"
| "open_entries env ((name, entry) # rest) dir =
     io_then (ensure (call_ok env MetadataCall) CredentialIo, dir) (\<lambda>_ dir.
     if entry \<noteq> OtherEntry \<and> is_internal_temporary_name name then
       io_then (ensure (call_ok env RemoveCall) CredentialIo, dir) (\<lambda>_ dir.
       open_entries env rest (bt_remove name dir))
     else if entry = OtherEntry then (Err UnexpectedStoreEntry, dir)
     else io_then (ensure (call_ok env ProtectEntryCall) CredentialWindows, dir) (\<lambda>_ dir.
       open_entries env rest dir))"

definition open_store ::
  "credential_env \<Rightarrow> bool \<Rightarrow> credential_directory \<Rightarrow> (credential_error, unit) outcome \<times> credential_directory" where
  "open_store env safe_directory dir =
     io_then (ensure (call_ok env CreateDirectoryCall) CredentialIo, dir) (\<lambda>_ dir.
     io_then (ensure safe_directory UnsafeStoreDirectory, dir) (\<lambda>_ dir.
     io_then (ensure (call_ok env ProtectEntryCall) CredentialWindows, dir) (\<lambda>_ dir.
     io_then (ensure (call_ok env ListCall) CredentialIo, dir) (\<lambda>_ dir.
     open_entries env dir dir))))"

section \<open>The contract of a secret store\<close>

text \<open>
  \<open>holds\<close> is the protected value stored under a reference. What the clients rely on: storing under a
  new reference never touches an existing one, whether it succeeds or not; on success the reference
  was free and reads back; discarding a reference touches no other.
\<close>

locale secret_store =
  fixes store_new :: "'env \<Rightarrow> string \<Rightarrow> string \<Rightarrow> 'd \<Rightarrow> ('e, string) outcome \<times> 'd"
    and fetch :: "'env \<Rightarrow> string \<Rightarrow> 'd \<Rightarrow> ('e, string) outcome"
    and discard :: "'env \<Rightarrow> string \<Rightarrow> 'd \<Rightarrow> ('e, unit) outcome \<times> 'd"
    and holds :: "'d \<Rightarrow> string \<Rightarrow> 'x option"
    and wf :: "'d \<Rightarrow> bool"
    and sound :: "'env \<Rightarrow> bool"
    and reads :: "'env \<Rightarrow> 'env \<Rightarrow> bool"
  assumes wf_store_new: "wf d \<Longrightarrow> wf (snd (store_new env p s d))"
    and wf_discard: "wf d \<Longrightarrow> wf (snd (discard env r d))"
    and store_new_keeps: "wf d \<Longrightarrow> sound env \<Longrightarrow> holds d q \<noteq> None \<Longrightarrow> holds (snd (store_new env p s d)) q = holds d q"
    and store_new_fresh: "wf d \<Longrightarrow> store_new env p s d = (Ok r, d') \<Longrightarrow>
      holds d r = None \<and> holds d' r \<noteq> None \<and> (\<forall>q. q \<noteq> r \<longrightarrow> holds d' q = holds d q)"
    and fetch_new: "wf d \<Longrightarrow> sound env \<Longrightarrow> store_new env p s d = (Ok r, d') \<Longrightarrow>
      holds d'' r = holds d' r \<Longrightarrow> reads env env' \<Longrightarrow> fetch env' r d'' = Ok s"
    and discard_other: "wf d \<Longrightarrow> q \<noteq> r \<Longrightarrow> holds (snd (discard env r d)) q = holds d q"
    and discard_self: "wf d \<Longrightarrow> holds (snd (discard env r d)) r =
      (if fst (discard env r d) = Ok () then None else holds d r)"
begin

abbreviation discard_all :: "('env \<times> string) list \<Rightarrow> 'd \<Rightarrow> 'd" where
  "discard_all \<equiv> fold (\<lambda>(env, r) d. snd (discard env r d))"

lemma wf_discard_all: "wf d \<Longrightarrow> wf (discard_all ers d)"
  by (induction ers arbitrary: d) (auto simp: wf_discard)

lemma discard_all_other: "wf d \<Longrightarrow> q \<notin> snd ` set ers \<Longrightarrow> holds (discard_all ers d) q = holds d q"
  by (induction ers arbitrary: d) (auto simp: wf_discard discard_other)

lemma discard_keeps_none: "wf d \<Longrightarrow> holds d q = None \<Longrightarrow> holds (snd (discard env r d)) q = None"
  by (cases "q = r") (simp_all add: discard_self discard_other)

lemma discard_all_keeps_none: "wf d \<Longrightarrow> holds d q = None \<Longrightarrow> holds (discard_all ers d) q = None"
  by (induction ers arbitrary: d) (auto simp: wf_discard discard_keeps_none)

lemma discard_all_gone:
  "wf d \<Longrightarrow> q \<in> snd ` set ers \<Longrightarrow> (\<And>env r d. (env, r) \<in> set ers \<Longrightarrow> fst (discard env r d) = Ok ()) \<Longrightarrow>
   holds (discard_all ers d) q = None"
proof (induction ers arbitrary: d)
  case (Cons er ers)
  obtain env r where er: "er = (env, r)" by force
  show ?case
  proof (cases "q = r")
    case True
    with Cons.prems er have "holds (snd (discard env r d)) q = None"
      by (simp add: discard_self)
    with Cons.prems er show ?thesis
      by (simp add: discard_all_keeps_none wf_discard)
  next
    case False
    with Cons er show ?thesis by (simp add: wf_discard)
  qed
qed simp

end

section \<open>The directory satisfies the contract\<close>

definition holds_secret :: "credential_directory \<Rightarrow> string \<Rightarrow> credential_entry option" where
  "holds_secret dir reference =
     (if is_valid_secret_reference reference then bt_get dir (reference @ ''.'' @ FILE_EXTENSION) else None)"

text \<open>
  What the data protection interface documents: protection yields a non-empty value, which
  unprotection maps back. The name of a temporary file has the form that the source gives it.
\<close>

definition sound_env :: "credential_env \<Rightarrow> bool" where
  "sound_env env \<longleftrightarrow> prefix ''.'' (ce_temporary env)
     \<and> (\<forall>s p. ce_protect env s = Some p \<longrightarrow> p \<noteq> [] \<and> ce_unprotect env p = Some s)"

definition reads_back :: "credential_env \<Rightarrow> credential_env \<Rightarrow> bool" where
  "reads_back env env' \<longleftrightarrow> ce_unprotect env' = ce_unprotect env
     \<and> call_ok env' MetadataCall \<and> call_ok env' ReadCall"

lemma path_for_eq:
  "path_for r = (if is_valid_secret_reference r then Ok (r @ ''.'' @ FILE_EXTENSION) else Err InvalidReference)"
  by (simp add: path_for_def validate_reference_def)

lemma reference_not_temporary:
  "is_valid_secret_reference r \<Longrightarrow> prefix ''.'' t \<Longrightarrow> r @ ''.'' @ FILE_EXTENSION \<noteq> t"
  by (cases r) (auto simp: is_valid_secret_reference_def ascii_simps)

lemma drop_temporary_wf: "bt_wf d \<Longrightarrow> bt_wf (drop_temporary env d)"
  by (simp add: drop_temporary_def bt_wf_insert)

lemma drop_temporary_holds:
  "bt_wf d \<Longrightarrow> sound_env env \<Longrightarrow> holds_secret (drop_temporary env d) q = holds_secret d q"
  using reference_not_temporary [of q "ce_temporary env"]
  by (auto simp: drop_temporary_def holds_secret_def sound_env_def bt.get_insert)

lemma put_secret_cases:
  obtains (unchanged) e where "put_secret env r s d = (Err e, d) \<or> put_secret env r s d = (Err e, drop_temporary env d)"
  | (stored) protected where "is_valid_secret_reference r" "s \<noteq> []" "length s \<le> MAX_SECRET_BYTES"
      "ce_protect env s = Some protected" "length protected \<le> MAX_PROTECTED_BYTES"
      "put_secret env r s d = (ensure (call_ok env ProtectTargetCall) CredentialWindows,
         bt_insert (r @ ''.'' @ FILE_EXTENSION) (CredentialFile (FILE_MAGIC @ protected)) d)"
proof (cases "ce_protect env s")
  case None
  then have "\<exists>e. put_secret env r s d = (Err e, d)"
    by (simp add: put_secret_def validate_reference_def io_then_ensure)
  then show thesis using unchanged by blast
next
  case (Some protected)
  have "put_secret env r s d =
    (if \<not> is_valid_secret_reference r then (Err InvalidReference, d)
     else if s = [] then (Err EmptySecret, d)
     else if \<not> length s \<le> MAX_SECRET_BYTES then (Err SecretTooLarge, d)
     else if \<not> length protected \<le> MAX_PROTECTED_BYTES then (Err ProtectedDataTooLarge, d)
     else if \<not> call_ok env CreateTempCall then (Err CredentialIo, d)
     else if \<not> call_ok env WriteTempCall then (Err CredentialIo, drop_temporary env d)
     else if \<not> call_ok env ProtectTempCall then (Err CredentialWindows, drop_temporary env d)
     else if \<not> call_ok env MoveCall then (Err CredentialWindows, drop_temporary env d)
     else (ensure (call_ok env ProtectTargetCall) CredentialWindows,
       bt_insert (r @ ''.'' @ FILE_EXTENSION) (CredentialFile (FILE_MAGIC @ protected)) d))"
    using Some
    by (simp add: put_secret_def write_atomically_def path_for_eq validate_reference_def io_then_ensure
        not_le)
  then consider e where "put_secret env r s d = (Err e, d)"
    | e where "put_secret env r s d = (Err e, drop_temporary env d)"
    | "is_valid_secret_reference r" "s \<noteq> []" "length s \<le> MAX_SECRET_BYTES"
      "length protected \<le> MAX_PROTECTED_BYTES"
      "put_secret env r s d = (ensure (call_ok env ProtectTargetCall) CredentialWindows,
         bt_insert (r @ ''.'' @ FILE_EXTENSION) (CredentialFile (FILE_MAGIC @ protected)) d)"
    by metis
  then show thesis
    using unchanged stored Some by cases blast+
qed

lemma put_secret_wf: "bt_wf d \<Longrightarrow> bt_wf (snd (put_secret env r s d))"
  by (cases rule: put_secret_cases [of env r s d]) (auto simp: drop_temporary_wf bt_wf_insert)

lemma put_secret_other:
  assumes "bt_wf d" and "sound_env env" and "q \<noteq> r"
  shows "holds_secret (snd (put_secret env r s d)) q = holds_secret d q"
proof (cases rule: put_secret_cases [of env r s d])
  case unchanged
  with assms(1,2) show ?thesis by (auto simp: drop_temporary_holds)
next
  case stored
  with assms(1,3) show ?thesis by (simp add: holds_secret_def bt.get_insert)
qed

lemma put_secret_Ok:
  assumes "put_secret env r s d = (Ok (), d')"
  obtains protected where "is_valid_secret_reference r" "s \<noteq> []" "length s \<le> MAX_SECRET_BYTES"
    "ce_protect env s = Some protected" "length protected \<le> MAX_PROTECTED_BYTES"
    "d' = bt_insert (r @ ''.'' @ FILE_EXTENSION) (CredentialFile (FILE_MAGIC @ protected)) d"
  by (rule put_secret_cases [of env r s d]) (use assms that in auto)

lemma put_new_attempts_step:
  "put_new_attempts env pre s (random # rest) d =
     (let r = pre @ ''-'' @ concat (map hex_byte random) in
      if \<not> call_ok env RandomCall then (Err CredentialWindows, d)
      else if \<not> is_valid_secret_reference r then (Err InvalidReference, d)
      else if \<not> call_ok env ExistsCall then (Err CredentialIo, d)
      else if holds_secret d r \<noteq> None then put_new_attempts env pre s rest d
      else io_then (put_secret env r s d) (\<lambda>_ d. (Ok r, d)))"
  by (simp add: Let_def io_then_ensure path_for_eq holds_secret_def)

lemma put_new_attempts_result:
  "(\<exists>e. put_new_attempts env pre s randoms d = (Err e, d))
   \<or> (\<exists>r. holds_secret d r = None \<and> is_valid_secret_reference r
        \<and> put_new_attempts env pre s randoms d = io_then (put_secret env r s d) (\<lambda>_ d. (Ok r, d)))"
proof (induction randoms)
  case (Cons random rest)
  then show ?case
    unfolding put_new_attempts_step Let_def by (simp del: not_None_eq) blast
qed simp

lemma put_new_result:
  obtains (unchanged) e where "put_new env pre s d = (Err e, d)"
  | (stored) r where "holds_secret d r = None" "is_valid_secret_reference r"
      "put_new env pre s d = io_then (put_secret env r s d) (\<lambda>_ d. (Ok r, d))"
  using put_new_attempts_result [of env pre s _ d]
  unfolding put_new_def validate_reference_def io_then_ensure by metis

lemma put_new_Ok:
  assumes "put_new env pre s d = (Ok r, d')"
  shows "holds_secret d r = None" and "put_secret env r s d = (Ok (), d')"
proof (atomize (full), cases rule: put_new_result [of env pre s d])
  case (stored r')
  show "holds_secret d r = None \<and> put_secret env r s d = (Ok (), d')"
    using assms stored(1) unfolding stored(3) io_then_iffs by auto
qed (use assms in auto)

lemma holds_stored:
  "bt_wf d \<Longrightarrow> is_valid_secret_reference r \<Longrightarrow>
   holds_secret (bt_insert (r @ CHR ''.'' # FILE_EXTENSION) x d) q = (if q = r then Some x else holds_secret d q)"
  by (auto simp: holds_secret_def bt.get_insert)

lemma remove_secret_eq:
  "remove_secret env r d =
     (if \<not> is_valid_secret_reference r then (Err InvalidReference, d)
      else if holds_secret d r = None then (Ok (), d)
      else if call_ok env RemoveCall then (Ok (), bt_remove (r @ ''.'' @ FILE_EXTENSION) d)
      else (Err CredentialIo, d))"
  by (simp add: remove_secret_def path_for_eq holds_secret_def)

lemma get_secret_stored:
  assumes "is_valid_secret_reference r" and "s \<noteq> []" and "length s \<le> MAX_SECRET_BYTES"
    and "ce_protect env s = Some p" and "length p \<le> MAX_PROTECTED_BYTES" and "sound_env env"
    and "holds_secret d r = Some (CredentialFile (FILE_MAGIC @ p))" and "reads_back env env'"
  shows "get_secret env' r d = Ok s"
proof -
  have "p \<noteq> []" and "ce_unprotect env' p = Some s"
    using assms(4,6,8) by (auto simp: sound_env_def reads_back_def)
  moreover have "bt_get d (r @ ''.'' @ FILE_EXTENSION) = Some (CredentialFile (FILE_MAGIC @ p))"
    using assms(1,7) by (simp add: holds_secret_def)
  moreover have "strip_prefix FILE_MAGIC (FILE_MAGIC @ p) = Some p"
    by (simp add: strip_prefix_Some)
  ultimately show ?thesis
    using assms(1-3,5,8) by (simp add: get_secret_def path_for_eq reads_back_def)
qed

interpretation credentials: secret_store put_new get_secret remove_secret holds_secret bt_wf sound_env reads_back
proof (unfold_locales, goal_cases)
  case (1 d env p s)
  then show ?case
    by (cases rule: put_new_result [of env p s d]) (simp_all add: put_secret_wf)
next
  case (2 d env r)
  then show ?case
    by (simp add: remove_secret_eq bt_wf_remove)
next
  case (3 d env q p s)
  then show ?case
  proof (cases rule: put_new_result [of env p s d])
    case (stored r)
    with 3 have "q \<noteq> r" by auto
    with 3 stored show ?thesis by (simp add: put_secret_other)
  qed simp
next
  case (4 d env p s r d')
  from put_new_Ok [OF 4(2)] have free: "holds_secret d r = None" and put: "put_secret env r s d = (Ok (), d')"
    by blast+
  show ?case
    by (rule put_secret_Ok [OF put]) (use 4(1) free in \<open>simp add: holds_stored\<close>)
next
  case (5 d env p s r d' d'' env')
  have put: "put_secret env r s d = (Ok (), d')"
    using 5(3) by (rule put_new_Ok)
  show ?case
    by (rule put_secret_Ok [OF put], rule get_secret_stored) (use 5 in \<open>simp_all add: holds_stored\<close>)
next
  case (6 d q r env)
  then show ?case
    by (auto simp: remove_secret_eq holds_secret_def bt.get_remove)
next
  case (7 d env r)
  then show ?case
    by (auto simp: remove_secret_eq holds_secret_def bt.get_remove)
qed

section \<open>Properties\<close>

text \<open>
  C25. A secret stored under a new reference reads back as it was, for as long as its file is not
  replaced: the reference was free before, every other stored secret keeps its file, the file never
  holds more than the protected form, and discarding another reference later, successfully or not,
  does not affect it. A failed attempt, at whatever system call, leaves every stored secret alone.
\<close>

theorem stored_secret_reads_back:
  assumes "bt_wf dir" and "sound_env env" and "reads_back env env'"
  shows "(\<forall>r dir'. put_new env pre secret dir = (Ok r, dir') \<longrightarrow>
      is_valid_secret_reference r \<and> holds_secret dir r = None
      \<and> get_secret env' r dir' = Ok secret
      \<and> (\<forall>other. other \<noteq> r \<longrightarrow> get_secret env' r (snd (remove_secret env'' other dir')) = Ok secret)
      \<and> get_secret env' r (snd (remove_secret env'' r dir')) \<in> {Ok secret, Err CredentialNotFound}
      \<and> (\<exists>protected. ce_protect env secret = Some protected
           \<and> holds_secret dir' r = Some (CredentialFile (FILE_MAGIC @ protected))))
    \<and> (\<forall>q. holds_secret dir q \<noteq> None \<longrightarrow> holds_secret (snd (put_new env pre secret dir)) q = holds_secret dir q)"
proof (intro conjI allI impI)
  fix q assume "holds_secret dir q \<noteq> None"
  then show "holds_secret (snd (put_new env pre secret dir)) q = holds_secret dir q"
    using assms(1,2) by (rule credentials.store_new_keeps [rotated 2])
next
  fix r dir' assume new: "put_new env pre secret dir = (Ok r, dir')"
  obtain p where p: "is_valid_secret_reference r" "ce_protect env secret = Some p"
    and dir': "dir' = bt_insert (r @ ''.'' @ FILE_EXTENSION) (CredentialFile (FILE_MAGIC @ p)) dir"
    using put_new_Ok(2) [OF new] by (rule put_secret_Ok)
  have wf': "bt_wf dir'"
    using credentials.wf_store_new [OF assms(1), of env pre secret] new by simp
  note fetch = credentials.fetch_new [OF assms(1,2) new _ assms(3)]
  show "is_valid_secret_reference r" and "holds_secret dir r = None"
    using p(1) put_new_Ok(1) [OF new] by simp_all
  show "get_secret env' r dir' = Ok secret"
    by (rule fetch) (rule refl)
  show "\<exists>protected. ce_protect env secret = Some protected
      \<and> holds_secret dir' r = Some (CredentialFile (FILE_MAGIC @ protected))"
    using p dir' assms(1) by (simp add: holds_stored)
  show "get_secret env' r (snd (remove_secret env'' other dir')) = Ok secret" if "other \<noteq> r" for other
    by (rule fetch) (rule credentials.discard_other [OF wf' that [symmetric]])
  show "get_secret env' r (snd (remove_secret env'' r dir')) \<in> {Ok secret, Err CredentialNotFound}"
  proof (cases "fst (remove_secret env'' r dir') = Ok ()")
    case True
    with wf' have "holds_secret (snd (remove_secret env'' r dir')) r = None"
      by (simp add: credentials.discard_self)
    with p(1) assms(3) show ?thesis
      by (simp add: get_secret_def path_for_eq holds_secret_def reads_back_def)
  next
    case False
    with wf' fetch show ?thesis
      by (simp add: credentials.discard_self)
  qed
qed

definition sample_env :: credential_env where
  "sample_env = \<lparr>ce_protect = \<lambda>s. Some (CHR ''#'' # s), ce_unprotect = \<lambda>p. Some (tl p),
     ce_random = [[171], [7]], ce_faults = {}, ce_temporary = ''.tmp-1-1'', ce_partial = []\<rparr>"

lemma sample_env_sound: "sound_env sample_env" "reads_back sample_env sample_env"
  by (auto simp: sound_env_def reads_back_def sample_env_def call_ok_def)

lemma hex_samples: "hex_byte 171 = ''ab''" "hex_byte 7 = ''07''"
  by (simp_all add: hex_byte_def hex_digit_def char_of_def bit_0)

lemma sample_put_new:
  "put_new sample_env ''pw'' ''s'' [(''pw-ab.credential'', OtherEntry)] =
     (Ok ''pw-07'', [(''pw-07.credential'', CredentialFile (FILE_MAGIC @ ''#s'')), (''pw-ab.credential'', OtherEntry)])"
  by (simp add: put_new_def put_new_attempts_step REFERENCE_GENERATION_ATTEMPTS_def RANDOM_REFERENCE_BYTES_def
      validate_reference_def is_valid_secret_reference_def config_limits ascii_simps sample_env_def call_ok_def
      hex_samples holds_secret_def bt_get_def FILE_EXTENSION_def put_secret_def
      write_atomically_def path_for_eq MAX_SECRET_BYTES_def MAX_PROTECTED_BYTES_def)

theorem stored_secret_reads_back_witness:
  "get_secret sample_env ''pw-07''
     [(''pw-07.credential'', CredentialFile (FILE_MAGIC @ ''#s'')), (''pw-ab.credential'', OtherEntry)] = Ok ''s''"
  using stored_secret_reads_back [of "[(''pw-ab.credential'', OtherEntry)]" sample_env sample_env "''pw''" "''s''" sample_env]
    sample_env_sound sample_put_new by (simp add: bt_wf_def bt_keys_def)

end
