(* ===== verification/Updater.thy ===== *)
theory Updater
  imports Protocol
begin

unbundle bit_operations_syntax

text \<open>
  \<^verbatim>\<open>apps/resticpal-service/src/updater.rs\<close>: the check of an update package, its download, the
  verification of the staged installer and the run of Windows Installer, and the protection of the
  service directories. The staging directory is a map from paths to entries; the HTTP client, the
  base64 and signature libraries, the answers of the operating system and the interference of
  other processes with the staging directory are arguments.
\<close>

section \<open>Errors\<close>

datatype update_error =
    InvalidVersion
  | NotNewer
  | InvalidUpdateUrl
  | InvalidUpdateLength
  | InvalidPublicKey
  | InvalidSignature
  | LengthMismatch nat nat
  | UnsafeStagingDirectory
  | UnsafeStagingEntry
  | UntrustedStagingDirectory
  | UnsafeServiceDataEntry
  | UntrustedServiceDataEntry
  | StagingProtection
  | UpdateIo
  | UpdateHttp
  | InstallerStart
  | InstallerExit "int option"
  | InstallerTimeout
  | UpdateDeadlineExpired
  | InstallerTermination

datatype update_outcome = UpdateCompleted string | UpdateFailed string | UpdateIndeterminate string

fun update_error_code :: "update_error \<Rightarrow> string" where
  "update_error_code InvalidVersion = ''update_metadata_invalid''"
| "update_error_code NotNewer = ''update_metadata_invalid''"
| "update_error_code InvalidUpdateUrl = ''update_metadata_invalid''"
| "update_error_code InvalidUpdateLength = ''update_metadata_invalid''"
| "update_error_code InvalidPublicKey = ''update_signature_invalid''"
| "update_error_code InvalidSignature = ''update_signature_invalid''"
| "update_error_code (LengthMismatch expected actual) = ''update_download_failed''"
| "update_error_code UpdateIo = ''update_download_failed''"
| "update_error_code UpdateHttp = ''update_download_failed''"
| "update_error_code UpdateDeadlineExpired = ''update_deadline_exceeded''"
| "update_error_code InstallerStart = ''update_installer_failed''"
| "update_error_code (InstallerExit status) = ''update_installer_failed''"
| "update_error_code InstallerTimeout = ''update_installer_indeterminate''"
| "update_error_code InstallerTermination = ''update_installer_indeterminate''"
| "update_error_code _ = ''update_staging_unsafe''"

fun installer_state_is_indeterminate :: "update_error \<Rightarrow> bool" where
  "installer_state_is_indeterminate InstallerTimeout = True"
| "installer_state_is_indeterminate InstallerTermination = True"
| "installer_state_is_indeterminate _ = False"

section \<open>The package\<close>

definition CARGO_PKG_VERSION :: string where "CARGO_PKG_VERSION = ''1.0.8''"
definition MAX_UPDATE_BYTES :: u64 where "MAX_UPDATE_BYTES = 512 * 1024 * 1024"
definition UPDATE_INSTALL_TIMEOUT_SECONDS :: u32 where "UPDATE_INSTALL_TIMEOUT_SECONDS = 30 * 60"

definition UPDATE_PUBLIC_KEY :: string where
  "UPDATE_PUBLIC_KEY = ''gOs6c4Mn39nKvOgMy5zJeDFA6+h5+qBV4y38ceXGGj4='' @ [CHR 0x0A]"

text \<open>\<^verbatim>\<open>str::split\<close> on one character.\<close>

fun split_char :: "char \<Rightarrow> string \<Rightarrow> string list" where
  "split_char c [] = [[]]"
| "split_char c (x # xs) =
     (if x = c then [] # split_char c xs
      else case split_char c xs of [] \<Rightarrow> [[x]] | w # ws \<Rightarrow> (x # w) # ws)"

definition parse_component :: "string \<Rightarrow> nat option" where
  "parse_component v =
     (if v \<noteq> [] \<and> list_all is_ascii_digit v \<and> decimal_value v < 2 ^ 64 then Some (decimal_value v) else None)"

definition parse_version :: "string \<Rightarrow> (nat \<times> nat \<times> nat) option" where
  "parse_version v =
     (case split_char (CHR ''.'') v of
        [a, b, c] \<Rightarrow>
          (case (parse_component a, parse_component b, parse_component c) of
             (Some x, Some y, Some z) \<Rightarrow> Some (x, y, z)
           | _ \<Rightarrow> None)
      | _ \<Rightarrow> None)"

text \<open>The order of the arrays of components.\<close>

fun version_less :: "nat \<times> nat \<times> nat \<Rightarrow> nat \<times> nat \<times> nat \<Rightarrow> bool" where
  "version_less (a, b, c) (x, y, z) = (a < x \<or> a = x \<and> (b < y \<or> b = y \<and> c < z))"

definition decode_signature ::
  "(string \<Rightarrow> u8 list option) \<Rightarrow> string \<Rightarrow> (update_error, u8 list) outcome" where
  "decode_signature decode v =
     and_then (ensure (\<not> (256 < length v \<or> contains_any line_breaks v)) InvalidSignature) (\<lambda>_.
     and_then (ok_or (decode v) InvalidSignature) (\<lambda>signature.
     and_then (ensure (length signature = 64) InvalidSignature) (\<lambda>_. Ok signature)))"

definition github_url :: "string \<Rightarrow> string" where
  "github_url version =
     ''https://github.com/theatrus/resticpal/releases/download/v'' @ version @ ''/resticpal-'' @ version @ ''-x64.msi''"

definition primary_url :: "string \<Rightarrow> string" where
  "primary_url version =
     ''https://updates.resticpal.com/releases/v'' @ version @ ''/resticpal-'' @ version @ ''-x64.msi''"

definition validate_package ::
  "(string \<Rightarrow> u8 list option) \<Rightarrow> update_package \<Rightarrow> (update_error, unit) outcome" where
  "validate_package decode package =
     and_then (ok_or (parse_version (up_version package)) InvalidVersion) (\<lambda>version.
     and_then (or_panic (parse_version CARGO_PKG_VERSION)) (\<lambda>current.
     and_then (ensure (version_less current version) NotNewer) (\<lambda>_.
     and_then (ensure (\<not> (up_length package = 0 \<or> MAX_UPDATE_BYTES < up_length package)) InvalidUpdateLength) (\<lambda>_.
     and_then (ensure (up_url package = github_url (up_version package)
         \<or> up_url package = primary_url (up_version package)) InvalidUpdateUrl) (\<lambda>_.
     and_then (decode_signature decode (up_signature package)) (\<lambda>_. Ok ()))))))"

section \<open>Protected directories\<close>

definition FILE_ATTRIBUTE_DIRECTORY :: u32 where "FILE_ATTRIBUTE_DIRECTORY = 0x10"
definition FILE_ATTRIBUTE_REPARSE_POINT :: u32 where "FILE_ATTRIBUTE_REPARSE_POINT = 0x400"
definition SECURE_DIRECTORY_SDDL :: string where
  "SECURE_DIRECTORY_SDDL = ''O:SYG:SYD:P(A;OICI;FA;;;SY)(A;OICI;FA;;;BA)''"
definition SECURE_FILE_SDDL :: string where
  "SECURE_FILE_SDDL = ''O:SYG:SYD:P(A;;FA;;;SY)(A;;FA;;;BA)''"

text \<open>A security descriptor as Windows returns it: \<open>None\<close> is an invalid or null pointer.\<close>

record descriptor =
  dr_owner :: "string option"
  dr_group :: "string option"
  dr_dacl :: "string option"
  dr_protected :: bool

record security =
  sy_dacl :: string
  sy_owner :: "string option"
  sy_group :: "string option"
  sy_enforce_trusted_owner :: bool

type_synonym sddl_parser = "string \<Rightarrow> descriptor option"

definition from_sddl :: "sddl_parser \<Rightarrow> string \<Rightarrow> bool \<Rightarrow> (update_error, security) outcome" where
  "from_sddl convert sddl enforce =
     and_then (ok_or (convert sddl) StagingProtection) (\<lambda>d.
     and_then (ok_or (dr_dacl d) UnsafeStagingDirectory) (\<lambda>dacl.
     and_then (ensure (\<not> (enforce \<and> (dr_owner d = None \<or> dr_group d = None))) UnsafeStagingDirectory) (\<lambda>_.
     Ok \<lparr>sy_dacl = dacl, sy_owner = dr_owner d, sy_group = dr_group d, sy_enforce_trusted_owner = enforce\<rparr>)))"

definition same_sid :: "string option \<Rightarrow> string option \<Rightarrow> bool" where
  "same_sid left right \<longleftrightarrow> left \<noteq> None \<and> left = right"

definition same_acl :: "string option \<Rightarrow> string option \<Rightarrow> bool" where
  "same_acl left right \<longleftrightarrow> left \<noteq> None \<and> left = right"

definition verify_security :: "security \<Rightarrow> descriptor option \<Rightarrow> (update_error, unit) outcome" where
  "verify_security security read =
     and_then (ok_or read StagingProtection) (\<lambda>d.
     and_then (ensure (dr_protected d) UnsafeStagingDirectory) (\<lambda>_.
     and_then (ensure (same_acl (dr_dacl d) (Some (sy_dacl security))) UnsafeStagingDirectory) (\<lambda>_.
     ensure (\<not> (sy_enforce_trusted_owner security
         \<and> (\<not> same_sid (dr_owner d) (sy_owner security) \<or> \<not> same_sid (dr_group d) (sy_group security))))
       UnsafeStagingDirectory)))"

datatype create_result = DirectoryCreated | DirectoryExists | CreateFailed

datatype file_presence = FileAbsent | FileUnreadable | FilePresent bool u32

text \<open>
  What the system answers when one directory or file is protected: creation, metadata by name,
  opening, attributes by handle, owner, setting the descriptor, attributes again, and the
  descriptor read back.
\<close>

record protection_answers =
  pa_create :: create_result
  pa_metadata :: file_presence
  pa_open :: bool
  pa_attributes :: "u32 option"
  pa_owner :: "string option option"
  pa_apply :: bool
  pa_attributes_after :: "u32 option"
  pa_read :: "descriptor option"

definition validate_directory_handle :: "u32 option \<Rightarrow> (update_error, unit) outcome" where
  "validate_directory_handle attributes =
     and_then (ok_or attributes StagingProtection) (\<lambda>a.
     ensure (\<not> (a AND FILE_ATTRIBUTE_DIRECTORY = 0 \<or> a AND FILE_ATTRIBUTE_REPARSE_POINT \<noteq> 0))
       UnsafeStagingDirectory)"

definition validate_file_handle :: "u32 option \<Rightarrow> (update_error, unit) outcome" where
  "validate_file_handle attributes =
     and_then (ok_or attributes StagingProtection) (\<lambda>a.
     ensure (\<not> (a AND FILE_ATTRIBUTE_DIRECTORY \<noteq> 0 \<or> a AND FILE_ATTRIBUTE_REPARSE_POINT \<noteq> 0))
       UnsafeServiceDataEntry)"

definition sid_matches_sddl_owner ::
  "sddl_parser \<Rightarrow> string option \<Rightarrow> string \<Rightarrow> (update_error, bool) outcome" where
  "sid_matches_sddl_owner convert owner sddl =
     and_then (ok_or (convert sddl) StagingProtection) (\<lambda>d. Ok (same_sid owner (dr_owner d)))"

definition directory_owner_is_system_or_administrator ::
  "sddl_parser \<Rightarrow> string option option \<Rightarrow> (update_error, bool) outcome" where
  "directory_owner_is_system_or_administrator convert owner =
     and_then (ok_or owner StagingProtection) (\<lambda>owner.
     and_then (sid_matches_sddl_owner convert owner ''O:SY'') (\<lambda>system.
     if system then Ok True else sid_matches_sddl_owner convert owner ''O:BA''))"

definition prepare_secure_directory ::
  "sddl_parser \<Rightarrow> security \<Rightarrow> protection_answers \<Rightarrow> (update_error, unit) outcome" where
  "prepare_secure_directory convert security a =
     and_then (ensure (pa_create a \<noteq> CreateFailed) StagingProtection) (\<lambda>_.
     and_then (ensure (pa_open a) StagingProtection) (\<lambda>_.
     and_then (validate_directory_handle (pa_attributes a)) (\<lambda>_.
     and_then (if pa_create a = DirectoryCreated \<or> \<not> sy_enforce_trusted_owner security then Ok True
         else directory_owner_is_system_or_administrator convert (pa_owner a)) (\<lambda>owner_was_trusted.
     and_then (ensure owner_was_trusted UntrustedStagingDirectory) (\<lambda>_.
     and_then (ensure (pa_apply a) StagingProtection) (\<lambda>_.
     and_then (validate_directory_handle (pa_attributes_after a)) (\<lambda>_.
     verify_security security (pa_read a))))))))"

definition prepare_existing_secure_file ::
  "sddl_parser \<Rightarrow> security \<Rightarrow> protection_answers \<Rightarrow> (update_error, unit) outcome" where
  "prepare_existing_secure_file convert security a =
     (case pa_metadata a of
        FileAbsent \<Rightarrow> Ok ()
      | FileUnreadable \<Rightarrow> Err StagingProtection
      | FilePresent is_file attributes \<Rightarrow>
          and_then (ensure (\<not> (\<not> is_file \<or> attributes AND FILE_ATTRIBUTE_REPARSE_POINT \<noteq> 0))
            UnsafeServiceDataEntry) (\<lambda>_.
          and_then (ensure (pa_open a) StagingProtection) (\<lambda>_.
          and_then (validate_file_handle (pa_attributes a)) (\<lambda>_.
          and_then (if sy_enforce_trusted_owner security
              then directory_owner_is_system_or_administrator convert (pa_owner a) else Ok True) (\<lambda>trusted.
          and_then (ensure trusted UntrustedServiceDataEntry) (\<lambda>_.
          and_then (ensure (pa_apply a) StagingProtection) (\<lambda>_.
          and_then (validate_file_handle (pa_attributes_after a)) (\<lambda>_.
          verify_security security (pa_read a)))))))))"

definition service_directories :: "path \<Rightarrow> path list" where
  "service_directories data_root =
     data_root # map (push_path data_root) [''Cache'', ''Credentials'', ''Logs'', ''Updates'']"

definition service_files :: "path \<Rightarrow> path list" where
  "service_files data_root =
     map (push_path data_root) [''config.toml'', ''state.json'', ''state.db'', ''state.db-wal'', ''state.db-shm'',
       ''state.db-journal'', ''managed-policy-cache.json'', ''service-startup-errors.log'']
     @ [push_path (push_path data_root ''Logs'') ''service.jsonl'']"

definition prepare_service_data_root ::
  "sddl_parser \<Rightarrow> (path \<Rightarrow> protection_answers) \<Rightarrow> path \<Rightarrow> (update_error, unit) outcome" where
  "prepare_service_data_root convert answers data_root =
     and_then (from_sddl convert SECURE_DIRECTORY_SDDL True) (\<lambda>directory_security.
     and_then (from_sddl convert SECURE_FILE_SDDL True) (\<lambda>file_security.
     and_then (for_each (\<lambda>p. prepare_secure_directory convert directory_security (answers p))
       (service_directories data_root)) (\<lambda>_.
     for_each (\<lambda>p. prepare_existing_secure_file convert file_security (answers p)) (service_files data_root))))"

section \<open>Staging\<close>

datatype staged = StagedFile "u8 list" | StagedLink bool | StagedDirectory

type_synonym staging = "(path, staged) btree"

datatype update_call =
    InspectEntry path | RemoveEntry path | CreatePartial | FlushPartial | RenamePartial
  | OpenInstaller | InspectInstaller | ReadInstaller | RewindInstaller

record http_response =
  hr_bytes :: "u8 list"
  hr_complete :: bool

text \<open>The surroundings of an installation. \<open>ue_interference\<close> is what other processes do to the
  staging directory until the installer is opened without sharing it for writing.\<close>

record update_env =
  ue_base64 :: "string \<Rightarrow> u8 list option"
  ue_valid_key :: "u8 list \<Rightarrow> bool"
  ue_verify_strict :: "u8 list \<Rightarrow> u8 list \<Rightarrow> u8 list \<Rightarrow> bool"
  ue_response :: "string \<Rightarrow> http_response option"
  ue_faults :: "update_call set"
  ue_interference :: "staging \<Rightarrow> staging"
  ue_sddl :: sddl_parser
  ue_protection :: "path \<Rightarrow> protection_answers"
  ue_system_root :: "path option"
  ue_deadline_passed :: bool
  ue_spawned :: bool
  ue_installer_polls :: "(wait_result \<times> bool) list"
  ue_killed :: bool
  ue_wait_after_kill :: wait_result

definition update_ok :: "update_env \<Rightarrow> update_call \<Rightarrow> bool" where
  "update_ok env call \<longleftrightarrow> call \<notin> ue_faults env"

definition remove_staging_entry_if_present ::
  "update_env \<Rightarrow> path \<Rightarrow> staging \<Rightarrow> (update_error, unit) outcome \<times> staging" where
  "remove_staging_entry_if_present env p st =
     (if \<not> update_ok env (InspectEntry p) then (Err UpdateIo, st)
      else case bt_get st p of
        None \<Rightarrow> (Ok (), st)
      | Some StagedDirectory \<Rightarrow> (Err UnsafeStagingEntry, st)
      | Some _ \<Rightarrow> if update_ok env (RemoveEntry p) then (Ok (), bt_remove p st) else (Err UpdateIo, st))"

definition download_to ::
  "update_env \<Rightarrow> update_package \<Rightarrow> path \<Rightarrow> staging \<Rightarrow> (update_error, unit) outcome \<times> staging" where
  "download_to env package destination st =
     io_then (ok_or (ue_response env (up_url package)) UpdateHttp, st) (\<lambda>response st.
     io_then (ensure (update_ok env CreatePartial \<and> bt_get st destination = None) UpdateIo, st) (\<lambda>_ st.
     let limit = unat (saturating_add (up_length package) 1);
         copied = take limit (hr_bytes response);
         st = bt_insert destination (StagedFile copied) st
     in io_then (ensure (hr_complete response \<and> length (hr_bytes response) \<le> limit
            \<and> update_ok env FlushPartial) UpdateIo, st) (\<lambda>_ st.
        (ensure (length copied = unat (up_length package))
           (LengthMismatch (unat (up_length package)) (length copied)), st))))"

definition verify_contents_with_public_key ::
  "update_env \<Rightarrow> u8 list \<Rightarrow> string \<Rightarrow> string \<Rightarrow> (update_error, unit) outcome" where
  "verify_contents_with_public_key env contents encoded_signature encoded_public_key =
     and_then (ok_or (ue_base64 env (trim encoded_public_key)) InvalidPublicKey) (\<lambda>key.
     and_then (ensure (length key = 32) InvalidPublicKey) (\<lambda>_.
     and_then (ensure (ue_valid_key env key) InvalidPublicKey) (\<lambda>_.
     and_then (decode_signature (ue_base64 env) encoded_signature) (\<lambda>signature.
     ensure (ue_verify_strict env key contents signature) InvalidSignature))))"

definition verify_open_file_with_public_key ::
  "update_env \<Rightarrow> u8 list \<Rightarrow> u64 \<Rightarrow> string \<Rightarrow> string \<Rightarrow> (update_error, unit) outcome" where
  "verify_open_file_with_public_key env file_bytes expected_length encoded_signature encoded_public_key =
     and_then (ensure (update_ok env InspectInstaller) UpdateIo) (\<lambda>_.
     and_then (ensure (length file_bytes = unat expected_length)
       (LengthMismatch (unat expected_length) (length file_bytes))) (\<lambda>_.
     and_then (ensure (update_ok env ReadInstaller) UpdateIo) (\<lambda>_.
     let contents = take (unat (saturating_add expected_length 1)) file_bytes
     in and_then (ensure (length contents = unat expected_length)
          (LengthMismatch (unat expected_length) (length contents))) (\<lambda>_.
        let result = verify_contents_with_public_key env contents encoded_signature encoded_public_key
        in and_then (ensure (update_ok env RewindInstaller) UpdateIo) (\<lambda>_. result)))))"

text \<open>The opened installer: its path and the bytes that stay in place while the handle is held.\<close>

definition open_verified_installer ::
  "update_env \<Rightarrow> path \<Rightarrow> u64 \<Rightarrow> string \<Rightarrow> string \<Rightarrow> staging \<Rightarrow> (update_error, path \<times> u8 list) outcome" where
  "open_verified_installer env p expected_length encoded_signature encoded_public_key st =
     and_then (ensure (update_ok env OpenInstaller \<and> bt_get st p \<noteq> None) UpdateIo) (\<lambda>_.
     case bt_get st p of
       Some (StagedFile bs) \<Rightarrow>
         and_then (verify_open_file_with_public_key env bs expected_length encoded_signature encoded_public_key)
           (\<lambda>_. Ok (p, bs))
     | _ \<Rightarrow> Err UnsafeStagingEntry)"

definition verify_installer_before_rotating_log ::
  "update_env \<Rightarrow> path \<Rightarrow> u64 \<Rightarrow> string \<Rightarrow> string \<Rightarrow> path \<Rightarrow> staging \<Rightarrow>
     (update_error, path \<times> u8 list) outcome \<times> staging" where
  "verify_installer_before_rotating_log env p expected_length encoded_signature encoded_public_key log_path st =
     io_then (open_verified_installer env p expected_length encoded_signature encoded_public_key st, st) (\<lambda>verified st.
     io_then (remove_staging_entry_if_present env log_path st) (\<lambda>_ st. (Ok verified, st)))"

section \<open>Installation\<close>

text \<open>The answers of the process with whether the deadline lies ahead; \<open>None\<close>: still waiting.\<close>

fun wait_for_installer ::
  "(wait_result \<times> bool) list \<Rightarrow> bool \<Rightarrow> wait_result \<Rightarrow> (update_error, int option) outcome option" where
  "wait_for_installer [] killed after_kill = None"
| "wait_for_installer ((w, before_deadline) # rest) killed after_kill =
     (case w of
        Exited status \<Rightarrow> Some (Ok status)
      | StillRunning \<Rightarrow>
          if before_deadline then wait_for_installer rest killed after_kill
          else Some (if \<not> killed then (case after_kill of Exited status \<Rightarrow> Ok status | _ \<Rightarrow> Err InstallerTermination)
            else if after_kill = WaitError then Err InstallerTermination else Err InstallerTimeout)
      | WaitError \<Rightarrow> Some (Err InstallerTermination))"

record installer_command =
  ic_program :: path
  ic_arguments :: "string list"
  ic_installer_bytes :: "u8 list"

definition msiexec_path :: "update_env \<Rightarrow> path" where
  "msiexec_path env =
     push_path (push_path (case ue_system_root env of Some r \<Rightarrow> r
       | None \<Rightarrow> [CHR ''C'', CHR '':'', backslash] @ ''Windows'') ''System32'') ''msiexec.exe''"

definition launch_msi ::
  "update_env \<Rightarrow> path \<times> u8 list \<Rightarrow> path \<Rightarrow> ((update_error, unit) outcome \<times> installer_command list) option" where
  "launch_msi env installer log_path =
     (if ue_deadline_passed env then Some (Err UpdateDeadlineExpired, [])
      else if \<not> ue_spawned env then Some (Err InstallerStart, [])
      else map_option (\<lambda>status.
        (and_then status (\<lambda>status.
           ensure (status = Some 0 \<or> status = Some 3010) (InstallerExit status)),
         [\<lparr>ic_program = msiexec_path env,
           ic_arguments = [''/i'', fst installer, ''/qn'', ''/norestart'', ''/l*v'', log_path],
           ic_installer_bytes = snd installer\<rparr>]))
        (wait_for_installer (ue_installer_polls env) (ue_killed env) (ue_wait_after_kill env)))"

definition stage_installer ::
  "update_env \<Rightarrow> update_package \<Rightarrow> path \<Rightarrow> path \<Rightarrow> path \<Rightarrow> staging \<Rightarrow>
     (update_error, path \<times> u8 list) outcome \<times> staging" where
  "stage_installer env package partial_path installer_path log_path st =
     (case download_to env package partial_path st of
        (Ok _, st) \<Rightarrow>
          io_then (ensure (update_ok env RenamePartial) UpdateIo, st) (\<lambda>_ st.
          let st = (case bt_get st partial_path of None \<Rightarrow> st
                | Some entry \<Rightarrow> bt_insert installer_path entry (bt_remove partial_path st));
              (result, st) = verify_installer_before_rotating_log env installer_path (up_length package)
                (up_signature package) UPDATE_PUBLIC_KEY log_path (ue_interference env st)
          in case result of
               Ok verified \<Rightarrow> (Ok verified, st)
             | _ \<Rightarrow> (result, snd (remove_staging_entry_if_present env installer_path st)))
      | (Err e, st) \<Rightarrow> (Err e, snd (remove_staging_entry_if_present env partial_path st))
      | (Panic, st) \<Rightarrow> (Panic, st))"

definition download_and_verify ::
  "update_env \<Rightarrow> update_package \<Rightarrow> path \<Rightarrow> staging \<Rightarrow> (update_error, path \<times> u8 list) outcome \<times> staging" where
  "download_and_verify env package data_root st =
     (let update_root = push_path data_root ''Updates'';
          file_name = ''resticpal-'' @ up_version package @ ''-x64.msi'';
          installer_path = push_path update_root file_name;
          partial_path = push_path update_root (file_name @ ''.partial'');
          log_path = push_path update_root ''install.log''
      in io_then (validate_package (ue_base64 env) package, st) (\<lambda>_ st.
         io_then (from_sddl (ue_sddl env) SECURE_DIRECTORY_SDDL True, st) (\<lambda>security st.
         io_then (prepare_secure_directory (ue_sddl env) security (ue_protection env data_root), st) (\<lambda>_ st.
         io_then (prepare_secure_directory (ue_sddl env) security (ue_protection env update_root), st) (\<lambda>_ st.
         io_then (remove_staging_entry_if_present env partial_path st) (\<lambda>_ st.
         io_then (remove_staging_entry_if_present env installer_path st) (\<lambda>_ st.
         stage_installer env package partial_path installer_path log_path st)))))))"

definition download_verify_and_launch ::
  "update_env \<Rightarrow> update_package \<Rightarrow> path \<Rightarrow> staging \<Rightarrow>
     ((update_error, unit) outcome \<times> installer_command list \<times> staging) option" where
  "download_verify_and_launch env package data_root st =
     (case download_and_verify env package data_root st of
        (Ok verified, st) \<Rightarrow>
          map_option (\<lambda>(result, commands). (result, commands, st))
            (launch_msi env verified (push_path (push_path data_root ''Updates'') ''install.log''))
      | (Err e, st) \<Rightarrow> Some (Err e, [], st)
      | (Panic, st) \<Rightarrow> Some (Panic, [], st))"

definition outcome_of :: "update_package \<Rightarrow> (update_error, unit) outcome \<Rightarrow> (unit, update_outcome) outcome" where
  "outcome_of package result =
     (case result of
        Ok _ \<Rightarrow> Ok (UpdateCompleted (up_version package))
      | Err e \<Rightarrow>
          if installer_state_is_indeterminate e then Ok (UpdateIndeterminate (update_error_code e))
          else Ok (UpdateFailed (update_error_code e))
      | Panic \<Rightarrow> Panic)"

definition install ::
  "update_env \<Rightarrow> update_package \<Rightarrow> path \<Rightarrow> staging \<Rightarrow>
     ((unit, update_outcome) outcome \<times> installer_command list \<times> staging) option" where
  "install env package data_root st =
     map_option (\<lambda>(result, commands, st).
       (outcome_of package result, commands, st))
     (download_verify_and_launch env package data_root st)"

section \<open>Verified installers\<close>

lemma current_version: "parse_version CARGO_PKG_VERSION = Some (1, 0, 8)"
  by (simp add: parse_version_def CARGO_PKG_VERSION_def parse_component_def decimal_value_def ascii_simps)

definition approved_package :: "(string \<Rightarrow> u8 list option) \<Rightarrow> update_package \<Rightarrow> bool" where
  "approved_package decode package \<longleftrightarrow>
     (\<exists>version. parse_version (up_version package) = Some version \<and> version_less (1, 0, 8) version)
     \<and> up_url package \<in> {github_url (up_version package), primary_url (up_version package)}
     \<and> up_length package \<noteq> 0 \<and> up_length package \<le> MAX_UPDATE_BYTES
     \<and> (\<exists>signature. decode_signature decode (up_signature package) = Ok signature)"

lemma validate_package_iff:
  "validate_package decode package = Ok u \<longleftrightarrow> approved_package decode package"
  by (auto simp: validate_package_def approved_package_def outcome_simps current_version not_less)

lemma decode_signature_no_panic [simp]: "decode_signature decode v \<noteq> Panic"
  by (simp add: decode_signature_def outcome_simps)

lemma validate_package_no_panic: "validate_package decode package \<noteq> Panic"
  by (auto simp: validate_package_def outcome_simps current_version)

definition signed_by_pinned_key :: "update_env \<Rightarrow> update_package \<Rightarrow> u8 list \<Rightarrow> bool" where
  "signed_by_pinned_key env package bs \<longleftrightarrow>
     length bs = unat (up_length package)
     \<and> (\<exists>key signature. ue_base64 env (trim UPDATE_PUBLIC_KEY) = Some key \<and> length key = 32 \<and> ue_valid_key env key
          \<and> decode_signature (ue_base64 env) (up_signature package) = Ok signature
          \<and> ue_verify_strict env key bs signature)"

lemma verify_open_file_signed:
  "verify_open_file_with_public_key env bs (up_length package) (up_signature package) UPDATE_PUBLIC_KEY = Ok u \<Longrightarrow>
     signed_by_pinned_key env package bs"
  by (auto simp: verify_open_file_with_public_key_def verify_contents_with_public_key_def signed_by_pinned_key_def
      outcome_simps Let_def)

lemma verify_installer_signed:
  "verify_installer_before_rotating_log env p (up_length package) (up_signature package) UPDATE_PUBLIC_KEY log_path st =
     (Ok verified, st') \<Longrightarrow> fst verified = p \<and> signed_by_pinned_key env package (snd verified)"
  by (auto simp: verify_installer_before_rotating_log_def open_verified_installer_def outcome_simps
      intro: verify_open_file_signed split: option.splits staged.splits)

lemma remove_staging_no_panic: "remove_staging_entry_if_present env p st \<noteq> (Panic, st')"
  by (auto simp: remove_staging_entry_if_present_def split: option.splits staged.splits)

lemma verify_installer_no_panic:
  "verify_installer_before_rotating_log env p n signature key log_path st \<noteq> (Panic, st')"
  by (auto simp: verify_installer_before_rotating_log_def open_verified_installer_def outcome_simps
      remove_staging_no_panic verify_open_file_with_public_key_def verify_contents_with_public_key_def Let_def
      split: option.splits staged.splits)

lemma download_to_no_panic: "download_to env package p st \<noteq> (Panic, st')"
  by (simp add: download_to_def outcome_simps Let_def)

lemma prepare_secure_directory_no_panic: "prepare_secure_directory convert security a \<noteq> Panic"
  by (auto simp: prepare_secure_directory_def validate_directory_handle_def verify_security_def outcome_simps
      directory_owner_is_system_or_administrator_def sid_matches_sddl_owner_def split: if_splits)

lemma from_sddl_no_panic: "from_sddl convert sddl enforce \<noteq> Panic"
  by (simp add: from_sddl_def outcome_simps)

lemma stage_installer_result:
  assumes "stage_installer env package partial_path installer_path log_path st = (r, st')"
  shows "r = Ok verified \<Longrightarrow> fst verified = installer_path \<and> signed_by_pinned_key env package (snd verified)"
    and "r \<noteq> Panic"
proof -
  obtain d st1 where download: "download_to env package partial_path st = (d, st1)" by force
  have "(\<forall>verified. r = Ok verified \<longrightarrow> fst verified = installer_path \<and> signed_by_pinned_key env package (snd verified))
      \<and> r \<noteq> Panic"
  proof (cases d)
    case (Ok u)
    let ?st2 = "ue_interference env (case bt_get st1 partial_path of None \<Rightarrow> st1
      | Some entry \<Rightarrow> bt_insert installer_path entry (bt_remove partial_path st1))"
    obtain v st3 where verify: "verify_installer_before_rotating_log env installer_path (up_length package)
        (up_signature package) UPDATE_PUBLIC_KEY log_path ?st2 = (v, st3)"
      by force
    have "r = (if update_ok env RenamePartial then v else Err UpdateIo)"
      using assms download Ok verify by (auto simp: stage_installer_def io_then_ensure split: outcome.splits if_splits)
    with verify verify_installer_signed verify_installer_no_panic show ?thesis
      by (cases v) (fastforce split: if_splits)+
  qed (use assms download download_to_no_panic in \<open>auto simp: stage_installer_def\<close>)
  then show "r = Ok verified \<Longrightarrow> fst verified = installer_path \<and> signed_by_pinned_key env package (snd verified)"
    and "r \<noteq> Panic" by blast+
qed

lemma download_and_verify_Ok:
  assumes "download_and_verify env package data_root st = (Ok verified, st')"
  shows "approved_package (ue_base64 env) package"
    and "fst verified = push_path (push_path data_root ''Updates'') (''resticpal-'' @ up_version package @ ''-x64.msi'')"
    and "signed_by_pinned_key env package (snd verified)"
  using assms stage_installer_result(1) [of env package _ _ _ _ _ _ verified]
  by (auto simp: download_and_verify_def Let_def outcome_simps validate_package_iff)

lemma download_and_verify_no_panic: "download_and_verify env package data_root st \<noteq> (Panic, st')"
  by (auto simp: download_and_verify_def Let_def outcome_simps validate_package_no_panic from_sddl_no_panic
      prepare_secure_directory_no_panic remove_staging_no_panic dest: stage_installer_result(2))

lemma wait_for_installer_ends:
  "(w, before) \<in> set polls \<Longrightarrow> w \<noteq> StillRunning \<or> \<not> before \<Longrightarrow> wait_for_installer polls killed after_kill \<noteq> None"
  by (induction polls) (auto split: wait_result.splits)

lemma wait_for_installer_Err:
  "wait_for_installer polls killed after_kill = Some (Err e) \<Longrightarrow> e \<in> {InstallerTermination, InstallerTimeout}"
  by (induction polls) (auto split: wait_result.splits if_splits)

lemma wait_for_installer_no_panic: "wait_for_installer polls killed after_kill \<noteq> Some Panic"
  by (induction polls) (auto split: wait_result.splits if_splits)

lemma launch_msi_cases:
  assumes "launch_msi env installer log_path = Some (result, commands)"
  obtains (not_started) e where "commands = []" "result = Err e" "\<not> installer_state_is_indeterminate e"
  | (exited) status where "wait_for_installer (ue_installer_polls env) (ue_killed env) (ue_wait_after_kill env) = Some (Ok status)"
      "result = ensure (status = Some 0 \<or> status = Some 3010) (InstallerExit status)"
      "commands = [\<lparr>ic_program = msiexec_path env,
        ic_arguments = [''/i'', fst installer, ''/qn'', ''/norestart'', ''/l*v'', log_path],
        ic_installer_bytes = snd installer\<rparr>]"
  | (unknown) e where "installer_state_is_indeterminate e" "result = Err e"
      "commands = [\<lparr>ic_program = msiexec_path env,
        ic_arguments = [''/i'', fst installer, ''/qn'', ''/norestart'', ''/l*v'', log_path],
        ic_installer_bytes = snd installer\<rparr>]"
proof (cases "ue_deadline_passed env \<or> \<not> ue_spawned env")
  case True
  with assms show thesis
    by (intro not_started [of "if ue_deadline_passed env then UpdateDeadlineExpired else InstallerStart"])
      (auto simp: launch_msi_def split: if_splits)
next
  case False
  with assms obtain r where wait: "wait_for_installer (ue_installer_polls env) (ue_killed env) (ue_wait_after_kill env) = Some r"
    by (auto simp: launch_msi_def)
  show thesis
  proof (cases r)
    case (Ok status)
    with assms False wait show thesis
      by (intro exited) (auto simp: launch_msi_def)
  next
    case (Err e)
    with wait have "installer_state_is_indeterminate e"
      using wait_for_installer_Err by fastforce
    with assms False wait Err show thesis
      by (intro unknown [of e]) (auto simp: launch_msi_def)
  next
    case Panic
    with wait wait_for_installer_no_panic show thesis by simp
  qed
qed

lemma install_cases:
  assumes "install env package data_root st = Some (result, commands, st')"
  obtains e where "commands = []" "result = outcome_of package (Err e)"
  | verified final where "download_and_verify env package data_root st = (Ok verified, st')"
      "launch_msi env verified (push_path (push_path data_root ''Updates'') ''install.log'') = Some (final, commands)"
      "result = outcome_of package final"
proof -
  obtain r d where run: "download_and_verify env package data_root st = (r, d)" by force
  show thesis
  proof (cases r)
    case (Ok verified)
    with assms run show thesis
      by (auto simp: install_def download_verify_and_launch_def outcome_of_def intro: that(2))
  next
    case (Err e)
    with assms run show thesis
      by (auto simp: install_def download_verify_and_launch_def outcome_of_def intro: that(1))
  next
    case Panic
    with run download_and_verify_no_panic show thesis by blast
  qed
qed

section \<open>Protected directories and files\<close>

definition descriptor_in_place :: "security \<Rightarrow> protection_answers \<Rightarrow> bool" where
  "descriptor_in_place security a \<longleftrightarrow>
     pa_apply a \<and> (\<exists>d. pa_read a = Some d \<and> dr_protected d \<and> dr_dacl d = Some (sy_dacl security)
       \<and> dr_owner d = sy_owner security \<and> dr_group d = sy_group security)"

definition owned_by_system :: "sddl_parser \<Rightarrow> protection_answers \<Rightarrow> bool" where
  "owned_by_system convert a \<longleftrightarrow>
     (\<exists>owner d. pa_owner a = Some owner \<and> owner \<noteq> None \<and> dr_owner d = owner
       \<and> (convert ''O:SY'' = Some d \<or> convert ''O:BA'' = Some d))"

definition directory_protected :: "sddl_parser \<Rightarrow> security \<Rightarrow> protection_answers \<Rightarrow> bool" where
  "directory_protected convert security a \<longleftrightarrow>
     (\<forall>attributes \<in> {pa_attributes a, pa_attributes_after a}. \<exists>v. attributes = Some v
        \<and> v AND FILE_ATTRIBUTE_DIRECTORY \<noteq> 0 \<and> v AND FILE_ATTRIBUTE_REPARSE_POINT = 0)
     \<and> (pa_create a = DirectoryCreated \<or> pa_create a = DirectoryExists \<and> owned_by_system convert a)
     \<and> descriptor_in_place security a"

definition file_protected :: "sddl_parser \<Rightarrow> security \<Rightarrow> protection_answers \<Rightarrow> bool" where
  "file_protected convert security a \<longleftrightarrow>
     (\<forall>attributes \<in> {pa_attributes a, pa_attributes_after a}. \<exists>v. attributes = Some v
        \<and> v AND FILE_ATTRIBUTE_DIRECTORY = 0 \<and> v AND FILE_ATTRIBUTE_REPARSE_POINT = 0)
     \<and> owned_by_system convert a \<and> descriptor_in_place security a"

lemma from_sddl_enforces: "from_sddl convert sddl True = Ok s \<Longrightarrow> sy_enforce_trusted_owner s"
  by (auto simp: from_sddl_def outcome_simps)

lemma verify_security_in_place:
  "verify_security security (pa_read a) = Ok u \<Longrightarrow> pa_apply a \<Longrightarrow> sy_enforce_trusted_owner security \<Longrightarrow>
     descriptor_in_place security a"
  by (auto simp: verify_security_def descriptor_in_place_def outcome_simps same_acl_def same_sid_def)

lemma owner_trusted:
  "directory_owner_is_system_or_administrator convert (pa_owner a) = Ok True \<Longrightarrow> owned_by_system convert a"
  by (auto simp: directory_owner_is_system_or_administrator_def sid_matches_sddl_owner_def owned_by_system_def
      same_sid_def outcome_simps split: if_splits)

lemma prepare_directory_protected:
  assumes "prepare_secure_directory convert security a = Ok u" and "sy_enforce_trusted_owner security"
  shows "directory_protected convert security a"
proof -
  have "pa_create a = DirectoryCreated \<or> pa_create a = DirectoryExists \<and> owned_by_system convert a"
    using assms owner_trusted [of convert a]
    by (cases "pa_create a") (auto simp: prepare_secure_directory_def outcome_simps)
  then show ?thesis
    using assms verify_security_in_place [of security a]
    by (auto simp: prepare_secure_directory_def directory_protected_def validate_directory_handle_def outcome_simps)
qed

lemma prepare_file_protected:
  assumes "prepare_existing_secure_file convert security a = Ok u" and "sy_enforce_trusted_owner security"
    and "pa_metadata a \<noteq> FileAbsent"
  shows "file_protected convert security a"
  using assms verify_security_in_place [of security a] owner_trusted [of convert a]
  by (auto simp: prepare_existing_secure_file_def file_protected_def validate_file_handle_def outcome_simps
      split: file_presence.splits)

section \<open>Properties\<close>

text \<open>
  C7. Whatever the server, the system and other processes do, an update runs Windows Installer at
  most once, and only on the staged file whose very bytes have the announced length and carry a
  signature by the key built into the service, for a package that is newer than the service and
  comes from one of the two release locations. Success is reported only after the installer exited
  with a success code. A failure that lets backups resume is reported only when no installer was
  started or it has exited. The procedure ends once the installer has ended or the deadline has
  passed, and it never panics.
\<close>

theorem only_verified_installers_run:
  "((\<exists>p \<in> set (ue_installer_polls env). fst p \<noteq> StillRunning \<or> \<not> snd p) \<longrightarrow>
      install env package data_root st \<noteq> None)
   \<and> (\<forall>result commands st'. install env package data_root st = Some (result, commands, st') \<longrightarrow>
        result \<noteq> Panic \<and> length commands \<le> 1
        \<and> (\<forall>cmd \<in> set commands. approved_package (ue_base64 env) package
             \<and> ic_program cmd = msiexec_path env
             \<and> take 2 (ic_arguments cmd) = [''/i'', push_path (push_path data_root ''Updates'')
                  (''resticpal-'' @ up_version package @ ''-x64.msi'')]
             \<and> signed_by_pinned_key env package (ic_installer_bytes cmd))
        \<and> (\<forall>version. result = Ok (UpdateCompleted version) \<longrightarrow> version = up_version package \<and> commands \<noteq> []
             \<and> wait_for_installer (ue_installer_polls env) (ue_killed env) (ue_wait_after_kill env)
                 \<in> {Some (Ok (Some 0)), Some (Ok (Some 3010))})
        \<and> (\<forall>c. result = Ok (UpdateFailed c) \<longrightarrow> commands = []
             \<or> (\<exists>status. wait_for_installer (ue_installer_polls env) (ue_killed env) (ue_wait_after_kill env)
                  = Some (Ok status))))"
proof (rule conjI; intro allI impI)
  assume "\<exists>p \<in> set (ue_installer_polls env). fst p \<noteq> StillRunning \<or> \<not> snd p"
  then obtain w before where "(w, before) \<in> set (ue_installer_polls env)" "w \<noteq> StillRunning \<or> \<not> before"
    by auto
  then show "install env package data_root st \<noteq> None"
    using wait_for_installer_ends [of w before "ue_installer_polls env" "ue_killed env" "ue_wait_after_kill env"]
    by (auto simp: install_def download_verify_and_launch_def launch_msi_def split: prod.splits outcome.splits)
next
  fix result commands st' assume run: "install env package data_root st = Some (result, commands, st')"
  let ?wait = "wait_for_installer (ue_installer_polls env) (ue_killed env) (ue_wait_after_kill env)"
  show "result \<noteq> Panic \<and> length commands \<le> 1
        \<and> (\<forall>cmd \<in> set commands. approved_package (ue_base64 env) package
             \<and> ic_program cmd = msiexec_path env
             \<and> take 2 (ic_arguments cmd) = [''/i'', push_path (push_path data_root ''Updates'')
                  (''resticpal-'' @ up_version package @ ''-x64.msi'')]
             \<and> signed_by_pinned_key env package (ic_installer_bytes cmd))
        \<and> (\<forall>version. result = Ok (UpdateCompleted version) \<longrightarrow> version = up_version package \<and> commands \<noteq> []
             \<and> ?wait \<in> {Some (Ok (Some 0)), Some (Ok (Some 3010))})
        \<and> (\<forall>c. result = Ok (UpdateFailed c) \<longrightarrow> commands = [] \<or> (\<exists>status. ?wait = Some (Ok status)))"
  proof (cases rule: install_cases [OF run])
    case (1 e)
    then show ?thesis by (auto simp: outcome_of_def split: if_splits)
  next
    case (2 verified final)
    note staged = download_and_verify_Ok [OF 2(1)]
    show ?thesis
      using 2(2) by (cases rule: launch_msi_cases) (use 2(3) staged in \<open>auto simp: ensure_def outcome_of_def\<close>)
  qed
qed

definition sample_answers :: protection_answers where
  "sample_answers = \<lparr>pa_create = DirectoryExists, pa_metadata = FileAbsent, pa_open = True, pa_attributes = Some 0x10,
     pa_owner = Some (Some ''SY''), pa_apply = True, pa_attributes_after = Some 0x10,
     pa_read = Some \<lparr>dr_owner = Some ''SY'', dr_group = Some ''SY'', dr_dacl = Some ''d'', dr_protected = True\<rparr>\<rparr>"

definition sample_update_env :: update_env where
  "sample_update_env = \<lparr>ue_base64 = (\<lambda>_. None), ue_valid_key = (\<lambda>_. True), ue_verify_strict = (\<lambda>_ _ _. True),
     ue_response = (\<lambda>_. None), ue_faults = {}, ue_interference = id,
     ue_sddl = (\<lambda>_. Some \<lparr>dr_owner = Some ''SY'', dr_group = Some ''SY'', dr_dacl = Some ''d'', dr_protected = True\<rparr>),
     ue_protection = (\<lambda>_. sample_answers), ue_system_root = None, ue_deadline_passed = False, ue_spawned = True,
     ue_installer_polls = [(StillRunning, True), (StillRunning, False)], ue_killed = True,
     ue_wait_after_kill = Exited None\<rparr>"

theorem only_verified_installers_run_witness:
  "install sample_update_env \<lparr>up_version = ''0.1.0'', up_url = [], up_signature = [], up_length = 1\<rparr> ''d'' [] \<noteq> None"
  using only_verified_installers_run [of sample_update_env
      "\<lparr>up_version = ''0.1.0'', up_url = [], up_signature = [], up_length = 1\<rparr>" "''d''" "[]"]
  by (simp add: sample_update_env_def)

text \<open>
  C31. The service goes on with its data directory only when every one of its five directories is a
  real directory, and every one of its nine files that exists a real file, none of them a link; when
  each was created by the service or already belonged to the system or the administrators; and
  when, after the change, the descriptor read back is protected, has exactly the access list asked
  for and is owned by the system.
\<close>

theorem service_data_root_protected:
  assumes "prepare_service_data_root convert answers data_root = Ok ()"
  shows "\<exists>directory_security file_security.
    from_sddl convert SECURE_DIRECTORY_SDDL True = Ok directory_security
    \<and> from_sddl convert SECURE_FILE_SDDL True = Ok file_security
    \<and> (\<forall>p \<in> set (service_directories data_root). directory_protected convert directory_security (answers p))
    \<and> (\<forall>p \<in> set (service_files data_root). pa_metadata (answers p) \<noteq> FileAbsent \<longrightarrow>
         file_protected convert file_security (answers p))"
  using assms prepare_directory_protected prepare_file_protected
  by (fastforce simp: prepare_service_data_root_def outcome_simps dest: from_sddl_enforces)

lemma sample_root_prepared: "prepare_service_data_root (ue_sddl sample_update_env) (\<lambda>_. sample_answers) ''d'' = Ok ()"
  by (simp add: prepare_service_data_root_def sample_update_env_def from_sddl_def outcome_simps
      prepare_secure_directory_def prepare_existing_secure_file_def sample_answers_def validate_directory_handle_def
      directory_owner_is_system_or_administrator_def sid_matches_sddl_owner_def verify_security_def same_sid_def
      same_acl_def FILE_ATTRIBUTE_DIRECTORY_def FILE_ATTRIBUTE_REPARSE_POINT_def)

theorem service_data_root_protected_witness:
  "\<exists>s. directory_protected (ue_sddl sample_update_env) s sample_answers"
  using service_data_root_protected [OF sample_root_prepared] by (auto simp: service_directories_def)

end
