(* ===== verification/Runtime.thy ===== *)
theory Runtime
  imports Policy Schedule Conditions Protocol Restic Stores Outcomes History Credentials Updater
begin

text \<open>
  \<^verbatim>\<open>apps/resticpal-service/src/runtime/\<close>, without its request handlers: the shared service object
  (\<^verbatim>\<open>state.rs\<close>), the schedule evaluation (\<^verbatim>\<open>scheduler.rs\<close>), the bookkeeping at the end of an
  operation (\<^verbatim>\<open>lifecycle.rs\<close>), the events (\<^verbatim>\<open>events.rs\<close>) and the small helpers
  (\<^verbatim>\<open>helpers.rs\<close>). An operation runs under the locks it takes, so it is one step on the record
  \<open>runtime\<close>. The clock reading, and for each save whether it succeeded, are arguments; what a save
  or its failure means for the files is the subject of the theory \<open>Stores\<close>.
\<close>

section \<open>Events\<close>

datatype runtime_event =
    Stop
  | Resume
  | PowerStatusChanged
  | TimeChanged
  | RunNow
  | Cancel
  | Deferred
  | ConfigurationChanged
  | RepositoryOperationRequested repository_operation_kind
  | RepositoryOperationFinished repository_operation_kind repository_outcome
  | UpdateInstallRequested update_package
  | UpdateInstallFinished update_outcome
  | BackupFinished backup_outcome

datatype schedule_action = NoAction | StartBackup backup_trigger

record retention_plan =
  rp_prune_due :: bool

section \<open>State\<close>

record runtime_state =
  st_status :: service_status
  st_resumed_at :: "datetime option"
  st_not_before :: "datetime option"
  st_update_hold_until :: "datetime option"
  st_update_hold_previous_status :: "(backup_state \<times> datetime option) option"
  st_update_install_active :: bool
  st_manual_requested :: bool
  st_consecutive_failures :: u32
  st_repository_operation :: repository_operation_status
  st_service_state :: service_state
  st_management_operation_active :: bool

text \<open>
  The runtime with its stores: \<open>rt_saved_local\<close> and \<open>rt_saved_state\<close> are what a restart would load
  (\<open>None\<close> an unreadable state file), \<open>rt_credentials\<close> the secret store when there is one,
  \<open>rt_diagnostics\<close> the records given to the diagnostic log and \<open>rt_events\<close> the control channel.
  Every constructor outside the tests opens all stores except the credential store.
\<close>

type_synonym diagnostic = "diagnostic_level \<times> string \<times> string \<times> string option"

record runtime =
  rt_config :: effective_config
  rt_local_config :: local_config
  rt_field_resolutions :: "(policy_field, field_resolution) btree"
  rt_state :: runtime_state
  rt_saved_local :: local_config
  rt_saved_state :: "service_state option"
  rt_credentials :: "credential_directory option"
  rt_history :: history_db
  rt_diagnostics :: "diagnostic list"
  rt_events :: "runtime_event list"
  rt_receiver_alive :: bool

section \<open>Helpers\<close>

fun repository_operation_allows_backup :: "repository_operation_status \<Rightarrow> bool" where
  "repository_operation_allows_backup (OpSucceeded operation completed_at) = True"
| "repository_operation_allows_backup _ = False"

definition transition_state :: "backup_state \<Rightarrow> datetime \<Rightarrow> service_status \<Rightarrow> service_status" where
  "transition_state nxt now status =
     (if ss_state status \<noteq> nxt then status\<lparr>ss_state := nxt, ss_state_since := now\<rparr> else status)"

definition rejected :: "string \<Rightarrow> string \<Rightarrow> response_payload" where
  "rejected c message = Rejected c message"

definition administrator_required :: response_payload where
  "administrator_required =
     rejected ''administrator_required''
       ''Open resticpal as an administrator to change machine backup settings.''"

definition record_diagnostic ::
  "diagnostic_level \<Rightarrow> string \<Rightarrow> string \<Rightarrow> string option \<Rightarrow> runtime \<Rightarrow> runtime" where
  "record_diagnostic level event_id message c rt =
     rt\<lparr>rt_diagnostics := rt_diagnostics rt @ [(level, event_id, message, c)]\<rparr>"

definition field_locked :: "runtime \<Rightarrow> policy_field \<Rightarrow> bool" where
  "field_locked rt field =
     (case bt_get (rt_field_resolutions rt) field of None \<Rightarrow> False | Some r \<Rightarrow> fr_locked r)"

definition post_event :: "runtime_event \<Rightarrow> runtime \<Rightarrow> runtime" where
  "post_event event rt = (if rt_receiver_alive rt then rt\<lparr>rt_events := rt_events rt @ [event]\<rparr> else rt)"

definition send_event :: "runtime_event \<Rightarrow> string \<Rightarrow> runtime \<Rightarrow> response_payload \<times> runtime" where
  "send_event event message rt =
     (if rt_receiver_alive rt then Accepted message
      else rejected ''service_stopping'' ''The backup service is stopping. Try again shortly.'',
      post_event event rt)"

text \<open>A save of the service state; the boolean says whether the store reported success.\<close>

definition save_service_state :: "bool \<Rightarrow> service_state \<Rightarrow> runtime \<Rightarrow> runtime" where
  "save_service_state saved s rt = (if saved then rt\<lparr>rt_saved_state := Some s\<rparr> else rt)"

section \<open>Construction\<close>

definition initial_repository_operation ::
  "service_state \<Rightarrow> effective_config \<Rightarrow> repository_operation_status" where
  "initial_repository_operation s c =
     (if repository_requires_validation s c then ValidationRequired
      else case repository_verified_at s c of
        Some completed_at \<Rightarrow> OpSucceeded ValidateOp completed_at
      | None \<Rightarrow> NotRun)"

definition from_resolved_with_state ::
  "chrono \<Rightarrow> datetime \<Rightarrow> resolved_config \<Rightarrow> local_config \<Rightarrow> service_state \<Rightarrow> service_state option \<Rightarrow>
     credential_directory option \<Rightarrow> history_db \<Rightarrow> diagnostic list \<Rightarrow> runtime" where
  "from_resolved_with_state K now resolved local s saved credentials history diagnostics =
     (let c = rs_effective resolved;
          configured = is_configured c;
          operation = initial_repository_operation s c;
          repository_ready = repository_operation_allows_backup operation;
          status = \<lparr>ss_state = (if configured \<and> \<not> repository_ready then Waiting RepositoryValidation
                      else if configured then Idle else Unconfigured),
             ss_state_since = now, ss_last_attempt = None, ss_last_success = vs_last_success s,
             ss_next_deadline = (if configured \<and> repository_ready
                then Some (completion_deadline K (vs_last_success s) now (sc_interval_hours (ec_schedule c)))
                else None),
             ss_repository_display_name = rc_display_name (ec_repository c),
             ss_repository_mode = rc_mode (ec_repository c),
             ss_managed_revision = rs_managed_revision resolved, ss_progress = None\<rparr>
      in \<lparr>rt_config = c, rt_local_config = local, rt_field_resolutions = rs_fields resolved,
          rt_state = \<lparr>st_status = status, st_resumed_at = None, st_not_before = None,
             st_update_hold_until = None, st_update_hold_previous_status = None,
             st_update_install_active = False, st_manual_requested = False,
             st_consecutive_failures = 0, st_repository_operation = operation,
             st_service_state = s, st_management_operation_active = False\<rparr>,
          rt_saved_local = local, rt_saved_state = saved, rt_credentials = credentials,
          rt_history = history, rt_diagnostics = diagnostics, rt_events = [],
          rt_receiver_alive = True\<rparr>)"

datatype runtime_init_error = InitConfigStore config_store_error | InitPolicy policy_error

definition load_with_credentials_and_policy ::
  "chrono \<Rightarrow> datetime \<Rightarrow> (config_store_error, local_config) outcome \<Rightarrow>
     (state_store_error, service_state) outcome \<Rightarrow> credential_directory option \<Rightarrow>
     managed_policy option \<Rightarrow> history_db \<Rightarrow> (runtime_init_error, runtime) outcome" where
  "load_with_credentials_and_policy K now loaded_config loaded_state credentials policy history =
     and_then (map_err InitConfigStore loaded_config) (\<lambda>local.
     and_then (map_err InitPolicy (resolve_config default_effective_config local policy)) (\<lambda>resolved.
     case loaded_state of
       Ok s \<Rightarrow> Ok (from_resolved_with_state K now resolved local s (Some s) credentials history [])
     | Panic \<Rightarrow> Panic
     | Err _ \<Rightarrow>
         let s = (if rc_url (ec_repository (rs_effective resolved)) \<noteq> None
                  then require_repository_validation default_service_state else default_service_state)
         in Ok (from_resolved_with_state K now resolved local s None credentials history
              [(Warning, ''state.load_failed'',
                ''Service state could not be loaded; repository validation is required.'',
                Some ''state_load_failed'')])))"

definition configuration_error ::
  "datetime \<Rightarrow> local_config \<Rightarrow> service_state option \<Rightarrow> credential_directory option \<Rightarrow> history_db \<Rightarrow> runtime"
where
  "configuration_error now saved_local saved credentials history =
     \<lparr>rt_config = default_effective_config, rt_local_config = default_local_config,
      rt_field_resolutions = [],
      rt_state = \<lparr>st_status = \<lparr>ss_state = Failed ''configuration_invalid'', ss_state_since = now,
           ss_last_attempt = None, ss_last_success = None, ss_next_deadline = None,
           ss_repository_display_name = None, ss_repository_mode = Standard,
           ss_managed_revision = None, ss_progress = None\<rparr>,
         st_resumed_at = None, st_not_before = None, st_update_hold_until = None,
         st_update_hold_previous_status = None, st_update_install_active = False,
         st_manual_requested = False, st_consecutive_failures = 0, st_repository_operation = NotRun,
         st_service_state = default_service_state, st_management_operation_active = False\<rparr>,
      rt_saved_local = saved_local, rt_saved_state = saved, rt_credentials = credentials,
      rt_history = history,
      rt_diagnostics = [(Error, ''configuration.invalid'', ''The service configuration is invalid.'',
        Some ''configuration_invalid'')],
      rt_events = [], rt_receiver_alive = True\<rparr>"

definition apply_configuration_status ::
  "chrono \<Rightarrow> effective_config \<Rightarrow> datetime \<Rightarrow> runtime_state \<Rightarrow> runtime_state" where
  "apply_configuration_status K c now st =
     (let status = (st_status st)\<lparr>ss_repository_display_name := rc_display_name (ec_repository c),
            ss_repository_mode := rc_mode (ec_repository c)\<rparr>
      in if is_configured c then
           if \<not> repository_operation_allows_backup (st_repository_operation st)
           then st\<lparr>st_status :=
             (transition_state (Waiting RepositoryValidation) now status)\<lparr>ss_next_deadline := None\<rparr>\<rparr>
           else
             let scheduled = completion_deadline K (ss_last_success status) now
                   (sc_interval_hours (ec_schedule c));
                 status = status\<lparr>ss_next_deadline :=
                   Some (case st_not_before st of None \<Rightarrow> scheduled | Some nb \<Rightarrow> max scheduled nb)\<rparr>
             in st\<lparr>st_status :=
                  (if ss_state status \<in> {Unconfigured, Waiting RepositoryValidation}
                   then transition_state Idle now status else status)\<rparr>
         else st\<lparr>st_status := (transition_state Unconfigured now status)\<lparr>ss_next_deadline := None\<rparr>,
                st_manual_requested := False, st_not_before := None\<rparr>)"

section \<open>Schedule evaluation\<close>

definition CONDITION_RETRY_SECONDS :: int where "CONDITION_RETRY_SECONDS = 60"

fun waiting_reason_of :: "schedule_blocker \<Rightarrow> waiting_reason" where
  "waiting_reason_of WakeGraceBlocker = WakeGrace"
| "waiting_reason_of NetworkUnavailable = Network"
| "waiting_reason_of BatteryDisallowed = Battery"
| "waiting_reason_of MeteredNetworkDisallowed = MeteredNetwork"

abbreviation double_backslash :: string where
  "double_backslash \<equiv> [CHR 0x5C, CHR 0x5C]"

definition repository_requires_network :: "string \<Rightarrow> bool" where
  "repository_requires_network url =
     (let repository = trim url;
          local = (case strip_prefix ''local:'' repository of
              Some p \<Rightarrow> Some p | None \<Rightarrow> strip_prefix ''LOCAL:'' repository)
      in case local of
           Some p \<Rightarrow> prefix double_backslash p \<or> prefix ''//'' p
         | None \<Rightarrow>
             if prefix double_backslash repository \<or> prefix ''//'' repository then True
             else if 3 \<le> length repository \<and> is_ascii_alphabetic (repository ! 0)
               \<and> repository ! 1 = CHR '':'' \<and> repository ! 2 \<in> {CHR 0x5C, CHR ''/''} then False
             else CHR '':'' \<in> set repository)"

definition is_running :: "backup_state \<Rightarrow> bool" where
  "is_running s = (case s of Running _ \<Rightarrow> True | _ \<Rightarrow> False)"

definition is_waiting :: "backup_state \<Rightarrow> bool" where
  "is_waiting s = (case s of Waiting _ \<Rightarrow> True | _ \<Rightarrow> False)"

definition record_resume :: "datetime \<Rightarrow> runtime \<Rightarrow> runtime" where
  "record_resume now rt = rt\<lparr>rt_state := (rt_state rt)\<lparr>st_resumed_at := Some now\<rparr>\<rparr>"

definition schedule_snapshot ::
  "effective_config \<Rightarrow> datetime \<Rightarrow> system_conditions \<Rightarrow> runtime_state \<Rightarrow> scheduler_snapshot" where
  "schedule_snapshot c now conditions st =
     \<lparr>sn_now = now, sn_last_success = ss_last_success (st_status st),
      sn_resumed_at = st_resumed_at st, sn_not_before = st_not_before st,
      sn_manual_requested = st_manual_requested st,
      sn_backup_running = is_running (ss_state (st_status st)),
      sn_network_required =
        repository_requires_network (case rc_url (ec_repository c) of None \<Rightarrow> [] | Some u \<Rightarrow> u),
      sn_network_available = cd_network_available conditions,
      sn_on_battery = cd_on_battery conditions, sn_metered_network = cd_metered_network conditions\<rparr>"

text \<open>An update is being installed or holds the backups; the end of a hold restores what it replaced.\<close>

definition update_pending :: "datetime \<Rightarrow> runtime_state \<Rightarrow> bool" where
  "update_pending now st \<longleftrightarrow>
     st_update_install_active st
     \<or> (case st_update_hold_until st of None \<Rightarrow> False | Some deadline \<Rightarrow> now < deadline)"

definition release_update_hold :: "datetime \<Rightarrow> runtime_state \<Rightarrow> runtime_state" where
  "release_update_hold now st =
     (let st' = st\<lparr>st_update_hold_until := None, st_update_hold_previous_status := None\<rparr>
      in case st_update_hold_previous_status st of
           None \<Rightarrow> st'
         | Some (previous_state, previous_deadline) \<Rightarrow>
             if ss_state (st_status st) = Waiting UpdateWait
             then st'\<lparr>st_status := (st_status st')\<lparr>ss_state := previous_state, ss_state_since := now,
                ss_next_deadline := previous_deadline\<rparr>\<rparr>
             else st')"

definition apply_decision ::
  "datetime \<Rightarrow> schedule_decision \<Rightarrow> runtime_state \<Rightarrow> (schedule_action \<times> runtime_state) option" where
  "apply_decision now decision st =
     (case decision of
        AlreadyRunning \<Rightarrow> Some (NoAction, st)
      | Start trigger \<Rightarrow>
          Some (StartBackup trigger,
            st\<lparr>st_status := (st_status st)\<lparr>ss_state := Running PreparingSnapshot, ss_state_since := now,
                 ss_last_attempt := Some now, ss_progress := None, ss_next_deadline := None\<rparr>,
               st_manual_requested := False, st_resumed_at := None, st_not_before := None\<rparr>)
      | IdleUntil deadline \<Rightarrow>
          let status = (st_status st)\<lparr>ss_next_deadline := Some deadline\<rparr>
          in Some (NoAction,
               st\<lparr>st_status := (if is_waiting (ss_state status) then transition_state Idle now status
                    else status), st_resumed_at := None\<rparr>)
      | WaitingFor trigger blockers retry_at \<Rightarrow>
          (case blockers of
             [] \<Rightarrow> None
           | blocker # _ \<Rightarrow>
               let status = transition_state (Waiting (waiting_reason_of blocker)) now (st_status st);
                   deadline = (case retry_at of Some t \<Rightarrow> t
                      | None \<Rightarrow> (case st_not_before st of Some t \<Rightarrow> t | None \<Rightarrow> now))
               in Some (NoAction, st\<lparr>st_status := status\<lparr>ss_next_deadline := Some deadline\<rparr>\<rparr>)))"

definition evaluate_state ::
  "chrono \<Rightarrow> effective_config \<Rightarrow> datetime \<Rightarrow> system_conditions \<Rightarrow> runtime_state \<Rightarrow>
     (schedule_action \<times> runtime_state) option" where
  "evaluate_state K c now conditions st =
     (if st_update_install_active st then
        map_option (\<lambda>retry. (NoAction, st\<lparr>st_status :=
            (transition_state (Waiting UpdateWait) now (st_status st))\<lparr>ss_next_deadline := Some retry\<rparr>\<rparr>))
          (checked_add_signed K now (seconds CONDITION_RETRY_SECONDS))
      else if (case st_update_hold_until st of None \<Rightarrow> False | Some deadline \<Rightarrow> now < deadline) then
        Some (NoAction, st\<lparr>st_status := (transition_state (Waiting UpdateWait) now (st_status st))
            \<lparr>ss_next_deadline := st_update_hold_until st\<rparr>\<rparr>)
      else
        let st = release_update_hold now st in
        if \<not> is_configured c then Some (NoAction, st)
        else if st_management_operation_active st then Some (NoAction, st)
        else if \<not> repository_operation_allows_backup (st_repository_operation st) then Some (NoAction, st)
        else Option.bind (decide K (ec_schedule c) (schedule_snapshot c now conditions st))
          (\<lambda>decision. apply_decision now decision st))"

definition evaluate_schedule ::
  "chrono \<Rightarrow> datetime \<Rightarrow> system_conditions \<Rightarrow> runtime \<Rightarrow> (schedule_action \<times> runtime) option" where
  "evaluate_schedule K now conditions rt =
     map_option (\<lambda>(action, st). (action, rt\<lparr>rt_state := st\<rparr>))
       (evaluate_state K (rt_config rt) now conditions (rt_state rt))"

text \<open>The delay of the next evaluation, in milliseconds.\<close>

definition next_evaluation_delay :: "datetime \<Rightarrow> runtime_state \<Rightarrow> int" where
  "next_evaluation_delay now st =
     (if st_management_operation_active st then CONDITION_RETRY_SECONDS * 1000
      else if ss_state (st_status st) \<in> {Waiting Network, Waiting Battery, Waiting MeteredNetwork}
      then CONDITION_RETRY_SECONDS * 1000
      else (case ss_next_deadline (st_status st) of
          None \<Rightarrow> 60 * 60 * 1000
        | Some deadline \<Rightarrow> max 0 ((deadline - now) div 1000000)))"

section \<open>The end of an operation\<close>

definition INITIAL_FAILURE_RETRY_MINUTES :: int where "INITIAL_FAILURE_RETRY_MINUTES = 5"
definition MAX_FAILURE_BACKOFF_EXPONENT :: u32 where "MAX_FAILURE_BACKOFF_EXPONENT = 6"

definition finish_update_install :: "datetime \<Rightarrow> update_outcome \<Rightarrow> runtime \<Rightarrow> runtime" where
  "finish_update_install now outcome' rt =
     (let st = rt_state rt in
      case outcome' of
        UpdateCompleted version \<Rightarrow>
          record_diagnostic Information ''update.installer_completed''
            ''The signed resticpal update installer completed.'' None
            (rt\<lparr>rt_state := st\<lparr>st_update_install_active := False\<rparr>\<rparr>)
      | UpdateFailed c \<Rightarrow>
          (let st' = st\<lparr>st_update_install_active := False, st_update_hold_until := None,
                 st_update_hold_previous_status := None\<rparr>;
               st'' = (case st_update_hold_previous_status st of
                   None \<Rightarrow> st'
                 | Some (previous, previous_deadline) \<Rightarrow>
                     st'\<lparr>st_status := (st_status st')\<lparr>ss_state := previous, ss_state_since := now,
                        ss_next_deadline := previous_deadline\<rparr>\<rparr>)
           in record_diagnostic Error ''update.failed''
                ''The signed resticpal update could not be installed.'' (Some c)
                (rt\<lparr>rt_state := st''\<rparr>))
      | UpdateIndeterminate c \<Rightarrow>
          record_diagnostic Error ''update.installer_indeterminate''
            ''The update installer could not be confirmed stopped; backups remain paused.'' (Some c)
            (rt\<lparr>rt_state := st\<lparr>st_update_install_active := True\<rparr>\<rparr>))"

definition update_progress :: "backup_progress \<Rightarrow> runtime \<Rightarrow> runtime" where
  "update_progress progress rt =
     (let st = rt_state rt in
      if is_running (ss_state (st_status st))
      then rt\<lparr>rt_state := st\<lparr>st_status :=
        (st_status st)\<lparr>ss_state := Running Uploading, ss_progress := Some progress\<rparr>\<rparr>\<rparr>
      else rt)"

definition begin_retention :: "datetime \<Rightarrow> runtime \<Rightarrow> retention_plan option \<times> runtime" where
  "begin_retention now rt =
     (let c = rt_config rt; st = rt_state rt in
      if rc_mode (ec_repository c) \<noteq> Standard then (None, rt)
      else
        let prune_interval = days (int (unat (tc_prune_interval_days (ec_retention c))));
            st' = st\<lparr>st_status := (st_status st)\<lparr>ss_state := Running Retention, ss_state_since := now,
              ss_progress := None\<rparr>\<rparr>;
            prune_due = (case vs_last_prune (st_service_state st) of
                None \<Rightarrow> True | Some last_prune \<Rightarrow> prune_interval \<le> now - last_prune)
        in (Some \<lparr>rp_prune_due = prune_due\<rparr>,
            record_diagnostic Information ''retention.started'' ''Snapshot retention started.'' None
              (rt\<lparr>rt_state := st'\<rparr>)))"

definition finish_retention ::
  "datetime \<Rightarrow> bool \<Rightarrow> backup_outcome \<Rightarrow> retention_outcome \<Rightarrow> runtime \<Rightarrow> backup_outcome \<times> runtime" where
  "finish_retention now saved backup retention rt =
     (let st = rt_state rt;
          s = st_service_state st;
          (warning, s') = (case retention of
              RetentionSucceeded pruned \<Rightarrow>
                (None, s\<lparr>vs_last_retention := Some now,
                   vs_last_prune := (if pruned then Some now else vs_last_prune s),
                   vs_last_retention_error := None\<rparr>)
            | RetentionFailed c \<Rightarrow> (Some c, s\<lparr>vs_last_retention_error := Some c\<rparr>)
            | RetentionCancelled \<Rightarrow>
                (Some ''retention_cancelled'', s\<lparr>vs_last_retention_error := Some ''retention_cancelled''\<rparr>));
          rt' = save_service_state saved s' (rt\<lparr>rt_state := st\<lparr>st_service_state := s'\<rparr>\<rparr>)
      in case warning of
           Some c \<Rightarrow>
             (with_warning c backup,
              record_diagnostic Warning ''retention.failed'' ''Snapshot retention did not complete.''
                (Some c) rt')
         | None \<Rightarrow>
             if \<not> saved then
               (with_warning ''retention_state_save_failed'' backup,
                record_diagnostic Warning ''retention.state_save_failed''
                  ''Retention completed but its state could not be saved.''
                  (Some ''retention_state_save_failed'') rt')
             else
               (backup,
                record_diagnostic Information ''retention.succeeded''
                  ''Snapshot retention completed successfully.'' None rt'))"

fun finished_state :: "backup_outcome_kind \<Rightarrow> backup_state" where
  "finished_state BackupSucceeded = Succeeded"
| "finished_state BackupSucceededWithWarnings = SucceededWithWarnings"
| "finished_state (BackupFailed c) = Failed c"
| "finished_state BackupCancelled = Cancelled"

definition retry_minutes :: "u32 \<Rightarrow> int" where
  "retry_minutes failures =
     (let e = min (saturating_sub failures 1) MAX_FAILURE_BACKOFF_EXPONENT
      in INITIAL_FAILURE_RETRY_MINUTES * uint (push_bit (unat e) (1 :: u32)))"

definition finish_backup_state ::
  "chrono \<Rightarrow> u32 \<Rightarrow> datetime \<Rightarrow> backup_outcome_kind \<Rightarrow> runtime_state \<Rightarrow> runtime_state option" where
  "finish_backup_state K interval_hours now kind st =
     (let succeeded = kind \<in> {BackupSucceeded, BackupSucceededWithWarnings};
          status = (st_status st)\<lparr>ss_state := finished_state kind\<rparr>;
          finish = (\<lambda>st. st\<lparr>st_resumed_at := None,
             st_status := (st_status st)\<lparr>ss_state_since := now, ss_progress := None\<rparr>\<rparr>)
      in if succeeded then
           Some (finish (st\<lparr>st_status := status\<lparr>ss_last_success := Some now,
                ss_next_deadline := Some (completion_deadline K (Some now) now interval_hours)\<rparr>,
              st_service_state := (st_service_state st)\<lparr>vs_last_success := Some now\<rparr>,
              st_not_before := None, st_consecutive_failures := 0\<rparr>))
         else
           let failures = (case kind of BackupFailed _ \<Rightarrow> saturating_add (st_consecutive_failures st) 1
                 | _ \<Rightarrow> st_consecutive_failures st)
           in map_option (\<lambda>retry_at. finish (st\<lparr>st_consecutive_failures := failures,
                st_not_before := Some retry_at, st_status := status\<lparr>ss_next_deadline := Some retry_at\<rparr>\<rparr>))
              (checked_add_signed K now (minutes (retry_minutes failures))))"

definition completed_run_of ::
  "datetime \<Rightarrow> datetime \<Rightarrow> backup_outcome \<Rightarrow> completed_run" where
  "completed_run_of started_at now outcome' =
     (let (run_outcome, error_code) = (case bo_kind outcome' of
            BackupSucceeded \<Rightarrow> (RunSucceeded, None)
          | BackupSucceededWithWarnings \<Rightarrow> (RunSucceededWithWarnings, bo_warning_code outcome')
          | BackupFailed c \<Rightarrow> (RunFailed, Some c)
          | BackupCancelled \<Rightarrow> (RunCancelled, None));
          summary = bo_summary outcome'
      in \<lparr>cr_started_at = started_at, cr_completed_at = now, cr_outcome = run_outcome,
          cr_error_code = error_code, cr_files_processed = map_option bs_files_processed summary,
          cr_bytes_processed = map_option bs_bytes_processed summary,
          cr_data_added = map_option bs_data_added summary,
          cr_snapshot_id = Option.bind summary bs_snapshot_id,
          cr_failed_items = bf_items (bo_failure_details outcome'),
          cr_failed_items_omitted = bf_omitted (bo_failure_details outcome')\<rparr>)"

definition backup_diagnostic :: "backup_outcome \<Rightarrow> diagnostic" where
  "backup_diagnostic outcome' =
     (case bo_kind outcome' of
        BackupSucceeded \<Rightarrow> (Information, ''backup.succeeded'', ''Backup completed successfully.'', None)
      | BackupSucceededWithWarnings \<Rightarrow>
          (Warning, ''backup.warning'', ''Backup completed with warnings.'', bo_warning_code outcome')
      | BackupFailed c \<Rightarrow> (Error, ''backup.failed'', ''Backup failed.'', Some c)
      | BackupCancelled \<Rightarrow> (Information, ''backup.cancelled'', ''Backup was cancelled.'', None))"

definition finish_backup_at ::
  "chrono \<Rightarrow> datetime \<Rightarrow> history_error option \<Rightarrow> bool \<Rightarrow> bool \<Rightarrow> backup_outcome \<Rightarrow> runtime \<Rightarrow> runtime option" where
  "finish_backup_at K now opened transaction_ok saved outcome' rt =
     (let st = rt_state rt;
          started_at = (case ss_last_attempt (st_status st) of None \<Rightarrow> now | Some t \<Rightarrow> t);
          succeeded = bo_kind outcome' \<in> {BackupSucceeded, BackupSucceededWithWarnings}
      in map_option (\<lambda>st'.
           let rt' = rt\<lparr>rt_state := st', rt_history := snd (history_append K opened transaction_ok
                  (completed_run_of started_at now outcome') (rt_history rt))\<rparr>;
               rt'' = (if succeeded then save_service_state saved (st_service_state st') rt' else rt');
               (level, event_id, message, c) = backup_diagnostic outcome'
           in record_diagnostic level event_id message c rt'')
         (finish_backup_state K (sc_interval_hours (ec_schedule (rt_config rt))) now (bo_kind outcome') st))"

definition finish_repository_operation ::
  "chrono \<Rightarrow> datetime \<Rightarrow> bool \<Rightarrow> repository_operation_kind \<Rightarrow> repository_outcome \<Rightarrow> runtime \<Rightarrow> runtime" where
  "finish_repository_operation K completed_at saved operation outcome' rt =
     (let c = rt_config rt; st = rt_state rt in
      if st_repository_operation st \<noteq> OpRunning operation then rt
      else
        let (st', rt') = (case outcome' of
              RepositorySucceeded \<Rightarrow>
                (let s = mark_repository_verified c completed_at (st_service_state st)
                 in (st\<lparr>st_service_state := s, st_repository_operation :=
                       (if saved then OpSucceeded operation completed_at
                        else OpFailed operation completed_at ''state_save_failed'')\<rparr>,
                     save_service_state saved s rt))
            | RepositoryFailed e \<Rightarrow>
                (st\<lparr>st_repository_operation := OpFailed operation completed_at e\<rparr>, rt)
            | RepositoryCancelled \<Rightarrow>
                (st\<lparr>st_repository_operation :=
                   OpFailed operation completed_at ''repository_operation_cancelled''\<rparr>, rt));
            rt'' = rt'\<lparr>rt_state := apply_configuration_status K c completed_at st'\<rparr>
        in (case outcome' of
              RepositorySucceeded \<Rightarrow>
                record_diagnostic Information ''repository.operation_succeeded''
                  ''Repository operation completed successfully.'' None rt''
            | RepositoryFailed e \<Rightarrow>
                record_diagnostic Error ''repository.operation_failed'' ''Repository operation failed.''
                  (Some e) rt''
            | RepositoryCancelled \<Rightarrow>
                record_diagnostic Information ''repository.operation_cancelled''
                  ''Repository operation was cancelled.'' None rt''))"

section \<open>State transitions\<close>

lemma transition_state_fields [simp]:
  "ss_state (transition_state nxt now status) = nxt"
  "ss_last_attempt (transition_state nxt now status) = ss_last_attempt status"
  "ss_last_success (transition_state nxt now status) = ss_last_success status"
  "ss_next_deadline (transition_state nxt now status) = ss_next_deadline status"
  "ss_managed_revision (transition_state nxt now status) = ss_managed_revision status"
  "ss_progress (transition_state nxt now status) = ss_progress status"
  by (simp_all add: transition_state_def)

lemma is_running_simps [simp]:
  "is_running (Running phase)" "\<not> is_running (Waiting reason)" "\<not> is_running Idle"
  "\<not> is_running Unconfigured" "\<not> is_running Succeeded" "\<not> is_running SucceededWithWarnings"
  "\<not> is_running (Failed c)" "\<not> is_running Cancelled"
  by (simp_all add: is_running_def)

lemma record_diagnostic_fields [simp]:
  "rt_config (record_diagnostic level event_id message c rt) = rt_config rt"
  "rt_local_config (record_diagnostic level event_id message c rt) = rt_local_config rt"
  "rt_field_resolutions (record_diagnostic level event_id message c rt) = rt_field_resolutions rt"
  "rt_state (record_diagnostic level event_id message c rt) = rt_state rt"
  "rt_saved_local (record_diagnostic level event_id message c rt) = rt_saved_local rt"
  "rt_saved_state (record_diagnostic level event_id message c rt) = rt_saved_state rt"
  "rt_credentials (record_diagnostic level event_id message c rt) = rt_credentials rt"
  "rt_history (record_diagnostic level event_id message c rt) = rt_history rt"
  "rt_events (record_diagnostic level event_id message c rt) = rt_events rt"
  "rt_receiver_alive (record_diagnostic level event_id message c rt) = rt_receiver_alive rt"
  by (simp_all add: record_diagnostic_def)

lemma post_event_fields [simp]:
  "rt_config (post_event event rt) = rt_config rt"
  "rt_local_config (post_event event rt) = rt_local_config rt"
  "rt_field_resolutions (post_event event rt) = rt_field_resolutions rt"
  "rt_state (post_event event rt) = rt_state rt"
  "rt_saved_local (post_event event rt) = rt_saved_local rt"
  "rt_saved_state (post_event event rt) = rt_saved_state rt"
  "rt_credentials (post_event event rt) = rt_credentials rt"
  "rt_history (post_event event rt) = rt_history rt"
  "rt_diagnostics (post_event event rt) = rt_diagnostics rt"
  "rt_receiver_alive (post_event event rt) = rt_receiver_alive rt"
  by (simp_all add: post_event_def)

lemma save_service_state_fields [simp]:
  "rt_config (save_service_state saved s rt) = rt_config rt"
  "rt_local_config (save_service_state saved s rt) = rt_local_config rt"
  "rt_field_resolutions (save_service_state saved s rt) = rt_field_resolutions rt"
  "rt_state (save_service_state saved s rt) = rt_state rt"
  "rt_saved_local (save_service_state saved s rt) = rt_saved_local rt"
  "rt_saved_state (save_service_state saved s rt) = (if saved then Some s else rt_saved_state rt)"
  "rt_credentials (save_service_state saved s rt) = rt_credentials rt"
  "rt_history (save_service_state saved s rt) = rt_history rt"
  "rt_events (save_service_state saved s rt) = rt_events rt"
  "rt_receiver_alive (save_service_state saved s rt) = rt_receiver_alive rt"
  by (simp_all add: save_service_state_def)

lemma release_update_hold_fields [simp]:
  "st_repository_operation (release_update_hold now st) = st_repository_operation st"
  "st_service_state (release_update_hold now st) = st_service_state st"
  "st_management_operation_active (release_update_hold now st) = st_management_operation_active st"
  "st_update_install_active (release_update_hold now st) = st_update_install_active st"
  "st_update_hold_until (release_update_hold now st) = None"
  "st_update_hold_previous_status (release_update_hold now st) = None"
  "st_consecutive_failures (release_update_hold now st) = st_consecutive_failures st"
  "st_manual_requested (release_update_hold now st) = st_manual_requested st"
  "ss_last_success (st_status (release_update_hold now st)) = ss_last_success (st_status st)"
  by (auto simp: release_update_hold_def Let_def split: option.split)

section \<open>Evaluation\<close>

definition ready_to_back_up :: "effective_config \<Rightarrow> datetime \<Rightarrow> runtime_state \<Rightarrow> bool" where
  "ready_to_back_up c now st \<longleftrightarrow>
     \<not> update_pending now st \<and> is_configured c \<and> \<not> st_management_operation_active st
     \<and> repository_operation_allows_backup (st_repository_operation st)"

lemma evaluate_state_ready:
  "ready_to_back_up c now st \<Longrightarrow>
     evaluate_state K c now conditions st =
       Option.bind (decide K (ec_schedule c) (schedule_snapshot c now conditions (release_update_hold now st)))
         (\<lambda>decision. apply_decision now decision (release_update_hold now st))"
  by (auto simp: ready_to_back_up_def update_pending_def evaluate_state_def Let_def split: option.splits)

lemma evaluate_state_not_ready:
  assumes "\<not> ready_to_back_up c now st" and "clock_ok K now"
  shows "\<exists>status. evaluate_state K c now conditions st = Some (NoAction,
      (if update_pending now st then st else release_update_hold now st)\<lparr>st_status := status\<rparr>)
    \<and> (is_running (ss_state status) \<longrightarrow> \<not> update_pending now st
         \<and> status = st_status (release_update_hold now st))"
proof -
  have retry: "checked_add_signed K now (seconds CONDITION_RETRY_SECONDS) =
      Some (now + seconds CONDITION_RETRY_SECONDS)"
    using assms(2) by (rule clock_ok_add) (simp_all add: duration_defs CONDITION_RETRY_SECONDS_def)
  show ?thesis
  proof (cases "update_pending now st")
    case True
    then show ?thesis
      by (auto simp: evaluate_state_def update_pending_def retry split: option.splits)
  next
    case False
    with assms(1) have "evaluate_state K c now conditions st = Some (NoAction, release_update_hold now st)"
      by (auto simp: evaluate_state_def update_pending_def ready_to_back_up_def Let_def split: option.splits)
    with False show ?thesis
      by (intro exI [of _ "st_status (release_update_hold now st)"]) simp
  qed
qed

lemma apply_decision_action:
  "apply_decision now decision st = Some (action, st') \<Longrightarrow>
     action = (case decision of Start trigger \<Rightarrow> StartBackup trigger | _ \<Rightarrow> NoAction)"
  by (auto simp: apply_decision_def Let_def split: schedule_decision.splits list.splits)

lemma apply_decision_Start:
  "apply_decision now decision st = Some (StartBackup trigger, st') \<Longrightarrow>
     st' = st\<lparr>st_status := (st_status st)\<lparr>ss_state := Running PreparingSnapshot, ss_state_since := now,
          ss_last_attempt := Some now, ss_progress := None, ss_next_deadline := None\<rparr>,
        st_manual_requested := False, st_resumed_at := None, st_not_before := None\<rparr>"
  by (cases decision) (auto simp: apply_decision_def Let_def split: list.splits)

lemma apply_decision_NoAction_running:
  "apply_decision now decision st = Some (NoAction, st') \<Longrightarrow> is_running (ss_state (st_status st')) \<Longrightarrow>
     is_running (ss_state (st_status st))"
  by (cases decision) (auto simp: apply_decision_def Let_def split: list.splits if_splits)

lemma evaluate_state_readyD:
  assumes "ready_to_back_up c now st" and "evaluate_state K c now conditions st = Some (action, st')"
  obtains decision where
    "decide K (ec_schedule c) (schedule_snapshot c now conditions (release_update_hold now st)) = Some decision"
    "apply_decision now decision (release_update_hold now st) = Some (action, st')"
  using assms by (auto simp: evaluate_state_ready bind_eq_Some_conv)

lemma evaluate_state_total:
  assumes "valid_config c" and "clock_ok K now"
  shows "evaluate_state K c now conditions st \<noteq> None"
proof (cases "ready_to_back_up c now st")
  case True
  let ?s = "schedule_snapshot c now conditions (release_update_hold now st)"
  have valid: "valid_schedule (ec_schedule c)" "86400 \<le> MAX_SECONDS K" "MIN_UTC K \<le> sn_now ?s"
    using assms by (simp_all add: valid_config_def clock_ok_def schedule_snapshot_def)
  obtain decision where "decide K (ec_schedule c) ?s = Some decision"
    using decide_total [OF valid(1,2), of ?s] by blast
  moreover from this have "apply_decision now decision (release_update_hold now st) \<noteq> None"
    using decide_Waiting_blockers(2) [OF valid]
    by (auto simp: apply_decision_def Let_def split: schedule_decision.split list.split)
  ultimately show ?thesis
    using True by (simp add: evaluate_state_ready)
next
  case False
  then show ?thesis
    using evaluate_state_not_ready [OF False assms(2)] by force
qed

lemma evaluate_state_Start_iff:
  assumes "valid_config c" and "clock_ok K now"
    and "evaluate_state K c now conditions st = Some (action, st')"
  defines "snapshot \<equiv> schedule_snapshot c now conditions (release_update_hold now st)"
  shows "(\<exists>trigger. action = StartBackup trigger) \<longleftrightarrow>
    ready_to_back_up c now st \<and> \<not> sn_backup_running snapshot
    \<and> is_due K (ec_schedule c) snapshot \<and> (\<forall>b. \<not> blocked_by K (ec_schedule c) snapshot b)"
proof (cases "ready_to_back_up c now st")
  case True
  have valid: "valid_schedule (ec_schedule c)" "86400 \<le> MAX_SECONDS K" "MIN_UTC K \<le> sn_now snapshot"
    using assms(1,2) by (simp_all add: valid_config_def clock_ok_def schedule_snapshot_def snapshot_def)
  obtain decision where decision: "decide K (ec_schedule c) snapshot = Some decision"
    and "apply_decision now decision (release_update_hold now st) = Some (action, st')"
    unfolding snapshot_def by (rule evaluate_state_readyD [OF True assms(3)])
  then have "(\<exists>trigger. action = StartBackup trigger) \<longleftrightarrow> (\<exists>trigger. decision = Start trigger)"
    by (auto dest!: apply_decision_action split: schedule_decision.splits)
  with decision decide_Start_iff [OF valid] True show ?thesis by simp
next
  case False
  then show ?thesis
    using evaluate_state_not_ready [OF False assms(2), of conditions] assms(3) by auto
qed

lemma evaluate_state_Start_effect:
  assumes "evaluate_state K c now conditions st = Some (StartBackup trigger, st')" and "clock_ok K now"
  shows "ready_to_back_up c now st"
    and "st' = (release_update_hold now st)\<lparr>st_status := (st_status (release_update_hold now st))
           \<lparr>ss_state := Running PreparingSnapshot, ss_state_since := now, ss_last_attempt := Some now,
            ss_progress := None, ss_next_deadline := None\<rparr>,
         st_manual_requested := False, st_resumed_at := None, st_not_before := None\<rparr>"
proof -
  show ready: "ready_to_back_up c now st"
    using evaluate_state_not_ready [of c now st K conditions] assms by force
  show "st' = (release_update_hold now st)\<lparr>st_status := (st_status (release_update_hold now st))
           \<lparr>ss_state := Running PreparingSnapshot, ss_state_since := now, ss_last_attempt := Some now,
            ss_progress := None, ss_next_deadline := None\<rparr>,
         st_manual_requested := False, st_resumed_at := None, st_not_before := None\<rparr>"
    by (rule evaluate_state_readyD [OF ready assms(1)]) (rule apply_decision_Start)
qed

lemma evaluate_state_NoAction_running:
  assumes "evaluate_state K c now conditions st = Some (NoAction, st')" and "clock_ok K now"
    and "is_running (ss_state (st_status st'))"
  shows "is_running (ss_state (st_status (release_update_hold now st)))"
proof (cases "ready_to_back_up c now st")
  case True
  then show ?thesis
    by (rule evaluate_state_readyD [OF _ assms(1)]) (rule apply_decision_NoAction_running [OF _ assms(3)])
next
  case False
  then show ?thesis
    using evaluate_state_not_ready [OF False assms(2), of conditions] assms(1,3) by auto
qed

section \<open>Verification of the repository\<close>

text \<open>
  Backups are allowed only while the repository that was last verified is the configured one.
\<close>

definition verified_repository :: "effective_config \<Rightarrow> runtime_state \<Rightarrow> bool" where
  "verified_repository c st \<longleftrightarrow>
     (repository_operation_allows_backup (st_repository_operation st) \<longrightarrow>
        \<not> repository_requires_validation (st_service_state st) c)"

lemma initial_repository_operation_verified:
  "repository_operation_allows_backup (initial_repository_operation s c) \<Longrightarrow>
     \<not> repository_requires_validation s c"
  by (simp add: initial_repository_operation_def split: if_splits)

lemma requires_validation_iff:
  "\<not> repository_requires_validation s c \<longleftrightarrow>
     rc_url (ec_repository c) = None
     \<or> \<not> vs_repository_validation_required s \<and> vs_verified_repository s = Some (identity_from_config c)"
  by (auto simp: repository_requires_validation_def split: option.split)

lemma mark_verified_ok [simp]:
  "\<not> repository_requires_validation (mark_repository_verified c t s) c"
  by (simp add: repository_requires_validation_def mark_repository_verified_def)

lemma apply_configuration_status_fields [simp]:
  "st_repository_operation (apply_configuration_status K c now st) = st_repository_operation st"
  "st_service_state (apply_configuration_status K c now st) = st_service_state st"
  "st_update_install_active (apply_configuration_status K c now st) = st_update_install_active st"
  "st_update_hold_until (apply_configuration_status K c now st) = st_update_hold_until st"
  "st_update_hold_previous_status (apply_configuration_status K c now st) = st_update_hold_previous_status st"
  "st_management_operation_active (apply_configuration_status K c now st) = st_management_operation_active st"
  "st_consecutive_failures (apply_configuration_status K c now st) = st_consecutive_failures st"
  "ss_last_success (st_status (apply_configuration_status K c now st)) = ss_last_success (st_status st)"
  by (auto simp: apply_configuration_status_def Let_def)

lemma apply_configuration_status_not_running:
  "\<not> is_running (ss_state (st_status st)) \<Longrightarrow>
     \<not> is_running (ss_state (st_status (apply_configuration_status K c now st)))"
  by (auto simp: apply_configuration_status_def Let_def)

lemma finish_repository_operation_verified:
  assumes "verified_repository (rt_config rt) (rt_state rt)"
  shows "verified_repository (rt_config (finish_repository_operation K now saved operation outcome' rt))
    (rt_state (finish_repository_operation K now saved operation outcome' rt))"
  using assms
  by (auto simp: finish_repository_operation_def verified_repository_def Let_def
      split: repository_outcome.split)

section \<open>Back-off\<close>

lemma uint_shifted_one: "k \<le> 6 \<Longrightarrow> uint (push_bit k (1 :: u32)) = 2 ^ k"
proof -
  assume "k \<le> 6"
  then have "k \<in> {0, 1, 2, 3, 4, 5, 6}" by auto
  then show ?thesis by auto
qed

lemma retry_minutes_eq: "retry_minutes n = 5 * 2 ^ min (unat n - 1) 6"
proof -
  have "unat (min (saturating_sub n 1) MAX_FAILURE_BACKOFF_EXPONENT) = min (unat n - 1) 6"
    by (simp add: min_def word_le_nat_alt unat_saturating_sub MAX_FAILURE_BACKOFF_EXPONENT_def)
  then show ?thesis
    by (simp add: retry_minutes_def Let_def uint_shifted_one INITIAL_FAILURE_RETRY_MINUTES_def
        del: push_bit_of_1)
qed

lemma retry_minutes_after_failure: "retry_minutes (saturating_add n 1) = 5 * 2 ^ min (unat n) 6"
  by (simp add: retry_minutes_eq unat_saturating_add min_def)

lemma retry_minutes_bounds: "5 \<le> retry_minutes n \<and> retry_minutes n \<le> 320"
proof -
  have "(2 :: int) ^ min (unat n - 1) 6 \<le> 2 ^ 6"
    by (rule power_increasing) simp_all
  then show ?thesis
    by (simp add: retry_minutes_eq)
qed

lemma load_cases:
  assumes "load_with_credentials_and_policy K now loaded_config loaded_state credentials policy history = Ok rt"
  obtains s resolved local saved diagnostics where
    "rt = from_resolved_with_state K now resolved local s saved credentials history diagnostics"
    "loaded_state = Ok s \<or> (\<exists>e. loaded_state = Err e) \<and> s = (if rc_url (ec_repository (rs_effective resolved)) \<noteq> None
       then require_repository_validation default_service_state else default_service_state)"
proof (cases loaded_state)
  case (Ok s)
  with assms that show thesis
    by (fastforce simp: load_with_credentials_and_policy_def outcome_simps)
next
  case (Err e)
  with assms obtain local resolved where "rt = from_resolved_with_state K now resolved local
      (if rc_url (ec_repository (rs_effective resolved)) \<noteq> None
       then require_repository_validation default_service_state else default_service_state)
      None credentials history [(Warning, ''state.load_failed'',
        ''Service state could not be loaded; repository validation is required.'', Some ''state_load_failed'')]"
    by (auto simp: load_with_credentials_and_policy_def outcome_simps Let_def simp del: not_None_eq)
  with Err that show thesis by blast
next
  case Panic
  with assms show thesis
    by (auto simp: load_with_credentials_and_policy_def outcome_simps)
qed

section \<open>Properties\<close>

definition sample_resolved :: resolved_config where
  "sample_resolved = \<lparr>rs_effective = sample_config, rs_managed_revision = None, rs_fields = []\<rparr>"

definition sample_local :: local_config where
  "sample_local = default_local_config
     \<lparr>lc_backup := \<lparr>lb_paths = Some [sample_source], lb_exclusions = Some [''x'']\<rparr>,
      lc_repository := \<lparr>lr_display_name = None, lr_url = Some ''r'', lr_mode = Some AppendOnly,
        lr_options = Some [(''o'', ''v'')], lr_secret_refs = Some [(ResticPassword, ''p'')]\<rparr>\<rparr>"

lemma sample_local_resolves:
  "resolve_config default_effective_config sample_local None =
     Ok \<lparr>rs_effective = sample_config, rs_managed_revision = None, rs_fields = origins sample_local None\<rparr>"
proof -
  have "layered default_effective_config sample_local None = sample_config"
    by (simp add: layered_def precedence_def sections_def sample_local_def sample_config_def
        default_effective_config_def default_local_config_def default_schedule_config_def
        default_retention_config_def no_backup_def no_repository_def no_schedule_def
        no_retention_def no_updates_def)
  then show ?thesis
    using sample_config_valid
    by (simp add: resolve_config_Ok_iff sample_local_def default_local_config_def)
qed

definition verified_state :: service_state where
  "verified_state = mark_repository_verified sample_config 0 default_service_state"

definition sample_runtime :: runtime where
  "sample_runtime = from_resolved_with_state sample_chrono 0 sample_resolved default_local_config
     verified_state (Some verified_state) None empty_history []"

definition sample_conditions :: system_conditions where
  "sample_conditions = \<lparr>cd_network_available = True, cd_on_battery = False, cd_metered_network = False\<rparr>"

lemma sample_runtime_fields [simp]:
  "rt_config sample_runtime = sample_config"
  "rt_state sample_runtime =
     \<lparr>st_status = \<lparr>ss_state = Idle, ss_state_since = 0, ss_last_attempt = None, ss_last_success = None,
        ss_next_deadline = Some 0, ss_repository_display_name = None, ss_repository_mode = AppendOnly,
        ss_managed_revision = None, ss_progress = None\<rparr>,
      st_resumed_at = None, st_not_before = None, st_update_hold_until = None,
      st_update_hold_previous_status = None, st_update_install_active = False,
      st_manual_requested = False, st_consecutive_failures = 0,
      st_repository_operation = OpSucceeded ValidateOp 0, st_service_state = verified_state,
      st_management_operation_active = False\<rparr>"
  by (simp_all add: sample_runtime_def from_resolved_with_state_def sample_resolved_def Let_def
      is_configured_def sample_config_def default_effective_config_def initial_repository_operation_def
      verified_state_def repository_verified_at_def repository_requires_validation_def
      mark_repository_verified_def default_service_state_def identity_from_config_def)

lemma sample_clock [simp]: "clock_ok sample_chrono 0"
  by (simp add: clock_ok_def sample_chrono_def duration_defs)

text \<open>
  C22. With a validated configuration an evaluation of the schedule never panics. It starts a
  backup exactly when no update is pending, sources and repository are configured, no management
  operation is active, the repository is verified, no backup is running, and one is due with no
  condition against it. Starting one publishes the running state and uses up the manual request,
  the retry delay and the resume time; nothing but the runtime state changes.
\<close>

theorem evaluation_starts_backup:
  fixes conditions :: system_conditions
  assumes "valid_config (rt_config rt)" and "clock_ok K now"
  defines "snapshot \<equiv> schedule_snapshot (rt_config rt) now conditions (release_update_hold now (rt_state rt))"
  shows "\<exists>action st'. evaluate_schedule K now conditions rt = Some (action, rt\<lparr>rt_state := st'\<rparr>)
    \<and> ((\<exists>trigger. action = StartBackup trigger) \<longleftrightarrow>
         \<not> update_pending now (rt_state rt) \<and> is_configured (rt_config rt)
         \<and> \<not> st_management_operation_active (rt_state rt)
         \<and> repository_operation_allows_backup (st_repository_operation (rt_state rt))
         \<and> \<not> sn_backup_running snapshot \<and> is_due K (ec_schedule (rt_config rt)) snapshot
         \<and> (\<forall>b. \<not> blocked_by K (ec_schedule (rt_config rt)) snapshot b))
    \<and> (\<forall>trigger. action = StartBackup trigger \<longrightarrow>
         ss_state (st_status st') = Running PreparingSnapshot \<and> ss_last_attempt (st_status st') = Some now
         \<and> \<not> st_manual_requested st' \<and> st_not_before st' = None \<and> st_resumed_at st' = None)"
proof -
  obtain action st' where ev: "evaluate_state K (rt_config rt) now conditions (rt_state rt) = Some (action, st')"
    using evaluate_state_total [OF assms(1,2), of conditions "rt_state rt"] by force
  then have "evaluate_schedule K now conditions rt = Some (action, rt\<lparr>rt_state := st'\<rparr>)"
    by (simp add: evaluate_schedule_def)
  moreover have "ss_state (st_status st') = Running PreparingSnapshot
      \<and> ss_last_attempt (st_status st') = Some now \<and> \<not> st_manual_requested st'
      \<and> st_not_before st' = None \<and> st_resumed_at st' = None" if "action = StartBackup trigger" for trigger
    unfolding evaluate_state_Start_effect(2) [OF ev [unfolded that] assms(2)] by simp
  ultimately show ?thesis
    using evaluate_state_Start_iff [OF assms(1,2) ev]
    unfolding snapshot_def ready_to_back_up_def by blast
qed

theorem evaluation_starts_backup_witness:
  "\<exists>action st'. evaluate_schedule sample_chrono 0 sample_conditions sample_runtime =
     Some (action, sample_runtime\<lparr>rt_state := st'\<rparr>)
     \<and> (\<forall>trigger. action = StartBackup trigger \<longrightarrow> ss_state (st_status st') = Running PreparingSnapshot)"
  using evaluation_starts_backup [of sample_runtime sample_chrono 0 sample_conditions]
    sample_config_valid by auto

text \<open>
  C23. The end of a backup always leaves the schedule in order. A success records the time in the
  status and in the service state, which is saved, and clears the failure count and the retry
  delay. The n-th failure in a row postpones the next attempt by five minutes doubled n-1 times,
  never by more than 320 minutes; a cancellation is postponed likewise and does not count. Neither
  of them changes the time of the last success. No outcome leaves a running state, and the
  settings stay as they were.
\<close>

theorem finish_backup_schedules_next:
  assumes "clock_ok K now"
  shows "\<exists>rt'. finish_backup_at K now opened transaction_ok saved result rt = Some rt'
    \<and> \<not> is_running (ss_state (st_status (rt_state rt')))
    \<and> rt_config rt' = rt_config rt \<and> rt_saved_local rt' = rt_saved_local rt
    \<and> (bo_kind result \<in> {BackupSucceeded, BackupSucceededWithWarnings} \<longrightarrow>
         ss_last_success (st_status (rt_state rt')) = Some now
         \<and> vs_last_success (st_service_state (rt_state rt')) = Some now
         \<and> (saved \<longrightarrow> rt_saved_state rt' = Some (st_service_state (rt_state rt')))
         \<and> st_consecutive_failures (rt_state rt') = 0 \<and> st_not_before (rt_state rt') = None)
    \<and> (\<forall>c. bo_kind result = BackupFailed c \<longrightarrow>
         st_not_before (rt_state rt') =
           Some (now + minutes (5 * 2 ^ min (unat (st_consecutive_failures (rt_state rt))) 6))
         \<and> unat (st_consecutive_failures (rt_state rt')) =
             min (unat (st_consecutive_failures (rt_state rt)) + 1) (2 ^ 32 - 1))
    \<and> (bo_kind result = BackupCancelled \<longrightarrow>
         (\<exists>m. 5 \<le> m \<and> m \<le> 320 \<and> st_not_before (rt_state rt') = Some (now + minutes m))
         \<and> st_consecutive_failures (rt_state rt') = st_consecutive_failures (rt_state rt))
    \<and> (bo_kind result \<notin> {BackupSucceeded, BackupSucceededWithWarnings} \<longrightarrow>
         ss_last_success (st_status (rt_state rt')) = ss_last_success (st_status (rt_state rt))
         \<and> st_service_state (rt_state rt') = st_service_state (rt_state rt)
         \<and> rt_saved_state rt' = rt_saved_state rt)"
proof -
  have retry: "checked_add_signed K now (minutes (retry_minutes n)) = Some (now + minutes (retry_minutes n))" for n
    using assms retry_minutes_bounds [of n] by (intro clock_ok_add) (auto simp: duration_defs)
  show ?thesis
    using retry_minutes_bounds [of "st_consecutive_failures (rt_state rt)"]
    by (cases "bo_kind result")
      (auto simp: finish_backup_at_def finish_backup_state_def Let_def retry retry_minutes_after_failure
        unat_saturating_add split: prod.split)
qed

theorem finish_backup_schedules_next_witness:
  "\<exists>rt'. finish_backup_at sample_chrono 0 None True True (backup_failed ''x'') sample_runtime = Some rt'
     \<and> st_not_before (rt_state rt') = Some (minutes 5)"
  using finish_backup_schedules_next [of sample_chrono 0 None True True "backup_failed ''x''" sample_runtime]
  by (auto simp: backup_failed_def)

text \<open>
  C24. A restart trusts only what was verified: a loaded runtime with sources and a repository
  allows backups exactly when the state file was readable and records the verification of this
  repository address with these options and secret references; otherwise it waits for a validation
  and schedules nothing.
\<close>

theorem restart_requires_verified_repository:
  assumes "load_with_credentials_and_policy K now loaded_config loaded_state credentials policy history = Ok rt"
    and "is_configured (rt_config rt)"
  shows "(repository_operation_allows_backup (st_repository_operation (rt_state rt)) \<longleftrightarrow>
      (\<exists>s. loaded_state = Ok s \<and> \<not> vs_repository_validation_required s
         \<and> vs_verified_repository s = Some (identity_from_config (rt_config rt))
         \<and> vs_repository_verified_at s \<noteq> None))
    \<and> (\<not> repository_operation_allows_backup (st_repository_operation (rt_state rt)) \<longrightarrow>
         ss_state (st_status (rt_state rt)) = Waiting RepositoryValidation
         \<and> ss_next_deadline (st_status (rt_state rt)) = None)"
proof -
  obtain s resolved local saved diagnostics where
    rt: "rt = from_resolved_with_state K now resolved local s saved credentials history diagnostics"
    and s: "loaded_state = Ok s \<or> (\<exists>e. loaded_state = Err e) \<and> s = (if rc_url (ec_repository (rs_effective resolved)) \<noteq> None
        then require_repository_validation default_service_state else default_service_state)"
    using assms(1) by (rule load_cases)
  have url: "rc_url (ec_repository (rs_effective resolved)) \<noteq> None"
    using assms(2) by (simp add: rt from_resolved_with_state_def Let_def is_configured_def)
  have "repository_operation_allows_backup (initial_repository_operation s (rs_effective resolved)) \<longleftrightarrow>
      \<not> vs_repository_validation_required s
      \<and> vs_verified_repository s = Some (identity_from_config (rs_effective resolved))
      \<and> vs_repository_verified_at s \<noteq> None"
    using url requires_validation_iff [of s "rs_effective resolved"]
    by (auto simp: initial_repository_operation_def repository_verified_at_def split: option.split)
  with s url assms(2) show ?thesis
    by (auto simp: rt from_resolved_with_state_def Let_def require_repository_validation_def)
qed

theorem restart_requires_verified_repository_witness:
  "\<exists>rt. load_with_credentials_and_policy sample_chrono 0 (Ok sample_local) (Err StateTooLarge) None None
      empty_history = Ok rt
    \<and> ss_state (st_status (rt_state rt)) = Waiting RepositoryValidation"
proof -
  let ?rt = "from_resolved_with_state sample_chrono 0
    \<lparr>rs_effective = sample_config, rs_managed_revision = None, rs_fields = origins sample_local None\<rparr>
    sample_local (require_repository_validation default_service_state) None None empty_history
    [(Warning, ''state.load_failed'', ''Service state could not be loaded; repository validation is required.'',
      Some ''state_load_failed'')]"
  have "load_with_credentials_and_policy sample_chrono 0 (Ok sample_local) (Err StateTooLarge) None None
      empty_history = Ok ?rt"
    by (simp add: load_with_credentials_and_policy_def sample_local_resolves Let_def)
      (simp add: sample_config_def)
  from restart_requires_verified_repository [OF this] show ?thesis
    by (intro exI [of _ ?rt]) (auto simp: \<open>_ = Ok ?rt\<close> from_resolved_with_state_def Let_def
        is_configured_def sample_config_def)
qed

end
