(* ===== verification/ManagementClient.thy ===== *)
theory ManagementClient
  imports Manifests Runtime
begin

text \<open>
  \<^verbatim>\<open>apps/resticpal-service/src/management.rs\<close>: the client of the management server and the policy cache
  next to the configuration file. The HTTP agent is an argument: a request that fails is \<open>None\<close>, and
  a body is never longer than the limit of the call. The clock is read once to judge a fetched
  document and once more to date its cached copy.
\<close>

section \<open>Environment\<close>

definition CACHE_SCHEMA_VERSION :: u32 where "CACHE_SCHEMA_VERSION = 1"
definition MAX_CACHE_BYTES :: nat where "MAX_CACHE_BYTES = 2 * 1024 * 1024"

record loaded_policy =
  lp_policy :: managed_policy
  lp_sequence :: u64

record pending_enrollment =
  pe_material :: enrollment_material
  pe_private_key :: string
  pe_public_key :: string

record cached_manifest =
  cm_schema_version :: u32
  cm_mode :: management_mode
  cm_source_url :: string
  cm_verified_at :: datetime
  cm_document :: string

record management_libraries =
  ml_crypto :: crypto
  ml_json :: json
  ml_url :: url_library
  ml_parse_cache :: "string \<Rightarrow> cached_manifest option"
  ml_print_cache :: "cached_manifest \<Rightarrow> string option"

record management_env =
  mg_now :: datetime
  mg_saved_at :: datetime
  mg_get :: "string \<Rightarrow> string option \<Rightarrow> nat \<Rightarrow> string option"
  mg_enroll :: "string \<Rightarrow> string \<Rightarrow> enrollment_request \<Rightarrow> nat \<Rightarrow> string option"
  mg_report :: "string \<Rightarrow> string \<Rightarrow> device_status_report \<Rightarrow> bool"
  mg_credentials :: "(credential_env \<times> credential_directory) option"
  mg_private_key :: string
  mg_random :: "string option"
  mg_computer_name :: "string option"
  mg_architecture :: string
  mg_cache_unreadable :: bool
  mg_faults :: "file_call set"
  mg_written :: nat

datatype management_error =
    ManagementDisabled
  | NoManifestUrl
  | NoSigningKey
  | ManifestTooLarge
  | EnrollmentTooLarge
  | ManifestNotUtf8
  | StatusReportingNotConfigured
  | CredentialStoreUnavailable
  | InvalidStatusToken
  | EnrolledPolicyContainsSecretReferences
  | CacheTooLarge
  | CacheDoesNotMatchSource
  | FetchAndCacheUnavailable management_error management_error
  | ManagementConfig management_config_error
  | ManagementManifest manifest_error
  | ManagementEnrollment enrollment_error
  | ManagementPolicy policy_error
  | ManagementHttp
  | ManagementIo
  | ManagementJson
  | ManagementAtomic atomic_file_error
  | ManagementCredential credential_error

section \<open>Requests\<close>

text \<open>The first 256 characters, where continuation bytes belong to the character before them.\<close>

fun take_chars :: "nat \<Rightarrow> string \<Rightarrow> string" where
  "take_chars n [] = []"
| "take_chars n (b # s) =
     (if is_continuation b then b # take_chars n s
      else case n of 0 \<Rightarrow> [] | Suc m \<Rightarrow> b # take_chars m s)"

definition bounded_hostname :: "management_env \<Rightarrow> string" where
  "bounded_hostname env =
     (case mg_computer_name env of
        None \<Rightarrow> ''unknown-windows-device''
      | Some name \<Rightarrow> if name = [] then ''unknown-windows-device'' else take_chars 256 name)"

definition read_token :: "management_env \<Rightarrow> string \<Rightarrow> (management_error, string) outcome" where
  "read_token env reference =
     (case mg_credentials env of
        None \<Rightarrow> Err CredentialStoreUnavailable
      | Some (store, dir) \<Rightarrow>
          and_then (map_err ManagementCredential (get_secret store reference dir)) (\<lambda>token.
          and_then (ensure (valid_utf8 token) InvalidStatusToken) (\<lambda>_.
          and_then (ensure (\<not> contains_any line_breaks token) InvalidStatusToken) (\<lambda>_. Ok token))))"

definition bearer_token :: "management_env \<Rightarrow> string \<Rightarrow> (management_error, string) outcome" where
  "bearer_token env reference = and_then (read_token env reference) (\<lambda>token. Ok (''Bearer '' @ token))"

definition verify_document ::
  "chrono \<Rightarrow> management_libraries \<Rightarrow> local_management \<Rightarrow> management_mode \<Rightarrow> string \<Rightarrow> datetime \<Rightarrow> u64 option \<Rightarrow>
     (management_error, verified_manifest) outcome" where
  "verify_document K L m mode document now minimum =
     (case mode of
        PlainManifest \<Rightarrow> map_err ManagementManifest (parse_plain_manifest K (ml_json L) document now minimum)
      | SignedManifest \<Rightarrow>
          and_then (ok_or (lm_signing_public_key m) NoSigningKey) (\<lambda>key.
          map_err ManagementManifest (verify_signed_manifest K (ml_crypto L) (ml_json L) document key now minimum))
      | Disabled \<Rightarrow> Err ManagementDisabled)"

definition loaded_from :: "verified_manifest \<Rightarrow> loaded_policy" where
  "loaded_from v = \<lparr>lp_policy = mf_policy (vm_payload v), lp_sequence = mf_sequence (vm_payload v)\<rparr>"

definition fetch_policy ::
  "chrono \<Rightarrow> management_libraries \<Rightarrow> management_env \<Rightarrow> local_management \<Rightarrow> u64 option \<Rightarrow>
     (management_error, loaded_policy \<times> string) outcome" where
  "fetch_policy K L env m minimum =
     and_then (ok_or (lm_manifest_url m) NoManifestUrl) (\<lambda>url.
     and_then (if lm_mode m = SignedManifest
         then (case lm_status_token_ref m of
             None \<Rightarrow> Ok None
           | Some reference \<Rightarrow> and_then (bearer_token env reference) (\<lambda>token. Ok (Some token)))
         else Ok None) (\<lambda>authorization.
     and_then (ok_or (mg_get env url authorization (MAX_MANIFEST_BYTES + 1)) ManagementHttp) (\<lambda>document.
     and_then (ensure (\<not> MAX_MANIFEST_BYTES < length document) ManifestTooLarge) (\<lambda>_.
     and_then (verify_document K L m (lm_mode m) document (mg_now env) minimum) (\<lambda>verified.
     and_then (ensure (valid_utf8 document) ManifestNotUtf8) (\<lambda>_.
     Ok (loaded_from verified, document)))))))"

definition client_enroll ::
  "chrono \<Rightarrow> management_libraries \<Rightarrow> management_env \<Rightarrow> string \<Rightarrow> (management_error, pending_enrollment) outcome" where
  "client_enroll K L env bootstrap_url =
     and_then (map_err ManagementEnrollment (parse_bootstrap (ml_crypto L) (ml_url L) bootstrap_url)) (\<lambda>descriptor.
     and_then (map_err ManagementEnrollment (new_enrollment_request (ml_crypto L) (mg_private_key env) (mg_random env)
         (bounded_hostname env) CARGO_PKG_VERSION (mg_architecture env))) (\<lambda>context.
     and_then (ok_or (mg_enroll env (bd_endpoint_url descriptor) (''Bearer '' @ bd_token descriptor)
         (rx_request context) (MAX_ENROLLMENT_BYTES + 1)) ManagementHttp) (\<lambda>document.
     and_then (ensure (\<not> MAX_ENROLLMENT_BYTES < length document) EnrollmentTooLarge) (\<lambda>_.
     and_then (map_err ManagementEnrollment (verify_and_decrypt_enrollment K (ml_crypto L) (ml_json L) (ml_url L)
         document descriptor (rx_private_key context) (rx_request_nonce context) (mg_now env))) (\<lambda>material.
     Ok \<lparr>pe_material = material, pe_private_key = rx_private_key context, pe_public_key = bd_public_key descriptor\<rparr>)))))"

definition report_status ::
  "management_env \<Rightarrow> local_management \<Rightarrow> service_status \<Rightarrow> (management_error, unit) outcome" where
  "report_status env m status =
     and_then (ok_or (lm_status_url m) StatusReportingNotConfigured) (\<lambda>status_url.
     and_then (ok_or (lm_device_id m) StatusReportingNotConfigured) (\<lambda>device_id.
     and_then (ok_or (lm_status_token_ref m) StatusReportingNotConfigured) (\<lambda>reference.
     and_then (read_token env reference) (\<lambda>token.
     ensure (mg_report env status_url (''Bearer '' @ token)
         \<lparr>dr_schema_version = MANAGEMENT_SCHEMA_VERSION, dr_device_id = device_id, dr_hostname = bounded_hostname env,
          dr_app_version = CARGO_PKG_VERSION, dr_architecture = mg_architecture env, dr_reported_at = mg_now env,
          dr_status = status\<rparr>) ManagementHttp))))"

section \<open>The policy cache\<close>

definition cache_target :: "target \<Rightarrow> target" where
  "cache_target config_path = (fst config_path, ''managed-policy-cache.json'')"

definition save_cache ::
  "management_libraries \<Rightarrow> management_env \<Rightarrow> target \<Rightarrow> local_management \<Rightarrow> string \<Rightarrow> disk \<Rightarrow>
     (management_error, unit) outcome \<times> disk" where
  "save_cache L env config_path m document d =
     (let cache = \<lparr>cm_schema_version = CACHE_SCHEMA_VERSION, cm_mode = lm_mode m,
            cm_source_url = (case lm_manifest_url m of None \<Rightarrow> [] | Some u \<Rightarrow> u),
            cm_verified_at = mg_saved_at env, cm_document = document\<rparr> in
      io_then (ok_or (ml_print_cache L cache) ManagementJson, d) (\<lambda>contents d.
      io_then (ensure (\<not> MAX_CACHE_BYTES < length contents) CacheTooLarge, d) (\<lambda>_ d.
      let (result, trace) = replace (mg_faults env) (mg_written env) (cache_target config_path) contents ''managed-policy'' d
      in (map_err ManagementAtomic result, final_disk d trace))))"

definition load_cache ::
  "chrono \<Rightarrow> management_libraries \<Rightarrow> management_env \<Rightarrow> target \<Rightarrow> local_management \<Rightarrow> disk \<Rightarrow>
     (management_error, loaded_policy) outcome" where
  "load_cache K L env config_path m d =
     and_then (ok_or (if mg_cache_unreadable env then None else dk_files d (target_file (cache_target config_path)))
       ManagementIo) (\<lambda>bytes.
     let contents = take (MAX_CACHE_BYTES + 1) bytes in
     and_then (ensure (\<not> MAX_CACHE_BYTES < length contents) CacheTooLarge) (\<lambda>_.
     and_then (ok_or (ml_parse_cache L contents) ManagementJson) (\<lambda>cache.
     and_then (ensure (\<not> (cm_schema_version cache \<noteq> CACHE_SCHEMA_VERSION \<or> cm_mode cache \<noteq> lm_mode m
         \<or> Some (cm_source_url cache) \<noteq> lm_manifest_url m)) CacheDoesNotMatchSource) (\<lambda>_.
     and_then (verify_document K L m (cm_mode cache) (cm_document cache) (cm_verified_at cache) None) (\<lambda>verified.
     Ok (loaded_from verified))))))"

definition validate_effective_policy ::
  "local_config \<Rightarrow> managed_policy \<Rightarrow> (management_error, unit) outcome" where
  "validate_effective_policy local policy =
     and_then (ensure (\<not> (lm_enrollment_key_ref (lc_management local) \<noteq> None
         \<and> mr_secret_refs (mp_repository policy) \<noteq> None)) EnrolledPolicyContainsSecretReferences) (\<lambda>_.
     and_then (map_err ManagementPolicy (resolve_config default_effective_config local (Some policy))) (\<lambda>_. Ok ()))"

definition load_best_policy ::
  "chrono \<Rightarrow> management_libraries \<Rightarrow> management_env \<Rightarrow> target \<Rightarrow> local_config \<Rightarrow> disk \<Rightarrow>
     (management_error, loaded_policy option) outcome \<times> disk" where
  "load_best_policy K L env config_path local d =
     (let m = lc_management local in
      if lm_mode m = Disabled then (Ok None, d)
      else
        io_then (map_err ManagementConfig (validate_management (ul_parse (ml_url L)) m), d) (\<lambda>_ d.
        let cached = load_cache K L env config_path m d;
            minimum = (case cached of Ok loaded \<Rightarrow> Some (lp_sequence loaded) | _ \<Rightarrow> None) in
        if cached = Panic then (Panic, d)
        else case fetch_policy K L env m minimum of
            Panic \<Rightarrow> (Panic, d)
          | Ok (loaded, document) \<Rightarrow>
              if minimum = Some (lp_sequence loaded) then
                (case cached of
                   Ok kept \<Rightarrow> (and_then (validate_effective_policy local (lp_policy kept)) (\<lambda>_. Ok (Some kept)), d)
                 | _ \<Rightarrow> (Panic, d))
              else
                io_then (validate_effective_policy local (lp_policy loaded), d) (\<lambda>_ d.
                io_then (save_cache L env config_path m document d) (\<lambda>_ d. (Ok (Some loaded), d)))
          | Err fetch_error \<Rightarrow>
              (case cached of
                 Ok kept \<Rightarrow> (and_then (validate_effective_policy local (lp_policy kept)) (\<lambda>_. Ok (Some kept)), d)
               | Err cache_error \<Rightarrow> (Err (FetchAndCacheUnavailable fetch_error cache_error), d)
               | Panic \<Rightarrow> (Panic, d))))"

definition refresh_policy ::
  "chrono \<Rightarrow> management_libraries \<Rightarrow> management_env \<Rightarrow> target \<Rightarrow> local_config \<Rightarrow> u64 \<Rightarrow> disk \<Rightarrow>
     (management_error, loaded_policy) outcome \<times> disk" where
  "refresh_policy K L env config_path local minimum d =
     (let m = lc_management local in
      io_then (fetch_policy K L env m (Some minimum), d) (\<lambda>(loaded, document) d.
      if lp_sequence loaded = minimum then (Ok loaded, d)
      else
        io_then (validate_effective_policy local (lp_policy loaded), d) (\<lambda>_ d.
        io_then (save_cache L env config_path m document d) (\<lambda>_ d. (Ok loaded, d)))))"

definition save_enrollment_cache ::
  "management_libraries \<Rightarrow> management_env \<Rightarrow> target \<Rightarrow> local_management \<Rightarrow> string \<Rightarrow> disk \<Rightarrow>
     (management_error, unit) outcome \<times> disk" where
  "save_enrollment_cache L env config_path m document d = save_cache L env config_path m document d"

definition remove_management_cache :: "bool \<Rightarrow> target \<Rightarrow> disk \<Rightarrow> (management_error, unit) outcome \<times> disk" where
  "remove_management_cache removable config_path d =
     (let f = target_file (cache_target config_path) in
      if dk_files d f = None then (Ok (), d)
      else if removable then (Ok (), d\<lparr>dk_files := (dk_files d)(f := None)\<rparr>)
      else (Err ManagementIo, d))"

section \<open>Origin of a policy\<close>

text \<open>
  The manifest comes from the configured source: in signed mode its bytes are signed with the
  configured key, and it expires.
\<close>

definition genuine :: "management_libraries \<Rightarrow> local_management \<Rightarrow> manifest_payload \<Rightarrow> bool" where
  "genuine L m p \<longleftrightarrow>
     (\<exists>bytes. js_manifest (ml_json L) bytes = Some p
        \<and> (lm_mode m = SignedManifest \<longrightarrow> mf_expires_at p \<noteq> None
             \<and> (\<exists>key. lm_signing_public_key m = Some key \<and> signed_by (ml_crypto L) key bytes)))"

lemma verify_document_Ok:
  assumes "verify_document K L m (lm_mode m) document now minimum = Ok v"
  shows "genuine L m (vm_payload v)" "in_force (vm_payload v) now"
    "\<And>s. minimum = Some s \<Longrightarrow> s \<le> mf_sequence (vm_payload v)"
proof -
  have "genuine L m (vm_payload v) \<and> in_force (vm_payload v) now
      \<and> (\<forall>s. minimum = Some s \<longrightarrow> s \<le> mf_sequence (vm_payload v))"
  proof (cases "lm_mode m")
    case PlainManifest
    with assms show ?thesis
      by (auto simp: verify_document_def outcome_simps genuine_def dest: parse_plain_manifest_Ok)
  next
    case SignedManifest
    with assms obtain key where key: "lm_signing_public_key m = Some key"
      and v: "verify_signed_manifest K (ml_crypto L) (ml_json L) document key now minimum = Ok v"
      by (auto simp: verify_document_def outcome_simps)
    from v show ?thesis
      by (rule verify_signed_manifest_Ok) (use key in \<open>auto simp: genuine_def\<close>)
  qed (use assms in \<open>simp add: verify_document_def\<close>)
  then show "genuine L m (vm_payload v)" "in_force (vm_payload v) now"
    "\<And>s. minimum = Some s \<Longrightarrow> s \<le> mf_sequence (vm_payload v)" by auto
qed

lemma verify_document_again:
  assumes "verify_document K L m mode document now minimum = Ok v"
    and "in_force (vm_payload v) later" and "checked_add_signed K later (minutes 5) \<noteq> None"
  shows "verify_document K L m mode document later None = Ok v"
  using assms verify_signed_manifest_again [OF _ assms(2,3)] parse_plain_manifest_again [OF _ assms(2,3)]
  by (cases mode) (auto simp: verify_document_def outcome_simps)

lemma in_force_later:
  assumes "in_force p now" and "now \<le> later" and "\<And>e. mf_expires_at p = Some e \<Longrightarrow> later \<le> e"
  shows "in_force p later"
  using assms by (auto simp: in_force_def)

lemma fetch_policy_Ok:
  assumes "fetch_policy K L env m minimum = Ok (loaded, document)"
  obtains v where "verify_document K L m (lm_mode m) document (mg_now env) minimum = Ok v"
    "loaded = loaded_from v" "length document \<le> MAX_MANIFEST_BYTES"
  using assms by (auto simp: fetch_policy_def outcome_simps not_less)

lemma load_cache_Ok:
  assumes "load_cache K L env config_path m d = Ok loaded"
  obtains p where "genuine L m p" "loaded = \<lparr>lp_policy = mf_policy p, lp_sequence = mf_sequence p\<rparr>"
  using assms by (auto simp: load_cache_def Let_def outcome_simps loaded_from_def dest!: verify_document_Ok(1))

text \<open>The JSON codec reads back a cache that it wrote.\<close>

definition cache_codec :: "management_libraries \<Rightarrow> bool" where
  "cache_codec L \<longleftrightarrow> (\<forall>c contents. ml_print_cache L c = Some contents \<longrightarrow> ml_parse_cache L contents = Some c)"

lemma save_cache_then_load:
  assumes "save_cache L env config_path m document d = (Ok u, d')" and "cache_codec L"
    and "lm_manifest_url m \<noteq> None"
    and "verify_document K L m (lm_mode m) document (mg_saved_at env) None = Ok v" and "\<not> mg_cache_unreadable env'"
  shows "load_cache K L env' config_path m d' = Ok (loaded_from v)"
proof -
  let ?cache = "\<lparr>cm_schema_version = CACHE_SCHEMA_VERSION, cm_mode = lm_mode m,
    cm_source_url = (case lm_manifest_url m of None \<Rightarrow> [] | Some u \<Rightarrow> u), cm_verified_at = mg_saved_at env, cm_document = document\<rparr>"
  let ?r = "\<lambda>contents. replace (mg_faults env) (mg_written env) (cache_target config_path) contents ''managed-policy'' d"
  obtain contents where contents: "ml_print_cache L ?cache = Some contents" "length contents \<le> MAX_CACHE_BYTES"
    and written: "fst (?r contents) = Ok ()" "d' = final_disk d (snd (?r contents))"
    using assms(1) by (auto simp: save_cache_def Let_def outcome_simps not_less case_prod_beta)
  have "dk_files d' (target_file (cache_target config_path)) = Some contents"
    unfolding written(2) by (rule replace_Ok_snd [OF written(1)]) (simp add: cache_target_def)
  moreover have "ml_parse_cache L contents = Some ?cache"
    using assms(2) contents(1) unfolding cache_codec_def by blast
  ultimately show ?thesis
    using assms(3-5) contents(2) by (auto simp: load_cache_def Let_def)
qed

lemma validate_effective_policy_Ok:
  "validate_effective_policy local policy = Ok u \<longleftrightarrow>
     \<not> (lm_enrollment_key_ref (lc_management local) \<noteq> None \<and> mr_secret_refs (mp_repository policy) \<noteq> None)
     \<and> (\<exists>resolved. resolve_config default_effective_config local (Some policy) = Ok resolved)"
  by (auto simp: validate_effective_policy_def outcome_simps)

lemma load_best_policy_Ok:
  assumes "load_best_policy K L env config_path local d = (Ok (Some loaded), d')"
  obtains (kept) "load_cache K L env config_path (lc_management local) d = Ok loaded" "d' = d"
      "validate_effective_policy local (lp_policy loaded) = Ok ()"
  | (fetched) document minimum v where
      "verify_document K L (lc_management local) (lm_mode (lc_management local)) document (mg_now env) minimum = Ok v"
      "loaded = loaded_from v" "validate_effective_policy local (lp_policy loaded) = Ok ()"
      "save_cache L env config_path (lc_management local) document d = (Ok (), d')"
      "lm_manifest_url (lc_management local) \<noteq> None"
      "\<And>old. load_cache K L env config_path (lc_management local) d = Ok old \<Longrightarrow> lp_sequence old \<le> lp_sequence loaded"
proof -
  let ?m = "lc_management local" let ?cached = "load_cache K L env config_path (lc_management local) d"
  let ?minimum = "case ?cached of Ok old \<Rightarrow> Some (lp_sequence old) | _ \<Rightarrow> None"
  have run: "?cached \<noteq> Panic" "fetch_policy K L env ?m ?minimum \<noteq> Panic"
    using assms by (auto simp: load_best_policy_def Let_def outcome_simps split: if_splits)
  show thesis
  proof (cases "fetch_policy K L env ?m ?minimum")
    case (Ok r)
    obtain new document where r: "r = (new, document)" by force
    obtain v where v: "verify_document K L ?m (lm_mode ?m) document (mg_now env) ?minimum = Ok v" "new = loaded_from v"
      using Ok r by (auto elim: fetch_policy_Ok)
    have url: "lm_manifest_url ?m \<noteq> None"
      using Ok by (auto simp: fetch_policy_def outcome_simps)
    have order: "lp_sequence old \<le> lp_sequence new" if "?cached = Ok old" for old
      using that verify_document_Ok(3) [OF v(1)] v(2) by (simp add: loaded_from_def)
    show thesis
    proof (cases "?minimum = Some (lp_sequence new)")
      case True
      with assms Ok r show thesis
        by (intro kept) (auto simp: load_best_policy_def Let_def outcome_simps
            split: if_splits outcome.splits)
    next
      case False
      with assms Ok r run(1) have "loaded = new" "validate_effective_policy local (lp_policy new) = Ok ()"
        "save_cache L env config_path ?m document d = (Ok (), d')"
        by (auto simp: load_best_policy_def Let_def outcome_simps split: if_splits outcome.splits)
      with v url order show thesis by (intro fetched) auto
    qed
  next
    case (Err e)
    with assms run(1) show thesis
      by (intro kept) (auto simp: load_best_policy_def Let_def outcome_simps split: if_splits outcome.splits)
  qed (use run in simp)
qed

section \<open>Properties\<close>

text \<open>
  C9. A policy that the service loads at start-up is genuine: in signed mode it carries a
  signature under the configured key and an expiry date; it was in force when it was fetched, or is
  the cached copy of one that was; together with the local configuration it resolves to a valid
  configuration, and for an enrolled device it contains no secret references. It is never older
  than the policy in the cache, whatever the server sends, and the cache then holds it, so that
  the next start cannot fall behind it either.
\<close>

theorem loaded_policies_are_genuine:
  assumes "load_best_policy K L env config_path local d = (Ok (Some loaded), d')"
    and "cache_codec L" and "clock_ok K (mg_saved_at env)" and "mg_now env \<le> mg_saved_at env"
  defines "cached \<equiv> \<lambda>env d. load_cache K L env config_path (lc_management local) d"
  shows "\<exists>p. genuine L (lc_management local) p \<and> loaded = \<lparr>lp_policy = mf_policy p, lp_sequence = mf_sequence p\<rparr>
    \<and> (in_force p (mg_now env) \<or> cached env d = Ok loaded)
    \<and> (\<exists>resolved. resolve_config default_effective_config local (Some (mf_policy p)) = Ok resolved)
    \<and> \<not> (lm_enrollment_key_ref (lc_management local) \<noteq> None \<and> mr_secret_refs (mp_repository (mf_policy p)) \<noteq> None)
    \<and> (\<forall>old. cached env d = Ok old \<longrightarrow> lp_sequence old \<le> lp_sequence loaded)
    \<and> ((\<forall>e. mf_expires_at p = Some e \<longrightarrow> mg_saved_at env \<le> e) \<longrightarrow>
         (\<forall>env'. \<not> mg_cache_unreadable env' \<longrightarrow> cached env' d' = Ok loaded))"
  using assms(1)
proof (cases rule: load_best_policy_Ok)
  case kept
  from kept(1) obtain p where p: "genuine L (lc_management local) p"
    "loaded = \<lparr>lp_policy = mf_policy p, lp_sequence = mf_sequence p\<rparr>"
    by (rule load_cache_Ok)
  have "cached env' d' = Ok loaded" if "\<not> mg_cache_unreadable env'" for env'
  proof -
    have "\<not> mg_cache_unreadable env"
      using kept(1) by (auto simp: load_cache_def)
    with that kept(1,2) show ?thesis by (simp add: cached_def load_cache_def)
  qed
  with kept(1,3) p show ?thesis
    unfolding cached_def by (intro exI [of _ p]) (simp add: validate_effective_policy_Ok del: not_None_eq)
next
  case (fetched document minimum v)
  note v = verify_document_Ok [OF fetched(1)]
  have clock: "checked_add_signed K (mg_saved_at env) (minutes 5) \<noteq> None"
    using clock_ok_add [OF assms(3), of "minutes 5"] by (simp add: duration_defs)
  have "cached env' d' = Ok loaded"
    if "\<forall>e. mf_expires_at (vm_payload v) = Some e \<longrightarrow> mg_saved_at env \<le> e" "\<not> mg_cache_unreadable env'" for env'
    unfolding cached_def fetched(2)
    by (rule save_cache_then_load [OF fetched(4) assms(2) fetched(5) verify_document_again [OF fetched(1) _ clock] that(2)])
      (rule in_force_later [OF v(2) assms(4)], use that(1) in simp)
  with fetched v show ?thesis
    unfolding cached_def
    by (intro exI [of _ "vm_payload v"]) (simp add: validate_effective_policy_Ok loaded_from_def del: not_None_eq)
qed

definition sample_policy :: managed_policy where
  "sample_policy = default_managed_policy\<lparr>mp_revision := ''1''\<rparr>"

lemma sample_policy_resolves:
  "resolve_config default_effective_config (sample_local\<lparr>lc_management := m\<rparr>) (Some sample_policy) =
     Ok \<lparr>rs_effective = sample_config, rs_managed_revision = Some (mp_revision sample_policy),
         rs_fields = origins (sample_local\<lparr>lc_management := m\<rparr>) (Some sample_policy)\<rparr>"
proof -
  have "layered default_effective_config (sample_local\<lparr>lc_management := m\<rparr>) (Some sample_policy) = sample_config"
    by (simp add: layered_def precedence_def sections_def sample_local_def sample_config_def
        default_effective_config_def default_local_config_def default_schedule_config_def
        default_retention_config_def no_backup_def no_repository_def no_schedule_def
        no_retention_def no_updates_def sample_policy_def default_managed_policy_def policy_updates_def)
  then show ?thesis
    using sample_config_valid
    by (simp add: resolve_config_Ok_iff sample_local_def default_local_config_def check_managed_policy_def
        trim_printable printable_def chars_count_def is_continuation_def contains_any_def line_breaks_def MAX_POLICY_REVISION_CHARACTERS_def
        sample_policy_def default_managed_policy_def policy_updates_def)
qed

text \<open>A managed device, a server that offers one signed manifest, and libraries that accept it.\<close>

definition sample_management :: local_management where
  "sample_management = default_local_management\<lparr>lm_mode := SignedManifest, lm_manifest_url := Some ''u'',
     lm_signing_public_key := Some ''k''\<rparr>"

definition sample_manifest :: "u64 \<Rightarrow> manifest_payload" where
  "sample_manifest n = \<lparr>mf_schema_version = 1, mf_sequence = n, mf_issued_at = 0, mf_expires_at = Some (days 1),
     mf_policy = sample_policy\<rparr>"

definition sample_cache :: cached_manifest where
  "sample_cache = \<lparr>cm_schema_version = 1, cm_mode = SignedManifest, cm_source_url = ''u'', cm_verified_at = 0,
     cm_document = ''d''\<rparr>"

definition sample_libraries :: management_libraries where
  "sample_libraries =
     \<lparr>ml_crypto = \<lparr>cy_decode = (\<lambda>s. Some (if s = ''k'' then replicate 32 CHR ''k''
            else if s = ''s'' then replicate 64 CHR ''s'' else s)),
        cy_encode = id, cy_valid_key = (\<lambda>_. True), cy_verify = (\<lambda>k m s. m \<in> {''p'', ''q''}), cy_public = id,
        cy_shared = (\<lambda>_ _. ([], False)), cy_hkdf = (\<lambda>_ _ _. None), cy_decrypt = (\<lambda>_ _ _ _. None)\<rparr>,
      ml_json = \<lparr>js_manifest = (\<lambda>s. Some (sample_manifest (if s = ''p'' then 12 else 5))),
        js_envelope = (\<lambda>s. Some \<lparr>se_schema_version = 1, se_algorithm = ''ed25519'', se_key_id = ''i'',
          se_payload = (if s = ''d'' then ''p'' else ''q''), se_signature = ''s''\<rparr>),
        js_print_envelope = (\<lambda>_. None), js_enrollment_envelope = (\<lambda>_. None), js_enrollment = (\<lambda>_. None),
        js_secrets = (\<lambda>_. None)\<rparr>,
      ml_url = \<lparr>ul_parse = (\<lambda>_. Some \<lparr>url_scheme = ''https'', url_host = Some ''h'', url_username = [],
          url_password = None, url_fragment = None\<rparr>), ul_form = (\<lambda>_. []), ul_without_fragment = id\<rparr>,
      ml_parse_cache = (\<lambda>s. Some (sample_cache\<lparr>cm_document := s\<rparr>)),
      ml_print_cache = (\<lambda>c. if c\<lparr>cm_document := []\<rparr> = sample_cache\<lparr>cm_document := []\<rparr>
        then Some (cm_document c) else None)\<rparr>"

definition sample_server :: "string \<Rightarrow> management_env" where
  "sample_server document =
     \<lparr>mg_now = 0, mg_saved_at = 0, mg_get = (\<lambda>_ _ _. Some document), mg_enroll = (\<lambda>_ _ _ _. None),
      mg_report = (\<lambda>_ _ _. False), mg_credentials = None, mg_private_key = [], mg_random = None,
      mg_computer_name = None, mg_architecture = ''x86_64'', mg_cache_unreadable = False, mg_faults = {},
      mg_written = 0\<rparr>"

definition sample_managed_local :: local_config where
  "sample_managed_local = sample_local\<lparr>lc_management := sample_management\<rparr>"

definition empty_disk :: disk where
  "empty_disk = \<lparr>dk_files = (\<lambda>_. None), dk_next_temp = 0, dk_pid = 0\<rparr>"

lemma sample_codec: "cache_codec sample_libraries"
  unfolding cache_codec_def
proof (intro allI impI)
  fix c contents
  assume "ml_print_cache sample_libraries c = Some contents"
  then show "ml_parse_cache sample_libraries contents = Some c"
    by (cases c) (auto simp: sample_libraries_def sample_cache_def split: if_splits)
qed

lemma sample_document:
  assumes "document \<in> {''d'', ''e''}" and "\<And>m. minimum = Some m \<Longrightarrow> m \<le> (if document = ''d'' then 12 else 5)"
  shows "verify_document sample_chrono sample_libraries sample_management SignedManifest document 0 minimum =
    Ok \<lparr>vm_payload = sample_manifest (if document = ''d'' then 12 else 5), vm_signed = True\<rparr>"
proof -
  have "validate_payload sample_chrono (sample_manifest n) 0 minimum True = Ok ()"
    if "\<And>m. minimum = Some m \<Longrightarrow> m \<le> n" "n \<noteq> 0" for n
    using that by (subst validate_payload_iff)
      (auto simp: checked_add_signed_def sample_chrono_def duration_defs in_force_def sample_manifest_def
        MANAGEMENT_SCHEMA_VERSION_def)
  then show ?thesis
    using assms
    by (auto simp: verify_document_def sample_management_def verify_signed_manifest_def validate_document_size_def
        sample_libraries_def MANAGEMENT_SCHEMA_VERSION_def MAX_MANIFEST_BYTES_def decode_array_def contains_any_def
        line_breaks_def)
qed

lemma sample_fetch:
  assumes "document \<in> {''d'', ''e''}" and "\<And>m. minimum = Some m \<Longrightarrow> m \<le> (if document = ''d'' then 12 else 5)"
  shows "fetch_policy sample_chrono sample_libraries (sample_server document) sample_management minimum =
    Ok (\<lparr>lp_policy = sample_policy, lp_sequence = (if document = ''d'' then 12 else 5)\<rparr>, document)"
  using sample_document [OF assms] assms(1)
  by (auto simp: fetch_policy_def sample_management_def sample_server_def default_local_management_def
      MAX_MANIFEST_BYTES_def valid_utf8_ascii loaded_from_def sample_manifest_def)

text \<open>A disk with no file but the cache.\<close>

definition only_cache :: "disk \<Rightarrow> bool" where
  "only_cache d \<longleftrightarrow> (\<forall>f. dk_files d f \<noteq> None \<longrightarrow> f = (''c'', ''managed-policy-cache.json''))"

lemma sample_save:
  assumes "document \<in> {''d'', ''e''}" and "only_cache d"
  obtains d' where "save_cache sample_libraries (sample_server document) (Some ''c'', ''config.toml'') sample_management
      document d = (Ok (), d')" "only_cache d'"
proof -
  have "temporary_name ''managed-policy'' d \<noteq> ''managed-policy-cache.json''"
    using temporary_name_starts [of "''managed-policy''" d] by auto
  with assms(2) have fresh: "dk_files d (''c'', temporary_name ''managed-policy'' d) = None"
    unfolding only_cache_def by (metis prod.inject)
  define d' where "d' = d\<lparr>dk_next_temp := dk_next_temp d + 1,
    dk_files := (dk_files d)((''c'', temporary_name ''managed-policy'' d) := None,
      (''c'', ''managed-policy-cache.json'') \<mapsto> document)\<rparr>"
  have "replace {} 0 (Some ''c'', ''managed-policy-cache.json'') document ''managed-policy'' d =
      (Ok (), snd (replace {} 0 (Some ''c'', ''managed-policy-cache.json'') document ''managed-policy'' d))"
    "final_disk d (snd (replace {} 0 (Some ''c'', ''managed-policy-cache.json'') document ''managed-policy'' d)) = d'"
    using fresh by (simp_all add: replace_def replace_in_def final_disk_def d'_def Let_def)
  then have "save_cache sample_libraries (sample_server document) (Some ''c'', ''config.toml'') sample_management
      document d = (Ok (), d')"
    using assms(1)
    by (auto simp: save_cache_def Let_def sample_libraries_def sample_server_def sample_management_def
        default_local_management_def sample_cache_def CACHE_SCHEMA_VERSION_def MAX_CACHE_BYTES_def
        cache_target_def split: prod.splits)
  moreover have "only_cache d'"
    using assms(2) by (auto simp: only_cache_def d'_def)
  ultimately show thesis by (rule that)
qed

lemma sample_validates: "validate_effective_policy sample_managed_local sample_policy = Ok ()"
  by (simp add: validate_effective_policy_def sample_managed_local_def sample_policy_resolves sample_management_def
      default_local_management_def)

lemma sample_managed: "lc_management sample_managed_local = sample_management"
  by (simp add: sample_managed_local_def)

lemma sample_management_valid: "validate_management (ul_parse (ml_url sample_libraries)) sample_management = Ok ()"
  by (simp add: validate_management_def validate_signed_fields_def secure_url_def validate_management_url_def
      validate_signed_transport_def sample_management_def default_local_management_def sample_libraries_def
      chars_count_def is_continuation_def contains_any_def line_breaks_def config_limits
      refresh_interval_minutes_def)

lemma sample_saved_cache:
  assumes "document \<in> {''d'', ''e''}"
    and "save_cache sample_libraries (sample_server document) (Some ''c'', ''config.toml'') sample_management document d = (Ok (), d')"
  shows "load_cache sample_chrono sample_libraries (sample_server ''d'') (Some ''c'', ''config.toml'') sample_management d' =
    Ok \<lparr>lp_policy = sample_policy, lp_sequence = (if document = ''d'' then 12 else 5)\<rparr>"
proof -
  have "lm_mode sample_management = SignedManifest" "lm_manifest_url sample_management \<noteq> None"
    by (simp_all add: sample_management_def)
  with sample_document [OF assms(1), of None]
    save_cache_then_load [OF assms(2) sample_codec, of sample_chrono _ "sample_server ''d''"] show ?thesis
    by (simp add: sample_server_def loaded_from_def sample_manifest_def)
qed

lemma sample_first_load:
  obtains d' where "load_best_policy sample_chrono sample_libraries (sample_server ''d'') (Some ''c'', ''config.toml'')
      sample_managed_local empty_disk = (Ok (Some \<lparr>lp_policy = sample_policy, lp_sequence = 12\<rparr>), d')" "only_cache d'"
    "load_cache sample_chrono sample_libraries (sample_server ''d'') (Some ''c'', ''config.toml'') sample_management d' =
      Ok \<lparr>lp_policy = sample_policy, lp_sequence = 12\<rparr>"
proof -
  have "load_cache sample_chrono sample_libraries (sample_server ''d'') (Some ''c'', ''config.toml'')
      sample_management empty_disk = Err ManagementIo"
    by (simp add: load_cache_def sample_server_def empty_disk_def)
  moreover obtain d' where d': "save_cache sample_libraries (sample_server ''d'') (Some ''c'', ''config.toml'')
      sample_management ''d'' empty_disk = (Ok (), d')" "only_cache d'"
    by (rule sample_save [of "''d''" empty_disk]) (auto simp: only_cache_def empty_disk_def)
  ultimately show thesis
    using that [of d'] sample_fetch [of "''d''" None] sample_validates sample_management_valid
      sample_saved_cache [OF _ d'(1)]
    by (simp add: load_best_policy_def Let_def sample_managed) (simp add: sample_management_def)
qed

theorem loaded_policies_are_genuine_witness:
  "\<exists>p. genuine sample_libraries sample_management p \<and> mf_sequence p = 12"
proof -
  obtain d' where "load_best_policy sample_chrono sample_libraries (sample_server ''d'') (Some ''c'', ''config.toml'')
      sample_managed_local empty_disk = (Ok (Some \<lparr>lp_policy = sample_policy, lp_sequence = 12\<rparr>), d')"
    using sample_first_load by blast
  from loaded_policies_are_genuine [OF this sample_codec] show ?thesis
    by (auto simp: sample_server_def sample_managed)
qed

text \<open>
  C35. Enrolment is authenticated from end to end. When the client returns enrolment material, the
  bootstrap URL was well formed and uses HTTPS or a loopback host; the answer of the server carries
  a signature under the key that the URL pins, repeats the nonce of this very request and is at most
  fifteen minutes old; the initial policy is signed with the same key and in force; both addresses
  use a secure transport; and device identifier, status token and secrets are well formed. The
  pinned key is the one that later policies are checked with.
\<close>

theorem enrollment_is_authenticated:
  assumes "client_enroll K L env bootstrap_url = Ok pending"
  shows "\<exists>descriptor nonce u. parse_bootstrap (ml_crypto L) (ml_url L) bootstrap_url = Ok descriptor
    \<and> mg_random env = Some nonce \<and> pe_public_key pending = bd_public_key descriptor
    \<and> ul_parse (ml_url L) bootstrap_url = Some u \<and> signed_transport_allowed u
    \<and> url_username u = [] \<and> url_password u = None
    \<and> authentic_enrollment (ml_crypto L) (ml_json L) (ml_url L) descriptor nonce (mg_now env) (pe_material pending)"
proof -
  from assms obtain descriptor request document material where
    parsed: "parse_bootstrap (ml_crypto L) (ml_url L) bootstrap_url = Ok descriptor"
    and request: "new_enrollment_request (ml_crypto L) (mg_private_key env) (mg_random env) (bounded_hostname env)
      CARGO_PKG_VERSION (mg_architecture env) = Ok request"
    and material: "verify_and_decrypt_enrollment K (ml_crypto L) (ml_json L) (ml_url L) document descriptor
      (rx_private_key request) (rx_request_nonce request) (mg_now env) = Ok material"
    and pending: "pending = \<lparr>pe_material = material, pe_private_key = rx_private_key request,
      pe_public_key = bd_public_key descriptor\<rparr>"
    by (auto simp: client_enroll_def outcome_simps)
  have "mg_random env = Some (rx_request_nonce request)"
    using request by (auto simp: new_enrollment_request_def outcome_simps)
  moreover obtain u where "ul_parse (ml_url L) bootstrap_url = Some u" "signed_transport_allowed u"
    "url_username u = []" "url_password u = None"
    using parsed by (auto simp: parse_bootstrap_def outcome_simps)
  ultimately show ?thesis
    using parsed pending verify_and_decrypt_authentic [OF material] by auto
qed

definition sample_enrollment_libraries :: management_libraries where
  "sample_enrollment_libraries = sample_libraries
     \<lparr>ml_crypto := (ml_crypto sample_libraries)\<lparr>cy_decode := (\<lambda>s. Some (if s = ''k'' then replicate 32 CHR ''k''
            else if s = ''s'' then replicate 64 CHR ''s'' else if s = ''n'' then replicate 12 CHR ''n'' else s)),
        cy_shared := (\<lambda>_ _. ([], True)), cy_hkdf := (\<lambda>_ _ _. Some []), cy_decrypt := (\<lambda>_ _ _ _. Some [])\<rparr>,
      ml_json := (ml_json sample_libraries)
        \<lparr>js_print_envelope := (\<lambda>_. Some ''d''),
         js_enrollment_envelope := (\<lambda>_. Some \<lparr>se_schema_version = 1, se_algorithm = ''ed25519'', se_key_id = ''i'',
           se_payload = ''p'', se_signature = ''s''\<rparr>),
         js_enrollment := (\<lambda>_. Some \<lparr>ep_schema_version = 1, ep_device_id = ''v'', ep_request_nonce = ''r'',
           ep_issued_at = 0, ep_expires_at = minutes 10, ep_manifest_url = ''m'', ep_status_url = ''t'',
           ep_refresh_interval_minutes = 60,
           ep_initial_manifest = \<lparr>se_schema_version = 1, se_algorithm = ''ed25519'', se_key_id = ''i'',
             se_payload = ''p'', se_signature = ''s''\<rparr>,
           ep_secrets = \<lparr>sb_algorithm = ''x25519-hkdf-sha256-chacha20poly1305'', sb_ephemeral_public_key = ''k'',
             sb_salt = ''k'', sb_nonce = ''n'', sb_ciphertext = ''c''\<rparr>\<rparr>),
         js_secrets := (\<lambda>_. Some \<lparr>eb_schema_version = 1, eb_status_token = ''t'',
           eb_repository_secrets = [(ResticPassword, ''w'')]\<rparr>)\<rparr>,
      ml_url := \<lparr>ul_parse = (\<lambda>s. Some \<lparr>url_scheme = ''https'', url_host = Some ''h'', url_username = [],
          url_password = None, url_fragment = (if s = ''b'' then Some ''f'' else None)\<rparr>),
        ul_form = (\<lambda>_. [(''token'', ''t''), (''key'', ''k''), (''key_id'', ''i'')]), ul_without_fragment = id\<rparr>\<rparr>"

definition sample_enrollment_env :: management_env where
  "sample_enrollment_env = (sample_server [])\<lparr>mg_enroll := (\<lambda>_ _ _ _. Some ''x''), mg_random := Some ''r''\<rparr>"

lemma sample_parsed: "parse_bootstrap (ml_crypto sample_enrollment_libraries) (ml_url sample_enrollment_libraries) ''b''
  = Ok \<lparr>bd_endpoint_url = ''b'', bd_token = ''t'', bd_public_key = ''k'', bd_key_id = ''i''\<rparr>"
  by (simp add: parse_bootstrap_def sample_enrollment_libraries_def sample_libraries_def contains_any_def line_breaks_def
      signed_transport_allowed_def filter_option_def decode_array_def valid_text_def)

lemma sample_material:
  "\<exists>material. verify_and_decrypt_enrollment sample_chrono (ml_crypto sample_enrollment_libraries)
     (ml_json sample_enrollment_libraries) (ml_url sample_enrollment_libraries) ''x''
     \<lparr>bd_endpoint_url = ''b'', bd_token = ''t'', bd_public_key = ''k'', bd_key_id = ''i''\<rparr> [] ''r'' 0 = Ok material
   \<and> em_device_id material = ''v''"
proof -
  have "validate_payload sample_chrono (sample_manifest 12) 0 None True = Ok ()"
    by (subst validate_payload_iff) (auto simp: checked_add_signed_def sample_chrono_def duration_defs in_force_def
        sample_manifest_def MANAGEMENT_SCHEMA_VERSION_def)
  then show ?thesis
    by (simp add: verify_and_decrypt_enrollment_def open_enrollment_def check_enrollment_payload_def
        check_enrollment_url_def verify_signed_manifest_def decrypt_secrets_def validate_document_size_def Let_def
        sample_enrollment_libraries_def sample_libraries_def MANAGEMENT_SCHEMA_VERSION_def MAX_MANIFEST_BYTES_def
        MAX_ENROLLMENT_BYTES_def decode_array_def contains_any_def line_breaks_def signed_transport_allowed_def
        valid_id_def ascii_simps checked_add_signed_def sample_chrono_def duration_defs MAX_CLOCK_SKEW_MINUTES_def)
qed

theorem enrollment_is_authenticated_witness:
  "\<exists>pending descriptor. client_enroll sample_chrono sample_enrollment_libraries sample_enrollment_env ''b'' = Ok pending
    \<and> authentic_enrollment (ml_crypto sample_enrollment_libraries) (ml_json sample_enrollment_libraries)
        (ml_url sample_enrollment_libraries) descriptor ''r'' 0 (pe_material pending)"
proof -
  obtain material where "verify_and_decrypt_enrollment sample_chrono (ml_crypto sample_enrollment_libraries)
     (ml_json sample_enrollment_libraries) (ml_url sample_enrollment_libraries) ''x''
     \<lparr>bd_endpoint_url = ''b'', bd_token = ''t'', bd_public_key = ''k'', bd_key_id = ''i''\<rparr> [] ''r'' 0 = Ok material"
    using sample_material by blast
  then have "\<exists>pending. client_enroll sample_chrono sample_enrollment_libraries sample_enrollment_env ''b'' = Ok pending"
    by (simp add: client_enroll_def sample_parsed new_enrollment_request_def sample_enrollment_env_def sample_server_def
        bounded_hostname_def valid_text_def CARGO_PKG_VERSION_def contains_any_def line_breaks_def MAX_ENROLLMENT_BYTES_def)
  then obtain pending where pending:
    "client_enroll sample_chrono sample_enrollment_libraries sample_enrollment_env ''b'' = Ok pending" ..
  from enrollment_is_authenticated [OF this] pending show ?thesis
    by (auto simp: sample_enrollment_env_def sample_server_def)
qed

end
