(* ===== verification/Enrollment.thy ===== *)
theory Enrollment
  imports ManagementClient
begin

text \<open>
  \<^verbatim>\<open>apps/resticpal-service/src/runtime/enrollment.rs\<close>: enrolment of the device, its removal, and the
  activation of a managed policy. What the management client returns is an argument, and so is the
  environment of each credential call. The policy cache next to the configuration is written and
  removed on a best-effort basis and its result is ignored by the code.
\<close>

section \<open>Guards\<close>

abbreviation em_initial_policy :: "enrollment_material \<Rightarrow> managed_policy" where
  "em_initial_policy material \<equiv> mf_policy (vm_payload (em_initial_manifest material))"

datatype policy_apply_outcome = PolicyApplied | PolicyRuntimeBusy | PolicySourceChanged

datatype enrollment_failure =
    AnotherOperationActive
  | EnrollmentClient
  | CredentialStorageUnavailable
  | EnrollmentCredential credential_error
  | EnrollmentManagement management_config_error
  | PolicyHasLocalReferences
  | EnrollmentPolicy policy_error
  | EnrollmentConfigSave

definition repository_operation_running :: "runtime_state \<Rightarrow> bool" where
  "repository_operation_running st =
     (case st_repository_operation st of OpRunning _ \<Rightarrow> True | _ \<Rightarrow> False)"

definition operation_active :: "datetime \<Rightarrow> runtime_state \<Rightarrow> bool" where
  "operation_active now st \<longleftrightarrow>
     is_running (ss_state (st_status st)) \<or> repository_operation_running st
     \<or> st_management_operation_active st \<or> update_pending now st"

definition management_view_of :: "runtime \<Rightarrow> management_view" where
  "management_view_of rt =
     (let m = lc_management (rt_local_config rt)
      in \<lparr>mv_mode = lm_mode m,
          mv_enrolled = (lm_mode m = SignedManifest \<and> lm_status_token_ref m \<noteq> None
             \<and> lm_enrollment_key_ref m \<noteq> None),
          mv_device_id = lm_device_id m, mv_manifest_url = lm_manifest_url m\<rparr>)"

section \<open>Activation of a resolved configuration\<close>

definition adopt_resolved ::
  "chrono \<Rightarrow> datetime \<Rightarrow> bool \<Rightarrow> resolved_config \<Rightarrow> runtime \<Rightarrow> runtime" where
  "adopt_resolved K now saved resolved rt =
     (let c = rs_effective resolved;
          st = rt_state rt;
          rt = (if repository_requires_validation (st_service_state st) c then
              let s = require_repository_validation (st_service_state st)
              in save_service_state saved s (rt\<lparr>rt_state := st\<lparr>st_service_state := s,
                   st_repository_operation := ValidationRequired\<rparr>\<rparr>)
            else rt);
          st = rt_state rt;
          st = st\<lparr>st_status := (st_status st)\<lparr>ss_managed_revision := rs_managed_revision resolved\<rparr>\<rparr>
      in rt\<lparr>rt_config := c, rt_field_resolutions := rs_fields resolved,
            rt_state := apply_configuration_status K c now st\<rparr>)"

definition apply_managed_policy_if_current ::
  "chrono \<Rightarrow> datetime \<Rightarrow> bool \<Rightarrow> managed_policy \<Rightarrow> local_management \<Rightarrow> runtime \<Rightarrow>
     (policy_error, policy_apply_outcome) outcome \<times> runtime" where
  "apply_managed_policy_if_current K now saved policy expected rt =
     (if lc_management (rt_local_config rt) \<noteq> expected then (Ok PolicySourceChanged, rt)
      else
        io_then (resolve_config default_effective_config (rt_local_config rt) (Some policy), rt) (\<lambda>resolved rt.
        if is_running (ss_state (st_status (rt_state rt))) \<or> repository_operation_running (rt_state rt)
          \<or> update_pending now (rt_state rt)
        then (Ok PolicyRuntimeBusy, rt)
        else (Ok PolicyApplied, post_event ConfigurationChanged (adopt_resolved K now saved resolved rt))))"

section \<open>Enrolment\<close>

text \<open>A created reference is remembered, so that a later failure can remove it again.\<close>

type_synonym credential_progress = "string list \<times> credential_directory"

definition create_reference ::
  "credential_env \<Rightarrow> string \<Rightarrow> string \<Rightarrow> credential_progress \<Rightarrow>
     (enrollment_failure, string) outcome \<times> credential_progress" where
  "create_reference env pre secret progress =
     (case put_new env pre secret (snd progress) of
        (Ok r, dir) \<Rightarrow> (Ok r, (fst progress @ [r], dir))
      | (Err e, dir) \<Rightarrow> (Err (EnrollmentCredential e), (fst progress, dir))
      | (Panic, dir) \<Rightarrow> (Panic, (fst progress, dir)))"

fun store_repository_secrets ::
  "(nat \<Rightarrow> credential_env) \<Rightarrow> nat \<Rightarrow> (secret_variable \<times> string) list \<Rightarrow> (secret_variable, string) btree \<Rightarrow>
     credential_progress \<Rightarrow> (enrollment_failure, (secret_variable, string) btree) outcome \<times> credential_progress" where
  "store_repository_secrets env n [] refs progress = (Ok refs, progress)"
| "store_repository_secrets env n ((variable, secret) # rest) refs progress =
     io_then (create_reference (env n) (reference_prefix variable) secret progress) (\<lambda>r progress.
     store_repository_secrets env (n + 1) rest (bt_insert variable r refs) progress)"

definition remove_all ::
  "(nat \<Rightarrow> credential_env) \<Rightarrow> nat \<Rightarrow> string list \<Rightarrow> credential_directory \<Rightarrow> credential_directory" where
  "remove_all env n refs dir =
     fold (\<lambda>(e, r) d. snd (remove_secret e r d)) (zip (map env [n..<n + length refs]) refs) dir"

definition enrollment_candidate ::
  "url_parser \<Rightarrow> (nat \<Rightarrow> credential_env) \<Rightarrow> local_config \<Rightarrow> pending_enrollment \<Rightarrow> credential_progress \<Rightarrow>
     (enrollment_failure, local_config \<times> resolved_config) outcome \<times> credential_progress" where
  "enrollment_candidate parse env old pending progress =
     (let material = pe_material pending in
      io_then (create_reference (env 0) ''management-token'' (em_status_token material) progress) (\<lambda>status_ref progress.
      io_then (create_reference (env 1) ''management-key'' (pe_private_key pending) progress) (\<lambda>key_ref progress.
      io_then (store_repository_secrets env 2 (em_repository_secrets material)
          (case lr_secret_refs (lc_repository old) of None \<Rightarrow> [] | Some refs \<Rightarrow> refs) progress) (\<lambda>refs progress.
      let candidate = old
            \<lparr>lc_repository := (lc_repository old)\<lparr>lr_secret_refs := Some refs\<rparr>,
             lc_management := \<lparr>lm_mode = SignedManifest, lm_manifest_url = Some (em_manifest_url material),
               lm_signing_public_key = Some (pe_public_key pending),
               lm_refresh_interval_minutes = Some (em_refresh_interval_minutes material),
               lm_status_url = Some (em_status_url material), lm_device_id = Some (em_device_id material),
               lm_status_token_ref = Some status_ref, lm_enrollment_key_ref = Some key_ref\<rparr>\<rparr>
      in io_then (map_err EnrollmentManagement (validate_management parse (lc_management candidate)), progress) (\<lambda>_ progress.
         io_then (ensure (mr_secret_refs (mp_repository (em_initial_policy material)) = None)
             PolicyHasLocalReferences, progress) (\<lambda>_ progress.
         io_then (map_err EnrollmentPolicy (resolve_config default_effective_config candidate
             (Some (em_initial_policy material))), progress) (\<lambda>resolved progress.
         (Ok (candidate, resolved), progress))))))))"

definition retired_by_enrollment :: "local_config \<Rightarrow> local_config \<Rightarrow> secret_variable list \<Rightarrow> string list" where
  "retired_by_enrollment old new variables =
     (case lm_status_token_ref (lc_management old) of None \<Rightarrow> [] | Some r \<Rightarrow> [r])
     @ (case lm_enrollment_key_ref (lc_management old) of None \<Rightarrow> [] | Some r \<Rightarrow> [r])
     @ List.map_filter (\<lambda>variable.
         case Option.bind (lr_secret_refs (lc_repository old)) (\<lambda>refs. bt_get refs variable) of
           None \<Rightarrow> None
         | Some r \<Rightarrow>
             if Option.bind (lr_secret_refs (lc_repository new)) (\<lambda>refs. bt_get refs variable) \<noteq> Some r
             then Some r else None) variables"

text \<open>
  The credential calls take their environments from \<open>env\<close> in order; the removals at the end use
  \<open>cleanup\<close>.
\<close>

definition commit_enrollment ::
  "chrono \<Rightarrow> datetime \<Rightarrow> url_parser \<Rightarrow> (nat \<Rightarrow> credential_env) \<Rightarrow> (nat \<Rightarrow> credential_env) \<Rightarrow> bool \<Rightarrow> bool \<Rightarrow>
     pending_enrollment \<Rightarrow> runtime \<Rightarrow> (enrollment_failure, unit) outcome \<times> runtime" where
  "commit_enrollment K now parse env cleanup config_saved state_saved pending rt =
     (case rt_credentials rt of
        None \<Rightarrow> (Err CredentialStorageUnavailable, rt)
      | Some dir \<Rightarrow>
          let old = rt_local_config rt;
              (stored, (created, dir)) =
                io_then (enrollment_candidate parse env old pending ([], dir)) (\<lambda>cr progress.
                (and_then (ensure config_saved EnrollmentConfigSave) (\<lambda>_. Ok cr), progress))
          in case stored of
               Ok (candidate, resolved) \<Rightarrow>
                 let rt = adopt_resolved K now state_saved resolved (rt\<lparr>rt_saved_local := candidate\<rparr>);
                     rt = rt\<lparr>rt_local_config := candidate,
                       rt_credentials := Some (remove_all cleanup 0
                         (retired_by_enrollment old candidate (bt_keys (em_repository_secrets (pe_material pending)))) dir)\<rparr>
                 in (Ok (), post_event ConfigurationChanged rt)
             | Err e \<Rightarrow> (Err e, rt\<lparr>rt_credentials := Some (remove_all cleanup 0 created dir)\<rparr>)
             | Panic \<Rightarrow> (Panic, rt\<lparr>rt_credentials := Some dir\<rparr>))"

definition set_management_active :: "bool \<Rightarrow> runtime \<Rightarrow> runtime" where
  "set_management_active b rt = rt\<lparr>rt_state := (rt_state rt)\<lparr>st_management_operation_active := b\<rparr>\<rparr>"

definition perform_enrollment ::
  "chrono \<Rightarrow> datetime \<Rightarrow> url_parser \<Rightarrow> (nat \<Rightarrow> credential_env) \<Rightarrow> (nat \<Rightarrow> credential_env) \<Rightarrow> bool \<Rightarrow> bool \<Rightarrow>
     pending_enrollment option \<Rightarrow> runtime \<Rightarrow> (enrollment_failure, unit) outcome \<times> runtime" where
  "perform_enrollment K now parse env cleanup config_saved state_saved client rt =
     io_then (ok_or client EnrollmentClient, rt) (\<lambda>pending rt.
     commit_enrollment K now parse env cleanup config_saved state_saved pending rt)"

definition enroll_bootstrap ::
  "chrono \<Rightarrow> datetime \<Rightarrow> url_parser \<Rightarrow> (nat \<Rightarrow> credential_env) \<Rightarrow> (nat \<Rightarrow> credential_env) \<Rightarrow> bool \<Rightarrow> bool \<Rightarrow>
     pending_enrollment option \<Rightarrow> runtime \<Rightarrow> (enrollment_failure, unit) outcome \<times> runtime" where
  "enroll_bootstrap K now parse env cleanup config_saved state_saved client rt =
     (if operation_active now (rt_state rt) then (Err AnotherOperationActive, rt)
      else
        let (result, rt) = perform_enrollment K now parse env cleanup config_saved state_saved client
              (set_management_active True rt)
        in (result, set_management_active False rt))"

definition enroll ::
  "chrono \<Rightarrow> datetime \<Rightarrow> url_parser \<Rightarrow> (nat \<Rightarrow> credential_env) \<Rightarrow> (nat \<Rightarrow> credential_env) \<Rightarrow> bool \<Rightarrow> bool \<Rightarrow>
     pending_enrollment option \<Rightarrow> string \<Rightarrow> bool \<Rightarrow> runtime \<Rightarrow> response_payload \<times> runtime" where
  "enroll K now parse env cleanup config_saved state_saved client bootstrap_url elevated rt =
     (if \<not> elevated then (administrator_required, rt)
      else if \<not> valid_utf8 bootstrap_url then
        (rejected ''invalid_bootstrap_url'' ''The bootstrap URL is not valid UTF-8.'', rt)
      else if operation_active now (rt_state rt) then
        (rejected ''operation_running''
           ''Wait for the current backup, repository, or enrollment operation to finish.'', rt)
      else
        let (result, rt) = perform_enrollment K now parse env cleanup config_saved state_saved client
              (set_management_active True rt);
            rt = set_management_active False rt
        in case result of
             Ok _ \<Rightarrow> (Accepted ''This device is now enrolled and its signed policy is active.'', rt)
           | _ \<Rightarrow> (rejected ''enrollment_failed''
               ''Enrollment failed. Check that the one-time URL is current and try again.'', rt))"

definition unenroll ::
  "chrono \<Rightarrow> datetime \<Rightarrow> (nat \<Rightarrow> credential_env) \<Rightarrow> bool \<Rightarrow> bool \<Rightarrow> runtime \<Rightarrow> response_payload \<times> runtime" where
  "unenroll K now cleanup config_saved elevated rt =
     (let old = rt_local_config rt in
      if \<not> elevated then (administrator_required, rt)
      else if operation_active now (rt_state rt) then
        (rejected ''operation_running''
           ''Wait for the current backup, repository, or enrollment operation to finish.'', rt)
      else if lm_mode (lc_management old) = Disabled then (Accepted ''This device is already unmanaged.'', rt)
      else
        let candidate = old\<lparr>lc_management := default_local_management\<rparr> in
        case resolve_config default_effective_config candidate None of
          Ok resolved \<Rightarrow>
            if \<not> config_saved then
              (rejected ''configuration_save_failed'' ''The unmanaged configuration could not be saved.'', rt)
            else
              let c = rs_effective resolved;
                  st = rt_state rt;
                  st = st\<lparr>st_status := (st_status st)\<lparr>ss_managed_revision := None\<rparr>\<rparr>;
                  retired = (case lm_status_token_ref (lc_management old) of None \<Rightarrow> [] | Some r \<Rightarrow> [r])
                    @ (case lm_enrollment_key_ref (lc_management old) of None \<Rightarrow> [] | Some r \<Rightarrow> [r]);
                  rt = rt\<lparr>rt_saved_local := candidate, rt_local_config := candidate, rt_config := c,
                    rt_field_resolutions := rs_fields resolved,
                    rt_state := apply_configuration_status K c now st,
                    rt_credentials := map_option (remove_all cleanup 0 retired) (rt_credentials rt)\<rparr>
              in (Accepted ''Managed policy and reporting were removed; repository credentials remain protected locally.'',
                  post_event ConfigurationChanged rt)
        | _ \<Rightarrow> (rejected ''configuration_invalid'' ''The remaining local configuration is invalid.'', rt))"

section \<open>Progress of the credential calls\<close>

text \<open>
  What a sequence of credential calls has done to the directory: only the remembered references,
  which were free before, are new. \<open>orphans\<close> is whether a call may have left a file behind without
  returning its reference, which happens when the file is in place and restricting access to it
  fails.
\<close>

definition progressed :: "bool \<Rightarrow> credential_directory \<Rightarrow> credential_progress \<Rightarrow> bool" where
  "progressed orphans dir progress \<longleftrightarrow>
     bt_wf (snd progress)
     \<and> (\<forall>r \<in> set (fst progress). is_valid_secret_reference r \<and> holds_secret dir r = None)
     \<and> (\<forall>q. q \<notin> set (fst progress) \<longrightarrow> holds_secret (snd progress) q = holds_secret dir q
          \<or> orphans \<and> holds_secret dir q = None)"

definition may_orphan :: "(nat \<Rightarrow> credential_env) \<Rightarrow> bool" where
  "may_orphan env \<longleftrightarrow> (\<exists>n. \<not> call_ok (env n) ProtectTargetCall)"

lemma put_new_Err_other:
  assumes "put_new env pre s d = (Err e, d')" and "bt_wf d" and "sound_env env" and "call_ok env ProtectTargetCall"
  shows "holds_secret d' q = holds_secret d q"
proof (cases rule: put_new_result [of env pre s d])
  case (stored r)
  have "put_secret env r s d = (Err e, d')"
    using assms(1) unfolding stored(3) io_then_iffs by auto
  then show ?thesis
    by (cases rule: put_secret_cases [of env r s d])
      (use assms(2-4) in \<open>auto simp: drop_temporary_holds\<close>)
qed (use assms(1) in auto)

lemma put_new_no_panic: "fst (put_new env pre s d) \<noteq> Panic"
proof (cases rule: put_new_result [of env pre s d])
  case (stored r)
  then show ?thesis
    by (cases rule: put_secret_cases [of env r s d]) (auto simp: ensure_def)
qed auto

lemma create_reference_progressed:
  assumes "progressed b dir progress" and "sound_env env" and "\<not> call_ok env ProtectTargetCall \<Longrightarrow> b"
  shows "progressed b dir (snd (create_reference env pre s progress))"
proof -
  obtain created d where progress: "progress = (created, d)" by force
  have wf: "bt_wf d" and none: "holds_secret d q = None \<Longrightarrow> q \<notin> set created \<Longrightarrow> holds_secret dir q = None" for q
    using assms(1) progress by (auto simp: progressed_def)
  have keeps: "holds_secret (snd (put_new env pre s d)) q = holds_secret d q" if "holds_secret d q \<noteq> None" for q
    using credentials.store_new_keeps [OF wf assms(2) that] .
  note wf' = credentials.wf_store_new [OF wf, of env pre s]
  show ?thesis
  proof (cases "put_new env pre s d")
    case (Pair r d')
    show ?thesis
    proof (cases r)
      case (Ok reference)
      note new = Pair [unfolded Ok]
      have "is_valid_secret_reference reference"
        using put_new_Ok(2) [OF new] by (rule put_secret_Ok)
      with credentials.store_new_fresh [OF wf new] wf' assms(1) progress new none [of reference] show ?thesis
        by (auto simp: progressed_def create_reference_def)
    next
      case (Err e)
      note failed = Pair [unfolded Err]
      have "holds_secret d' q = holds_secret d q \<or> b \<and> holds_secret d q = None" for q
        using put_new_Err_other [OF failed wf assms(2), of q] keeps [of q] assms(3) failed
        by (cases "holds_secret d q") auto
      moreover have "bt_wf d'" using wf' failed by simp
      ultimately show ?thesis
        using assms(1) progress failed none unfolding progressed_def create_reference_def
        by (simp del: not_None_eq) metis
    next
      case Panic
      with Pair put_new_no_panic [of env pre s d] show ?thesis by simp
    qed
  qed
qed

lemma store_repository_secrets_progressed:
  assumes "progressed b dir progress" and "\<And>n. sound_env (env n)" and "may_orphan env \<Longrightarrow> b"
  shows "progressed b dir (snd (store_repository_secrets env n secrets refs progress))"
  using assms(1)
proof (induction secrets arbitrary: n refs progress)
  case (Cons vs secrets)
  obtain variable secret where vs: "vs = (variable, secret)" by force
  have "progressed b dir (snd (create_reference (env n) (reference_prefix variable) secret progress))"
    using Cons.prems assms(2,3) by (intro create_reference_progressed) (auto simp: may_orphan_def)
  then show ?case
    unfolding vs store_repository_secrets.simps by (rule io_then_state) (rule Cons.IH)
qed simp

lemma enrollment_candidate_progressed:
  assumes "progressed b dir progress" and "\<And>n. sound_env (env n)" and "may_orphan env \<Longrightarrow> b"
  shows "progressed b dir (snd (enrollment_candidate parse env old pending progress))"
proof -
  have step: "progressed b dir p \<Longrightarrow> progressed b dir (snd (create_reference (env n) pre s p))" for n pre s p
    using assms(2,3) by (intro create_reference_progressed) (auto simp: may_orphan_def)
  have secrets: "progressed b dir p \<Longrightarrow> progressed b dir (snd (store_repository_secrets env n secrets refs p))"
    for n secrets refs p
    by (rule store_repository_secrets_progressed) (use assms(2,3) in auto)
  show ?thesis
    unfolding enrollment_candidate_def Let_def
    by (intro io_then_state [where P = "progressed b dir"] step secrets assms(1)) simp_all
qed

lemma remove_all_eq: "remove_all env n refs dir = credentials.discard_all (zip (map env [n..<n + length refs]) refs) dir"
  by (simp add: remove_all_def)

lemma remove_all_wf: "bt_wf dir \<Longrightarrow> bt_wf (remove_all env n refs dir)"
  unfolding remove_all_eq by (rule credentials.wf_discard_all)

lemma remove_all_other: "bt_wf dir \<Longrightarrow> q \<notin> set refs \<Longrightarrow> holds_secret (remove_all env n refs dir) q = holds_secret dir q"
  unfolding remove_all_eq by (rule credentials.discard_all_other) (auto dest: set_zip_rightD)

lemma remove_all_gone:
  assumes "bt_wf dir" and "q \<in> set refs" and "\<And>r. r \<in> set refs \<Longrightarrow> is_valid_secret_reference r"
    and "\<And>n. call_ok (env n) RemoveCall"
  shows "holds_secret (remove_all env n refs dir) q = None"
  unfolding remove_all_eq
proof (rule credentials.discard_all_gone [OF assms(1)])
  have "map snd (zip (map env [n..<n + length refs]) refs) = refs" by simp
  then show "q \<in> snd ` set (zip (map env [n..<n + length refs]) refs)"
    using assms(2) by (metis list.set_map)
next
  fix e r d assume "(e, r) \<in> set (zip (map env [n..<n + length refs]) refs)"
  then have "r \<in> set refs" and "call_ok e RemoveCall"
    using assms(4) set_zip_leftD [of e r "map env [n..<n + length refs]" refs] by (auto dest: set_zip_rightD)
  with assms(3) show "fst (remove_secret e r d) = Ok ()"
    by (simp add: remove_secret_eq)
qed

section \<open>Activation\<close>

lemma adopt_resolved_config:
  "rt_config (adopt_resolved K now saved resolved rt) = rs_effective resolved"
  "rt_field_resolutions (adopt_resolved K now saved resolved rt) = rs_fields resolved"
  "rt_local_config (adopt_resolved K now saved resolved rt) = rt_local_config rt"
  "rt_saved_local (adopt_resolved K now saved resolved rt) = rt_saved_local rt"
  "rt_credentials (adopt_resolved K now saved resolved rt) = rt_credentials rt"
  "ss_managed_revision (st_status (rt_state (adopt_resolved K now saved resolved rt))) = rs_managed_revision resolved"
  by (simp_all add: adopt_resolved_def Let_def apply_configuration_status_def)

lemma adopt_resolved_verified:
  "verified_repository (rs_effective resolved) (rt_state (adopt_resolved K now saved resolved rt))"
  by (auto simp: adopt_resolved_def verified_repository_def Let_def)

text \<open>The policy is in force: the configuration is its resolution, and backups wait for verification.\<close>

definition activated :: "managed_policy \<Rightarrow> runtime \<Rightarrow> bool" where
  "activated policy rt \<longleftrightarrow>
     verified_repository (rt_config rt) (rt_state rt) \<and> valid_config (rt_config rt)
     \<and> resolve_config default_effective_config (rt_local_config rt) (Some policy) =
         Ok \<lparr>rs_effective = rt_config rt, rs_managed_revision = ss_managed_revision (st_status (rt_state rt)),
             rs_fields = rt_field_resolutions rt\<rparr>"

lemma adopt_resolved_activated:
  assumes "resolve_config default_effective_config (rt_local_config rt) (Some policy) = Ok resolved"
    and "rt_config rt = rs_effective resolved" and "rt_field_resolutions rt = rs_fields resolved"
    and "rt_state rt = rt_state (adopt_resolved K now saved resolved rt')"
  shows "activated policy rt"
proof -
  have "valid_config (rs_effective resolved)"
    using assms(1) by (auto simp: resolve_config_Ok_iff)
  moreover have "verified_repository (rt_config rt) (rt_state rt)"
    unfolding assms(2,4) by (rule adopt_resolved_verified)
  ultimately show ?thesis
    using assms by (simp add: activated_def adopt_resolved_config)
qed

lemma adopt_resolved_saved_local:
  "rt_state (adopt_resolved K now saved resolved (rt\<lparr>rt_saved_local := l\<rparr>)) = rt_state (adopt_resolved K now saved resolved rt)"
  by (simp add: adopt_resolved_def Let_def)

lemma enrollment_candidate_management:
  "enrollment_candidate parse env old pending progress = (Ok (candidate, resolved), progress') \<Longrightarrow>
     lm_mode (lc_management candidate) = SignedManifest
     \<and> lm_manifest_url (lc_management candidate) = Some (em_manifest_url (pe_material pending))"
  by (auto simp: enrollment_candidate_def Let_def outcome_simps)

lemma commit_enrollment_Ok:
  assumes "commit_enrollment K now parse env cleanup config_saved state_saved pending rt = (Ok (), rt')"
  obtains dir candidate resolved created dir' where
    "enrollment_candidate parse env (rt_local_config rt) pending ([], dir) = (Ok (candidate, resolved), (created, dir'))"
    "rt_local_config rt' = candidate" "rt_saved_local rt' = candidate"
    "rt_config rt' = rt_config (adopt_resolved K now state_saved resolved rt)"
    "rt_state rt' = rt_state (adopt_resolved K now state_saved resolved rt)"
    "rt_field_resolutions rt' = rs_fields resolved"
proof -
  from assms obtain dir where dir: "rt_credentials rt = Some dir"
    by (cases "rt_credentials rt") (auto simp: commit_enrollment_def)
  obtain r created dir' where run: "enrollment_candidate parse env (rt_local_config rt) pending ([], dir) = (r, (created, dir'))"
    by (metis surj_pair)
  show thesis
  proof (cases r)
    case (Ok cr)
    obtain candidate resolved where "cr = (candidate, resolved)" by force
    with assms dir run Ok show thesis
      by (intro that [of dir candidate resolved created dir'])
        (auto simp: commit_enrollment_def Let_def ensure_def adopt_resolved_config adopt_resolved_saved_local
          split: if_splits)
  qed (use assms dir run in \<open>auto simp: commit_enrollment_def Let_def\<close>)
qed

section \<open>Properties\<close>

text \<open>
  C29. A failed enrolment changes nothing: configuration, its stored copy, status, schedule and
  verification are as before, and every credential that was stored still is. When the removal of
  the new credentials succeeds and restricting access to a file in place does not fail, the
  credential directory holds exactly what it held before.
\<close>

theorem failed_enrollment_changes_nothing:
  assumes "rt_credentials rt = Some dir" and "bt_wf dir" and "\<And>n. sound_env (env n)"
    and "commit_enrollment K now parse env cleanup config_saved state_saved pending rt = (Err e, rt')"
  shows "\<exists>dir'. rt' = rt\<lparr>rt_credentials := Some dir'\<rparr>
    \<and> (\<forall>q. holds_secret dir q \<noteq> None \<longrightarrow> holds_secret dir' q = holds_secret dir q)
    \<and> (\<not> may_orphan env \<and> (\<forall>n. call_ok (cleanup n) RemoveCall) \<longrightarrow>
         (\<forall>q. holds_secret dir' q = holds_secret dir q))"
proof -
  obtain r created d where run: "enrollment_candidate parse env (rt_local_config rt) pending ([], dir) = (r, (created, d))"
    by (metis surj_pair)
  have "progressed (may_orphan env) dir ([], dir)"
    using assms(2) by (simp add: progressed_def)
  then have "progressed (may_orphan env) dir (created, d)"
    using enrollment_candidate_progressed [of "may_orphan env" dir "([], dir)" env parse "rt_local_config rt" pending]
      assms(3) run by simp
  then have wf: "bt_wf d" and valid: "\<And>r. r \<in> set created \<Longrightarrow> is_valid_secret_reference r \<and> holds_secret dir r = None"
    and others: "\<And>q. q \<notin> set created \<Longrightarrow> holds_secret d q = holds_secret dir q \<or> may_orphan env \<and> holds_secret dir q = None"
    by (auto simp: progressed_def)
  have rt': "rt' = rt\<lparr>rt_credentials := Some (remove_all cleanup 0 created d)\<rparr>"
    using assms(1,4) run
    by (cases r) (auto simp: commit_enrollment_def outcome_simps Let_def ensure_def split: if_splits outcome.splits)
  have kept: "holds_secret (remove_all cleanup 0 created d) q = holds_secret dir q" if "holds_secret dir q \<noteq> None" for q
    using that valid [of q] others [of q] remove_all_other [OF wf, of q] by (cases "q \<in> set created") auto
  have gone: "holds_secret (remove_all cleanup 0 created d) q = holds_secret dir q"
    if "\<not> may_orphan env" "\<forall>n. call_ok (cleanup n) RemoveCall" for q
  proof (cases "q \<in> set created")
    case True
    with valid that wf show ?thesis by (simp add: remove_all_gone)
  next
    case False
    with others [of q] that wf show ?thesis by (simp add: remove_all_other)
  qed
  from rt' kept gone show ?thesis by blast
qed

definition sample_pending :: pending_enrollment where
  "sample_pending = \<lparr>pe_material = \<lparr>em_device_id = ''d'', em_manifest_url = ''u'', em_status_url = ''u'',
       em_refresh_interval_minutes = 60, em_initial_manifest_document = ''m'',
       em_initial_manifest = \<lparr>vm_payload = sample_manifest 1, vm_signed = True\<rparr>, em_status_token = [], em_repository_secrets = []\<rparr>,
     pe_private_key = ''k'', pe_public_key = ''k''\<rparr>"

lemma sample_empty_secret: "put_new sample_env ''management-token'' [] [] = (Err EmptySecret, [])"
  by (simp add: put_new_def put_new_attempts_step REFERENCE_GENERATION_ATTEMPTS_def RANDOM_REFERENCE_BYTES_def
      validate_reference_def is_valid_secret_reference_def config_limits ascii_simps sample_env_def call_ok_def
      hex_samples holds_secret_def bt_get_def put_secret_def io_then_ensure path_for_eq)

lemma sample_failed_enrollment:
  "commit_enrollment sample_chrono 0 (\<lambda>_. None) (\<lambda>_. sample_env) (\<lambda>_. sample_env) True True
     sample_pending (sample_runtime\<lparr>rt_credentials := Some []\<rparr>) =
   (Err (EnrollmentCredential EmptySecret), sample_runtime\<lparr>rt_credentials := Some []\<rparr>)"
  unfolding commit_enrollment_def enrollment_candidate_def create_reference_def sample_pending_def Let_def
  by (simp add: sample_empty_secret remove_all_def)

theorem failed_enrollment_changes_nothing_witness:
  "\<exists>dir'. sample_runtime\<lparr>rt_credentials := Some []\<rparr> = sample_runtime\<lparr>rt_credentials := Some dir'\<rparr>
     \<and> (\<forall>q. holds_secret dir' q = holds_secret [] q)"
proof -
  have "\<not> may_orphan (\<lambda>_. sample_env)" "call_ok sample_env RemoveCall" "bt_wf ([] :: credential_directory)"
    by (simp_all add: may_orphan_def sample_env_def call_ok_def bt_wf_def bt_keys_def)
  with failed_enrollment_changes_nothing [OF _ _ _ sample_failed_enrollment, of "[]"] sample_env_sound(1)
  show ?thesis by auto
qed

text \<open>
  C28. Activating a managed policy, on enrolment or on a refresh, never lets a backup run against a
  repository that was not verified: unless the identity of the new effective repository is the
  verified one, verification is required again before the next backup. The active configuration is
  the resolution of the stored local configuration and the policy, it is valid, and a policy is
  activated on a refresh only for the management source it was fetched from and while no backup,
  repository operation or update is under way.
\<close>

theorem policy_activation_keeps_verification:
  "(commit_enrollment K now parse env cleanup config_saved state_saved pending rt = (Ok (), enrolled) \<longrightarrow>
      activated (em_initial_policy (pe_material pending)) enrolled
      \<and> rt_saved_local enrolled = rt_local_config enrolled
      \<and> lm_mode (lc_management (rt_local_config enrolled)) = SignedManifest
      \<and> lm_manifest_url (lc_management (rt_local_config enrolled)) = Some (em_manifest_url (pe_material pending)))
   \<and> (apply_managed_policy_if_current K now state_saved policy expected rt = (Ok PolicyApplied, refreshed) \<longrightarrow>
      activated policy refreshed
      \<and> rt_local_config refreshed = rt_local_config rt \<and> rt_saved_local refreshed = rt_saved_local rt
      \<and> lc_management (rt_local_config rt) = expected
      \<and> \<not> is_running (ss_state (st_status (rt_state rt))) \<and> \<not> repository_operation_running (rt_state rt)
      \<and> \<not> update_pending now (rt_state rt))"
proof (intro conjI impI, goal_cases)
  case 1
  then show ?case
    by (rule commit_enrollment_Ok)
      (rule adopt_resolved_activated, auto simp: enrollment_candidate_def Let_def outcome_simps adopt_resolved_config)
next
  case 2 then show ?case by (rule commit_enrollment_Ok) simp
next
  case 3 then show ?case by (rule commit_enrollment_Ok) (simp add: enrollment_candidate_management)
next
  case 4 then show ?case by (rule commit_enrollment_Ok) (simp add: enrollment_candidate_management)
next
  case 5
  then obtain resolved where
    "resolve_config default_effective_config (rt_local_config rt) (Some policy) = Ok resolved"
    "refreshed = post_event ConfigurationChanged (adopt_resolved K now state_saved resolved rt)"
    by (auto simp: apply_managed_policy_if_current_def outcome_simps split: if_splits)
  then show ?case
    by (intro adopt_resolved_activated) (simp_all add: adopt_resolved_config)
qed (auto simp: apply_managed_policy_if_current_def outcome_simps adopt_resolved_config split: if_splits)

theorem policy_activation_keeps_verification_witness:
  "\<exists>rt. activated sample_policy rt"
proof -
  let ?rt = "sample_runtime\<lparr>rt_local_config := sample_local\<rparr>"
  obtain refreshed where "apply_managed_policy_if_current sample_chrono 0 True sample_policy
      (lc_management sample_local) ?rt = (Ok PolicyApplied, refreshed)"
    by (simp add: apply_managed_policy_if_current_def sample_policy_resolves [of "lc_management sample_local", simplified]
        repository_operation_running_def
        update_pending_def)
  then show ?thesis
    using policy_activation_keeps_verification by blast
qed

lemma unenroll_keeps_stale_verification:
  fixes managed_config :: effective_config and rt :: runtime
  defines "managed_config \<equiv> sample_config\<lparr>ec_repository := (ec_repository sample_config)\<lparr>rc_url := Some ''managed''\<rparr>\<rparr>"
    and "rt \<equiv> sample_runtime
      \<lparr>rt_local_config := sample_local\<lparr>lc_management := default_local_management\<lparr>lm_mode := SignedManifest\<rparr>\<rparr>,
       rt_config := managed_config,
       rt_state := (rt_state sample_runtime)\<lparr>st_service_state := mark_repository_verified managed_config 0 default_service_state\<rparr>\<rparr>"
  shows "verified_repository (rt_config rt) (rt_state rt)"
    and "\<not> verified_repository (rt_config (snd (unenroll sample_chrono 0 (\<lambda>_. sample_env) True True rt)))
           (rt_state (snd (unenroll sample_chrono 0 (\<lambda>_. sample_env) True True rt)))"
proof -
  have local_config: "sample_local\<lparr>lc_management := default_local_management\<rparr> = sample_local"
    by (simp add: sample_local_def default_local_config_def)
  show "verified_repository (rt_config rt) (rt_state rt)"
    by (simp add: rt_def verified_repository_def)
  have "rt_config (snd (unenroll sample_chrono 0 (\<lambda>_. sample_env) True True rt)) = sample_config"
    and "repository_operation_allows_backup
      (st_repository_operation (rt_state (snd (unenroll sample_chrono 0 (\<lambda>_. sample_env) True True rt))))"
    and "st_service_state (rt_state (snd (unenroll sample_chrono 0 (\<lambda>_. sample_env) True True rt))) =
      mark_repository_verified managed_config 0 default_service_state"
    by (simp_all add: unenroll_def rt_def local_config sample_local_resolves operation_active_def
        repository_operation_running_def update_pending_def Let_def)
  then show "\<not> verified_repository (rt_config (snd (unenroll sample_chrono 0 (\<lambda>_. sample_env) True True rt)))
      (rt_state (snd (unenroll sample_chrono 0 (\<lambda>_. sample_env) True True rt)))"
    by (simp add: verified_repository_def requires_validation_iff mark_repository_verified_def
        managed_config_def identity_from_config_def sample_config_simps)
qed

text \<open>
  C30. Removing the device from management switches back to the local repository settings without
  asking for verification. There is a state in which backups are allowed only for the verified
  repository, from which the removal leads to one where they are allowed although the identity of
  the effective repository is not the verified one.
\<close>

theorem unenroll_can_skip_verification:
  "\<exists>rt. verified_repository (rt_config rt) (rt_state rt)
    \<and> \<not> verified_repository (rt_config (snd (unenroll sample_chrono 0 (\<lambda>_. sample_env) True True rt)))
         (rt_state (snd (unenroll sample_chrono 0 (\<lambda>_. sample_env) True True rt)))"
  using unenroll_keeps_stale_verification by blast

end
