(* ===== verification/Execution.thy ===== *)
theory Execution
  imports Restic Outcomes
begin

text \<open>
  \<^verbatim>\<open>apps/resticpal-service/src/executor.rs\<close>, second part: the checks of the source folders, the plan
  of a backup, the environment of a restic process, and the supervision of the process. The
  filesystem and each process are arguments: a process is the sequence of answers that the polling
  loop gets. Every execution also returns the commands that were started, so that what runs on the
  machine can be stated.
\<close>

section \<open>Source folders\<close>

record filesystem =
  fs_canonicalize :: "path \<Rightarrow> path option"
  fs_drive_remote :: "char \<Rightarrow> bool"
  fs_lower :: "string \<Rightarrow> string"

definition first_component :: "path \<Rightarrow> path_component option" where
  "first_component p = (case components p of [] \<Rightarrow> None | c # _ \<Rightarrow> Some c)"

definition source_uses_unsupported_local_namespace :: "path \<Rightarrow> bool" where
  "source_uses_unsupported_local_namespace p =
     (case first_component p of
        Some (Prefix (DeviceNS _)) \<Rightarrow> True
      | Some (Prefix (Verbatim _)) \<Rightarrow> True
      | _ \<Rightarrow> False)"

definition source_is_network_path :: "filesystem \<Rightarrow> path \<Rightarrow> bool" where
  "source_is_network_path fs p =
     (case first_component p of
        Some (Prefix q) \<Rightarrow>
          (case q of
             UNC _ _ \<Rightarrow> True
           | VerbatimUNC _ _ \<Rightarrow> True
           | Disk drive \<Rightarrow> fs_drive_remote fs drive
           | VerbatimDisk drive \<Rightarrow> fs_drive_remote fs drive
           | DeviceNS _ \<Rightarrow> False
           | Verbatim _ \<Rightarrow> False)
      | _ \<Rightarrow> False)"

fun push_components :: "path \<Rightarrow> path_component list \<Rightarrow> path" where
  "push_components ordinary [] = ordinary"
| "push_components ordinary (c # cs) =
     (case c of
        ParentDir \<Rightarrow> push_components (push_path ordinary ''..'') cs
      | Normal v \<Rightarrow> push_components (push_path ordinary v) cs
      | _ \<Rightarrow> push_components ordinary cs)"

definition ordinary_windows_path :: "path \<Rightarrow> path" where
  "ordinary_windows_path p =
     (case components p of
        Prefix (VerbatimDisk drive) # rest \<Rightarrow> push_components [drive, CHR '':'', backslash] rest
      | Prefix (VerbatimUNC server share) # rest \<Rightarrow>
          push_components (push_path (push_path [backslash, backslash] server) share) rest
      | _ \<Rightarrow> p)"

definition canonical_path :: "filesystem \<Rightarrow> path \<Rightarrow> path option" where
  "canonical_path fs p = map_option ordinary_windows_path (fs_canonicalize fs p)"

definition validate_source ::
  "filesystem \<Rightarrow> path list \<Rightarrow> path \<Rightarrow> (invocation_error, unit) outcome" where
  "validate_source fs protected source =
     (let below = windows_path_is_same_or_descendant (fs_lower fs);
          canonical = canonical_path fs source
      in and_then (ensure (\<not> source_is_network_path fs source) UnsupportedNetworkBackupSource) (\<lambda>_.
         and_then (ensure (\<not> source_uses_unsupported_local_namespace source)
           UnsupportedBackupSourceNamespace) (\<lambda>_.
         and_then (ensure (\<not> list_ex (\<lambda>directory. below source directory
             \<or> (case canonical of None \<Rightarrow> False | Some c \<Rightarrow> below c directory)) protected)
           ProtectedBackupSource) (\<lambda>_.
         case canonical of
           None \<Rightarrow> Ok ()
         | Some c \<Rightarrow> ensure (below source c \<and> below c source) UnsupportedBackupSourceNamespace))))"

definition protected_paths :: "filesystem \<Rightarrow> path option \<Rightarrow> path list" where
  "protected_paths fs data_directory =
     (case data_directory of
        None \<Rightarrow> []
      | Some d \<Rightarrow> d # (case canonical_path fs d of None \<Rightarrow> [] | Some c \<Rightarrow> [c]))"

definition validate_backup_source_paths ::
  "filesystem \<Rightarrow> path list \<Rightarrow> path option \<Rightarrow> (invocation_error, unit) outcome" where
  "validate_backup_source_paths fs sources data_directory =
     for_each (validate_source fs (protected_paths fs data_directory)) sources"

section \<open>The plan of a backup\<close>

definition required_exclusions :: "filesystem \<Rightarrow> path \<Rightarrow> path list" where
  "required_exclusions fs data_directory =
     (case canonical_path fs data_directory of
        None \<Rightarrow> [data_directory]
      | Some c \<Rightarrow>
          if components c = components data_directory then [data_directory] else [data_directory, c])"

definition build_backup_invocations ::
  "filesystem \<Rightarrow> path \<Rightarrow> path \<Rightarrow> effective_config \<Rightarrow> (invocation_error, invocation \<times> invocation) outcome" where
  "build_backup_invocations fs executable data_directory c =
     and_then (validate_backup_source_paths fs (bc_paths (ec_backup c)) (Some data_directory)) (\<lambda>_.
     and_then (backup_with_required_exclusions (fs_lower fs) executable c
         (required_exclusions fs data_directory)) (\<lambda>backup.
     and_then (unlock_command executable c) (\<lambda>unlock.
     Ok (unlock, backup))))"

definition backup_invocation_error_code :: "invocation_error \<Rightarrow> string" where
  "backup_invocation_error_code e =
     (case e of
        UnsupportedNetworkBackupSource \<Rightarrow> ''network_backup_source_unsupported''
      | UnsupportedBackupSourceNamespace \<Rightarrow> ''backup_source_namespace_unsupported''
      | ProtectedBackupSource \<Rightarrow> ''protected_backup_source''
      | _ \<Rightarrow> ''invalid_configuration'')"

definition backup_outcome_for_lock_cleanup :: "repository_outcome \<Rightarrow> backup_outcome option" where
  "backup_outcome_for_lock_cleanup cleanup =
     (case cleanup of
        RepositorySucceeded \<Rightarrow> None
      | RepositoryCancelled \<Rightarrow> Some backup_cancelled
      | RepositoryFailed e \<Rightarrow>
          Some (backup_failed (if e = ''repository_operation_timed_out'' then ''stale_lock_cleanup_timed_out''
            else if e = ''repository_operation_failed'' then ''stale_lock_cleanup_failed'' else e)))"

section \<open>Commands\<close>

definition INHERITED_ENVIRONMENT :: "string list" where
  "INHERITED_ENVIRONMENT = [''SystemRoot'', ''TEMP'', ''TMP'', ''LOCALAPPDATA'', ''APPDATA'', ''USERPROFILE'']"

record process_command =
  pc_operation :: restic_operation
  pc_executable :: path
  pc_arguments :: "string list"
  pc_environment :: "(string, string) btree"

definition command_for ::
  "(string \<Rightarrow> string option) \<Rightarrow> invocation \<Rightarrow> (secret_variable \<times> string) list \<Rightarrow> path \<Rightarrow> process_command" where
  "command_for os_environment i secrets cache_directory =
     (let env = fold (\<lambda>name env. case os_environment name of None \<Rightarrow> env | Some v \<Rightarrow> bt_insert name v env)
            INHERITED_ENVIRONMENT [];
          env = fold (\<lambda>(k, v). bt_insert k v) (iv_environment i) env;
          env = bt_insert ''RESTIC_PROGRESS_FPS'' ''1'' env;
          env = fold (\<lambda>(variable, v). bt_insert (variable_name variable) v) secrets env;
          env = bt_insert ''RESTIC_CACHE_DIR'' cache_directory env
      in \<lparr>pc_operation = iv_operation i, pc_executable = iv_executable i, pc_arguments = iv_arguments i,
          pc_environment = env\<rparr>)"

fun resolve_secrets ::
  "(string \<Rightarrow> string option) \<Rightarrow> (secret_variable \<times> string) list \<Rightarrow> (secret_variable \<times> string) list option" where
  "resolve_secrets resolve [] = Some []"
| "resolve_secrets resolve ((variable, reference) # rest) =
     (case resolve reference of
        None \<Rightarrow> None
      | Some secret \<Rightarrow> map_option (\<lambda>xs. (variable, secret) # xs) (resolve_secrets resolve rest))"

definition resolve_dpapi :: "(string \<Rightarrow> string option) \<Rightarrow> string \<Rightarrow> string option" where
  "resolve_dpapi get reference =
     (case get reference of
        None \<Rightarrow> None
      | Some bytes \<Rightarrow> if valid_utf8 bytes \<and> CHR 0x00 \<notin> set bytes then Some bytes else None)"

section \<open>Supervision\<close>

text \<open>One turn of the loop: what the process answers, and whether the cancellation flag is set and
  the time is up at that moment.\<close>

record poll =
  pl_wait :: wait_result
  pl_cancelled :: bool
  pl_timed_out :: bool

text \<open>The answers of the system to one execution, in the order of the calls.\<close>

record process =
  ps_wake_lock :: bool
  ps_cancelled :: bool
  ps_isolated :: bool
  ps_started :: bool
  ps_assigned :: bool
  ps_stdout :: bool
  ps_stderr_pipe :: bool
  ps_polls :: "poll list"
  ps_termination :: "(wait_result \<times> bool) list"
  ps_stderr :: string

record executor =
  ex_executable :: path
  ex_data_directory :: path
  ex_cache_directory :: path
  ex_os_environment :: "string \<Rightarrow> string option"
  ex_resolve :: "string \<Rightarrow> string option"

datatype poll_end = PollExited "int option" | PollCancelled | PollTimedOut | PollFailed

fun poll_exited :: "poll_end \<Rightarrow> bool" where
  "poll_exited (PollExited status) = True"
| "poll_exited _ = False"

text \<open>\<open>None\<close>: the loop has not ended within the given answers. \<open>timeout\<close> switches the time limit on.\<close>

fun poll_loop :: "bool \<Rightarrow> poll list \<Rightarrow> poll_end option" where
  "poll_loop timeout [] = None"
| "poll_loop timeout (p # ps) =
     (case pl_wait p of
        Exited status \<Rightarrow> Some (PollExited status)
      | StillRunning \<Rightarrow>
          if pl_cancelled p then Some PollCancelled
          else if timeout \<and> pl_timed_out p then Some PollTimedOut
          else poll_loop timeout ps
      | WaitError \<Rightarrow> Some PollFailed)"

text \<open>The answers after the kill, each with whether the grace period still runs; the result is
  whether the child was reaped.\<close>

fun terminate_process_tree :: "(wait_result \<times> bool) list \<Rightarrow> bool" where
  "terminate_process_tree [] = False"
| "terminate_process_tree ((w, in_grace) # rest) =
     (case w of
        Exited _ \<Rightarrow> True
      | StillRunning \<Rightarrow> if in_grace then terminate_process_tree rest else False
      | WaitError \<Rightarrow> False)"

definition repository_failure_code :: "restic_operation \<Rightarrow> int option \<Rightarrow> string \<Rightarrow> string" where
  "repository_failure_code operation status stderr =
     (if operation = Probe \<and> status = Some 10 then ''repository_not_found''
      else case classify_stderr stderr of
        Some c \<Rightarrow> c
      | None \<Rightarrow>
          if operation = Probe then ''repository_validation_failed''
          else if operation = Initialize then ''repository_initialization_failed''
          else ''repository_operation_failed'')"

definition start_process ::
  "executor \<Rightarrow> process \<Rightarrow> invocation \<Rightarrow> (string option, unit) outcome \<times> process_command list" where
  "start_process ex p i =
     (case resolve_secrets (ex_resolve ex) (iv_secret_environment i) of
        None \<Rightarrow> (Err (Some ''credential_unavailable''), [])
      | Some secrets \<Rightarrow>
          if \<not> ps_wake_lock p then (Err (Some ''wake_lock_unavailable''), [])
          else if ps_cancelled p then (Err None, [])
          else if \<not> ps_isolated p then (Err (Some ''process_isolation_failed''), [])
          else if \<not> ps_started p then (Err (Some ''restic_start_failed''), [])
          else
            let command = command_for (ex_os_environment ex) i secrets (ex_cache_directory ex)
            in (if \<not> ps_assigned p then Err (Some ''process_isolation_failed'')
                else if \<not> ps_stdout p \<or> \<not> ps_stderr_pipe p then Err (Some ''restic_output_unavailable'')
                else Ok (), [command]))"

definition execute_repository_invocation ::
  "executor \<Rightarrow> process \<Rightarrow> invocation \<Rightarrow> (repository_outcome \<times> process_command list) option" where
  "execute_repository_invocation ex p i =
     (case start_process ex p i of
        (Err None, started) \<Rightarrow> Some (RepositoryCancelled, started)
      | (Err (Some e), started) \<Rightarrow> Some (RepositoryFailed e, started)
      | (Panic, started) \<Rightarrow> None
      | (Ok _, started) \<Rightarrow>
          map_option (\<lambda>ended.
            (if \<not> poll_exited ended \<and> \<not> terminate_process_tree (ps_termination p)
             then RepositoryFailed ''restic_termination_failed''
             else case ended of
               PollCancelled \<Rightarrow> RepositoryCancelled
             | PollTimedOut \<Rightarrow> RepositoryFailed ''repository_operation_timed_out''
             | PollFailed \<Rightarrow> RepositoryFailed ''restic_wait_failed''
             | PollExited status \<Rightarrow>
                 if status = Some 0 then RepositorySucceeded
                 else RepositoryFailed (repository_failure_code (iv_operation i) status
                   (take MAX_STDERR_BYTES (ps_stderr p))), started))
          (poll_loop True (ps_polls p)))"

text \<open>What the reader threads make of the streams is an argument; see the theory \<open>Outcomes\<close>.\<close>

definition execute_invocation ::
  "executor \<Rightarrow> process \<Rightarrow> invocation \<Rightarrow> bool \<Rightarrow> (unit, parsed_output) outcome \<Rightarrow>
     (unit, parsed_output) outcome \<Rightarrow> (backup_outcome \<times> process_command list) option" where
  "execute_invocation ex p i known_vss_fallback output_result stderr_output =
     (case start_process ex p i of
        (Err None, started) \<Rightarrow> Some (backup_cancelled, started)
      | (Err (Some e), started) \<Rightarrow> Some (backup_failed e, started)
      | (Panic, started) \<Rightarrow> None
      | (Ok _, started) \<Rightarrow>
          map_option (\<lambda>ended.
            (if \<not> poll_exited ended \<and> \<not> terminate_process_tree (ps_termination p)
             then backup_failed ''restic_termination_failed''
             else case ended of
               PollCancelled \<Rightarrow> backup_cancelled
             | PollExited status \<Rightarrow>
                 finish_outcome status output_result stderr_output (take MAX_STDERR_BYTES (ps_stderr p))
                   known_vss_fallback
             | _ \<Rightarrow> backup_failed ''restic_wait_failed'', started))
          (poll_loop False (ps_polls p)))"

section \<open>Operations of the executor\<close>

text \<open>The filesystem is read twice, before the lock cleanup and after it.\<close>

definition execute_backup ::
  "executor \<Rightarrow> filesystem \<Rightarrow> filesystem \<Rightarrow> process \<Rightarrow> process \<Rightarrow> (unit, parsed_output) outcome \<Rightarrow>
     (unit, parsed_output) outcome \<Rightarrow> effective_config \<Rightarrow> (backup_outcome \<times> process_command list) option" where
  "execute_backup ex before after cleanup_process backup_process output_result stderr_output c =
     (case build_backup_invocations before (ex_executable ex) (ex_data_directory ex) c of
        Panic \<Rightarrow> None
      | Err e \<Rightarrow> Some (backup_failed (backup_invocation_error_code e), [])
      | Ok (unlock, _) \<Rightarrow>
          Option.bind (execute_repository_invocation ex cleanup_process unlock) (\<lambda>(cleanup, started).
          case backup_outcome_for_lock_cleanup cleanup of
            Some result \<Rightarrow> Some (result, started)
          | None \<Rightarrow>
              (case build_backup_invocations after (ex_executable ex) (ex_data_directory ex) c of
                 Panic \<Rightarrow> None
               | Err e \<Rightarrow> Some (backup_failed (backup_invocation_error_code e), started)
               | Ok (_, backup) \<Rightarrow>
                   map_option (\<lambda>(result, more). (result, started @ more))
                     (execute_invocation ex backup_process backup False output_result stderr_output))))"


definition retention_failure :: "string \<Rightarrow> string \<Rightarrow> retention_outcome" where
  "retention_failure generic e =
     RetentionFailed (if e = ''repository_operation_failed'' then generic else e)"

definition execute_retention ::
  "executor \<Rightarrow> process \<Rightarrow> process \<Rightarrow> bool \<Rightarrow> effective_config \<Rightarrow>
     (retention_outcome \<times> process_command list) option" where
  "execute_retention ex forget_process prune_process prune_due c =
     (case retention_command (ex_executable ex) c Forget of
        Panic \<Rightarrow> None
      | Err _ \<Rightarrow> Some (RetentionFailed ''retention_forbidden'', [])
      | Ok forget \<Rightarrow>
          Option.bind (execute_repository_invocation ex forget_process forget) (\<lambda>(result, started).
          case result of
            RepositoryCancelled \<Rightarrow> Some (RetentionCancelled, started)
          | RepositoryFailed e \<Rightarrow> Some (retention_failure ''retention_forget_failed'' e, started)
          | RepositorySucceeded \<Rightarrow>
              if \<not> prune_due then Some (RetentionSucceeded False, started)
              else (case retention_command (ex_executable ex) c Prune of
                Panic \<Rightarrow> None
              | Err _ \<Rightarrow> Some (RetentionFailed ''retention_forbidden'', started)
              | Ok prune \<Rightarrow>
                  map_option (\<lambda>(result, more).
                    (case result of
                       RepositorySucceeded \<Rightarrow> RetentionSucceeded True
                     | RepositoryCancelled \<Rightarrow> RetentionCancelled
                     | RepositoryFailed e \<Rightarrow> retention_failure ''retention_prune_failed'' e, started @ more))
                  (execute_repository_invocation ex prune_process prune))))"

section \<open>Checked sources\<close>

definition acceptable_source :: "filesystem \<Rightarrow> path list \<Rightarrow> path \<Rightarrow> bool" where
  "acceptable_source fs protected source \<longleftrightarrow>
     \<not> source_is_network_path fs source \<and> \<not> source_uses_unsupported_local_namespace source
     \<and> (\<forall>directory \<in> set protected. \<not> windows_path_is_same_or_descendant (fs_lower fs) source directory)
     \<and> (\<forall>c. canonical_path fs source = Some c \<longrightarrow>
          (\<forall>directory \<in> set protected. \<not> windows_path_is_same_or_descendant (fs_lower fs) c directory)
          \<and> windows_path_is_same_or_descendant (fs_lower fs) source c
          \<and> windows_path_is_same_or_descendant (fs_lower fs) c source)"

lemma validate_source_iff: "validate_source fs protected source = Ok u \<longleftrightarrow> acceptable_source fs protected source"
  by (cases "canonical_path fs source")
    (auto simp: validate_source_def acceptable_source_def outcome_simps list_ex_iff Let_def)

lemma validate_sources_iff:
  "validate_backup_source_paths fs sources d = Ok u \<longleftrightarrow>
     (\<forall>s \<in> set sources. acceptable_source fs (protected_paths fs d) s)"
  by (simp add: validate_backup_source_paths_def for_each_Ok_iff validate_source_iff)

lemma validate_sources_no_panic: "validate_backup_source_paths fs sources d \<noteq> Panic"
proof -
  have "validate_source fs protected s \<noteq> Panic" for protected s
    by (auto simp: validate_source_def outcome_simps Let_def split: option.split)
  then show ?thesis
    unfolding validate_backup_source_paths_def by (intro for_each_no_panic)
qed


section \<open>Started commands\<close>

lemma start_process_commands:
  assumes "start_process ex p i = (r, started)"
  shows "started = [] \<or> (\<exists>secrets. resolve_secrets (ex_resolve ex) (iv_secret_environment i) = Some secrets
      \<and> started = [command_for (ex_os_environment ex) i secrets (ex_cache_directory ex)])"
    and "r = Ok () \<Longrightarrow> started \<noteq> []"
  using assms by (auto simp: start_process_def Let_def split: option.splits if_splits)

lemma execute_repository_started:
  assumes "execute_repository_invocation ex p i = Some (r, started)"
  shows "\<exists>r'. start_process ex p i = (r', started)" and "r = RepositorySucceeded \<Longrightarrow> started \<noteq> []"
  using assms start_process_commands(2) [of ex p i]
  by (auto simp: execute_repository_invocation_def split: prod.splits outcome.splits option.splits)

lemma execute_invocation_started:
  assumes "execute_invocation ex p i known out err = Some (r, started)"
  shows "\<exists>r'. start_process ex p i = (r', started)"
  using assms
  by (auto simp: execute_invocation_def split: prod.splits outcome.splits option.splits)

lemma fold_insert_updates:
  "fold (\<lambda>(k, v). bt_insert k v) kvs m = fold bt.apply_update (map (\<lambda>(k, v). Put k v) kvs) m"
  by (induction kvs arbitrary: m) (auto simp: bt.apply_update.simps)

lemma fold_insert_wf: "bt_wf m \<Longrightarrow> bt_wf (fold (\<lambda>(k, v). bt_insert k v) kvs m)"
  unfolding fold_insert_updates by (rule bt.wf_updates)

lemma fold_insert_other:
  "bt_wf m \<Longrightarrow> k \<notin> fst ` set kvs \<Longrightarrow> bt_get (fold (\<lambda>(k, v). bt_insert k v) kvs m) k = bt_get m k"
  unfolding fold_insert_updates by (rule bt.get_updates_other) (auto simp: image_iff split: prod.splits)

lemma fold_insert_keys:
  "fst ` set (fold (\<lambda>(k, v). bt_insert k v) kvs m) = fst ` set kvs \<union> fst ` set m"
proof (induction kvs arbitrary: m)
  case (Cons kv kvs)
  then show ?case
    by (cases kv) (simp add: set_bt_insert_keys)
qed simp

definition inherited :: "(string \<Rightarrow> string option) \<Rightarrow> (string \<times> string) list" where
  "inherited os_environment =
     List.map_filter (\<lambda>name. map_option (Pair name) (os_environment name)) INHERITED_ENVIRONMENT"

lemma fold_inherited:
  "fold (\<lambda>name env. case os_environment name of None \<Rightarrow> env | Some v \<Rightarrow> bt_insert name v env) names m =
     fold (\<lambda>(k, v). bt_insert k v) (List.map_filter (\<lambda>name. map_option (Pair name) (os_environment name)) names) m"
  by (induction names arbitrary: m) (auto simp: List.map_filter_simps split: option.split)

lemma fold_named:
  "fold (\<lambda>(variable, v). bt_insert (variable_name variable) v) secrets m =
     fold (\<lambda>(k, v). bt_insert k v) (map (\<lambda>(variable, v). (variable_name variable, v)) secrets) m"
  by (induction secrets arbitrary: m) auto

lemma command_environment:
  "pc_environment (command_for os_environment i secrets cache) =
     bt_insert ''RESTIC_CACHE_DIR'' cache
       (fold (\<lambda>(k, v). bt_insert k v) (map (\<lambda>(variable, v). (variable_name variable, v)) secrets)
         (bt_insert ''RESTIC_PROGRESS_FPS'' ''1''
           (fold (\<lambda>(k, v). bt_insert k v) (iv_environment i)
             (fold (\<lambda>(k, v). bt_insert k v) (inherited os_environment) []))))"
  by (simp add: command_for_def Let_def fold_inherited inherited_def fold_named)

lemma bt_wf_Nil [simp]: "bt_wf []"
  by (simp add: bt_wf_def bt_keys_def)

lemma variable_name_restic: "variable_name v \<noteq> ''RESTIC_REPOSITORY''"
  by (cases v) simp_all

lemma inherited_names: "fst ` set (inherited os_environment) \<subseteq> set INHERITED_ENVIRONMENT"
  by (auto simp: inherited_def List.map_filter_def)

lemma command_environment_facts:
  fixes cache :: path and os_environment :: "string \<Rightarrow> string option"
    and secrets :: "(secret_variable \<times> string) list"
  assumes "iv_environment i = [(''RESTIC_REPOSITORY'', repository)]"
  defines "env \<equiv> pc_environment (command_for os_environment i secrets cache)"
  shows "bt_get env ''RESTIC_CACHE_DIR'' = Some cache"
    and "bt_get env ''RESTIC_REPOSITORY'' = Some repository"
    and "fst ` set env \<subseteq> set INHERITED_ENVIRONMENT \<union> {''RESTIC_REPOSITORY'', ''RESTIC_PROGRESS_FPS'', ''RESTIC_CACHE_DIR''}
      \<union> variable_name ` fst ` set secrets"
proof -
  let ?base = "bt_insert ''RESTIC_PROGRESS_FPS'' ''1'' (fold (\<lambda>(k, v). bt_insert k v) (iv_environment i)
    (fold (\<lambda>(k, v). bt_insert k v) (inherited os_environment) []))"
  let ?named = "map (\<lambda>(variable, v). (variable_name variable, v)) secrets"
  have wf: "bt_wf ?base"
    by (simp add: bt_wf_insert fold_insert_wf)
  show "bt_get env ''RESTIC_CACHE_DIR'' = Some cache"
    unfolding env_def command_environment using wf by (simp add: bt.get_insert fold_insert_wf)
  have "''RESTIC_REPOSITORY'' \<notin> fst ` set ?named"
    using variable_name_restic by (auto simp: image_iff) metis
  then have "bt_get (fold (\<lambda>(k, v). bt_insert k v) ?named ?base) ''RESTIC_REPOSITORY'' =
      bt_get ?base ''RESTIC_REPOSITORY''"
    by (rule fold_insert_other [OF wf])
  also have "\<dots> = Some repository"
    by (simp add: assms(1) bt.get_insert bt_wf_insert fold_insert_wf)
  finally show "bt_get env ''RESTIC_REPOSITORY'' = Some repository"
    unfolding env_def command_environment using wf by (simp add: bt.get_insert fold_insert_wf)
  show "fst ` set env \<subseteq> set INHERITED_ENVIRONMENT \<union> {''RESTIC_REPOSITORY'', ''RESTIC_PROGRESS_FPS'', ''RESTIC_CACHE_DIR''}
      \<union> variable_name ` fst ` set secrets"
    unfolding env_def command_environment set_bt_insert_keys fold_insert_keys assms(1)
    using inherited_names [of os_environment] by (auto simp: image_iff split: prod.splits) force
qed

lemma build_backup_Ok:
  assumes "build_backup_invocations fs executable data c = Ok (unlock, backup)"
  shows "unlock_command executable c = Ok unlock"
    and "backup_with_required_exclusions (fs_lower fs) executable c (required_exclusions fs data) = Ok backup"
    and "s \<in> set (bc_paths (ec_backup c)) \<Longrightarrow> acceptable_source fs (protected_paths fs (Some data)) s"
  using assms by (auto simp: build_backup_invocations_def outcome_simps validate_sources_iff)

lemma unlock_shape:
  "unlock_command executable c = Ok i \<Longrightarrow>
     iv_operation i = Unlock \<and> iv_executable i = executable \<and> iv_arguments i = repository_options c @ [''unlock'']
     \<and> (\<exists>r. iv_environment i = [(''RESTIC_REPOSITORY'', r)] \<and> rc_url (ec_repository c) = Some r)
     \<and> iv_secret_environment i = rc_secret_refs (ec_repository c)"
  by (auto simp: unlock_command_def outcome_simps repository_invocation_def)

lemma backup_shape:
  "backup_with_required_exclusions lower executable c exclusions = Ok i \<Longrightarrow>
     iv_operation i = Backup \<and> iv_executable i = executable
     \<and> (\<forall>e \<in> set exclusions. sublist [''--iexclude'', e] (iv_arguments i))
     \<and> (\<exists>r. iv_environment i = [(''RESTIC_REPOSITORY'', r)] \<and> rc_url (ec_repository c) = Some r)
     \<and> iv_secret_environment i = rc_secret_refs (ec_repository c)"
proof -
  assume ok: "backup_with_required_exclusions lower executable c exclusions = Ok i"
  have "sublist [''--iexclude'', e] (xs @ concat (map (\<lambda>e. [''--iexclude'', e]) es) @ ys)"
    if "e \<in> set es" for e es and xs ys :: "string list"
    using that by (auto simp: in_set_conv_decomp sublist_def) (metis append_Cons append_Nil append_assoc)
  note split = this [of _ exclusions "repository_options c @ [''--cleanup-cache'', ''backup'', ''--json'', ''--use-fs-snapshot'']
    @ concat (map (\<lambda>e. [''--exclude'', e]) (bc_exclusions (ec_backup c)))" "bc_paths (ec_backup c)"]
  from ok show ?thesis
    using split by (auto simp: backup_with_required_exclusions_def outcome_simps repository_invocation_def)
qed

definition from_invocation :: "executor \<Rightarrow> invocation \<Rightarrow> process_command \<Rightarrow> bool" where
  "from_invocation ex i cmd \<longleftrightarrow>
     (\<exists>secrets. resolve_secrets (ex_resolve ex) (iv_secret_environment i) = Some secrets
        \<and> cmd = command_for (ex_os_environment ex) i secrets (ex_cache_directory ex))"

lemma from_invocation_fields:
  "from_invocation ex i cmd \<Longrightarrow>
     pc_operation cmd = iv_operation i \<and> pc_executable cmd = iv_executable i \<and> pc_arguments cmd = iv_arguments i"
  by (auto simp: from_invocation_def command_for_def Let_def)

lemma started_from_invocation:
  "start_process ex p i = (r, started) \<Longrightarrow> started = [] \<or> (\<exists>cmd. started = [cmd] \<and> from_invocation ex i cmd)"
  using start_process_commands(1) [of ex p i r started] by (auto simp: from_invocation_def)

lemma resolve_secrets_variables:
  "resolve_secrets resolve refs = Some secrets \<Longrightarrow> map fst secrets = map fst refs"
  by (induction refs arbitrary: secrets) (auto split: option.splits)

lemma from_invocation_environment:
  assumes "from_invocation ex i cmd" and "iv_environment i = [(''RESTIC_REPOSITORY'', r)]"
  shows "bt_get (pc_environment cmd) ''RESTIC_CACHE_DIR'' = Some (ex_cache_directory ex)"
    and "bt_get (pc_environment cmd) ''RESTIC_REPOSITORY'' = Some r"
    and "fst ` set (pc_environment cmd) \<subseteq> set INHERITED_ENVIRONMENT
      \<union> {''RESTIC_REPOSITORY'', ''RESTIC_PROGRESS_FPS'', ''RESTIC_CACHE_DIR''}
      \<union> variable_name ` fst ` set (iv_secret_environment i)"
proof -
  obtain secrets where res: "resolve_secrets (ex_resolve ex) (iv_secret_environment i) = Some secrets"
    and cmd: "cmd = command_for (ex_os_environment ex) i secrets (ex_cache_directory ex)"
    using assms(1) by (auto simp: from_invocation_def)
  have "fst ` set secrets = fst ` set (iv_secret_environment i)"
    using resolve_secrets_variables [OF res] by (metis list.set_map)
  with command_environment_facts [OF assms(2), of "ex_os_environment ex" secrets "ex_cache_directory ex"]
  show "bt_get (pc_environment cmd) ''RESTIC_CACHE_DIR'' = Some (ex_cache_directory ex)"
    and "bt_get (pc_environment cmd) ''RESTIC_REPOSITORY'' = Some r"
    and "fst ` set (pc_environment cmd) \<subseteq> set INHERITED_ENVIRONMENT
      \<union> {''RESTIC_REPOSITORY'', ''RESTIC_PROGRESS_FPS'', ''RESTIC_CACHE_DIR''}
      \<union> variable_name ` fst ` set (iv_secret_environment i)"
    unfolding cmd by auto
qed

lemma execute_backup_cases:
  assumes "execute_backup ex before after cp bp out err c = Some (result, started)"
  obtains (refused) e where "started = []" "result = backup_failed e"
  | (cleanup) unlock backup cleaned where
      "build_backup_invocations before (ex_executable ex) (ex_data_directory ex) c = Ok (unlock, backup)"
      "execute_repository_invocation ex cp unlock = Some (cleaned, started)"
      "cleaned \<noteq> RepositorySucceeded \<and> backup_outcome_for_lock_cleanup cleaned = Some result
        \<or> cleaned = RepositorySucceeded \<and> (\<exists>e. result = backup_failed e)"
  | (backed_up) unlock backup unlock' backup' first more where
      "build_backup_invocations before (ex_executable ex) (ex_data_directory ex) c = Ok (unlock, backup)"
      "execute_repository_invocation ex cp unlock = Some (RepositorySucceeded, first)"
      "build_backup_invocations after (ex_executable ex) (ex_data_directory ex) c = Ok (unlock', backup')"
      "execute_invocation ex bp backup' False out err = Some (result, more)" "started = first @ more"
proof (cases "build_backup_invocations before (ex_executable ex) (ex_data_directory ex) c")
  case (Ok plan)
  obtain unlock backup where plan: "plan = (unlock, backup)" by force
  with assms Ok obtain cleaned first where run: "execute_repository_invocation ex cp unlock = Some (cleaned, first)"
    by (auto simp: execute_backup_def bind_eq_Some_conv)
  show thesis
  proof (cases "backup_outcome_for_lock_cleanup cleaned")
    case (Some r)
    with assms Ok plan run show thesis
      by (intro cleanup [of unlock backup cleaned])
        (auto simp: execute_backup_def backup_outcome_for_lock_cleanup_def)
  next
    case None
    then have cleaned: "cleaned = RepositorySucceeded"
      by (auto simp: backup_outcome_for_lock_cleanup_def split: repository_outcome.splits)
    show thesis
    proof (cases "build_backup_invocations after (ex_executable ex) (ex_data_directory ex) c")
      case (Ok plan')
      obtain unlock' backup' where plan': "plan' = (unlock', backup')" by force
      with assms \<open>_ = Ok plan\<close> plan run None Ok obtain more where
        "execute_invocation ex bp backup' False out err = Some (result, more)" "started = first @ more"
        by (auto simp: execute_backup_def)
      with \<open>_ = Ok plan\<close> plan run cleaned Ok plan' show thesis
        by (intro backed_up [of unlock backup first unlock' backup' more]) simp_all
    next
      case (Err e)
      with assms Ok plan run None cleaned show thesis
        by (intro cleanup [of unlock backup cleaned]) (auto simp: execute_backup_def)
    next
      case Panic
      with assms Ok plan run None show thesis by (simp add: execute_backup_def)
    qed
  qed
next
  case (Err e)
  with assms show thesis by (intro refused) (auto simp: execute_backup_def)
next
  case Panic
  with assms show thesis by (simp add: execute_backup_def)
qed

lemma execute_retention_cases:
  assumes "execute_retention ex fp pp due c = Some (result, started)"
  obtains (refused) "started = []" "result = RetentionFailed ''retention_forbidden''"
  | (forgotten) forget outcome where "retention_command (ex_executable ex) c Forget = Ok forget"
      "execute_repository_invocation ex fp forget = Some (outcome, started)"
      "\<And>b. result = RetentionSucceeded b \<Longrightarrow> outcome = RepositorySucceeded \<and> \<not> due \<and> \<not> b"
  | (pruned) forget prune first outcome more where
      "retention_command (ex_executable ex) c Forget = Ok forget"
      "execute_repository_invocation ex fp forget = Some (RepositorySucceeded, first)" "due"
      "retention_command (ex_executable ex) c Prune = Ok prune"
      "execute_repository_invocation ex pp prune = Some (outcome, more)" "started = first @ more"
      "\<And>b. result = RetentionSucceeded b \<Longrightarrow> outcome = RepositorySucceeded \<and> b"
proof (cases "retention_command (ex_executable ex) c Forget")
  case forget: (Ok forget)
  with assms obtain outcome first where
    run: "execute_repository_invocation ex fp forget = Some (outcome, first)"
    by (auto simp: execute_retention_def bind_eq_Some_conv)
  show thesis
  proof (cases "outcome = RepositorySucceeded \<and> due")
    case False
    with assms forget run show thesis
      by (intro forgotten [of forget outcome])
        (auto simp: execute_retention_def retention_failure_def split: repository_outcome.splits)
  next
    case True
    show thesis
    proof (cases "retention_command (ex_executable ex) c Prune")
      case (Ok prune)
      with assms forget run True obtain outcome' more where
        "execute_repository_invocation ex pp prune = Some (outcome', more)" "started = first @ more"
        "result = (case outcome' of RepositorySucceeded \<Rightarrow> RetentionSucceeded True
          | RepositoryCancelled \<Rightarrow> RetentionCancelled
          | RepositoryFailed e \<Rightarrow> retention_failure ''retention_prune_failed'' e)"
        by (auto simp: execute_retention_def)
      with forget run True Ok show thesis
        by (intro pruned [of forget first prune outcome' more])
          (auto simp: retention_failure_def split: repository_outcome.splits)
    qed (use assms forget run True in \<open>auto simp: execute_retention_def intro: forgotten\<close>)
  qed
qed (use assms refused in \<open>auto simp: execute_retention_def\<close>)

section \<open>Properties\<close>

text \<open>
  Checking the sources of a backup accepts exactly the folders on a local drive that are
  neither in a device namespace nor at or below the service data directory, under the configured
  spelling of both and under the resolved one, and whose resolved location is the configured one up
  to letter case and verbatim spelling, so that no junction or drive alias is followed. The check
  never panics.
\<close>

theorem source_check_exact:
  "(validate_backup_source_paths fs sources (Some data) = Ok () \<longleftrightarrow>
      (\<forall>s \<in> set sources. acceptable_source fs (protected_paths fs (Some data)) s))
   \<and> validate_backup_source_paths fs sources (Some data) \<noteq> Panic
   \<and> data \<in> set (protected_paths fs (Some data))
   \<and> (\<forall>c. canonical_path fs data = Some c \<longrightarrow> c \<in> set (protected_paths fs (Some data)))"
  by (simp add: validate_sources_iff validate_sources_no_panic protected_paths_def)

text \<open>A command confined to the configured repository and the service's own cache.\<close>

definition confined_command :: "executor \<Rightarrow> effective_config \<Rightarrow> process_command \<Rightarrow> bool" where
  "confined_command ex c cmd \<longleftrightarrow>
     pc_executable cmd = ex_executable ex
     \<and> bt_get (pc_environment cmd) ''RESTIC_CACHE_DIR'' = Some (ex_cache_directory ex)
     \<and> bt_get (pc_environment cmd) ''RESTIC_REPOSITORY'' = rc_url (ec_repository c)
     \<and> fst ` set (pc_environment cmd) \<subseteq> set INHERITED_ENVIRONMENT
         \<union> {''RESTIC_REPOSITORY'', ''RESTIC_PROGRESS_FPS'', ''RESTIC_CACHE_DIR''}
         \<union> variable_name ` fst ` set (rc_secret_refs (ec_repository c))"

lemma confined_commandI:
  assumes "from_invocation ex i cmd" and "iv_executable i = ex_executable ex"
    and "iv_environment i = [(''RESTIC_REPOSITORY'', r)]" and "rc_url (ec_repository c) = Some r"
    and "iv_secret_environment i = rc_secret_refs (ec_repository c)"
  shows "confined_command ex c cmd"
  using from_invocation_environment [OF assms(1,3)] from_invocation_fields [OF assms(1)] assms(2,4,5)
  unfolding confined_command_def by simp

lemma confined_started:
  assumes "start_process ex p i = (result, started)" and "iv_executable i = ex_executable ex"
    and "\<exists>r. iv_environment i = [(''RESTIC_REPOSITORY'', r)] \<and> rc_url (ec_repository c) = Some r"
    and "iv_secret_environment i = rc_secret_refs (ec_repository c)"
  obtains "started = []"
  | cmd where "started = [cmd]" "confined_command ex c cmd" "pc_operation cmd = iv_operation i"
      "pc_arguments cmd = iv_arguments i"
proof (cases "started = []")
  case False
  then obtain cmd where cmd: "started = [cmd]" "from_invocation ex i cmd"
    using started_from_invocation [OF assms(1)] by blast
  with confined_commandI [OF cmd(2) assms(2) _ _ assms(4)] assms(3) from_invocation_fields [OF cmd(2)]
  show thesis using that(2) by blast
qed (use that in blast)

lemma repository_command_started:
  assumes "execute_repository_invocation ex p i = Some (r, started)" and "iv_executable i = ex_executable ex"
    and "\<exists>r. iv_environment i = [(''RESTIC_REPOSITORY'', r)] \<and> rc_url (ec_repository c) = Some r"
    and "iv_secret_environment i = rc_secret_refs (ec_repository c)"
  shows "started = [] \<or> (\<exists>cmd. started = [cmd] \<and> confined_command ex c cmd \<and> pc_operation cmd = iv_operation i)"
proof -
  obtain r' where "start_process ex p i = (r', started)"
    using execute_repository_started(1) [OF assms(1)] by blast
  then show ?thesis by (rule confined_started [OF _ assms(2-4)]) blast+
qed

lemma unlock_started:
  assumes "unlock_command (ex_executable ex) c = Ok i" and "execute_repository_invocation ex p i = Some (r, started)"
  shows "started = [] \<or> (\<exists>cmd. started = [cmd] \<and> confined_command ex c cmd \<and> pc_operation cmd = Unlock)"
  using repository_command_started [OF assms(2), of c] unlock_shape [OF assms(1)] by simp

lemma backup_started:
  assumes "backup_with_required_exclusions lower (ex_executable ex) c (required_exclusions fs (ex_data_directory ex)) = Ok i"
    and "execute_invocation ex p i known out err = Some (result, started)"
  shows "started = [] \<and> bo_kind result \<notin> {BackupSucceeded, BackupSucceededWithWarnings}
    \<or> (\<exists>cmd. started = [cmd] \<and> confined_command ex c cmd \<and> pc_operation cmd = Backup
         \<and> sublist [''--iexclude'', ex_data_directory ex] (pc_arguments cmd))"
proof -
  obtain r where start: "start_process ex p i = (r, started)"
    using execute_invocation_started [OF assms(2)] by blast
  have excluded: "ex_data_directory ex \<in> set (required_exclusions fs (ex_data_directory ex))"
    by (auto simp: required_exclusions_def split: option.split)
  have unsuccessful: "bo_kind result \<notin> {BackupSucceeded, BackupSucceededWithWarnings}" if "started = []"
    using start start_process_commands(2) [OF start] that assms(2)
    by (auto simp: execute_invocation_def backup_failed_def backup_cancelled_def
        split: outcome.splits option.splits)
  note shape = backup_shape [OF assms(1)]
  show ?thesis
  proof (rule confined_started [OF start, of c])
    fix cmd assume "started = [cmd]" "confined_command ex c cmd" "pc_operation cmd = iv_operation i"
      "pc_arguments cmd = iv_arguments i"
    with shape excluded show ?thesis by simp
  next
    assume "started = []"
    then show ?thesis using unsuccessful by blast
  qed (use shape in auto)
qed

lemma retention_shape:
  "retention_command executable c operation = Ok i \<Longrightarrow>
     rc_mode (ec_repository c) \<noteq> AppendOnly \<and> iv_operation i = operation \<and> iv_executable i = executable
     \<and> (\<exists>r. iv_environment i = [(''RESTIC_REPOSITORY'', r)] \<and> rc_url (ec_repository c) = Some r)
     \<and> iv_secret_environment i = rc_secret_refs (ec_repository c)"
  by (auto simp: retention_command_def outcome_simps authorize_operation_def repository_invocation_def
      split: restic_operation.splits if_splits)

lemma retention_started:
  assumes "retention_command (ex_executable ex) c operation = Ok i"
    and "execute_repository_invocation ex p i = Some (r, started)"
  shows "rc_mode (ec_repository c) \<noteq> AppendOnly
    \<and> (started = [] \<or> (\<exists>cmd. started = [cmd] \<and> confined_command ex c cmd \<and> pc_operation cmd = operation))"
  using repository_command_started [OF assms(2), of c] retention_shape [OF assms(1)] by simp

lemma repository_succeeded:
  "execute_repository_invocation ex p i = Some (r, started) \<Longrightarrow> r = RepositorySucceeded \<Longrightarrow>
     poll_loop True (ps_polls p) = Some (PollExited (Some 0))"
  by (auto simp: execute_repository_invocation_def split: prod.splits outcome.splits option.splits
      if_splits poll_end.splits)

definition sample_filesystem :: filesystem where
  "sample_filesystem = \<lparr>fs_canonicalize = (\<lambda>_. None), fs_drive_remote = (\<lambda>d. d = CHR ''Z''), fs_lower = id\<rparr>"

definition sample_executor :: executor where
  "sample_executor = \<lparr>ex_executable = ''restic'', ex_data_directory = [CHR ''C'', CHR '':'', backslash, CHR ''d''],
     ex_cache_directory = ''cache'', ex_os_environment = (\<lambda>_. None), ex_resolve = (\<lambda>_. Some ''pw'')\<rparr>"

definition sample_process :: process where
  "sample_process = \<lparr>ps_wake_lock = True, ps_cancelled = False, ps_isolated = True, ps_started = True,
     ps_assigned = True, ps_stdout = True, ps_stderr_pipe = True,
     ps_polls = [\<lparr>pl_wait = StillRunning, pl_cancelled = False, pl_timed_out = False\<rparr>,
       \<lparr>pl_wait = Exited (Some 0), pl_cancelled = False, pl_timed_out = False\<rparr>],
     ps_termination = [], ps_stderr = []\<rparr>"

definition sample_command :: "restic_operation \<Rightarrow> string list \<Rightarrow> process_command" where
  "sample_command operation arguments =
     command_for (\<lambda>_. None) (repository_invocation ''restic'' sample_config operation ''r'' arguments)
       [(ResticPassword, ''pw'')] ''cache''"

lemma sample_plan:
  "build_backup_invocations sample_filesystem (ex_executable sample_executor) (ex_data_directory sample_executor)
     sample_config =
   Ok (repository_invocation ''restic'' sample_config Unlock ''r'' [''--option'', ''o=v'', ''unlock''],
       repository_invocation ''restic'' sample_config Backup ''r''
         [''--option'', ''o=v'', ''--cleanup-cache'', ''backup'', ''--json'', ''--use-fs-snapshot'',
          ''--exclude'', ''x'', ''--iexclude'', [CHR ''C'', CHR '':'', backslash, CHR ''d''], sample_source])"
proof -
  have "validate_backup_source_paths sample_filesystem [sample_source]
      (Some [CHR ''C'', CHR '':'', backslash, CHR ''d'']) = Ok ()"
    by (simp add: validate_sources_iff protected_paths_def canonical_path_def sample_filesystem_def
        acceptable_source_def source_is_network_path_def source_uses_unsupported_local_namespace_def
        first_component_def sample_source_components windows_path_is_same_or_descendant_def
        normalized_windows_path_def sample_directory)
  moreover have "unlock_command ''restic'' sample_config =
      Ok (repository_invocation ''restic'' sample_config Unlock ''r'' [''--option'', ''o=v'', ''unlock''])"
    using sample_config_valid
    by (simp add: unlock_command_def command_simps validate_Ok_iff sample_config_simps repository_options_def)
  ultimately show ?thesis
    using sample_backup
    by (simp add: build_backup_invocations_def sample_executor_def required_exclusions_def canonical_path_def
        sample_filesystem_def sample_config_simps)
qed

lemma sample_execution:
  "execute_backup sample_executor sample_filesystem sample_filesystem sample_process sample_process
     (Err ()) (Err ()) sample_config =
   Some (backup_failed ''restic_output_invalid'',
     [sample_command Unlock [''--option'', ''o=v'', ''unlock''],
      sample_command Backup [''--option'', ''o=v'', ''--cleanup-cache'', ''backup'', ''--json'', ''--use-fs-snapshot'',
        ''--exclude'', ''x'', ''--iexclude'', [CHR ''C'', CHR '':'', backslash, CHR ''d''], sample_source]])"
  unfolding execute_backup_def sample_plan outcome.case prod.case
  by (simp add: execute_repository_invocation_def execute_invocation_def start_process_def sample_process_def
      sample_command_def repository_invocation_def sample_config_simps backup_outcome_for_lock_cleanup_def
      finish_outcome_def sample_executor_def)

theorem source_check_exact_witness:
  "validate_backup_source_paths sample_filesystem [] (Some sample_source) = Ok ()
   \<and> sample_source \<in> set (protected_paths sample_filesystem (Some sample_source))"
  using source_check_exact [of sample_filesystem "[]" sample_source] by simp

text \<open>
  C5. Whatever the processes and the filesystem do, a backup starts at most two restic
  processes, the removal of stale locks and then the backup. The backup is started only after the
  removal succeeded and only when the sources passed the check against the filesystem as it was
  after that; it excludes the service data directory. Both processes run the configured executable
  against the configured repository with the cache inside the service directory, their environment
  holds nothing but the inherited variables and the variables of the configured secrets, and a
  reported success implies that the backup process was started.
\<close>

theorem backup_runs_checked_plan:
  assumes "execute_backup ex before after cleanup_process backup_process out err c = Some (result, started)"
  shows "(\<forall>cmd \<in> set started. confined_command ex c cmd \<and> pc_operation cmd \<in> {Unlock, Backup}
      \<and> (pc_operation cmd = Backup \<longrightarrow>
           (\<exists>prior. started = [prior, cmd] \<and> pc_operation prior = Unlock)
           \<and> sublist [''--iexclude'', ex_data_directory ex] (pc_arguments cmd)
           \<and> (\<forall>s \<in> set (bc_paths (ec_backup c)).
                acceptable_source after (protected_paths after (Some (ex_data_directory ex))) s)))
    \<and> (bo_kind result \<in> {BackupSucceeded, BackupSucceededWithWarnings} \<longrightarrow>
         (\<exists>cmd \<in> set started. pc_operation cmd = Backup))"
  using assms
proof (cases rule: execute_backup_cases)
  case (refused e)
  then show ?thesis by (simp add: backup_failed_def)
next
  case (cleanup unlock backup cleaned)
  have "bo_kind result \<notin> {BackupSucceeded, BackupSucceededWithWarnings}"
    using cleanup(3) by (auto simp: backup_outcome_for_lock_cleanup_def backup_failed_def
        backup_cancelled_def split: repository_outcome.splits)
  moreover have "confined_command ex c cmd \<and> pc_operation cmd = Unlock" if "cmd \<in> set started" for cmd
    using unlock_started [OF build_backup_Ok(1) [OF cleanup(1)] cleanup(2)] that by auto
  ultimately show ?thesis by auto
next
  case (backed_up unlock backup unlock' backup' first more)
  have first: "\<exists>prior. first = [prior] \<and> confined_command ex c prior \<and> pc_operation prior = Unlock"
    using unlock_started [OF build_backup_Ok(1) [OF backed_up(1)] backed_up(2)]
      execute_repository_started(2) [OF backed_up(2)] by auto
  note built = build_backup_Ok [OF backed_up(3)]
  have more: "more = [] \<and> bo_kind result \<notin> {BackupSucceeded, BackupSucceededWithWarnings}
      \<or> (\<exists>cmd. more = [cmd] \<and> confined_command ex c cmd \<and> pc_operation cmd = Backup
           \<and> sublist [''--iexclude'', ex_data_directory ex] (pc_arguments cmd))"
    using backup_started [OF built(2) backed_up(4)] .
  from first more built(3) backed_up(5) show ?thesis by auto
qed

theorem backup_runs_checked_plan_witness:
  "confined_command sample_executor sample_config (sample_command Unlock [''--option'', ''o=v'', ''unlock''])
   \<and> acceptable_source sample_filesystem
        (protected_paths sample_filesystem (Some (ex_data_directory sample_executor))) sample_source"
  using backup_runs_checked_plan [OF sample_execution]
  by (simp add: sample_command_def command_for_def repository_invocation_def sample_config_simps)

text \<open>
  C26. Retention never starts a process for an append-only repository. Otherwise it starts a forget
  and then, only when pruning is due and the forget process exited with status zero, a prune. It
  reports success only when every process it had to run exited with status zero, and the reported
  pruning is the pruning that was due.
\<close>

theorem retention_prunes_after_forget:
  assumes "execute_retention ex forget_process prune_process prune_due c = Some (result, started)"
  shows "(rc_mode (ec_repository c) = AppendOnly \<longrightarrow> started = [] \<and> result = RetentionFailed ''retention_forbidden'')
    \<and> (\<forall>cmd \<in> set started. confined_command ex c cmd)
    \<and> prefix (map pc_operation started) [Forget, Prune]
    \<and> (Prune \<in> pc_operation ` set started \<longrightarrow>
         prune_due \<and> poll_loop True (ps_polls forget_process) = Some (PollExited (Some 0)))
    \<and> (\<forall>pruned. result = RetentionSucceeded pruned \<longrightarrow>
         pruned = prune_due \<and> map pc_operation started = (if prune_due then [Forget, Prune] else [Forget])
         \<and> poll_loop True (ps_polls (if prune_due then prune_process else forget_process)) =
             Some (PollExited (Some 0)))"
  using assms
proof (cases rule: execute_retention_cases)
  case refused
  then show ?thesis by simp
next
  case (forgotten forget outcome)
  have succeeded: "b = prune_due \<and> \<not> prune_due \<and> started \<noteq> []
      \<and> poll_loop True (ps_polls forget_process) = Some (PollExited (Some 0))"
    if "result = RetentionSucceeded b" for b
    using forgotten(3) [OF that] execute_repository_started(2) [OF forgotten(2)]
      repository_succeeded [OF forgotten(2)] by simp
  have mode: "rc_mode (ec_repository c) \<noteq> AppendOnly"
    and "started = [] \<or> (\<exists>cmd. started = [cmd] \<and> confined_command ex c cmd \<and> pc_operation cmd = Forget)"
    using retention_started [OF forgotten(1,2)] by blast+
  from this(2) show ?thesis
    using mode succeeded by (elim disjE exE) auto
next
  case (pruned forget prune first outcome more)
  obtain cmd where first: "first = [cmd]" "confined_command ex c cmd" "pc_operation cmd = Forget"
    and mode: "rc_mode (ec_repository c) \<noteq> AppendOnly"
    using retention_started [OF pruned(1,2)] execute_repository_started(2) [OF pruned(2)] by auto
  have exited: "poll_loop True (ps_polls forget_process) = Some (PollExited (Some 0))"
    using repository_succeeded [OF pruned(2)] by simp
  have succeeded: "b = prune_due \<and> more \<noteq> [] \<and> poll_loop True (ps_polls prune_process) = Some (PollExited (Some 0))"
    if "result = RetentionSucceeded b" for b
    using pruned(7) [OF that] pruned(3) execute_repository_started(2) [OF pruned(5)]
      repository_succeeded [OF pruned(5)] by simp
  have "more = [] \<or> (\<exists>cmd. more = [cmd] \<and> confined_command ex c cmd \<and> pc_operation cmd = Prune)"
    using retention_started [OF pruned(4,5)] by blast
  then show ?thesis
    using first mode exited succeeded \<open>started = first @ more\<close> \<open>prune_due\<close> by (elim disjE exE) auto
qed

theorem retention_prunes_after_forget_witness:
  "execute_retention sample_executor sample_process sample_process True sample_config =
     Some (RetentionFailed ''retention_forbidden'', [])
   \<and> prefix (map pc_operation []) [Forget, Prune]"
proof -
  have "execute_retention sample_executor sample_process sample_process True sample_config =
      Some (RetentionFailed ''retention_forbidden'', [])"
    by (simp add: execute_retention_def retention_command_def command_simps sample_config_simps
        authorize_operation_def)
  from this retention_prunes_after_forget [OF this] show ?thesis by simp
qed



end
