(* ===== verification/Settings.thy ===== *)
theory Settings
  imports Enrollment Execution
begin

text \<open>
  \<^verbatim>\<open>apps/resticpal-service/src/runtime/ipc.rs\<close>, first part: the requests that change the local
  configuration. A handler holds the lock on configuration changes from its checks to the
  publication of the result, so it is one step; the clock is read once per request, and whether a
  save succeeds, the filesystem and the environments of the credential calls are arguments.
\<close>

section \<open>The surroundings of a request\<close>

record request_env =
  re_now :: datetime
  re_elevated :: bool
  re_config_saved :: bool
  re_state_saved :: bool
  re_credentials :: "nat \<Rightarrow> credential_env"
  re_cleanup :: "nat \<Rightarrow> credential_env"
  re_retire :: "nat \<Rightarrow> credential_env"
  re_filesystem :: filesystem
  re_data_directory :: path
  re_describe :: "config_validation_error \<Rightarrow> string"
  re_describe_invocation :: "invocation_error \<Rightarrow> string"

definition MAX_SECRET_UPDATES :: nat where "MAX_SECRET_UPDATES = 16"

text \<open>\<^verbatim>\<open>if let Some(value) = requested\<close> with an assignment.\<close>

definition when_some :: "'v option \<Rightarrow> ('v \<Rightarrow> 's \<Rightarrow> 's) \<Rightarrow> 's \<Rightarrow> 's" where
  "when_some requested assign s = (case requested of None \<Rightarrow> s | Some v \<Rightarrow> assign v s)"

definition locked_request :: "runtime \<Rightarrow> 'v option \<Rightarrow> policy_field \<Rightarrow> bool" where
  "locked_request rt requested field \<longleftrightarrow> requested \<noteq> None \<and> field_locked rt field"

definition update_blocked :: response_payload where
  "update_blocked = rejected ''update_pending''
     ''Wait for the resticpal update to finish before changing configuration.''"

definition locked_response :: "string \<Rightarrow> response_payload" where
  "locked_response message = rejected ''managed_field_locked'' message"

definition save_failed :: response_payload where
  "save_failed = rejected ''configuration_save_failed'' ''The local configuration could not be saved.''"

section \<open>Update settings\<close>

definition update_settings_view_of :: "runtime \<Rightarrow> update_settings_view" where
  "update_settings_view_of rt =
     \<lparr>uv_automatic_install = uc_automatic_install (ec_updates (rt_config rt)),
      uv_automatic_install_locked = field_locked rt UpdateAutomaticInstall\<rparr>"

definition update_update_settings :: "request_env \<Rightarrow> bool \<Rightarrow> runtime \<Rightarrow> response_payload \<times> runtime" where
  "update_update_settings env automatic_install rt =
     (if \<not> re_elevated env then (administrator_required, rt)
      else if field_locked rt UpdateAutomaticInstall then
        (locked_response ''Automatic update installation is locked by managed policy.'', rt)
      else if update_pending (re_now env) (rt_state rt) then
        (rejected ''update_pending'' ''Automatic-update mode cannot change while an update is in progress.'', rt)
      else
        let candidate = (rt_local_config rt)\<lparr>lc_updates :=
              (lc_updates (rt_local_config rt))\<lparr>lu_automatic_install := Some automatic_install\<rparr>\<rparr>
        in if \<not> re_config_saved env then
             (rejected ''configuration_save_failed'' ''The automatic-update setting could not be saved.'', rt)
           else
             (Accepted (if automatic_install
                then ''Signed resticpal updates will install automatically in the background.''
                else ''resticpal will ask before installing updates.''),
              rt\<lparr>rt_saved_local := candidate, rt_local_config := candidate,
                 rt_config := (rt_config rt)\<lparr>ec_updates :=
                   (ec_updates (rt_config rt))\<lparr>uc_automatic_install := automatic_install\<rparr>\<rparr>\<rparr>))"

section \<open>Retention\<close>

definition retention_view_of :: "runtime \<Rightarrow> retention_view" where
  "retention_view_of rt =
     (let s = st_service_state (rt_state rt); c = rt_config rt; t = ec_retention c
      in \<lparr>tv_repository_mode = rc_mode (ec_repository c), tv_daily = tc_daily t, tv_weekly = tc_weekly t,
          tv_monthly = tc_monthly t, tv_yearly = tc_yearly t, tv_prune_interval_days = tc_prune_interval_days t,
          tv_daily_locked = field_locked rt RetentionDaily, tv_weekly_locked = field_locked rt RetentionWeekly,
          tv_monthly_locked = field_locked rt RetentionMonthly, tv_yearly_locked = field_locked rt RetentionYearly,
          tv_prune_interval_days_locked = field_locked rt RetentionPruneIntervalDays,
          tv_last_retention = vs_last_retention s, tv_last_prune = vs_last_prune s,
          tv_last_error = vs_last_retention_error s\<rparr>)"

record retention_request =
  tq_daily :: "u32 option"
  tq_weekly :: "u32 option"
  tq_monthly :: "u32 option"
  tq_yearly :: "u32 option"
  tq_prune_interval_days :: "u32 option"

definition local_retention_edit :: "retention_request \<Rightarrow> local_retention \<Rightarrow> local_retention" where
  "local_retention_edit q =
     when_some (tq_prune_interval_days q) (\<lambda>v t. t\<lparr>lt_prune_interval_days := Some v\<rparr>)
     \<circ> when_some (tq_yearly q) (\<lambda>v t. t\<lparr>lt_yearly := Some v\<rparr>)
     \<circ> when_some (tq_monthly q) (\<lambda>v t. t\<lparr>lt_monthly := Some v\<rparr>)
     \<circ> when_some (tq_weekly q) (\<lambda>v t. t\<lparr>lt_weekly := Some v\<rparr>)
     \<circ> when_some (tq_daily q) (\<lambda>v t. t\<lparr>lt_daily := Some v\<rparr>)"

definition effective_retention_edit :: "retention_request \<Rightarrow> retention_config \<Rightarrow> retention_config" where
  "effective_retention_edit q =
     when_some (tq_prune_interval_days q) (\<lambda>v t. t\<lparr>tc_prune_interval_days := v\<rparr>)
     \<circ> when_some (tq_yearly q) (\<lambda>v t. t\<lparr>tc_yearly := v\<rparr>)
     \<circ> when_some (tq_monthly q) (\<lambda>v t. t\<lparr>tc_monthly := v\<rparr>)
     \<circ> when_some (tq_weekly q) (\<lambda>v t. t\<lparr>tc_weekly := v\<rparr>)
     \<circ> when_some (tq_daily q) (\<lambda>v t. t\<lparr>tc_daily := v\<rparr>)"

definition update_retention :: "request_env \<Rightarrow> retention_request \<Rightarrow> runtime \<Rightarrow> response_payload \<times> runtime" where
  "update_retention env q rt =
     (if \<not> re_elevated env then (administrator_required, rt)
      else if update_pending (re_now env) (rt_state rt) then (update_blocked, rt)
      else if rc_mode (ec_repository (rt_config rt)) = AppendOnly then
        (rejected ''retention_managed_by_server''
           ''Retention for an append-only repository is managed by the server.'', rt)
      else if tq_daily q = None \<and> tq_weekly q = None \<and> tq_monthly q = None \<and> tq_yearly q = None
          \<and> tq_prune_interval_days q = None then
        (rejected ''no_configuration_changes'' ''No retention changes were supplied.'', rt)
      else if locked_request rt (tq_daily q) RetentionDaily \<or> locked_request rt (tq_weekly q) RetentionWeekly
          \<or> locked_request rt (tq_monthly q) RetentionMonthly \<or> locked_request rt (tq_yearly q) RetentionYearly
          \<or> locked_request rt (tq_prune_interval_days q) RetentionPruneIntervalDays then
        (locked_response ''One or more retention fields are locked by managed policy.'', rt)
      else
        let candidate = (rt_local_config rt)\<lparr>lc_retention := local_retention_edit q (lc_retention (rt_local_config rt))\<rparr>;
            effective = (rt_config rt)\<lparr>ec_retention := effective_retention_edit q (ec_retention (rt_config rt))\<rparr>
        in case validate effective of
             Err e \<Rightarrow> (rejected ''invalid_retention'' (re_describe env e), rt)
           | _ \<Rightarrow>
               if is_running (ss_state (st_status (rt_state rt))) then
                 (rejected ''backup_running'' ''Wait for the active backup to finish before changing retention.'', rt)
               else if repository_operation_running (rt_state rt) then
                 (rejected ''repository_operation_running''
                    ''Wait for the repository operation to finish before changing retention.'', rt)
               else if \<not> re_config_saved env then (save_failed, rt)
               else
                 (Accepted ''Retention policy updated.'',
                  post_event ConfigurationChanged
                    (rt\<lparr>rt_saved_local := candidate, rt_local_config := candidate, rt_config := effective\<rparr>)))"

section \<open>Schedule\<close>

definition schedule_view_of :: "runtime \<Rightarrow> schedule_view" where
  "schedule_view_of rt =
     (let s = ec_schedule (rt_config rt)
      in \<lparr>sv_interval_hours = sc_interval_hours s, sv_wake_grace_seconds = sc_wake_grace_seconds s,
          sv_wake_lock_timeout_seconds = sc_wake_lock_timeout_seconds s,
          sv_allow_on_battery = sc_allow_on_battery s, sv_allow_metered_network = sc_allow_metered_network s,
          sv_interval_hours_locked = field_locked rt ScheduleIntervalHours,
          sv_wake_grace_seconds_locked = field_locked rt ScheduleWakeGraceSeconds,
          sv_wake_lock_timeout_seconds_locked = field_locked rt ScheduleWakeLockTimeoutSeconds,
          sv_allow_on_battery_locked = field_locked rt ScheduleAllowOnBattery,
          sv_allow_metered_network_locked = field_locked rt ScheduleAllowMeteredNetwork\<rparr>)"

record schedule_request =
  sq_interval_hours :: "u32 option"
  sq_wake_grace_seconds :: "u64 option"
  sq_wake_lock_timeout_seconds :: "u64 option"
  sq_allow_on_battery :: "bool option"
  sq_allow_metered_network :: "bool option"

definition local_schedule_edit :: "schedule_request \<Rightarrow> local_schedule \<Rightarrow> local_schedule" where
  "local_schedule_edit q =
     when_some (sq_allow_metered_network q) (\<lambda>v s. s\<lparr>ls_allow_metered_network := Some v\<rparr>)
     \<circ> when_some (sq_allow_on_battery q) (\<lambda>v s. s\<lparr>ls_allow_on_battery := Some v\<rparr>)
     \<circ> when_some (sq_wake_lock_timeout_seconds q) (\<lambda>v s. s\<lparr>ls_wake_lock_timeout_seconds := Some v\<rparr>)
     \<circ> when_some (sq_wake_grace_seconds q) (\<lambda>v s. s\<lparr>ls_wake_grace_seconds := Some v\<rparr>)
     \<circ> when_some (sq_interval_hours q) (\<lambda>v s. s\<lparr>ls_interval_hours := Some v\<rparr>)"

definition effective_schedule_edit :: "schedule_request \<Rightarrow> schedule_config \<Rightarrow> schedule_config" where
  "effective_schedule_edit q =
     when_some (sq_allow_metered_network q) (\<lambda>v s. s\<lparr>sc_allow_metered_network := v\<rparr>)
     \<circ> when_some (sq_allow_on_battery q) (\<lambda>v s. s\<lparr>sc_allow_on_battery := v\<rparr>)
     \<circ> when_some (sq_wake_lock_timeout_seconds q) (\<lambda>v s. s\<lparr>sc_wake_lock_timeout_seconds := v\<rparr>)
     \<circ> when_some (sq_wake_grace_seconds q) (\<lambda>v s. s\<lparr>sc_wake_grace_seconds := v\<rparr>)
     \<circ> when_some (sq_interval_hours q) (\<lambda>v s. s\<lparr>sc_interval_hours := v\<rparr>)"

definition update_schedule ::
  "chrono \<Rightarrow> request_env \<Rightarrow> schedule_request \<Rightarrow> runtime \<Rightarrow> response_payload \<times> runtime" where
  "update_schedule K env q rt =
     (if \<not> re_elevated env then (administrator_required, rt)
      else if update_pending (re_now env) (rt_state rt) then (update_blocked, rt)
      else if sq_interval_hours q = None \<and> sq_wake_grace_seconds q = None \<and> sq_wake_lock_timeout_seconds q = None
          \<and> sq_allow_on_battery q = None \<and> sq_allow_metered_network q = None then
        (rejected ''no_configuration_changes'' ''No schedule changes were supplied.'', rt)
      else if locked_request rt (sq_interval_hours q) ScheduleIntervalHours
          \<or> locked_request rt (sq_wake_grace_seconds q) ScheduleWakeGraceSeconds
          \<or> locked_request rt (sq_wake_lock_timeout_seconds q) ScheduleWakeLockTimeoutSeconds
          \<or> locked_request rt (sq_allow_on_battery q) ScheduleAllowOnBattery
          \<or> locked_request rt (sq_allow_metered_network q) ScheduleAllowMeteredNetwork then
        (locked_response ''One or more schedule fields are locked by managed policy.'', rt)
      else
        let candidate = (rt_local_config rt)\<lparr>lc_schedule := local_schedule_edit q (lc_schedule (rt_local_config rt))\<rparr>;
            effective = (rt_config rt)\<lparr>ec_schedule := effective_schedule_edit q (ec_schedule (rt_config rt))\<rparr>
        in case validate effective of
             Err e \<Rightarrow> (rejected ''invalid_schedule'' (re_describe env e), rt)
           | _ \<Rightarrow>
               if is_running (ss_state (st_status (rt_state rt))) then
                 (rejected ''backup_running'' ''Wait for the active backup to finish before changing its schedule.'', rt)
               else if repository_operation_running (rt_state rt) then
                 (rejected ''repository_operation_running''
                    ''Wait for the repository operation to finish before changing the schedule.'', rt)
               else if \<not> re_config_saved env then (save_failed, rt)
               else
                 (Accepted ''Backup schedule updated.'',
                  post_event ConfigurationChanged
                    (rt\<lparr>rt_saved_local := candidate, rt_local_config := candidate, rt_config := effective,
                       rt_state := apply_configuration_status K effective (re_now env) (rt_state rt)\<rparr>)))"

section \<open>Backup sources\<close>

definition backup_sources_view_of :: "runtime \<Rightarrow> backup_sources_view" where
  "backup_sources_view_of rt =
     \<lparr>bv_paths = bc_paths (ec_backup (rt_config rt)), bv_exclusions = bc_exclusions (ec_backup (rt_config rt)),
      bv_paths_locked = field_locked rt BackupPaths, bv_exclusions_locked = field_locked rt BackupExclusions\<rparr>"

text \<open>Keep the first element of each key, as \<^verbatim>\<open>filter\<close> with a set of seen keys does.\<close>

fun keep_first :: "('a \<Rightarrow> 'k) \<Rightarrow> 'k set \<Rightarrow> 'a list \<Rightarrow> 'a list" where
  "keep_first key seen [] = []"
| "keep_first key seen (x # xs) =
     (if key x \<in> seen then keep_first key seen xs else x # keep_first key (insert (key x) seen) xs)"

definition deduplicate_paths :: "(string \<Rightarrow> string) \<Rightarrow> path list \<Rightarrow> path list" where
  "deduplicate_paths lower paths = keep_first lower {} paths"

definition deduplicate_exclusions :: "string list \<Rightarrow> string list" where
  "deduplicate_exclusions exclusions = keep_first id {} exclusions"

definition source_error_response :: "request_env \<Rightarrow> invocation_error \<Rightarrow> response_payload" where
  "source_error_response env e =
     (case e of
        UnsupportedNetworkBackupSource \<Rightarrow> rejected ''unsupported_network_backup_source''
          ''Network folders cannot be used as backup sources yet. Choose a folder on a local Windows drive.''
      | UnsupportedBackupSourceNamespace \<Rightarrow> rejected ''unsupported_backup_source_namespace''
          ''Backup sources must use an ordinary local Windows drive path, without junction or device aliases.''
      | ProtectedBackupSource \<Rightarrow> rejected ''protected_backup_source''
          ''The resticpal service-data folder cannot be selected as a backup source.''
      | _ \<Rightarrow> rejected ''invalid_backup_sources'' (re_describe_invocation env e))"

definition update_backup_sources ::
  "chrono \<Rightarrow> request_env \<Rightarrow> path list option \<times> string list option \<Rightarrow> runtime \<Rightarrow> response_payload \<times> runtime" where
  "update_backup_sources K env q rt =
     (let (paths, exclusions) = q in
      if \<not> re_elevated env then (administrator_required, rt)
      else if update_pending (re_now env) (rt_state rt) then (update_blocked, rt)
      else if paths = None \<and> exclusions = None then
        (rejected ''no_configuration_changes'' ''No backup-source changes were supplied.'', rt)
      else if locked_request rt paths BackupPaths \<or> locked_request rt exclusions BackupExclusions then
        (locked_response ''Backup sources are locked by managed policy.'', rt)
      else
        let paths = map_option (deduplicate_paths (fs_lower (re_filesystem env))) paths;
            exclusions = map_option deduplicate_exclusions exclusions;
            candidate = (rt_local_config rt)\<lparr>lc_backup :=
              when_some exclusions (\<lambda>v b. b\<lparr>lb_exclusions := Some v\<rparr>)
                (when_some paths (\<lambda>v b. b\<lparr>lb_paths := Some v\<rparr>) (lc_backup (rt_local_config rt)))\<rparr>;
            effective = (rt_config rt)\<lparr>ec_backup :=
              when_some exclusions (\<lambda>v b. b\<lparr>bc_exclusions := v\<rparr>)
                (when_some paths (\<lambda>v b. b\<lparr>bc_paths := v\<rparr>) (ec_backup (rt_config rt)))\<rparr>
        in case validate_backup_source_paths (re_filesystem env) (bc_paths (ec_backup effective))
              (Some (re_data_directory env)) of
             Err e \<Rightarrow> (source_error_response env e, rt)
           | _ \<Rightarrow>
               (case validate effective of
                  Err e \<Rightarrow> (rejected ''invalid_backup_sources'' (re_describe env e), rt)
                | _ \<Rightarrow>
                    if is_running (ss_state (st_status (rt_state rt))) then
                      (rejected ''backup_running''
                         ''Wait for the active backup to finish before changing its sources.'', rt)
                    else if \<not> re_config_saved env then (save_failed, rt)
                    else
                      (Accepted ''Backup sources updated.'',
                       post_event ConfigurationChanged
                         (rt\<lparr>rt_saved_local := candidate, rt_local_config := candidate, rt_config := effective,
                            rt_state := apply_configuration_status K effective (re_now env) (rt_state rt)\<rparr>))))"

section \<open>Repository\<close>

definition repository_secrets_locked :: "runtime \<Rightarrow> bool" where
  "repository_secrets_locked rt \<longleftrightarrow> field_locked rt RepositorySecretRefs \<or> mv_enrolled (management_view_of rt)"

definition repository_view_of :: "runtime \<Rightarrow> repository_view" where
  "repository_view_of rt =
     (let r = ec_repository (rt_config rt)
      in \<lparr>rv_display_name = rc_display_name r, rv_url = rc_url r, rv_mode = rc_mode r, rv_options = rc_options r,
          rv_configured_secrets = bt_keys (rc_secret_refs r),
          rv_operation_status = st_repository_operation (rt_state rt),
          rv_display_name_locked = field_locked rt RepositoryDisplayName,
          rv_url_locked = field_locked rt RepositoryUrl, rv_mode_locked = field_locked rt RepositoryMode,
          rv_options_locked = field_locked rt RepositoryOptions, rv_secrets_locked = repository_secrets_locked rt\<rparr>)"

record repository_request =
  pq_display_name :: "string option"
  pq_url :: "string option"
  pq_mode :: "repository_mode option"
  pq_options :: "(string, string) btree option"
  pq_secret_updates :: "secret_update list"

definition nonempty_trimmed :: "string \<Rightarrow> string option" where
  "nonempty_trimmed v = (let v = trim v in if v \<noteq> [] then Some v else None)"

fun updated_variable :: "secret_update \<Rightarrow> secret_variable" where
  "updated_variable (SetSecret variable v) = variable"
| "updated_variable (RemoveSecret variable) = variable"

record secret_progress =
  sp_effective :: "(secret_variable, string) btree"
  sp_local :: "(secret_variable, string) btree"
  sp_retired :: "(string, unit) btree"
  sp_created :: "string list"
  sp_directory :: credential_directory

definition retire_reference :: "string option \<Rightarrow> secret_progress \<Rightarrow> secret_progress" where
  "retire_reference old sp =
     (case old of None \<Rightarrow> sp | Some r \<Rightarrow> sp\<lparr>sp_retired := bt_insert r () (sp_retired sp)\<rparr>)"

definition apply_secret_update ::
  "credential_env \<Rightarrow> secret_update \<Rightarrow> secret_progress \<Rightarrow> (credential_error, unit) outcome \<times> secret_progress" where
  "apply_secret_update env update sp =
     (case update of
        SetSecret variable v \<Rightarrow>
          (case put_new env (reference_prefix variable) v (sp_directory sp) of
             (Ok r, dir) \<Rightarrow>
               let sp = retire_reference (bt_get (sp_effective sp) variable) sp
               in (Ok (), sp\<lparr>sp_effective := bt_insert variable r (sp_effective sp),
                    sp_local := bt_insert variable r (sp_local sp),
                    sp_created := sp_created sp @ [r], sp_directory := dir\<rparr>)
           | (Err e, dir) \<Rightarrow> (Err e, sp\<lparr>sp_directory := dir\<rparr>)
           | (Panic, dir) \<Rightarrow> (Panic, sp\<lparr>sp_directory := dir\<rparr>))
      | RemoveSecret variable \<Rightarrow>
          let sp = retire_reference (bt_get (sp_effective sp) variable) sp
          in (Ok (), sp\<lparr>sp_effective := bt_remove variable (sp_effective sp),
               sp_local := bt_remove variable (sp_local sp)\<rparr>))"

fun apply_secret_updates ::
  "(nat \<Rightarrow> credential_env) \<Rightarrow> nat \<Rightarrow> secret_update list \<Rightarrow> secret_progress \<Rightarrow>
     (credential_error, unit) outcome \<times> secret_progress" where
  "apply_secret_updates env n [] sp = (Ok (), sp)"
| "apply_secret_updates env n (u # us) sp =
     io_then (apply_secret_update (env n) u sp) (\<lambda>_ sp. apply_secret_updates env (n + 1) us sp)"

definition local_repository_edit :: "repository_request \<Rightarrow> local_repository \<Rightarrow> local_repository" where
  "local_repository_edit q =
     when_some (pq_options q) (\<lambda>v r. r\<lparr>lr_options := Some v\<rparr>)
     \<circ> when_some (pq_mode q) (\<lambda>v r. r\<lparr>lr_mode := Some v\<rparr>)
     \<circ> when_some (pq_url q) (\<lambda>v r. r\<lparr>lr_url := nonempty_trimmed v\<rparr>)
     \<circ> when_some (pq_display_name q) (\<lambda>v r. r\<lparr>lr_display_name := nonempty_trimmed v\<rparr>)"

definition effective_repository_edit :: "repository_request \<Rightarrow> repository_config \<Rightarrow> repository_config" where
  "effective_repository_edit q =
     when_some (pq_options q) (\<lambda>v r. r\<lparr>rc_options := v\<rparr>)
     \<circ> when_some (pq_mode q) (\<lambda>v r. r\<lparr>rc_mode := v\<rparr>)
     \<circ> when_some (pq_url q) (\<lambda>v r. r\<lparr>rc_url := nonempty_trimmed v\<rparr>)
     \<circ> when_some (pq_display_name q) (\<lambda>v r. r\<lparr>rc_display_name := nonempty_trimmed v\<rparr>)"

text \<open>
  The credentials of the request, then the second validation and the two saves; \<open>Inl\<close> is a refusal,
  after which the new credentials are removed again.
\<close>

definition commit_repository ::
  "request_env \<Rightarrow> repository_request \<Rightarrow> bool \<Rightarrow> local_config \<Rightarrow> effective_config \<Rightarrow> runtime \<Rightarrow>
     (response_payload + local_config \<times> effective_config \<times> service_state \<times> string list) \<times> runtime" where
  "commit_repository env q connection_changed candidate effective rt =
     (let refs = (case lr_secret_refs (lc_repository candidate) of None \<Rightarrow> [] | Some refs \<Rightarrow> refs);
          start = \<lparr>sp_effective = rc_secret_refs (ec_repository effective), sp_local = refs, sp_retired = [],
            sp_created = [], sp_directory = (case rt_credentials rt of None \<Rightarrow> [] | Some d \<Rightarrow> d)\<rparr>;
          (stored, sp) = apply_secret_updates (re_credentials env) 0 (pq_secret_updates q) start;
          keep = (\<lambda>rt. rt\<lparr>rt_credentials := map_option (\<lambda>_. sp_directory sp) (rt_credentials rt)\<rparr>);
          cleanup = (\<lambda>rt. rt\<lparr>rt_credentials :=
            map_option (\<lambda>_. remove_all (re_cleanup env) 0 (sp_created sp) (sp_directory sp)) (rt_credentials rt)\<rparr>);
          candidate = (if pq_secret_updates q = [] then candidate
            else candidate\<lparr>lc_repository := (lc_repository candidate)\<lparr>lr_secret_refs := Some (sp_local sp)\<rparr>\<rparr>);
          effective = (if pq_secret_updates q = [] then effective
            else effective\<lparr>ec_repository := (ec_repository effective)\<lparr>rc_secret_refs := sp_effective sp\<rparr>\<rparr>);
          retired = filter (\<lambda>r. r \<notin> set (bt_values (sp_effective sp))) (bt_keys (sp_retired sp));
          s = st_service_state (rt_state rt);
          next_state = (if connection_changed then require_repository_validation s else s)
      in if stored \<noteq> Ok () then
           (Inl (rejected ''credential_save_failed'' ''A repository credential could not be stored securely.''), cleanup rt)
         else case validate effective of
           Err e \<Rightarrow> (Inl (rejected ''invalid_repository'' (re_describe env e)), cleanup rt)
         | _ \<Rightarrow>
             if connection_changed \<and> \<not> re_state_saved env then
               (Inl (rejected ''state_save_failed'' ''Repository validation state could not be saved.''), cleanup rt)
             else
               let rt = (if connection_changed then save_service_state True next_state rt else rt)
               in if \<not> re_config_saved env then (Inl save_failed, cleanup rt)
                  else (Inr (candidate, effective, next_state, retired), keep (rt\<lparr>rt_saved_local := candidate\<rparr>)))"

definition update_repository ::
  "chrono \<Rightarrow> request_env \<Rightarrow> repository_request \<Rightarrow> runtime \<Rightarrow> response_payload \<times> runtime" where
  "update_repository K env q rt =
     (let connection_changed = (pq_url q \<noteq> None \<or> pq_options q \<noteq> None \<or> pq_secret_updates q \<noteq> []) in
      if \<not> re_elevated env then (administrator_required, rt)
      else if update_pending (re_now env) (rt_state rt) then (update_blocked, rt)
      else if pq_display_name q = None \<and> pq_url q = None \<and> pq_mode q = None \<and> pq_options q = None
          \<and> pq_secret_updates q = [] then
        (rejected ''no_configuration_changes'' ''No repository changes were supplied.'', rt)
      else if locked_request rt (pq_display_name q) RepositoryDisplayName \<or> locked_request rt (pq_url q) RepositoryUrl
          \<or> locked_request rt (pq_mode q) RepositoryMode \<or> locked_request rt (pq_options q) RepositoryOptions
          \<or> pq_secret_updates q \<noteq> [] \<and> repository_secrets_locked rt then
        (locked_response ''One or more repository fields are locked by managed policy.'', rt)
      else if MAX_SECRET_UPDATES < length (pq_secret_updates q) then
        (rejected ''too_many_secret_updates'' ''Too many credential changes were supplied in one request.'', rt)
      else if \<not> distinct (map updated_variable (pq_secret_updates q)) then
        (rejected ''duplicate_secret_update'' ''Each credential may be changed at most once per request.'', rt)
      else if pq_secret_updates q \<noteq> [] \<and> rt_credentials rt = None then
        (rejected ''credential_store_unavailable'' ''The protected credential store is unavailable.'', rt)
      else
        let candidate = (rt_local_config rt)\<lparr>lc_repository := local_repository_edit q (lc_repository (rt_local_config rt))\<rparr>;
            effective = (rt_config rt)\<lparr>ec_repository := effective_repository_edit q (ec_repository (rt_config rt))\<rparr>
        in case validate effective of
             Err e \<Rightarrow> (rejected ''invalid_repository'' (re_describe env e), rt)
           | _ \<Rightarrow>
               if is_running (ss_state (st_status (rt_state rt))) then
                 (rejected ''backup_running'' ''Wait for the active backup to finish before changing its repository.'', rt)
               else if repository_operation_running (rt_state rt) then
                 (rejected ''repository_operation_running''
                    ''Wait for the repository operation to finish before changing its settings.'', rt)
               else
                 (case commit_repository env q connection_changed candidate effective rt of
                    (Inl refusal, rt) \<Rightarrow> (refusal, rt)
                  | (Inr (candidate, effective, next_state, retired), rt) \<Rightarrow>
                      let st = (if connection_changed then (rt_state rt)\<lparr>st_repository_operation := ValidationRequired,
                            st_service_state := next_state\<rparr> else rt_state rt);
                          rt = rt\<lparr>rt_local_config := candidate, rt_config := effective,
                            rt_state := apply_configuration_status K effective (re_now env) st,
                            rt_credentials := map_option (remove_all (re_retire env) 0 retired) (rt_credentials rt)\<rparr>
                      in (Accepted ''Repository settings updated.'', post_event ConfigurationChanged rt)))"

section \<open>What a settings request may do\<close>

text \<open>A refusal leaves everything but the credential directory and the saved state as it was.\<close>

definition untouched :: "runtime \<Rightarrow> runtime \<Rightarrow> bool" where
  "untouched rt rt' \<longleftrightarrow>
     rt' = rt\<lparr>rt_credentials := rt_credentials rt', rt_saved_state := rt_saved_state rt'\<rparr>"

text \<open>The parts of the state that no settings request changes.\<close>

definition same_activity :: "runtime_state \<Rightarrow> runtime_state \<Rightarrow> bool" where
  "same_activity st st' \<longleftrightarrow>
     st_update_hold_until st' = st_update_hold_until st
     \<and> st_update_hold_previous_status st' = st_update_hold_previous_status st
     \<and> st_update_install_active st' = st_update_install_active st
     \<and> st_management_operation_active st' = st_management_operation_active st
     \<and> is_running (ss_state (st_status st')) = is_running (ss_state (st_status st))
     \<and> (st_repository_operation st' = st_repository_operation st
        \<or> \<not> repository_operation_running st \<and> st_repository_operation st' = ValidationRequired)"

definition adopted :: "request_env \<Rightarrow> runtime \<Rightarrow> runtime \<Rightarrow> bool" where
  "adopted env rt rt' \<longleftrightarrow>
     re_elevated env \<and> \<not> update_pending (re_now env) (rt_state rt)
     \<and> (valid_config (rt_config rt) \<longrightarrow> valid_config (rt_config rt'))
     \<and> rt_saved_local rt' = rt_local_config rt'
     \<and> rt_field_resolutions rt' = rt_field_resolutions rt
     \<and> lc_management (rt_local_config rt') = lc_management (rt_local_config rt)
     \<and> lc_schema_version (rt_local_config rt') = lc_schema_version (rt_local_config rt)
     \<and> (\<forall>f. field_locked rt f \<longrightarrow> same_field f (rt_config rt) (rt_config rt'))
     \<and> (verified_repository (rt_config rt) (rt_state rt) \<longrightarrow> verified_repository (rt_config rt') (rt_state rt'))
     \<and> same_activity (rt_state rt) (rt_state rt')"

definition settled :: "request_env \<Rightarrow> response_payload \<Rightarrow> runtime \<Rightarrow> runtime \<Rightarrow> bool" where
  "settled env response rt rt' \<longleftrightarrow>
     (\<exists>c m. response = Rejected c m) \<and> untouched rt rt' \<or> (\<exists>m. response = Accepted m) \<and> adopted env rt rt'"

text \<open>The active configuration is the one that a restart under the same policy would compute.\<close>

definition consistent :: "managed_policy option \<Rightarrow> runtime \<Rightarrow> bool" where
  "consistent policy rt \<longleftrightarrow>
     rt_config rt = layered default_effective_config (rt_local_config rt) policy
     \<and> (\<forall>f. field_locked rt f \<longleftrightarrow> policy_locks policy f)"

lemma same_field_refl [simp]: "same_field f c c"
  by (cases f) simp_all

lemma same_field_trans: "same_field f a b \<Longrightarrow> same_field f b c \<Longrightarrow> same_field f a c"
  by (cases f) simp_all

lemma untouched_refl [simp]: "untouched rt rt"
  by (simp add: untouched_def)

lemma same_activity_refl [simp]: "same_activity st st"
  by (simp add: same_activity_def)

lemma field_locked_cong: "rt_field_resolutions rt' = rt_field_resolutions rt \<Longrightarrow> field_locked rt' = field_locked rt"
  by (simp add: field_locked_def fun_eq_iff)

lemma untouchedD:
  assumes "untouched rt rt'"
  shows "rt_config rt' = rt_config rt" "rt_state rt' = rt_state rt" "rt_local_config rt' = rt_local_config rt"
    "rt_saved_local rt' = rt_saved_local rt" "rt_field_resolutions rt' = rt_field_resolutions rt"
    "rt_events rt' = rt_events rt"
proof -
  obtain c s where "rt' = rt\<lparr>rt_credentials := c, rt_saved_state := s\<rparr>"
    using assms unfolding untouched_def by blast
  then show "rt_config rt' = rt_config rt" "rt_state rt' = rt_state rt" "rt_local_config rt' = rt_local_config rt"
    "rt_saved_local rt' = rt_saved_local rt" "rt_field_resolutions rt' = rt_field_resolutions rt"
    "rt_events rt' = rt_events rt"
    by simp_all
qed

locale settings_handler =
  fixes handle :: "request_env \<Rightarrow> 'q \<Rightarrow> runtime \<Rightarrow> response_payload \<times> runtime"
    and stable :: "managed_policy option \<Rightarrow> 'q \<Rightarrow> bool"
  assumes outcome: "handle env q rt = (response, rt') \<Longrightarrow> settled env response rt rt'"
    and refines: "handle env q rt = (Accepted m, rt') \<Longrightarrow> consistent policy rt \<Longrightarrow> stable policy q \<Longrightarrow>
      consistent policy rt'"
begin

lemma step_cases:
  obtains (refused) "untouched rt (snd (handle env q rt))"
  | (accepted) m where "fst (handle env q rt) = Accepted m" "adopted env rt (snd (handle env q rt))"
  using outcome [of env q rt "fst (handle env q rt)" "snd (handle env q rt)"] by (auto simp: settled_def)

lemma step_keeps:
  "rt_field_resolutions (snd (handle env q rt)) = rt_field_resolutions rt"
  "lc_management (rt_local_config (snd (handle env q rt))) = lc_management (rt_local_config rt)"
  "valid_config (rt_config rt) \<Longrightarrow> valid_config (rt_config (snd (handle env q rt)))"
  "field_locked rt f \<Longrightarrow> same_field f (rt_config rt) (rt_config (snd (handle env q rt)))"
  "verified_repository (rt_config rt) (rt_state rt) \<Longrightarrow>
     verified_repository (rt_config (snd (handle env q rt))) (rt_state (snd (handle env q rt)))"
  "rt_saved_local rt = rt_local_config rt \<Longrightarrow>
     rt_saved_local (snd (handle env q rt)) = rt_local_config (snd (handle env q rt))"
  "same_activity (rt_state rt) (rt_state (snd (handle env q rt)))"
  by (cases rule: step_cases [of rt env q]; simp add: adopted_def untouchedD)+

lemma step_consistent:
  "consistent policy rt \<Longrightarrow> stable policy q \<Longrightarrow> consistent policy (snd (handle env q rt))"
proof (cases rule: step_cases [of rt env q])
  case refused
  then show "consistent policy rt \<Longrightarrow> consistent policy (snd (handle env q rt))"
    by (simp add: consistent_def untouchedD field_locked_def)
next
  case (accepted m)
  then show "consistent policy rt \<Longrightarrow> stable policy q \<Longrightarrow> consistent policy (snd (handle env q rt))"
    using refines [of env q rt m "snd (handle env q rt)"] by (cases "handle env q rt") simp
qed

lemma sequence_schema:
  "lc_schema_version (rt_local_config (fold (\<lambda>(env, q) rt. snd (handle env q rt)) requests rt)) =
     lc_schema_version (rt_local_config rt)"
proof (induction requests arbitrary: rt)
  case (Cons request requests)
  obtain env q where "request = (env, q)" by force
  with Cons show ?case
    by (cases rule: step_cases [of rt env q]) (simp_all add: adopted_def untouchedD)
qed simp

lemma sequence_keeps:
  fixes requests :: "(request_env \<times> 'q) list"
  defines "final rt \<equiv> fold (\<lambda>(env, q) rt. snd (handle env q rt)) requests rt"
  shows "field_locked rt f \<Longrightarrow> same_field f (rt_config rt) (rt_config (final rt)) \<and> field_locked (final rt) f"
    and "valid_config (rt_config rt) \<Longrightarrow> valid_config (rt_config (final rt))"
    and "verified_repository (rt_config rt) (rt_state rt) \<Longrightarrow> verified_repository (rt_config (final rt)) (rt_state (final rt))"
    and "rt_saved_local rt = rt_local_config rt \<Longrightarrow> rt_saved_local (final rt) = rt_local_config (final rt)"
    and "consistent policy rt \<Longrightarrow> (\<And>env q. (env, q) \<in> set requests \<Longrightarrow> stable policy q) \<Longrightarrow> consistent policy (final rt)"
  unfolding final_def
proof (induction requests arbitrary: rt)
  case (Cons request requests)
  obtain env q where request: "request = (env, q)" by force
  {
    case 1
    then have "field_locked (snd (handle env q rt)) f"
      by (simp add: field_locked_def step_keeps(1))
    from Cons(1) [OF this] show ?case
      using same_field_trans [OF step_keeps(4) [OF 1, of env q]] unfolding request by simp
  next
    case 2
    with Cons(2) show ?case unfolding request by (simp add: step_keeps)
  next
    case 3
    with Cons(3) show ?case unfolding request by (simp add: step_keeps)
  next
    case 4
    with Cons(4) show ?case unfolding request by (simp add: step_keeps)
  next
    case 5
    with Cons(5) [of "snd (handle env q rt)"] show ?case
      unfolding request by (auto intro: step_consistent)
  }
qed simp_all

end

section \<open>The handlers satisfy the contract\<close>

lemmas refusal_defs = rejected_def administrator_required_def update_blocked_def locked_response_def save_failed_def

lemma settledI:
  "response = Rejected c m \<Longrightarrow> untouched rt rt' \<Longrightarrow> settled env response rt rt'"
  "response = Accepted m \<Longrightarrow> adopted env rt rt' \<Longrightarrow> settled env response rt rt'"
  by (simp_all add: settled_def)

text \<open>A guard that refuses has not fired when the answer is not a refusal.\<close>

lemma passed_guard:
  assumes "\<not> (\<exists>c m. response = Rejected c m \<and> rt' = rt)"
  shows "(if b then (Rejected c m, rt) else k) = (response, rt') \<longleftrightarrow> \<not> b \<and> k = (response, rt')"
  using assms by auto

lemma passed_validation:
  assumes "\<not> (\<exists>c m. response = Rejected c m \<and> rt' = rt)"
  shows "(case validate c of Ok u \<Rightarrow> k | Err e \<Rightarrow> (Rejected c' (describe e), rt) | Panic \<Rightarrow> k) = (response, rt')
    \<longleftrightarrow> valid_config c \<and> k = (response, rt')"
  using assms validate_no_panic [of c] validate_Ok_iff [of c]
  by (cases "validate c") auto

lemma when_some_None [simp]: "when_some None assign s = s"
  by (simp add: when_some_def)

lemma when_some_Some [simp]: "when_some (Some v) assign s = assign v s"
  by (simp add: when_some_def)

lemma verified_repository_cong:
  "identity_from_config c' = identity_from_config c \<Longrightarrow> verified_repository c' st = verified_repository c st"
  by (simp add: verified_repository_def requires_validation_iff) (simp add: identity_from_config_def)

lemma update_update_settings_result:
  assumes "update_update_settings env q rt = (response, rt')"
  obtains (refused) c m where "response = Rejected c m" "rt' = rt"
  | (accepted) m candidate where "response = Accepted m" "re_elevated env" "\<not> field_locked rt UpdateAutomaticInstall"
      "\<not> update_pending (re_now env) (rt_state rt)"
      "candidate = (rt_local_config rt)\<lparr>lc_updates := (lc_updates (rt_local_config rt))\<lparr>lu_automatic_install := Some q\<rparr>\<rparr>"
      "rt' = rt\<lparr>rt_saved_local := candidate, rt_local_config := candidate,
         rt_config := (rt_config rt)\<lparr>ec_updates := (ec_updates (rt_config rt))\<lparr>uc_automatic_install := q\<rparr>\<rparr>\<rparr>"
  using assms that(1) that(2) [OF _ _ _ _ refl]
  unfolding update_update_settings_def refusal_defs Let_def by (auto split: if_splits)

lemma update_settings_settled:
  assumes "update_update_settings env q rt = (response, rt')"
  shows "settled env response rt rt'"
  using assms
proof (cases rule: update_update_settings_result)
  case (refused c m)
  then show ?thesis by (simp add: settled_def)
next
  case (accepted m candidate)
  have "same_field f (rt_config rt) (rt_config rt')" if "field_locked rt f" for f
    using that accepted by (cases f) simp_all
  moreover have "identity_from_config (rt_config rt') = identity_from_config (rt_config rt)"
    using accepted by (simp add: identity_from_config_def)
  ultimately have "adopted env rt rt'"
    using accepted verified_repository_cong [of "rt_config rt'" "rt_config rt"]
    by (simp add: adopted_def valid_config_def)
  with accepted(1) show ?thesis by (simp add: settled_def)
qed

lemma precedence_unlocked: "\<not> is_locked man \<Longrightarrow> precedence d (Some v) man = v"
  by (auto simp: precedence_def is_locked_def split: option.split)

lemma update_settings_consistent:
  assumes "update_update_settings env q rt = (Accepted m, rt')" and "consistent policy rt"
  shows "consistent policy rt'"
  using assms(1)
proof (cases rule: update_update_settings_result)
  case (accepted m' candidate)
  obtain b r s t u where sections: "sections policy = (b, r, s, t, u)"
    by (metis surj_pair)
  then have "\<not> is_locked (mu_automatic_install u)"
    using accepted(3) assms(2) by (simp add: consistent_def)
  with sections accepted assms(2) show ?thesis
    by (simp add: consistent_def layered_def precedence_unlocked field_locked_def)
qed simp

interpretation update_settings: settings_handler update_update_settings "\<lambda>_ _. True"
  by unfold_locales (auto intro: update_settings_settled update_settings_consistent)

lemma locked_request_Some: "locked_request rt (Some v) f \<longleftrightarrow> field_locked rt f"
  by (simp add: locked_request_def)

lemma update_retention_result:
  assumes "update_retention env q rt = (response, rt')"
  obtains (refused) c m where "response = Rejected c m" "rt' = rt"
  | (accepted) candidate effective where "response = Accepted ''Retention policy updated.''" "re_elevated env"
      "\<not> update_pending (re_now env) (rt_state rt)" "valid_config effective"
      "\<not> locked_request rt (tq_daily q) RetentionDaily" "\<not> locked_request rt (tq_weekly q) RetentionWeekly"
      "\<not> locked_request rt (tq_monthly q) RetentionMonthly" "\<not> locked_request rt (tq_yearly q) RetentionYearly"
      "\<not> locked_request rt (tq_prune_interval_days q) RetentionPruneIntervalDays"
      "candidate = (rt_local_config rt)\<lparr>lc_retention := local_retention_edit q (lc_retention (rt_local_config rt))\<rparr>"
      "effective = (rt_config rt)\<lparr>ec_retention := effective_retention_edit q (ec_retention (rt_config rt))\<rparr>"
      "rt' = post_event ConfigurationChanged
         (rt\<lparr>rt_saved_local := candidate, rt_local_config := candidate, rt_config := effective\<rparr>)"
proof (cases "\<exists>c m. response = Rejected c m \<and> rt' = rt")
  case False
  note passed = passed_guard [OF False] passed_validation [OF False]
  from assms show thesis
    unfolding update_retention_def refusal_defs Let_def passed
    by (intro that(2) [OF _ _ _ _ _ _ _ _ _ refl refl]) simp_all
qed (use that(1) in blast)

lemma effective_retention_edit_fields:
  "tc_daily (effective_retention_edit q t) = (case tq_daily q of None \<Rightarrow> tc_daily t | Some v \<Rightarrow> v)"
  "tc_weekly (effective_retention_edit q t) = (case tq_weekly q of None \<Rightarrow> tc_weekly t | Some v \<Rightarrow> v)"
  "tc_monthly (effective_retention_edit q t) = (case tq_monthly q of None \<Rightarrow> tc_monthly t | Some v \<Rightarrow> v)"
  "tc_yearly (effective_retention_edit q t) = (case tq_yearly q of None \<Rightarrow> tc_yearly t | Some v \<Rightarrow> v)"
  "tc_prune_interval_days (effective_retention_edit q t) =
     (case tq_prune_interval_days q of None \<Rightarrow> tc_prune_interval_days t | Some v \<Rightarrow> v)"
  by (simp_all add: effective_retention_edit_def when_some_def split: option.split)

lemma local_retention_edit_fields:
  "lt_daily (local_retention_edit q t) = (case tq_daily q of None \<Rightarrow> lt_daily t | Some v \<Rightarrow> Some v)"
  "lt_weekly (local_retention_edit q t) = (case tq_weekly q of None \<Rightarrow> lt_weekly t | Some v \<Rightarrow> Some v)"
  "lt_monthly (local_retention_edit q t) = (case tq_monthly q of None \<Rightarrow> lt_monthly t | Some v \<Rightarrow> Some v)"
  "lt_yearly (local_retention_edit q t) = (case tq_yearly q of None \<Rightarrow> lt_yearly t | Some v \<Rightarrow> Some v)"
  "lt_prune_interval_days (local_retention_edit q t) =
     (case tq_prune_interval_days q of None \<Rightarrow> lt_prune_interval_days t | Some v \<Rightarrow> Some v)"
  by (simp_all add: local_retention_edit_def when_some_def split: option.split)

lemma update_retention_settled:
  assumes "update_retention env q rt = (response, rt')"
  shows "settled env response rt rt'"
  using assms
proof (cases rule: update_retention_result)
  case (refused c m)
  then show ?thesis by (simp add: settled_def)
next
  case (accepted candidate effective)
  have "same_field f (rt_config rt) (rt_config rt')" if "field_locked rt f" for f
    using that accepted
    by (cases f) (auto simp: effective_retention_edit_fields locked_request_def split: option.splits)
  moreover have "identity_from_config (rt_config rt') = identity_from_config (rt_config rt)"
    using accepted by (simp add: identity_from_config_def)
  ultimately have "adopted env rt rt'"
    using accepted verified_repository_cong [of "rt_config rt'" "rt_config rt"]
    by (simp add: adopted_def)
  with accepted(1) show ?thesis by (simp add: settled_def)
qed

text \<open>A requested value of an unlocked field is the value that resolution would choose.\<close>

lemma precedence_edit:
  "\<not> (requested \<noteq> None \<and> is_locked man) \<Longrightarrow>
     precedence d (case requested of None \<Rightarrow> loc | Some v \<Rightarrow> Some v) man =
       (case requested of None \<Rightarrow> precedence d loc man | Some v \<Rightarrow> v)"
  by (cases requested) (simp_all add: precedence_unlocked)

lemma update_retention_consistent:
  assumes "update_retention env q rt = (Accepted m, rt')" and "consistent policy rt"
  shows "consistent policy rt'"
  using assms(1)
proof (cases rule: update_retention_result)
  case (accepted candidate effective)
  obtain b r s t u where sections: "sections policy = (b, r, s, t, u)"
    by (metis surj_pair)
  then have unlocked: "\<not> (tq_daily q \<noteq> None \<and> is_locked (mt_daily t))" "\<not> (tq_weekly q \<noteq> None \<and> is_locked (mt_weekly t))"
    "\<not> (tq_monthly q \<noteq> None \<and> is_locked (mt_monthly t))" "\<not> (tq_yearly q \<noteq> None \<and> is_locked (mt_yearly t))"
    "\<not> (tq_prune_interval_days q \<noteq> None \<and> is_locked (mt_prune_interval_days t))"
    using accepted(5-9) assms(2) by (simp_all add: consistent_def locked_request_def)
  have "effective = layered default_effective_config candidate policy"
    using assms(2) accepted(10,11) sections
    by (simp add: consistent_def layered_def local_retention_edit_fields precedence_edit [OF unlocked(1)]
        precedence_edit [OF unlocked(2)] precedence_edit [OF unlocked(3)] precedence_edit [OF unlocked(4)]
        precedence_edit [OF unlocked(5)]) (simp add: effective_retention_edit_def when_some_def split: option.split)
  with accepted(12) assms(2) show ?thesis
    by (simp add: consistent_def field_locked_def)
qed simp

interpretation retention_settings: settings_handler update_retention "\<lambda>_ _. True"
  by unfold_locales (auto intro: update_retention_settled update_retention_consistent)

lemma update_schedule_result:
  assumes "update_schedule K env q rt = (response, rt')"
  obtains (refused) c m where "response = Rejected c m" "rt' = rt"
  | (accepted) candidate effective where "response = Accepted ''Backup schedule updated.''" "re_elevated env"
      "\<not> update_pending (re_now env) (rt_state rt)" "valid_config effective"
      "\<not> is_running (ss_state (st_status (rt_state rt)))" "\<not> repository_operation_running (rt_state rt)"
      "\<not> locked_request rt (sq_interval_hours q) ScheduleIntervalHours"
      "\<not> locked_request rt (sq_wake_grace_seconds q) ScheduleWakeGraceSeconds"
      "\<not> locked_request rt (sq_wake_lock_timeout_seconds q) ScheduleWakeLockTimeoutSeconds"
      "\<not> locked_request rt (sq_allow_on_battery q) ScheduleAllowOnBattery"
      "\<not> locked_request rt (sq_allow_metered_network q) ScheduleAllowMeteredNetwork"
      "candidate = (rt_local_config rt)\<lparr>lc_schedule := local_schedule_edit q (lc_schedule (rt_local_config rt))\<rparr>"
      "effective = (rt_config rt)\<lparr>ec_schedule := effective_schedule_edit q (ec_schedule (rt_config rt))\<rparr>"
      "rt' = post_event ConfigurationChanged
         (rt\<lparr>rt_saved_local := candidate, rt_local_config := candidate, rt_config := effective,
            rt_state := apply_configuration_status K effective (re_now env) (rt_state rt)\<rparr>)"
proof (cases "\<exists>c m. response = Rejected c m \<and> rt' = rt")
  case False
  note passed = passed_guard [OF False] passed_validation [OF False]
  from assms show thesis
    unfolding update_schedule_def refusal_defs Let_def passed
    by (intro that(2) [OF _ _ _ _ _ _ _ _ _ _ _ refl refl]) simp_all
qed (use that(1) in blast)

lemma schedule_edit_fields:
  "sc_interval_hours (effective_schedule_edit q s) = (case sq_interval_hours q of None \<Rightarrow> sc_interval_hours s | Some v \<Rightarrow> v)"
  "sc_wake_grace_seconds (effective_schedule_edit q s) =
     (case sq_wake_grace_seconds q of None \<Rightarrow> sc_wake_grace_seconds s | Some v \<Rightarrow> v)"
  "sc_wake_lock_timeout_seconds (effective_schedule_edit q s) =
     (case sq_wake_lock_timeout_seconds q of None \<Rightarrow> sc_wake_lock_timeout_seconds s | Some v \<Rightarrow> v)"
  "sc_allow_on_battery (effective_schedule_edit q s) =
     (case sq_allow_on_battery q of None \<Rightarrow> sc_allow_on_battery s | Some v \<Rightarrow> v)"
  "sc_allow_metered_network (effective_schedule_edit q s) =
     (case sq_allow_metered_network q of None \<Rightarrow> sc_allow_metered_network s | Some v \<Rightarrow> v)"
  "ls_interval_hours (local_schedule_edit q l) = (case sq_interval_hours q of None \<Rightarrow> ls_interval_hours l | Some v \<Rightarrow> Some v)"
  "ls_wake_grace_seconds (local_schedule_edit q l) =
     (case sq_wake_grace_seconds q of None \<Rightarrow> ls_wake_grace_seconds l | Some v \<Rightarrow> Some v)"
  "ls_wake_lock_timeout_seconds (local_schedule_edit q l) =
     (case sq_wake_lock_timeout_seconds q of None \<Rightarrow> ls_wake_lock_timeout_seconds l | Some v \<Rightarrow> Some v)"
  "ls_allow_on_battery (local_schedule_edit q l) =
     (case sq_allow_on_battery q of None \<Rightarrow> ls_allow_on_battery l | Some v \<Rightarrow> Some v)"
  "ls_allow_metered_network (local_schedule_edit q l) =
     (case sq_allow_metered_network q of None \<Rightarrow> ls_allow_metered_network l | Some v \<Rightarrow> Some v)"
  by (simp_all add: effective_schedule_edit_def local_schedule_edit_def when_some_def split: option.split)

lemma apply_configuration_status_running:
  "\<not> is_running (ss_state (st_status st)) \<Longrightarrow>
     is_running (ss_state (st_status (apply_configuration_status K c now st))) = is_running (ss_state (st_status st))"
  by (simp add: apply_configuration_status_not_running)

lemma same_activity_apply:
  "\<not> is_running (ss_state (st_status st)) \<Longrightarrow> same_activity st (apply_configuration_status K c now st)"
  by (simp add: same_activity_def apply_configuration_status_running)

lemma verified_repository_apply [simp]:
  "verified_repository c (apply_configuration_status K c' now st) = verified_repository c st"
  by (simp add: verified_repository_def)

lemma update_schedule_settled:
  assumes "update_schedule K env q rt = (response, rt')"
  shows "settled env response rt rt'"
  using assms
proof (cases rule: update_schedule_result)
  case (refused c m)
  then show ?thesis by (simp add: settled_def)
next
  case (accepted candidate effective)
  have "same_field f (rt_config rt) (rt_config rt')" if "field_locked rt f" for f
    using that accepted
    by (cases f) (auto simp: schedule_edit_fields locked_request_def split: option.splits)
  moreover have "identity_from_config (rt_config rt') = identity_from_config (rt_config rt)"
    using accepted by (simp add: identity_from_config_def)
  ultimately have "adopted env rt rt'"
    using accepted verified_repository_cong [of "rt_config rt'" "rt_config rt"]
    by (simp add: adopted_def same_activity_apply)
  with accepted(1) show ?thesis by (simp add: settled_def)
qed

lemma update_schedule_consistent:
  assumes "update_schedule K env q rt = (Accepted m, rt')" and "consistent policy rt"
  shows "consistent policy rt'"
  using assms(1)
proof (cases rule: update_schedule_result)
  case (accepted candidate effective)
  obtain b r s t u where sections: "sections policy = (b, r, s, t, u)"
    by (metis surj_pair)
  then have unlocked: "\<not> (sq_interval_hours q \<noteq> None \<and> is_locked (ms_interval_hours s))"
    "\<not> (sq_wake_grace_seconds q \<noteq> None \<and> is_locked (ms_wake_grace_seconds s))"
    "\<not> (sq_wake_lock_timeout_seconds q \<noteq> None \<and> is_locked (ms_wake_lock_timeout_seconds s))"
    "\<not> (sq_allow_on_battery q \<noteq> None \<and> is_locked (ms_allow_on_battery s))"
    "\<not> (sq_allow_metered_network q \<noteq> None \<and> is_locked (ms_allow_metered_network s))"
    using accepted(7-11) assms(2) by (simp_all add: consistent_def locked_request_def)
  have "effective = layered default_effective_config candidate policy"
    using assms(2) accepted(12,13) sections
    by (simp add: consistent_def layered_def schedule_edit_fields(6-10) precedence_edit [OF unlocked(1)]
        precedence_edit [OF unlocked(2)] precedence_edit [OF unlocked(3)] precedence_edit [OF unlocked(4)]
        precedence_edit [OF unlocked(5)]) (simp add: effective_schedule_edit_def when_some_def split: option.split)
  with accepted(14) assms(2) show ?thesis
    by (simp add: consistent_def field_locked_def)
qed simp

interpretation schedule_settings: settings_handler "update_schedule K" "\<lambda>_ _. True"
  by unfold_locales (auto intro: update_schedule_settled update_schedule_consistent)

lemma passed_source_check:
  assumes "\<not> (\<exists>c m. response = Rejected c m \<and> rt' = rt)"
  shows "(case validate_backup_source_paths fs sources (Some data) of Ok u \<Rightarrow> k | Err e \<Rightarrow> (source_error_response env e, rt)
      | Panic \<Rightarrow> k) = (response, rt')
    \<longleftrightarrow> (\<forall>s \<in> set sources. acceptable_source fs (protected_paths fs (Some data)) s) \<and> k = (response, rt')"
proof -
  have "\<exists>c m. source_error_response env e = Rejected c m" for e
    by (cases e) (simp_all add: source_error_response_def rejected_def)
  then have "(source_error_response env e, rt) \<noteq> (response, rt')" for e
    using assms by (metis prod.inject)
  then show ?thesis
    using validate_sources_iff [of fs sources "Some data" "()"] validate_sources_no_panic
    by (cases "validate_backup_source_paths fs sources (Some data)") auto
qed

lemma update_backup_sources_result:
  fixes paths :: "path list option" and exclusions :: "string list option" and env :: request_env
  assumes "update_backup_sources K env (paths, exclusions) rt = (response, rt')"
  defines "paths' \<equiv> map_option (deduplicate_paths (fs_lower (re_filesystem env))) paths"
    and "exclusions' \<equiv> map_option deduplicate_exclusions exclusions"
  obtains (refused) c m where "response = Rejected c m" "rt' = rt"
  | (accepted) candidate effective where "response = Accepted ''Backup sources updated.''" "re_elevated env"
      "\<not> update_pending (re_now env) (rt_state rt)" "valid_config effective"
      "\<not> is_running (ss_state (st_status (rt_state rt)))"
      "\<not> locked_request rt paths BackupPaths" "\<not> locked_request rt exclusions BackupExclusions"
      "\<forall>s \<in> set (bc_paths (ec_backup effective)).
         acceptable_source (re_filesystem env) (protected_paths (re_filesystem env) (Some (re_data_directory env))) s"
      "candidate = (rt_local_config rt)\<lparr>lc_backup :=
         when_some exclusions' (\<lambda>v b. b\<lparr>lb_exclusions := Some v\<rparr>)
           (when_some paths' (\<lambda>v b. b\<lparr>lb_paths := Some v\<rparr>) (lc_backup (rt_local_config rt)))\<rparr>"
      "effective = (rt_config rt)\<lparr>ec_backup :=
         when_some exclusions' (\<lambda>v b. b\<lparr>bc_exclusions := v\<rparr>)
           (when_some paths' (\<lambda>v b. b\<lparr>bc_paths := v\<rparr>) (ec_backup (rt_config rt)))\<rparr>"
      "rt' = post_event ConfigurationChanged
         (rt\<lparr>rt_saved_local := candidate, rt_local_config := candidate, rt_config := effective,
            rt_state := apply_configuration_status K effective (re_now env) (rt_state rt)\<rparr>)"
proof (cases "\<exists>c m. response = Rejected c m \<and> rt' = rt")
  case False
  note passed = passed_guard [OF False] passed_validation [OF False] passed_source_check [OF False]
  from assms(1) show thesis
    unfolding update_backup_sources_def refusal_defs Let_def prod.case passed
    by (intro that(2) [OF _ _ _ _ _ _ _ _ refl refl]) (simp_all add: paths'_def exclusions'_def)
qed (use that(1) in blast)

lemma update_backup_sources_settled:
  assumes "update_backup_sources K env q rt = (response, rt')"
  shows "settled env response rt rt'"
proof -
  obtain paths exclusions where "q = (paths, exclusions)" by force
  with assms have "update_backup_sources K env (paths, exclusions) rt = (response, rt')" by simp
  then show ?thesis
  proof (cases rule: update_backup_sources_result)
    case (refused c m)
    then show ?thesis by (simp add: settled_def)
  next
    case (accepted candidate effective)
    have "same_field f (rt_config rt) (rt_config rt')" if "field_locked rt f" for f
      using that accepted
      by (cases f) (auto simp: when_some_def locked_request_def split: option.splits)
    moreover have "identity_from_config (rt_config rt') = identity_from_config (rt_config rt)"
      using accepted by (simp add: identity_from_config_def)
    ultimately have "adopted env rt rt'"
      using accepted verified_repository_cong [of "rt_config rt'" "rt_config rt"]
      by (simp add: adopted_def same_activity_apply)
    with accepted(1) show ?thesis by (simp add: settled_def)
  qed
qed

lemma update_backup_sources_consistent:
  assumes "update_backup_sources K env q rt = (Accepted m, rt')" and "consistent policy rt"
  shows "consistent policy rt'"
proof -
  obtain paths exclusions where "q = (paths, exclusions)" by force
  with assms have "update_backup_sources K env (paths, exclusions) rt = (Accepted m, rt')" by simp
  then show ?thesis
  proof (cases rule: update_backup_sources_result)
    case (accepted candidate effective)
    obtain b r s t u where sections: "sections policy = (b, r, s, t, u)"
      by (metis surj_pair)
    then have "\<not> (paths \<noteq> None \<and> is_locked (mb_paths b))" "\<not> (exclusions \<noteq> None \<and> is_locked (mb_exclusions b))"
      using accepted(6,7) assms(2) by (simp_all add: consistent_def locked_request_def)
    then have "effective = layered default_effective_config candidate policy"
      using assms(2) accepted(9,10) sections
      by (cases paths; cases exclusions) (simp_all add: consistent_def layered_def precedence_unlocked)
    with accepted(11) assms(2) show ?thesis
      by (simp add: consistent_def field_locked_def)
  qed simp
qed

interpretation source_settings: settings_handler "update_backup_sources K" "\<lambda>_ _. True"
  by unfold_locales (auto intro: update_backup_sources_settled update_backup_sources_consistent)

section \<open>Repository settings\<close>

definition secret_start :: "effective_config \<Rightarrow> local_config \<Rightarrow> runtime \<Rightarrow> secret_progress" where
  "secret_start effective candidate rt =
     \<lparr>sp_effective = rc_secret_refs (ec_repository effective),
      sp_local = (case lr_secret_refs (lc_repository candidate) of None \<Rightarrow> [] | Some refs \<Rightarrow> refs),
      sp_retired = [], sp_created = [],
      sp_directory = (case rt_credentials rt of None \<Rightarrow> [] | Some d \<Rightarrow> d)\<rparr>"

lemma commit_repository_result:
  assumes "commit_repository env q changed candidate effective rt = (r, rt1)"
  obtains (refused) c m where "r = Inl (Rejected c m)" "untouched rt rt1"
  | (stored) sp candidate' effective' retired where
      "apply_secret_updates (re_credentials env) 0 (pq_secret_updates q) (secret_start effective candidate rt) = (Ok (), sp)"
      "valid_config effective'"
      "candidate' = (if pq_secret_updates q = [] then candidate
         else candidate\<lparr>lc_repository := (lc_repository candidate)\<lparr>lr_secret_refs := Some (sp_local sp)\<rparr>\<rparr>)"
      "effective' = (if pq_secret_updates q = [] then effective
         else effective\<lparr>ec_repository := (ec_repository effective)\<lparr>rc_secret_refs := sp_effective sp\<rparr>\<rparr>)"
      "r = Inr (candidate', effective', if changed then require_repository_validation (st_service_state (rt_state rt))
         else st_service_state (rt_state rt), retired)"
      "rt_config rt1 = rt_config rt" "rt_state rt1 = rt_state rt" "rt_local_config rt1 = rt_local_config rt"
      "rt_field_resolutions rt1 = rt_field_resolutions rt" "rt_saved_local rt1 = candidate'"
proof -
  obtain stored sp where run: "apply_secret_updates (re_credentials env) 0 (pq_secret_updates q)
      (secret_start effective candidate rt) = (stored, sp)"
    by force
  let ?effective = "if pq_secret_updates q = [] then effective
    else effective\<lparr>ec_repository := (ec_repository effective)\<lparr>rc_secret_refs := sp_effective sp\<rparr>\<rparr>"
  let ?candidate = "if pq_secret_updates q = [] then candidate
    else candidate\<lparr>lc_repository := (lc_repository candidate)\<lparr>lr_secret_refs := Some (sp_local sp)\<rparr>\<rparr>"
  show thesis
  proof (cases "stored = Ok () \<and> valid_config ?effective \<and> (changed \<longrightarrow> re_state_saved env) \<and> re_config_saved env")
    case True
    then have valid: "validate ?effective = Ok ()"
      by (simp add: validate_Ok_iff)
    from True assms show thesis
      unfolding commit_repository_def secret_start_def [symmetric] run Let_def prod.case valid outcome.case
      by (intro stored [OF run [unfolded True [THEN conjunct1]], of ?effective ?candidate
            "filter (\<lambda>r. r \<notin> set (bt_values (sp_effective sp))) (bt_keys (sp_retired sp))"])
        (auto simp: save_service_state_def)
  next
    case False
    from False assms have "\<exists>c m. r = Inl (Rejected c m) \<and> untouched rt rt1"
      using validate_no_panic [of ?effective] validate_Ok_iff [of ?effective "()"]
      unfolding commit_repository_def secret_start_def [symmetric] run Let_def prod.case refusal_defs
      by (cases "validate ?effective") (auto simp: untouched_def save_service_state_def split: if_splits)
    then show thesis using refused by blast
  qed
qed

lemma update_repository_result:
  assumes "update_repository K env q rt = (response, rt')"
  obtains (refused) c m where "response = Rejected c m" "untouched rt rt'"
  | (accepted) changed candidate effective candidate' effective' next_state retired rt1 where
      "response = Accepted ''Repository settings updated.''" "re_elevated env"
      "\<not> update_pending (re_now env) (rt_state rt)"
      "\<not> is_running (ss_state (st_status (rt_state rt)))" "\<not> repository_operation_running (rt_state rt)"
      "\<not> locked_request rt (pq_display_name q) RepositoryDisplayName" "\<not> locked_request rt (pq_url q) RepositoryUrl"
      "\<not> locked_request rt (pq_mode q) RepositoryMode" "\<not> locked_request rt (pq_options q) RepositoryOptions"
      "\<not> (pq_secret_updates q \<noteq> [] \<and> repository_secrets_locked rt)"
      "changed = (pq_url q \<noteq> None \<or> pq_options q \<noteq> None \<or> pq_secret_updates q \<noteq> [])"
      "candidate = (rt_local_config rt)\<lparr>lc_repository := local_repository_edit q (lc_repository (rt_local_config rt))\<rparr>"
      "effective = (rt_config rt)\<lparr>ec_repository := effective_repository_edit q (ec_repository (rt_config rt))\<rparr>"
      "commit_repository env q changed candidate effective rt = (Inr (candidate', effective', next_state, retired), rt1)"
      "rt' = post_event ConfigurationChanged (rt1\<lparr>rt_local_config := candidate', rt_config := effective',
         rt_state := apply_configuration_status K effective' (re_now env)
           (if changed then (rt_state rt1)\<lparr>st_repository_operation := ValidationRequired,
              st_service_state := next_state\<rparr> else rt_state rt1),
         rt_credentials := map_option (remove_all (re_retire env) 0 retired) (rt_credentials rt1)\<rparr>)"
proof (cases "\<exists>c m. response = Rejected c m \<and> untouched rt rt'")
  case False
  then have visible: "\<not> (\<exists>c m. response = Rejected c m \<and> rt' = rt)"
    by auto
  define changed where "changed = (pq_url q \<noteq> None \<or> pq_options q \<noteq> None \<or> pq_secret_updates q \<noteq> [])"
  define candidate where
    "candidate = (rt_local_config rt)\<lparr>lc_repository := local_repository_edit q (lc_repository (rt_local_config rt))\<rparr>"
  define effective where
    "effective = (rt_config rt)\<lparr>ec_repository := effective_repository_edit q (ec_repository (rt_config rt))\<rparr>"
  obtain r rt1 where commit: "commit_repository env q changed candidate effective rt = (r, rt1)"
    by force
  note passed = passed_guard [OF visible] passed_validation [OF visible]
  note facts = assms [unfolded update_repository_def refusal_defs Let_def changed_def [symmetric]
      candidate_def [symmetric] effective_def [symmetric] passed commit]
  show thesis
    using commit
  proof (cases rule: commit_repository_result)
    case (refused c m)
    with facts False show thesis by auto
  next
    case (stored sp candidate' effective' retired)
    show thesis
      by (rule that(2) [OF _ _ _ _ _ _ _ _ _ _ changed_def candidate_def effective_def commit [unfolded stored(5)]])
        (use facts stored(5) in simp_all)
  qed
qed (use that(1) in blast)

lemma repository_edit_fields:
  "rc_display_name (effective_repository_edit q r) =
     (case pq_display_name q of None \<Rightarrow> rc_display_name r | Some v \<Rightarrow> nonempty_trimmed v)"
  "rc_url (effective_repository_edit q r) = (case pq_url q of None \<Rightarrow> rc_url r | Some v \<Rightarrow> nonempty_trimmed v)"
  "rc_mode (effective_repository_edit q r) = (case pq_mode q of None \<Rightarrow> rc_mode r | Some v \<Rightarrow> v)"
  "rc_options (effective_repository_edit q r) = (case pq_options q of None \<Rightarrow> rc_options r | Some v \<Rightarrow> v)"
  "rc_secret_refs (effective_repository_edit q r) = rc_secret_refs r"
  "lr_display_name (local_repository_edit q l) =
     (case pq_display_name q of None \<Rightarrow> lr_display_name l | Some v \<Rightarrow> nonempty_trimmed v)"
  "lr_url (local_repository_edit q l) = (case pq_url q of None \<Rightarrow> lr_url l | Some v \<Rightarrow> nonempty_trimmed v)"
  "lr_mode (local_repository_edit q l) = (case pq_mode q of None \<Rightarrow> lr_mode l | Some v \<Rightarrow> Some v)"
  "lr_options (local_repository_edit q l) = (case pq_options q of None \<Rightarrow> lr_options l | Some v \<Rightarrow> Some v)"
  "lr_secret_refs (local_repository_edit q l) = lr_secret_refs l"
  by (simp_all add: effective_repository_edit_def local_repository_edit_def when_some_def split: option.split)

lemma update_repository_settled:
  assumes "update_repository K env q rt = (response, rt')"
  shows "settled env response rt rt'"
  using assms
proof (cases rule: update_repository_result)
  case (refused c m)
  then show ?thesis by (simp add: settled_def)
next
  case (accepted changed candidate effective candidate' effective' next_state retired rt1)
  from accepted(14) show ?thesis
  proof (cases rule: commit_repository_result)
    case (stored sp candidate'' effective'' retired')
    note fields = stored(6-10) and shape = stored(3-5)
    have "same_field f (rt_config rt) (rt_config rt')" if "field_locked rt f" for f
      using that accepted(6-10,13,15) shape
      by (cases f) (auto simp: repository_edit_fields locked_request_def repository_secrets_locked_def
          split: option.splits)
    moreover have "verified_repository (rt_config rt') (rt_state rt')"
      if "verified_repository (rt_config rt) (rt_state rt)"
    proof (cases changed)
      case True
      with accepted(15) show ?thesis by (simp add: verified_repository_def)
    next
      case False
      with accepted(11,13,15) shape have "identity_from_config (rt_config rt') = identity_from_config (rt_config rt)"
        by (simp add: identity_from_config_def repository_edit_fields)
      with False that accepted(15) fields show ?thesis
        using verified_repository_cong [of effective' "rt_config rt"] by simp
    qed
    moreover have "same_activity (rt_state rt) (rt_state rt')"
      using accepted(4,5,15) fields
      by (cases changed) (simp_all add: same_activity_def apply_configuration_status_not_running)
    ultimately have "adopted env rt rt'"
      using accepted(2,3,12,15) fields shape stored(2) by (simp add: adopted_def)
    with accepted(1) show ?thesis by (simp add: settled_def)
  qed simp
qed

text \<open>
  A repository request that a restart would reproduce: it does not blank a name or address that the
  policy recommends, and the policy does not itself name credential references.
\<close>

definition reproducible :: "managed_policy option \<Rightarrow> repository_request \<Rightarrow> bool" where
  "reproducible policy q =
     (case sections policy of (b, r, s, t, u) \<Rightarrow>
        (\<forall>v. pq_display_name q = Some v \<longrightarrow> nonempty_trimmed v \<noteq> None \<or> mr_display_name r = None)
        \<and> (\<forall>v. pq_url q = Some v \<longrightarrow> nonempty_trimmed v \<noteq> None \<or> mr_url r = None)
        \<and> (pq_secret_updates q \<noteq> [] \<longrightarrow> mr_secret_refs r = None))"

lemma apply_secret_update_parallel:
  assumes "apply_secret_update env u sp = (Ok (), sp')" and "sp_local sp = sp_effective sp"
  shows "sp_local sp' = sp_effective sp'"
proof (cases u)
  case (SetSecret variable v)
  obtain r dir where "put_new env (reference_prefix variable) v (sp_directory sp) = (r, dir)" by force
  with assms SetSecret show ?thesis
    by (cases r) (auto simp: apply_secret_update_def retire_reference_def Let_def split: option.splits)
qed (use assms in \<open>auto simp: apply_secret_update_def retire_reference_def Let_def split: option.splits\<close>)

lemma apply_secret_updates_parallel:
  "apply_secret_updates env n us sp = (Ok (), sp') \<Longrightarrow> sp_local sp = sp_effective sp \<Longrightarrow> sp_local sp' = sp_effective sp'"
proof (induction us arbitrary: n sp)
  case (Cons u us)
  then obtain sp1 where "apply_secret_update (env n) u sp = (Ok (), sp1)"
    "apply_secret_updates env (n + 1) us sp1 = (Ok (), sp')"
    by (auto simp: io_then_iffs)
  with Cons.IH Cons.prems(2) apply_secret_update_parallel show ?case by blast
qed simp

lemma precedence_blank:
  "\<not> (requested \<noteq> None \<and> is_locked man) \<Longrightarrow> (\<And>v. requested = Some v \<Longrightarrow> f v \<noteq> None \<or> man = None) \<Longrightarrow>
     precedence None (map_option Some (case requested of None \<Rightarrow> loc | Some v \<Rightarrow> f v)) man =
       (case requested of None \<Rightarrow> precedence None (map_option Some loc) man | Some v \<Rightarrow> f v)"
  by (cases requested; cases man) (auto simp: precedence_def is_locked_def split: option.split)

lemma update_repository_consistent:
  assumes "update_repository K env q rt = (Accepted m, rt')" and "consistent policy rt" and "reproducible policy q"
  shows "consistent policy rt'"
  using assms(1)
proof (cases rule: update_repository_result)
  case (accepted changed candidate effective candidate' effective' next_state retired rt1)
  obtain b r s t u where sections: "sections policy = (b, r, s, t, u)"
    by (metis surj_pair)
  then have unlocked: "\<not> (pq_display_name q \<noteq> None \<and> is_locked (mr_display_name r))"
    "\<not> (pq_url q \<noteq> None \<and> is_locked (mr_url r))" "\<not> (pq_mode q \<noteq> None \<and> is_locked (mr_mode r))"
    "\<not> (pq_options q \<noteq> None \<and> is_locked (mr_options r))"
    using accepted(6-9) assms(2) by (simp_all add: consistent_def locked_request_def)
  note plain = precedence_blank [OF unlocked(1), of nonempty_trimmed] precedence_blank [OF unlocked(2), of nonempty_trimmed]
  have default: "rc_display_name (ec_repository default_effective_config) = None"
    "rc_url (ec_repository default_effective_config) = None" "rc_secret_refs (ec_repository default_effective_config) = []"
    by (simp_all add: default_effective_config_def)
  have eff: "effective = layered default_effective_config candidate policy"
    using assms(2,3) accepted(12,13) sections
    by (simp add: consistent_def layered_def repository_edit_fields(6-10) default plain reproducible_def
        precedence_edit [OF unlocked(3)] precedence_edit [OF unlocked(4)])
      (simp add: effective_repository_edit_def when_some_def split: option.split)
  from accepted(14) show ?thesis
  proof (cases rule: commit_repository_result)
    case (stored sp candidate'' effective'' retired')
    have "sp_local sp = sp_effective sp \<and> mr_secret_refs r = None" if "pq_secret_updates q \<noteq> []"
    proof -
      from that assms(3) sections have none: "mr_secret_refs r = None" by (simp add: reproducible_def)
      then have "sp_local (secret_start effective candidate rt) = sp_effective (secret_start effective candidate rt)"
        using eff sections by (simp add: secret_start_def layered_def default precedence_def split: option.split)
      with none apply_secret_updates_parallel [OF stored(1)] show ?thesis by blast
    qed
    then have "effective' = layered default_effective_config candidate' policy"
      using eff stored(3-5) sections
      by (cases "pq_secret_updates q = []") (simp_all add: layered_def precedence_def)
    with accepted(15) assms(2) stored(9) show ?thesis
      by (simp add: consistent_def field_locked_def)
  qed simp
qed simp

interpretation repository_settings: settings_handler "update_repository K" reproducible
  by unfold_locales (auto intro: update_repository_settled update_repository_consistent)

section \<open>All settings requests\<close>

datatype settings_request =
    ScheduleRequest schedule_request
  | RetentionRequest retention_request
  | SourcesRequest "path list option" "string list option"
  | RepositoryRequest repository_request
  | UpdateSettingsRequest bool

fun handle_settings :: "chrono \<Rightarrow> request_env \<Rightarrow> settings_request \<Rightarrow> runtime \<Rightarrow> response_payload \<times> runtime" where
  "handle_settings K env (ScheduleRequest q) rt = update_schedule K env q rt"
| "handle_settings K env (RetentionRequest q) rt = update_retention env q rt"
| "handle_settings K env (SourcesRequest paths exclusions) rt = update_backup_sources K env (paths, exclusions) rt"
| "handle_settings K env (RepositoryRequest q) rt = update_repository K env q rt"
| "handle_settings K env (UpdateSettingsRequest automatic_install) rt = update_update_settings env automatic_install rt"

fun reproducible_request :: "managed_policy option \<Rightarrow> settings_request \<Rightarrow> bool" where
  "reproducible_request policy (RepositoryRequest q) = reproducible policy q"
| "reproducible_request policy _ = True"

interpretation settings: settings_handler "handle_settings K" reproducible_request
proof (unfold_locales, goal_cases)
  case (1 env q rt response rt')
  then show ?case
    by (cases q) (auto intro: schedule_settings.outcome retention_settings.outcome source_settings.outcome
        repository_settings.outcome update_settings.outcome)
next
  case (2 env q rt m rt' policy)
  then show ?case
    by (cases q) (auto intro: schedule_settings.refines retention_settings.refines source_settings.refines
        repository_settings.refines update_settings.refines)
qed

section \<open>Properties\<close>

abbreviation after_requests :: "chrono \<Rightarrow> (request_env \<times> settings_request) list \<Rightarrow> runtime \<Rightarrow> runtime" where
  "after_requests K requests \<equiv> fold (\<lambda>(env, q) rt. snd (handle_settings K env q rt)) requests"

text \<open>
  C6. No sequence of settings requests, by whatever clients and with whatever failures of the
  stores, changes a setting that the managed policy locks, makes the active configuration invalid,
  separates it from the saved one, or lets backups run against a repository that was not verified.
\<close>

theorem settings_requests_respect_policy:
  assumes "valid_config (rt_config rt)" and "rt_saved_local rt = rt_local_config rt"
    and "verified_repository (rt_config rt) (rt_state rt)"
  shows "(\<forall>f. field_locked rt f \<longrightarrow> same_field f (rt_config rt) (rt_config (after_requests K requests rt)))
    \<and> valid_config (rt_config (after_requests K requests rt))
    \<and> rt_saved_local (after_requests K requests rt) = rt_local_config (after_requests K requests rt)
    \<and> verified_repository (rt_config (after_requests K requests rt)) (rt_state (after_requests K requests rt))"
  using assms by (auto intro: settings.sequence_keeps settings.sequence_keeps(1) [THEN conjunct1])

theorem settings_requests_respect_policy_witness:
  "valid_config (rt_config (after_requests sample_chrono [] (sample_runtime\<lparr>rt_saved_local := rt_local_config sample_runtime\<rparr>)))"
  using settings_requests_respect_policy [of "sample_runtime\<lparr>rt_saved_local := rt_local_config sample_runtime\<rparr>" sample_chrono "[]"]
    sample_config_valid
  by (simp add: verified_repository_def verified_state_def)

text \<open>
  C32. The configuration that settings requests leave active is the one that the service would
  compute from its files after a restart under the same policy, as long as no request blanks a
  repository name or address that the policy recommends and, when credentials are changed, the
  policy names none itself.
\<close>

theorem settings_match_restart:
  assumes "consistent policy rt" and "rt_saved_local rt = rt_local_config rt" and "valid_config (rt_config rt)"
    and "lc_schema_version (rt_local_config rt) = CONFIG_SCHEMA_VERSION"
    and "\<forall>p. policy = Some p \<longrightarrow> check_managed_policy p = Ok ()"
    and "\<forall>(env, q) \<in> set requests. reproducible_request policy q"
  shows "\<exists>resolved. resolve_config default_effective_config (rt_saved_local (after_requests K requests rt)) policy = Ok resolved
    \<and> rs_effective resolved = rt_config (after_requests K requests rt)"
proof -
  have "consistent policy (after_requests K requests rt)"
    using assms(1,6) by (intro settings.sequence_keeps(5)) auto
  moreover have "rt_saved_local (after_requests K requests rt) = rt_local_config (after_requests K requests rt)"
    and "valid_config (rt_config (after_requests K requests rt))"
    using assms(2,3) by (auto intro: settings.sequence_keeps)
  moreover have "lc_schema_version (rt_local_config (after_requests K requests rt)) = CONFIG_SCHEMA_VERSION"
    using assms(4) by (simp add: settings.sequence_schema)
  ultimately show ?thesis
    using assms(5) by (simp add: consistent_def resolve_config_Ok_iff)
qed

definition blank_url_policy :: managed_policy where
  "blank_url_policy = sample_policy\<lparr>mp_repository := (mp_repository sample_policy)
     \<lparr>mr_url := Some \<lparr>mg_value = Some ''m'', mg_locked = False\<rparr>\<rparr>\<rparr>"

definition managed_sample :: "managed_policy \<Rightarrow> runtime" where
  "managed_sample policy = sample_runtime\<lparr>rt_local_config := sample_local, rt_saved_local := sample_local,
     rt_field_resolutions := origins sample_local (Some policy)\<rparr>"

definition sample_request_env :: request_env where
  "sample_request_env = \<lparr>re_now = 0, re_elevated = True, re_config_saved = True, re_state_saved = True,
     re_credentials = (\<lambda>_. sample_env), re_cleanup = (\<lambda>_. sample_env), re_retire = (\<lambda>_. sample_env),
     re_filesystem = sample_filesystem, re_data_directory = sample_source, re_describe = (\<lambda>_. []),
     re_describe_invocation = (\<lambda>_. [])\<rparr>"

lemma sample_layers:
  "layered default_effective_config sample_local (Some sample_policy) = sample_config"
  "layered default_effective_config sample_local (Some blank_url_policy) = sample_config"
  by (simp_all add: layered_def precedence_def sections_def sample_local_def sample_config_def
      default_effective_config_def default_local_config_def default_schedule_config_def
      default_retention_config_def no_backup_def no_repository_def no_schedule_def blank_url_policy_def
      no_retention_def no_updates_def sample_policy_def default_managed_policy_def policy_updates_def)

lemma origins_field_locked:
  "rt_field_resolutions rt = origins l policy \<Longrightarrow> field_locked rt f \<longleftrightarrow> policy_locks policy f"
  using origins_locked [of l policy f] by (auto simp: field_locked_def)

lemma managed_sample_consistent:
  "consistent (Some sample_policy) (managed_sample sample_policy)"
  "consistent (Some blank_url_policy) (managed_sample blank_url_policy)"
  by (simp_all add: consistent_def managed_sample_def sample_layers origins_field_locked)

theorem settings_match_restart_witness:
  "\<exists>resolved. resolve_config default_effective_config
      (rt_saved_local (after_requests sample_chrono [(sample_request_env, UpdateSettingsRequest True)] (managed_sample sample_policy)))
      (Some sample_policy) = Ok resolved"
proof -
  have "check_managed_policy sample_policy = Ok ()"
    using sample_policy_resolves by (simp add: resolve_config_Ok_iff)
  then show ?thesis
    using settings_match_restart [OF managed_sample_consistent(1), of "[(sample_request_env, UpdateSettingsRequest True)]" sample_chrono]
      sample_config_valid
    by (auto simp: managed_sample_def sample_local_def default_local_config_def)
qed

text \<open>
  C33. Blanking the repository address is answered with success and takes the address out of the
  active configuration, but when the policy recommends an address without locking it, the address
  comes back at the next restart or refresh: the active configuration is then not the one that the
  files describe.
\<close>

theorem blanked_address_comes_back:
  "\<exists>policy rt rt'. consistent (Some policy) rt
    \<and> update_repository sample_chrono sample_request_env
        \<lparr>pq_display_name = None, pq_url = Some [], pq_mode = None, pq_options = None, pq_secret_updates = []\<rparr> rt
        = (Accepted ''Repository settings updated.'', rt')
    \<and> rc_url (ec_repository (rt_config rt')) = None
    \<and> rc_url (ec_repository (layered default_effective_config (rt_saved_local rt') (Some policy))) = Some ''m''"
proof -
  let ?q = "\<lparr>pq_display_name = None, pq_url = Some [], pq_mode = None, pq_options = None, pq_secret_updates = []\<rparr>"
  let ?rt = "managed_sample blank_url_policy"
  let ?c = "sample_config\<lparr>ec_repository := (ec_repository sample_config)\<lparr>rc_url := None\<rparr>\<rparr>"
  have "valid_config ?c"
    using sample_config_valid by (simp add: valid_config_def)
  then have valid: "validate ?c = Ok ()"
    by (simp add: validate_Ok_iff)
  have unlocked: "\<not> field_locked ?rt RepositoryUrl"
    by (simp add: managed_sample_def origins_field_locked sections_def blank_url_policy_def is_locked_def)
  have blank: "nonempty_trimmed [] = None"
    using set_trim [of "[]"] by (simp add: nonempty_trimmed_def)
  let ?local = "sample_local\<lparr>lc_repository := (lc_repository sample_local)\<lparr>lr_url := None\<rparr>\<rparr>"
  obtain rt' where "update_repository sample_chrono sample_request_env ?q ?rt = (Accepted ''Repository settings updated.'', rt')"
    and rt': "rt_config rt' = ?c" "rt_saved_local rt' = ?local"
    using unlocked
    by (simp add: update_repository_def commit_repository_def sample_request_env_def update_pending_def managed_sample_def
        locked_request_def effective_repository_edit_def local_repository_edit_def blank Let_def valid
        repository_operation_running_def)
  moreover have "rc_url (ec_repository (layered default_effective_config ?local (Some blank_url_policy))) = Some ''m''"
    by (simp add: layered_def precedence_def sections_def blank_url_policy_def sample_policy_def default_managed_policy_def
        policy_updates_def sample_local_def default_local_config_def)
  ultimately show ?thesis
    using managed_sample_consistent(2)
    by (intro exI [of _ blank_url_policy] exI [of _ ?rt] exI [of _ rt']) simp
qed

end
