(* ===== verification/Requests.thy ===== *)
theory Requests
  imports Settings
begin

text \<open>
  \<^verbatim>\<open>apps/resticpal-service/src/runtime/ipc.rs\<close>, second part: the requests that start, cancel, defer or
  hold work, and the dispatch of every request to its handler. What the history, the diagnostic
  log, the discovery of user folders and the management client return are arguments.
\<close>

section \<open>Repository operations\<close>

definition begin_repository_operation ::
  "request_env \<Rightarrow> repository_operation_kind \<Rightarrow> runtime \<Rightarrow> response_payload \<times> runtime" where
  "begin_repository_operation env operation rt =
     (let c = rt_config rt; st = rt_state rt; now = re_now env in
      if \<not> re_elevated env then (administrator_required, rt)
      else if rc_url (ec_repository c) = None then
        (rejected ''repository_not_configured'' ''Save a repository URL before testing the connection.'', rt)
      else if bt_get (rc_secret_refs (ec_repository c)) ResticPassword = None then
        (rejected ''repository_password_required''
           ''Store the repository password before testing the connection.'', rt)
      else if operation = InitializeOp \<and> \<not> allowed_in Initialize (rc_mode (ec_repository c)) then
        (rejected ''append_only_initialization_forbidden''
           ''Repository creation is disabled in append-only mode.'', rt)
      else if update_pending now st then
        (rejected ''update_pending'' ''A resticpal update is about to start. Try again after it finishes.'', rt)
      else if is_running (ss_state (st_status st)) then
        (rejected ''backup_running'' ''Wait for the active backup to finish before testing its repository.'', rt)
      else if repository_operation_running st then
        (rejected ''repository_operation_running'' ''A repository operation is already running.'', rt)
      else
        let status = (if is_configured c
              then (transition_state (Waiting RepositoryValidation) now (st_status st))\<lparr>ss_next_deadline := None\<rparr>
              else st_status st);
            s = require_repository_validation (st_service_state st);
            st = st\<lparr>st_repository_operation := OpRunning operation, st_status := status, st_service_state := s\<rparr>
        in if \<not> re_state_saved env then
             (rejected ''state_save_failed'' ''Repository validation state could not be saved.'',
              rt\<lparr>rt_state := st\<lparr>st_repository_operation := OpFailed operation now ''state_save_failed''\<rparr>\<rparr>)
           else
             let rt = save_service_state True s (rt\<lparr>rt_state := st\<rparr>)
             in if \<not> rt_receiver_alive rt then
                  (rejected ''service_stopping'' ''The backup service is stopping. Try again shortly.'',
                   rt\<lparr>rt_state := st\<lparr>st_repository_operation := OpFailed operation now ''service_stopping''\<rparr>\<rparr>)
                else
                  (Accepted (case operation of ValidateOp \<Rightarrow> ''Repository connection test started.''
                     | InitializeOp \<Rightarrow> ''Repository creation started.''),
                   post_event (RepositoryOperationRequested operation) rt))"

section \<open>Updates\<close>

definition MIN_UPDATE_HOLD_SECONDS :: u32 where "MIN_UPDATE_HOLD_SECONDS = 60"
definition MAX_UPDATE_HOLD_SECONDS :: u32 where "MAX_UPDATE_HOLD_SECONDS = UPDATE_INSTALL_TIMEOUT_SECONDS"

text \<open>The state while an update holds the backups until \<open>deadline\<close>.\<close>

definition hold_backups :: "datetime \<Rightarrow> datetime \<Rightarrow> runtime_state \<Rightarrow> runtime_state" where
  "hold_backups now deadline st =
     st\<lparr>st_update_hold_previous_status := (case st_update_hold_previous_status st of
            None \<Rightarrow> Some (ss_state (st_status st), ss_next_deadline (st_status st))
          | Some previous \<Rightarrow> Some previous),
        st_update_hold_until := Some deadline, st_manual_requested := False, st_resumed_at := None,
        st_status := (transition_state (Waiting UpdateWait) now (st_status st))\<lparr>ss_next_deadline := Some deadline\<rparr>\<rparr>"

definition hold_deadline :: "chrono \<Rightarrow> datetime \<Rightarrow> u32 \<Rightarrow> datetime" where
  "hold_deadline K now hold_seconds =
     (case checked_add_signed K now (seconds (uint hold_seconds)) of None \<Rightarrow> now | Some t \<Rightarrow> t)"

definition prepare_for_update :: "chrono \<Rightarrow> request_env \<Rightarrow> u32 \<Rightarrow> runtime \<Rightarrow> response_payload \<times> runtime" where
  "prepare_for_update K env hold_seconds rt =
     (let st = rt_state rt; now = re_now env in
      if \<not> re_elevated env then (administrator_required, rt)
      else if uc_automatic_install (ec_updates (rt_config rt)) then
        (rejected ''automatic_updates_enabled''
           ''This device's effective policy requires the protected service to install updates silently.'', rt)
      else if \<not> (MIN_UPDATE_HOLD_SECONDS \<le> hold_seconds \<and> hold_seconds \<le> MAX_UPDATE_HOLD_SECONDS) then
        (rejected ''invalid_update_hold'' ''The update hold must be between one and 30 minutes.'', rt)
      else if st_update_install_active st then
        (rejected ''update_already_running'' ''The protected service is already installing an update.'', rt)
      else if update_pending now st then
        (rejected ''update_pending'' ''Another update request is already holding backup work.'', rt)
      else if is_running (ss_state (st_status st)) then
        (rejected ''backup_running'' ''Wait for the active backup to finish before installing the update.'', rt)
      else if repository_operation_running st \<or> st_management_operation_active st then
        (rejected ''operation_running'' ''Wait for the current repository or management operation to finish.'', rt)
      else
        (Accepted ''Backups are held briefly while the update starts.'',
         rt\<lparr>rt_state := hold_backups now (hold_deadline K now hold_seconds) st\<rparr>))"

definition begin_update_install ::
  "chrono \<Rightarrow> request_env \<Rightarrow> (string \<Rightarrow> u8 list option) \<Rightarrow> update_package \<Rightarrow> runtime \<Rightarrow> response_payload \<times> runtime" where
  "begin_update_install K env decode package rt =
     (let st = rt_state rt; now = re_now env in
      if \<not> uc_automatic_install (ec_updates (rt_config rt)) then
        (rejected ''automatic_updates_disabled''
           ''Automatic update installation is disabled by this device's effective policy.'', rt)
      else if validate_package decode package \<noteq> Ok () then
        (rejected ''update_metadata_invalid''
           ''The signed update metadata is invalid or does not describe a newer resticpal MSI.'', rt)
      else if st_update_install_active st then
        (rejected ''update_already_running'' ''An update is already being installed.'', rt)
      else if update_pending now st then
        (rejected ''update_pending'' ''A prompted update is already holding backup work.'', rt)
      else if is_running (ss_state (st_status st)) then
        (rejected ''backup_running'' ''The update will be retried after the active backup finishes.'', rt)
      else if repository_operation_running st \<or> st_management_operation_active st then
        (rejected ''operation_running''
           ''The update will be retried after the current service operation finishes.'', rt)
      else
        let held = (hold_backups now (hold_deadline K now MAX_UPDATE_HOLD_SECONDS) st)\<lparr>st_update_install_active := True\<rparr>
        in if \<not> rt_receiver_alive rt then
             let st = held\<lparr>st_update_install_active := False, st_update_hold_until := None,
                   st_update_hold_previous_status := None\<rparr>
             in (rejected ''service_stopping'' ''The backup service is stopping. Try again shortly.'',
                 rt\<lparr>rt_state := (case st_update_hold_previous_status held of
                     None \<Rightarrow> st
                   | Some (previous, previous_deadline) \<Rightarrow> st\<lparr>st_status := (st_status st)\<lparr>ss_state := previous,
                        ss_state_since := now, ss_next_deadline := previous_deadline\<rparr>\<rparr>)\<rparr>)
           else
             (Accepted (''resticpal '' @ up_version package
                @ '' will download and install silently after signature verification.''),
              post_event (UpdateInstallRequested package) (rt\<lparr>rt_state := held\<rparr>)))"

section \<open>Backups on request\<close>

definition run_backup_now :: "request_env \<Rightarrow> runtime \<Rightarrow> response_payload \<times> runtime" where
  "run_backup_now env rt =
     (let st = rt_state rt in
      if \<not> is_configured (rt_config rt) then
        (rejected ''not_configured'' ''Configure backup sources and a repository first.'', rt)
      else if \<not> repository_operation_allows_backup (st_repository_operation st) then
        (rejected ''repository_not_ready''
           ''Validate or initialize the repository before starting a backup.'', rt)
      else if is_running (ss_state (st_status st)) then
        (rejected ''already_running'' ''A backup is already running.'', rt)
      else if update_pending (re_now env) st then
        (rejected ''update_pending'' ''A resticpal update is about to start. Try again after it finishes.'', rt)
      else if rt_receiver_alive rt then
        (Accepted ''Backup requested. Waiting for the service to start.'',
         post_event RunNow (rt\<lparr>rt_state := st\<lparr>st_manual_requested := True, st_not_before := None\<rparr>\<rparr>))
      else
        (rejected ''service_stopping'' ''The backup service is stopping. Try again shortly.'',
         rt\<lparr>rt_state := st\<lparr>st_manual_requested := False, st_not_before := None\<rparr>\<rparr>))"

definition cancel_backup :: "runtime \<Rightarrow> response_payload \<times> runtime" where
  "cancel_backup rt =
     (if is_running (ss_state (st_status (rt_state rt))) then send_event Cancel ''Cancellation requested.'' rt
      else (rejected ''not_running'' ''There is no running backup to cancel.'', rt))"

definition defer_backup :: "chrono \<Rightarrow> request_env \<Rightarrow> u32 \<Rightarrow> runtime \<Rightarrow> response_payload \<times> runtime" where
  "defer_backup K env deferral rt =
     (let st = rt_state rt; now = re_now env in
      if \<not> (1 \<le> deferral \<and> deferral \<le> 24 * 60) then
        (rejected ''invalid_deferral'' ''A deferral must be between one minute and 24 hours.'', rt)
      else if \<not> is_configured (rt_config rt) then
        (rejected ''not_configured'' ''Configure backup sources and a repository first.'', rt)
      else if \<not> repository_operation_allows_backup (st_repository_operation st) then
        (rejected ''repository_not_ready''
           ''Validate or initialize the repository before deferring backups.'', rt)
      else if is_running (ss_state (st_status st)) then
        (rejected ''already_running'' ''A running backup cannot be deferred.'', rt)
      else
        let deadline = (case checked_add_signed K now (minutes (uint deferral)) of None \<Rightarrow> now | Some t \<Rightarrow> t)
        in send_event Deferred ''Backup deferred.''
             (rt\<lparr>rt_state := st\<lparr>st_manual_requested := False, st_not_before := Some deadline,
                st_status := (st_status st)\<lparr>ss_next_deadline := Some deadline\<rparr>\<rparr>\<rparr>))"

section \<open>Dispatch\<close>

definition MAX_DIAGNOSTIC_RESULTS :: nat where "MAX_DIAGNOSTIC_RESULTS = 200"

record dispatch_env = request_env +
  de_history :: "history_error option"
  de_diagnostics :: "nat \<Rightarrow> (unit, diagnostic_entry list) outcome"
  de_discovered :: "(unit, discovered_source list) outcome"
  de_base64 :: "string \<Rightarrow> u8 list option"
  de_parse :: url_parser
  de_client :: "pending_enrollment option"

definition for_administrator :: "dispatch_env \<Rightarrow> runtime \<Rightarrow> response_payload \<Rightarrow> response_payload \<times> runtime" where
  "for_administrator env rt payload = (if re_elevated env then payload else administrator_required, rt)"

definition run_history_response :: "chrono \<Rightarrow> dispatch_env \<Rightarrow> u16 \<Rightarrow> runtime \<Rightarrow> response_payload" where
  "run_history_response K env limit rt =
     (if \<not> (1 \<le> unat limit \<and> unat limit \<le> MAX_HISTORY_RESULTS) then
        rejected ''invalid_history_limit'' ''History requests must contain a limit from 1 through 100.''
      else case history_recent K (de_history env) (unat limit) (rt_history rt) of
        Ok runs \<Rightarrow> RunHistoryResponse runs
      | _ \<Rightarrow> rejected ''history_unavailable'' ''Backup history could not be read from local storage.'')"

definition failure_details_response :: "dispatch_env \<Rightarrow> u64 \<Rightarrow> runtime \<Rightarrow> response_payload" where
  "failure_details_response env run_id rt =
     (case history_failure_details (de_history env) run_id (rt_history rt) of
        Ok (Some details) \<Rightarrow> RunFailureDetailsResponse
          \<lparr>fd_run_id = run_id, fd_items = sd_items details, fd_omitted = sd_omitted details\<rparr>
      | Ok None \<Rightarrow> rejected ''history_run_not_found'' ''The requested backup history entry does not exist.''
      | _ \<Rightarrow> rejected ''history_unavailable'' ''Backup failure details could not be read from local storage.'')"

definition diagnostics_response :: "dispatch_env \<Rightarrow> u16 \<Rightarrow> response_payload" where
  "diagnostics_response env limit =
     (if \<not> (1 \<le> unat limit \<and> unat limit \<le> MAX_DIAGNOSTIC_RESULTS) then
        rejected ''invalid_diagnostics_limit'' ''Diagnostics requests must contain a limit from 1 through 200.''
      else case de_diagnostics env (unat limit) of
        Ok entries \<Rightarrow> DiagnosticsResponse entries
      | _ \<Rightarrow> rejected ''diagnostics_unavailable''
          ''Operational diagnostics could not be read from local storage.'')"

fun dispatch :: "chrono \<Rightarrow> dispatch_env \<Rightarrow> request_command \<Rightarrow> runtime \<Rightarrow> response_payload \<times> runtime" where
  "dispatch K env GetStatus rt = (StatusResponse (st_status (rt_state rt)), rt)"
| "dispatch K env GetManagement rt = for_administrator env rt (ManagementResponse (management_view_of rt))"
| "dispatch K env (Enroll bootstrap_url) rt =
     enroll K (re_now env) (de_parse env) (re_credentials env) (re_cleanup env) (re_config_saved env)
       (re_state_saved env) (de_client env) bootstrap_url (re_elevated env) rt"
| "dispatch K env Unenroll rt =
     unenroll K (re_now env) (re_cleanup env) (re_config_saved env) (re_elevated env) rt"
| "dispatch K env (GetRunHistory limit) rt = (run_history_response K env limit rt, rt)"
| "dispatch K env (GetRunFailureDetails run_id) rt = for_administrator env rt (failure_details_response env run_id rt)"
| "dispatch K env (GetDiagnostics limit) rt = for_administrator env rt (diagnostics_response env limit)"
| "dispatch K env GetBackupSources rt = for_administrator env rt (BackupSourcesResponse (backup_sources_view_of rt))"
| "dispatch K env DiscoverBackupSources rt = for_administrator env rt
     (case de_discovered env of
        Ok sources \<Rightarrow> DiscoveredBackupSourcesResponse sources
      | _ \<Rightarrow> rejected ''source_discovery_failed'' ''Windows user folders could not be discovered.'')"
| "dispatch K env (UpdateBackupSources paths exclusions) rt =
     update_backup_sources K (request_env.truncate env) (paths, exclusions) rt"
| "dispatch K env GetRepository rt = for_administrator env rt (RepositoryResponse (repository_view_of rt))"
| "dispatch K env (UpdateRepository display_name url mode options secret_updates) rt =
     update_repository K (request_env.truncate env)
       \<lparr>pq_display_name = display_name, pq_url = url, pq_mode = mode, pq_options = options,
        pq_secret_updates = secret_updates\<rparr> rt"
| "dispatch K env ValidateRepository rt = begin_repository_operation (request_env.truncate env) ValidateOp rt"
| "dispatch K env InitializeRepository rt = begin_repository_operation (request_env.truncate env) InitializeOp rt"
| "dispatch K env GetSchedule rt = for_administrator env rt (ScheduleResponse (schedule_view_of rt))"
| "dispatch K env (UpdateSchedule interval_hours wake_grace wake_lock_timeout on_battery metered) rt =
     update_schedule K (request_env.truncate env)
       \<lparr>sq_interval_hours = interval_hours, sq_wake_grace_seconds = wake_grace,
        sq_wake_lock_timeout_seconds = wake_lock_timeout, sq_allow_on_battery = on_battery,
        sq_allow_metered_network = metered\<rparr> rt"
| "dispatch K env GetRetention rt = for_administrator env rt (RetentionResponse (retention_view_of rt))"
| "dispatch K env (UpdateRetention daily weekly monthly yearly prune_interval) rt =
     update_retention (request_env.truncate env)
       \<lparr>tq_daily = daily, tq_weekly = weekly, tq_monthly = monthly, tq_yearly = yearly,
        tq_prune_interval_days = prune_interval\<rparr> rt"
| "dispatch K env RunBackupNow rt = run_backup_now (request_env.truncate env) rt"
| "dispatch K env CancelBackup rt = cancel_backup rt"
| "dispatch K env (DeferBackup deferral) rt = defer_backup K (request_env.truncate env) deferral rt"
| "dispatch K env (PrepareForUpdate hold_seconds) rt = prepare_for_update K (request_env.truncate env) hold_seconds rt"
| "dispatch K env GetUpdateSettings rt = (UpdateSettingsResponse (update_settings_view_of rt), rt)"
| "dispatch K env (UpdateUpdateSettings automatic_install) rt =
     update_update_settings (request_env.truncate env) automatic_install rt"
| "dispatch K env (InstallUpdate package) rt =
     begin_update_install K (request_env.truncate env) (de_base64 env) package rt"

definition handle_request :: "chrono \<Rightarrow> dispatch_env \<Rightarrow> request \<Rightarrow> runtime \<Rightarrow> response \<times> runtime" where
  "handle_request K env request rt =
     (let (payload, rt) = dispatch K env (rq_command request) rt
      in (new_response (rq_request_id request) payload, rt))"

section \<open>What a request may change\<close>

text \<open>The commands that any local user may use to change something.\<close>

fun open_to_everyone :: "request_command \<Rightarrow> bool" where
  "open_to_everyone RunBackupNow = True"
| "open_to_everyone CancelBackup = True"
| "open_to_everyone (DeferBackup deferral) = True"
| "open_to_everyone (InstallUpdate package) = True"
| "open_to_everyone _ = False"

text \<open>The part of the runtime that a user without administrator rights cannot influence.\<close>

definition protected_part :: "runtime \<Rightarrow> runtime \<Rightarrow> bool" where
  "protected_part rt rt' \<longleftrightarrow>
     rt_config rt' = rt_config rt \<and> rt_local_config rt' = rt_local_config rt
     \<and> rt_saved_local rt' = rt_saved_local rt \<and> rt_saved_state rt' = rt_saved_state rt
     \<and> rt_field_resolutions rt' = rt_field_resolutions rt \<and> rt_credentials rt' = rt_credentials rt
     \<and> rt_history rt' = rt_history rt \<and> rt_diagnostics rt' = rt_diagnostics rt
     \<and> st_repository_operation (rt_state rt') = st_repository_operation (rt_state rt)
     \<and> st_service_state (rt_state rt') = st_service_state (rt_state rt)
     \<and> st_management_operation_active (rt_state rt') = st_management_operation_active (rt_state rt)
     \<and> ss_last_success (st_status (rt_state rt')) = ss_last_success (st_status (rt_state rt))
     \<and> is_running (ss_state (st_status (rt_state rt'))) = is_running (ss_state (st_status (rt_state rt)))"

lemma protected_part_refl [simp]: "protected_part rt rt"
  by (simp add: protected_part_def)

lemma truncate_elevated [simp]:
  "re_elevated (request_env.truncate env) = re_elevated env" "re_now (request_env.truncate env) = re_now env"
  by (simp_all add: request_env.defs)

lemma run_backup_now_protected: "protected_part rt (snd (run_backup_now env rt))"
  by (simp add: run_backup_now_def Let_def protected_part_def)

lemma cancel_backup_protected: "protected_part rt (snd (cancel_backup rt))"
  by (simp add: cancel_backup_def send_event_def protected_part_def)

lemma defer_backup_protected: "protected_part rt (snd (defer_backup K env deferral rt))"
  by (simp add: defer_backup_def send_event_def Let_def protected_part_def)

lemma hold_backups_fields [simp]:
  "st_repository_operation (hold_backups now deadline st) = st_repository_operation st"
  "st_service_state (hold_backups now deadline st) = st_service_state st"
  "st_management_operation_active (hold_backups now deadline st) = st_management_operation_active st"
  "st_update_install_active (hold_backups now deadline st) = st_update_install_active st"
  "st_update_hold_until (hold_backups now deadline st) = Some deadline"
  "ss_state (st_status (hold_backups now deadline st)) = Waiting UpdateWait"
  "ss_next_deadline (st_status (hold_backups now deadline st)) = Some deadline"
  "ss_last_success (st_status (hold_backups now deadline st)) = ss_last_success (st_status st)"
  "st_update_hold_previous_status (hold_backups now deadline st) =
     (case st_update_hold_previous_status st of
        None \<Rightarrow> Some (ss_state (st_status st), ss_next_deadline (st_status st)) | Some previous \<Rightarrow> Some previous)"
  by (simp_all add: hold_backups_def)

text \<open>A status kept for later is never that of a running backup, so restoring it starts none.\<close>

definition hold_sound :: "runtime_state \<Rightarrow> bool" where
  "hold_sound st \<longleftrightarrow>
     (case st_update_hold_previous_status st of None \<Rightarrow> True | Some (previous, _) \<Rightarrow> \<not> is_running previous)"

lemma begin_update_install_result:
  assumes "begin_update_install K env decode package rt = (response, rt')"
  obtains (refused) c m where "response = Rejected c m" "rt' = rt"
  | (started) "validate_package decode package = Ok ()" "uc_automatic_install (ec_updates (rt_config rt))"
      "\<not> update_pending (re_now env) (rt_state rt)" "\<not> is_running (ss_state (st_status (rt_state rt)))"
      "\<not> repository_operation_running (rt_state rt)" "\<not> st_management_operation_active (rt_state rt)"
      "rt' = post_event (UpdateInstallRequested package) (rt\<lparr>rt_state :=
         (hold_backups (re_now env) (hold_deadline K (re_now env) MAX_UPDATE_HOLD_SECONDS) (rt_state rt))
           \<lparr>st_update_install_active := True\<rparr>\<rparr>)" "rt_receiver_alive rt"
  | (stopping) st previous_state previous_deadline where
      "\<not> update_pending (re_now env) (rt_state rt)" "\<not> is_running (ss_state (st_status (rt_state rt)))"
      "\<not> repository_operation_running (rt_state rt)" "\<not> st_management_operation_active (rt_state rt)"
      "st = hold_backups (re_now env) (hold_deadline K (re_now env) MAX_UPDATE_HOLD_SECONDS) (rt_state rt)"
      "st_update_hold_previous_status st = Some (previous_state, previous_deadline)"
      "rt' = rt\<lparr>rt_state := st\<lparr>st_update_install_active := False, st_update_hold_until := None,
         st_update_hold_previous_status := None, st_status := (st_status st)\<lparr>ss_state := previous_state,
           ss_state_since := re_now env, ss_next_deadline := previous_deadline\<rparr>\<rparr>\<rparr>"
proof (cases "\<exists>c m. response = Rejected c m \<and> rt' = rt")
  case False
  let ?held = "hold_backups (re_now env) (hold_deadline K (re_now env) MAX_UPDATE_HOLD_SECONDS) (rt_state rt)"
  obtain previous_state previous_deadline where
    kept: "st_update_hold_previous_status ?held = Some (previous_state, previous_deadline)"
    by (cases "st_update_hold_previous_status (rt_state rt)") auto
  note facts = assms [unfolded begin_update_install_def rejected_def Let_def passed_guard [OF False]]
  show thesis
  proof (cases "rt_receiver_alive rt")
    case True
    with facts show thesis by (intro started) simp_all
  next
    case False
    with facts kept show thesis
      by (intro stopping [OF _ _ _ _ refl kept]) simp_all
  qed
qed (use refused in blast)

lemma begin_update_install_protected:
  assumes "hold_sound (rt_state rt)"
  shows "protected_part rt (snd (begin_update_install K env decode package rt))"
proof (cases "begin_update_install K env decode package rt")
  case (Pair response rt')
  then show ?thesis
  proof (cases rule: begin_update_install_result)
    case (stopping st previous_state previous_deadline)
    have "\<not> is_running previous_state"
      using stopping(2,5,6) assms by (auto simp: hold_sound_def split: option.splits)
    with stopping Pair show ?thesis by (simp add: protected_part_def)
  qed (simp_all add: Pair protected_part_def)
qed

fun readable_by_everyone :: "request_command \<Rightarrow> bool" where
  "readable_by_everyone GetStatus = True"
| "readable_by_everyone (GetRunHistory limit) = True"
| "readable_by_everyone GetUpdateSettings = True"
| "readable_by_everyone _ = False"

lemma administrator_commands:
  assumes "\<not> re_elevated env" and "\<not> open_to_everyone command"
  shows "snd (dispatch K env command rt) = rt"
    and "\<not> readable_by_everyone command \<Longrightarrow> fst (dispatch K env command rt) = administrator_required"
  using assms
  by (cases command; simp add: for_administrator_def enroll_def unenroll_def update_backup_sources_def
      update_repository_def begin_repository_operation_def update_schedule_def update_retention_def
      prepare_for_update_def update_update_settings_def Let_def)+

lemma prepare_for_update_result:
  assumes "prepare_for_update K env hold_seconds rt = (response, rt')"
  obtains (refused) c m where "response = Rejected c m" "rt' = rt"
  | (held) "response = Accepted ''Backups are held briefly while the update starts.''" "re_elevated env"
      "hold_seconds \<le> MAX_UPDATE_HOLD_SECONDS" "\<not> update_pending (re_now env) (rt_state rt)"
      "\<not> is_running (ss_state (st_status (rt_state rt)))" "\<not> repository_operation_running (rt_state rt)"
      "\<not> st_management_operation_active (rt_state rt)"
      "rt' = rt\<lparr>rt_state := hold_backups (re_now env) (hold_deadline K (re_now env) hold_seconds) (rt_state rt)\<rparr>"
proof (cases "\<exists>c m. response = Rejected c m \<and> rt' = rt")
  case False
  from assms show thesis
    unfolding prepare_for_update_def refusal_defs Let_def passed_guard [OF False]
    by (intro held) simp_all
qed (use refused in blast)

lemma hold_deadline_bound:
  assumes "hold_seconds \<le> MAX_UPDATE_HOLD_SECONDS"
  shows "hold_deadline K now hold_seconds \<le> now + minutes 30"
proof -
  have "uint hold_seconds \<le> 1800"
    using assms by (simp add: MAX_UPDATE_HOLD_SECONDS_def UPDATE_INSTALL_TIMEOUT_SECONDS_def word_le_def)
  then show ?thesis
    by (auto simp: hold_deadline_def checked_add_signed_def duration_defs split: option.split if_splits)
qed

lemma release_after_hold:
  assumes "st_update_hold_previous_status st = None"
  shows "ss_state (st_status (release_update_hold now' (hold_backups now deadline st))) = ss_state (st_status st)"
    and "ss_next_deadline (st_status (release_update_hold now' (hold_backups now deadline st))) = ss_next_deadline (st_status st)"
  using assms by (simp_all add: release_update_hold_def hold_backups_def Let_def)

section \<open>Properties\<close>

text \<open>
  C8. A client without administrator rights gets the administrator refusal from every command
  except the status, the history, the update settings, and the four commands that run, cancel or
  defer a backup or announce an update; no command that is refused or only reads changes anything.
  None of the four reaches the configuration, its files, the credentials, the history, the
  verification of the repository or the running state. The answer carries the identifier of the
  request.
\<close>

theorem unprivileged_requests:
  assumes "\<not> re_elevated env" and "hold_sound (rt_state rt)"
  shows "protected_part rt (snd (handle_request K env request rt))
    \<and> (\<not> open_to_everyone (rq_command request) \<longrightarrow> snd (handle_request K env request rt) = rt)
    \<and> (\<not> open_to_everyone (rq_command request) \<and> \<not> readable_by_everyone (rq_command request) \<longrightarrow>
         rp_payload (fst (handle_request K env request rt)) = administrator_required)
    \<and> rp_request_id (fst (handle_request K env request rt)) = rq_request_id request"
proof -
  have "protected_part rt (snd (dispatch K env (rq_command request) rt))" if "open_to_everyone (rq_command request)"
    using that assms(2)
    by (cases "rq_command request") (simp_all add: run_backup_now_protected cancel_backup_protected
        defer_backup_protected begin_update_install_protected)
  then show ?thesis
    using administrator_commands [OF assms(1), of "rq_command request" K rt]
    by (cases "open_to_everyone (rq_command request)")
      (simp_all add: handle_request_def new_response_def split_beta)
qed

definition sample_dispatch_env :: dispatch_env where
  "sample_dispatch_env = request_env.extend (sample_request_env\<lparr>re_elevated := False\<rparr>)
     \<lparr>de_history = None, de_diagnostics = (\<lambda>_. Err ()), de_discovered = Err (), de_base64 = (\<lambda>_. None),
      de_parse = (\<lambda>_. None), de_client = None\<rparr>"

theorem unprivileged_requests_witness:
  "rp_payload (fst (handle_request sample_chrono sample_dispatch_env (new_request 7 Unenroll) sample_runtime))
     = administrator_required"
  using unprivileged_requests [of sample_dispatch_env sample_runtime sample_chrono "new_request 7 Unenroll"]
  by (simp add: sample_dispatch_env_def request_env.defs sample_request_env_def hold_sound_def new_request_def)

text \<open>
  C34. An update hold is bounded and leaves no trace: it ends at most thirty minutes after it was
  granted; until then no evaluation of the schedule starts a backup or changes anything but the
  published waiting state; and after it the published state and deadline are the earlier ones.
\<close>

theorem update_hold_is_temporary:
  assumes "prepare_for_update K env hold_seconds rt = (Accepted m, held)"
    and "st_update_hold_previous_status (rt_state rt) = None"
  shows "\<exists>deadline. st_update_hold_until (rt_state held) = Some deadline
    \<and> deadline \<le> re_now env + minutes 30
    \<and> (\<forall>now conditions. now < deadline \<longrightarrow>
         evaluate_schedule K now conditions held = Some (NoAction, held))
    \<and> (\<forall>now. \<not> now < deadline \<longrightarrow> \<not> update_pending now (rt_state held)
         \<and> ss_state (st_status (release_update_hold now (rt_state held))) = ss_state (st_status (rt_state rt))
         \<and> ss_next_deadline (st_status (release_update_hold now (rt_state held))) = ss_next_deadline (st_status (rt_state rt)))"
  using assms(1)
proof (cases rule: prepare_for_update_result)
  case held
  let ?deadline = "hold_deadline K (re_now env) hold_seconds"
  have "\<not> st_update_install_active (rt_state rt)"
    using held(4) by (simp add: update_pending_def)
  then have "evaluate_schedule K now conditions held = Some (NoAction, held)" if "now < ?deadline" for now conditions
    using that held(8) by (simp add: evaluate_schedule_def evaluate_state_def transition_state_def)
  with held assms(2) hold_deadline_bound [OF held(3)] \<open>\<not> st_update_install_active (rt_state rt)\<close> show ?thesis
    by (intro exI [of _ ?deadline]) (simp add: release_after_hold update_pending_def)
qed simp

theorem update_hold_is_temporary_witness:
  "\<exists>deadline. st_update_hold_until
      (rt_state (snd (prepare_for_update sample_chrono sample_request_env 60 sample_runtime))) = Some deadline
    \<and> deadline \<le> 0 + minutes 30"
proof -
  obtain m held where "prepare_for_update sample_chrono sample_request_env 60 sample_runtime = (Accepted m, held)"
    by (simp add: prepare_for_update_def sample_request_env_def Let_def sample_config_def default_effective_config_def
        MIN_UPDATE_HOLD_SECONDS_def MAX_UPDATE_HOLD_SECONDS_def UPDATE_INSTALL_TIMEOUT_SECONDS_def update_pending_def
        repository_operation_running_def)
  with update_hold_is_temporary [OF this] show ?thesis
    by (auto simp: sample_request_env_def)
qed

end
