(* ===== verification/ManagementWorker.thy ===== *)
theory ManagementWorker
  imports Enrollment
begin

text \<open>
  The management thread of \<^verbatim>\<open>apps/resticpal-service/src/main.rs\<close>: one iteration of its loop, which
  activates the policy of a new source, refreshes it when that is due and reports the status. A
  monotonic instant is a number of seconds; a panic of the thread is \<open>None\<close>.
\<close>

section \<open>Delays\<close>

definition MANAGEMENT_BUSY_RETRY :: nat where "MANAGEMENT_BUSY_RETRY = 30"

datatype management_refresh_outcome = Synchronized | RuntimeBusy | RefreshFailed

text \<open>A shift by at most six, so the product is below the bound where it would saturate.\<close>

definition backoff_seconds :: "u32 \<Rightarrow> nat" where
  "backoff_seconds failures = 60 * 2 ^ unat (min (saturating_sub failures 1) 6)"

definition management_refresh_delay :: "u32 \<Rightarrow> management_refresh_outcome \<Rightarrow> u32 \<Rightarrow> nat" where
  "management_refresh_delay interval_minutes refreshed failures =
     (let configured = unat interval_minutes * 60 in
      case refreshed of
        Synchronized \<Rightarrow> configured
      | RuntimeBusy \<Rightarrow> MANAGEMENT_BUSY_RETRY
      | RefreshFailed \<Rightarrow> min (backoff_seconds failures) configured)"

section \<open>The loop\<close>

record management_worker =
  mw_sequence :: u64
  mw_source_identity :: "local_management option"
  mw_next_refresh :: nat
  mw_refresh_failures :: u32
  mw_next_report :: nat
  mw_report_failures :: u32
  mw_last_observed_state :: "backup_state option"

definition initial_worker :: "nat \<Rightarrow> management_worker" where
  "initial_worker instant = \<lparr>mw_sequence = 0, mw_source_identity = None, mw_next_refresh = instant,
     mw_refresh_failures = 0, mw_next_report = instant, mw_report_failures = 0, mw_last_observed_state = None\<rparr>"

record worker_env =
  we_instant :: nat
  we_now :: datetime
  we_local :: "(config_store_error, local_config) outcome"
  we_load :: management_env
  we_refresh :: management_env
  we_report :: management_env
  we_state_saved :: bool

text \<open>What the worker shares with the rest of the service: the cache file and the runtime.\<close>

type_synonym worker_state = "management_worker \<times> disk \<times> runtime"

definition apply_loaded ::
  "chrono \<Rightarrow> worker_env \<Rightarrow> local_config \<Rightarrow> loaded_policy \<Rightarrow> u64 \<Rightarrow> runtime \<Rightarrow>
     (management_refresh_outcome \<times> u64 \<times> runtime) option" where
  "apply_loaded K env local loaded sequence rt =
     (case apply_managed_policy_if_current K (we_now env) (we_state_saved env) (lp_policy loaded) (lc_management local) rt of
        (Ok PolicyApplied, rt) \<Rightarrow> Some (Synchronized, lp_sequence loaded, rt)
      | (Ok PolicyRuntimeBusy, rt) \<Rightarrow> Some (RuntimeBusy, sequence, rt)
      | (Ok PolicySourceChanged, rt) \<Rightarrow> Some (Synchronized, sequence, rt)
      | (Err _, rt) \<Rightarrow> Some (RefreshFailed, sequence, rt)
      | (Panic, rt) \<Rightarrow> None)"

definition failures_after :: "management_refresh_outcome \<Rightarrow> u32 \<Rightarrow> u32" where
  "failures_after refreshed failures = (if refreshed = RefreshFailed then saturating_add failures 1 else 0)"

definition activate_source ::
  "chrono \<Rightarrow> management_libraries \<Rightarrow> worker_env \<Rightarrow> target \<Rightarrow> local_config \<Rightarrow> worker_state \<Rightarrow> worker_state option" where
  "activate_source K L env config_path local = (\<lambda>(w, d, rt).
     if mw_source_identity w = Some (lc_management local) then Some (w, d, rt)
     else
       let (result, d) = load_best_policy K L (we_load env) config_path local d;
           applied = (case result of
               Ok (Some loaded) \<Rightarrow> apply_loaded K env local loaded (mw_sequence w) rt
             | Ok None \<Rightarrow> Some (Synchronized, 0, rt)
             | Err _ \<Rightarrow> Some (RefreshFailed, mw_sequence w, rt)
             | Panic \<Rightarrow> None)
       in map_option (\<lambda>(refreshed, sequence, rt).
            let failures = failures_after refreshed 0
            in (w\<lparr>mw_sequence := sequence, mw_refresh_failures := failures,
                  mw_source_identity := Some (lc_management local),
                  mw_next_refresh := we_instant env + management_refresh_delay
                    (refresh_interval_minutes (lc_management local)) refreshed failures,
                  mw_next_report := we_instant env, mw_report_failures := 0, mw_last_observed_state := None\<rparr>, d, rt))
          applied)"

definition refresh_if_due ::
  "chrono \<Rightarrow> management_libraries \<Rightarrow> worker_env \<Rightarrow> target \<Rightarrow> local_config \<Rightarrow> worker_state \<Rightarrow> worker_state option" where
  "refresh_if_due K L env config_path local = (\<lambda>(w, d, rt).
     if \<not> mw_next_refresh w \<le> we_instant env then Some (w, d, rt)
     else
       let (result, d) = refresh_policy K L (we_refresh env) config_path local (mw_sequence w) d;
           applied = (case result of
               Ok loaded \<Rightarrow>
                 if mw_sequence w < lp_sequence loaded then apply_loaded K env local loaded (mw_sequence w) rt
                 else Some (Synchronized, mw_sequence w, rt)
             | Err _ \<Rightarrow> Some (RefreshFailed, mw_sequence w, rt)
             | Panic \<Rightarrow> None)
       in map_option (\<lambda>(refreshed, sequence, rt).
            let failures = failures_after refreshed (mw_refresh_failures w)
            in (w\<lparr>mw_sequence := sequence, mw_refresh_failures := failures,
                  mw_next_refresh := we_instant env + management_refresh_delay
                    (refresh_interval_minutes (lc_management local)) refreshed failures\<rparr>, d, rt))
          applied)"

definition report_if_due :: "worker_env \<Rightarrow> local_config \<Rightarrow> worker_state \<Rightarrow> worker_state option" where
  "report_if_due env local = (\<lambda>(w, d, rt).
     if lm_status_url (lc_management local) = None then Some (w, d, rt)
     else
       let status = st_status (rt_state rt);
           w = (if mw_last_observed_state w \<noteq> Some (ss_state status)
                then w\<lparr>mw_next_report := we_instant env, mw_last_observed_state := Some (ss_state status)\<rparr> else w)
       in if \<not> mw_next_report w \<le> we_instant env then Some (w, d, rt)
          else case report_status (we_report env) (lc_management local) status of
            Ok _ \<Rightarrow> Some (w\<lparr>mw_report_failures := 0, mw_next_report := we_instant env
                  + (if is_running (ss_state status) then 5 * 60 else 6 * 60 * 60)\<rparr>, d, rt)
          | Err _ \<Rightarrow>
              (let failures = saturating_add (mw_report_failures w) 1
               in Some (w\<lparr>mw_report_failures := failures,
                    mw_next_report := we_instant env + backoff_seconds failures\<rparr>, d, rt))
          | Panic \<Rightarrow> None)"

text \<open>One pass of the loop; it is followed by a sleep of thirty seconds.\<close>

definition worker_iteration ::
  "chrono \<Rightarrow> management_libraries \<Rightarrow> worker_env \<Rightarrow> target \<Rightarrow> worker_state \<Rightarrow> worker_state option" where
  "worker_iteration K L env config_path s =
     (case we_local env of
        Panic \<Rightarrow> None
      | Err _ \<Rightarrow> Some s
      | Ok local \<Rightarrow>
          if lm_mode (lc_management local) = Disabled then
            Some (apfst (\<lambda>w. w\<lparr>mw_source_identity := None, mw_sequence := 0, mw_refresh_failures := 0,
              mw_last_observed_state := None\<rparr>) s)
          else Option.bind (activate_source K L env config_path local s) (\<lambda>s.
               Option.bind (refresh_if_due K L env config_path local s) (\<lambda>s.
               report_if_due env local s)))"

section \<open>Timing\<close>






section \<open>Properties\<close>


text \<open>A managed device while a backup runs and after it has ended.\<close>

definition quiet_device :: runtime where
  "quiet_device = sample_runtime\<lparr>rt_local_config := sample_managed_local\<rparr>"

definition busy_device :: runtime where
  "busy_device = quiet_device\<lparr>rt_state := (rt_state quiet_device)\<lparr>st_status :=
     (st_status (rt_state quiet_device))\<lparr>ss_state := Running Uploading\<rparr>\<rparr>\<rparr>"

definition sample_pass :: "nat \<Rightarrow> string \<Rightarrow> worker_env" where
  "sample_pass instant document = \<lparr>we_instant = instant, we_now = 0, we_local = Ok sample_managed_local,
     we_load = sample_server document, we_refresh = sample_server document, we_report = sample_server document,
     we_state_saved = True\<rparr>"

lemma sample_intervals: "refresh_interval_minutes sample_management = 15" "lm_status_url sample_management = None"
    "lm_mode sample_management \<noteq> Disabled"
  by (simp_all add: refresh_interval_minutes_def sample_management_def default_local_management_def)

lemma sample_resolution:
  "resolve_config default_effective_config sample_managed_local (Some sample_policy) = Ok
     \<lparr>rs_effective = sample_config, rs_managed_revision = Some (mp_revision sample_policy),
      rs_fields = origins sample_managed_local (Some sample_policy)\<rparr>"
  unfolding sample_managed_local_def by (rule sample_policy_resolves)

lemma busy_pass:
  obtains w d where "worker_iteration sample_chrono sample_libraries (sample_pass 0 ''d'') (Some ''c'', ''config.toml'')
      (initial_worker 0, empty_disk, busy_device) = Some (w, d, busy_device)"
    "mw_sequence w = 0" "mw_next_refresh w = 30" "mw_source_identity w = Some sample_management" "only_cache d"
    "load_cache sample_chrono sample_libraries (sample_server ''d'') (Some ''c'', ''config.toml'') sample_management d =
       Ok \<lparr>lp_policy = sample_policy, lp_sequence = 12\<rparr>"
proof -
  let ?loaded = "\<lparr>lp_policy = sample_policy, lp_sequence = 12\<rparr>"
  obtain d where d: "load_best_policy sample_chrono sample_libraries (sample_server ''d'') (Some ''c'', ''config.toml'')
      sample_managed_local empty_disk = (Ok (Some ?loaded), d)" "only_cache d"
      "load_cache sample_chrono sample_libraries (sample_server ''d'') (Some ''c'', ''config.toml'') sample_management d = Ok ?loaded"
    by (rule sample_first_load)
  have "apply_loaded sample_chrono (sample_pass 0 ''d'') sample_managed_local ?loaded 0 busy_device = Some (RuntimeBusy, 0, busy_device)"
    by (simp add: apply_loaded_def apply_managed_policy_if_current_def busy_device_def quiet_device_def sample_pass_def
        sample_resolution)
  with d(1) that [OF _ _ _ _ d(2,3)] show thesis
    by (simp add: worker_iteration_def activate_source_def refresh_if_due_def report_if_due_def initial_worker_def
        sample_pass_def sample_managed sample_intervals management_refresh_delay_def MANAGEMENT_BUSY_RETRY_def
        failures_after_def)
qed


text \<open>
  C37. Rollback protection has a gap. A pass that loads a policy while a backup runs puts it into
  the cache but, the runtime being busy, does not note its sequence number. The refresh thirty
  seconds later therefore accepts an older manifest with a valid signature, replaces the newer one
  in the cache and activates it: here number 5 displaces number 12.
\<close>

theorem busy_activation_allows_rollback:
  "\<exists>w d w' d' rt'.
     worker_iteration sample_chrono sample_libraries (sample_pass 0 ''d'') (Some ''c'', ''config.toml'')
       (initial_worker 0, empty_disk, busy_device) = Some (w, d, busy_device)
     \<and> load_cache sample_chrono sample_libraries (sample_server ''d'') (Some ''c'', ''config.toml'') sample_management d =
         Ok \<lparr>lp_policy = sample_policy, lp_sequence = 12\<rparr>
     \<and> worker_iteration sample_chrono sample_libraries (sample_pass 30 ''e'') (Some ''c'', ''config.toml'')
       (w, d, quiet_device) = Some (w', d', rt')
     \<and> load_cache sample_chrono sample_libraries (sample_server ''d'') (Some ''c'', ''config.toml'') sample_management d' =
         Ok \<lparr>lp_policy = sample_policy, lp_sequence = 5\<rparr>
     \<and> mw_sequence w' = 5"
proof -
  obtain w d where first: "worker_iteration sample_chrono sample_libraries (sample_pass 0 ''d'') (Some ''c'', ''config.toml'')
      (initial_worker 0, empty_disk, busy_device) = Some (w, d, busy_device)"
    "mw_sequence w = 0" "mw_next_refresh w = 30" "mw_source_identity w = Some sample_management" "only_cache d"
    "load_cache sample_chrono sample_libraries (sample_server ''d'') (Some ''c'', ''config.toml'') sample_management d =
       Ok \<lparr>lp_policy = sample_policy, lp_sequence = 12\<rparr>"
    by (rule busy_pass)
  obtain d' where saved: "save_cache sample_libraries (sample_server ''e'') (Some ''c'', ''config.toml'') sample_management
      ''e'' d = (Ok (), d')"
    by (rule sample_save [of "''e''" d]) (use first in auto)
  obtain rt' where "apply_loaded sample_chrono (sample_pass 30 ''e'') sample_managed_local
      \<lparr>lp_policy = sample_policy, lp_sequence = 5\<rparr> 0 quiet_device = Some (Synchronized, 5, rt')"
    by (simp add: apply_loaded_def apply_managed_policy_if_current_def quiet_device_def sample_pass_def
        sample_resolution repository_operation_running_def update_pending_def)
  moreover have "refresh_policy sample_chrono sample_libraries (sample_server ''e'') (Some ''c'', ''config.toml'')
      sample_managed_local 0 d = (Ok \<lparr>lp_policy = sample_policy, lp_sequence = 5\<rparr>, d')"
    using sample_fetch [of "''e''" "Some 0"] saved sample_validates
    by (simp add: refresh_policy_def Let_def sample_managed)
  ultimately obtain w' where "worker_iteration sample_chrono sample_libraries (sample_pass 30 ''e'')
      (Some ''c'', ''config.toml'') (w, d, quiet_device) = Some (w', d', rt')" "mw_sequence w' = 5"
    using first(2-4) by (simp add: worker_iteration_def activate_source_def refresh_if_due_def report_if_due_def
        sample_pass_def sample_managed sample_intervals Let_def)
  with first(1,6) sample_saved_cache [OF _ saved] show ?thesis by auto
qed

end
