(* ===== verification/EventLoop.thy ===== *)
theory EventLoop
  imports Requests ManagementWorker
begin

text \<open>
  \<^verbatim>\<open>apps/resticpal-service/src/main.rs\<close>: start-up, the event loop and the worker threads it starts, as a
  transition system over the shared runtime, the loop's own variables and the threads that are
  alive. The request thread serves one client at a time, so a request is one step, except enrolment,
  which the other threads can observe half done. A panic is \<open>None\<close>.
\<close>

section \<open>Service controls and start-up\<close>

datatype power_event = ResumeAutomatic | ResumeSuspend | ResumeCritical | PowerStatusChange | OtherPowerEvent

datatype service_control =
    InterrogateControl | StopControl | ShutdownControl | PowerControl power_event | TimeChangeControl | OtherControl

datatype control_result = ControlHandled | ControlNotImplemented

fun event_handler :: "service_control \<Rightarrow> runtime \<Rightarrow> control_result \<times> runtime" where
  "event_handler InterrogateControl rt = (ControlHandled, rt)"
| "event_handler StopControl rt = (ControlHandled, post_event Stop rt)"
| "event_handler ShutdownControl rt = (ControlHandled, post_event Stop rt)"
| "event_handler (PowerControl ResumeAutomatic) rt = (ControlHandled, post_event Resume rt)"
| "event_handler (PowerControl ResumeSuspend) rt = (ControlHandled, post_event Resume rt)"
| "event_handler (PowerControl ResumeCritical) rt = (ControlHandled, post_event Resume rt)"
| "event_handler (PowerControl PowerStatusChange) rt = (ControlHandled, post_event PowerStatusChanged rt)"
| "event_handler (PowerControl OtherPowerEvent) rt = (ControlNotImplemented, rt)"
| "event_handler TimeChangeControl rt = (ControlHandled, post_event TimeChanged rt)"
| "event_handler OtherControl rt = (ControlNotImplemented, rt)"

definition SHUTDOWN_DRAIN_TIMEOUT :: nat where "SHUTDOWN_DRAIN_TIMEOUT = 10"

fun config_argument :: "string list \<Rightarrow> string option" where
  "config_argument (a # b # rest) = (if a = ''--config'' then Some b else config_argument (b # rest))"
| "config_argument _ = None"

definition program_data_root :: "string option \<Rightarrow> path" where
  "program_data_root program_data =
     push_path (case program_data of None \<Rightarrow> ''C:'' @ [CHR 0x5C] @ ''ProgramData'' | Some p \<Rightarrow> p) ''ResticPal''"

definition default_config_path :: "string option \<Rightarrow> path" where
  "default_config_path program_data = push_path (program_data_root program_data) ''config.toml''"

definition credential_store_path :: "string option \<Rightarrow> path" where
  "credential_store_path program_data = push_path (program_data_root program_data) ''Credentials''"

definition config_path :: "string option \<Rightarrow> string list \<Rightarrow> path" where
  "config_path program_data arguments =
     (case config_argument arguments of None \<Rightarrow> default_config_path program_data | Some p \<Rightarrow> p)"

text \<open>The registry is asked for the size of the value and then for its UTF-16 units.\<close>

datatype registry_answer = RegistryMissing | RegistryFailed | RegistryBytes u32

definition staged_bootstrap_url ::
  "registry_answer \<Rightarrow> (nat \<Rightarrow> u16 list option) \<Rightarrow> (u16 list \<Rightarrow> string option) \<Rightarrow> (unit, string option) outcome" where
  "staged_bootstrap_url answer read_units from_utf16 =
     (case answer of
        RegistryMissing \<Rightarrow> Ok None
      | RegistryFailed \<Rightarrow> Err ()
      | RegistryBytes n \<Rightarrow>
          and_then (ensure (\<not> (\<not> (2 \<le> unat n \<and> unat n \<le> 64 * 1024) \<or> odd (unat n))) ()) (\<lambda>_.
          and_then (ok_or (read_units (unat n div 2)) ()) (\<lambda>buffer.
          and_then (ok_or (from_utf16 (takeWhile (\<lambda>u. u \<noteq> 0) buffer)) ()) (\<lambda>value.
          if value = [] then Ok None else Ok (Some value)))))"

record start_env =
  sv_now :: datetime
  sv_config :: "(config_store_error, local_config) outcome"
  sv_state :: "(state_store_error, service_state) outcome"
  sv_credentials :: "credential_directory option"
  sv_history :: history_db
  sv_load :: management_env
  sv_staged :: "(unit, string option) outcome"
  sv_enroll :: management_env
  sv_calls :: "nat \<Rightarrow> credential_env"
  sv_cleanup :: "nat \<Rightarrow> credential_env"
  sv_config_saved :: bool
  sv_state_saved :: bool

definition ok_value :: "('e, 'a) outcome \<Rightarrow> 'a option" where
  "ok_value r = (case r of Ok v \<Rightarrow> Some v | _ \<Rightarrow> None)"

text \<open>An unreadable configuration does not stop the service.\<close>

definition initial_runtime :: "chrono \<Rightarrow> start_env \<Rightarrow> managed_policy option \<Rightarrow> runtime" where
  "initial_runtime K env managed =
     record_diagnostic Information ''service.started'' ''The resticpal service started.'' None
       (case load_with_credentials_and_policy K (sv_now env) (sv_config env) (sv_state env)
            (sv_credentials env) managed (sv_history env) of
          Ok rt \<Rightarrow> rt
        | _ \<Rightarrow> configuration_error (sv_now env)
            (case ok_value (sv_config env) of None \<Rightarrow> default_local_config | Some local \<Rightarrow> local)
            (ok_value (sv_state env)) (sv_credentials env) (sv_history env))"

text \<open>
  The runtime that the service starts with, and whether the staged bootstrap URL is cleared. A policy
  that cannot be loaded does not stop the service either.
\<close>

definition start_runtime ::
  "chrono \<Rightarrow> management_libraries \<Rightarrow> start_env \<Rightarrow> target \<Rightarrow> disk \<Rightarrow> (runtime \<times> bool \<times> disk) option" where
  "start_runtime K L env path d =
     (let (policy, d) = (case sv_config env of
            Ok local \<Rightarrow> load_best_policy K L (sv_load env) path local d | _ \<Rightarrow> (Ok None, d));
          rt = initial_runtime K env (map_option lp_policy (Option.bind (ok_value policy) id))
      in if policy = Panic then None
         else case sv_staged env of
                Ok (Some url) \<Rightarrow>
                  let (result, rt) = enroll_bootstrap K (sv_now env) (ul_parse (ml_url L)) (sv_calls env) (sv_cleanup env)
                        (sv_config_saved env) (sv_state_saved env) (ok_value (client_enroll K L (sv_enroll env) url)) rt
                  in Some (rt, result = Ok (), d)
              | _ \<Rightarrow> Some (rt, False, d))"

section \<open>The loop\<close>

datatype loop_phase = Serving | Draining | Stopped

text \<open>The backup thread is inside the backup, or inside the retention that follows it.\<close>

datatype backup_stage = BackingUp | Retaining backup_outcome retention_plan

text \<open>
  A cancellation token is \<open>Some cancelled\<close>; the thread fields are \<open>None\<close> when no such thread is alive,
  and \<open>sl_enrolling\<close> says that the request thread is inside an enrolment.
\<close>

record service_loop =
  sl_runtime :: runtime
  sl_active_backup :: "bool option"
  sl_active_repository_operation :: "bool option"
  sl_phase :: loop_phase
  sl_backup_worker :: "backup_stage option"
  sl_repository_worker :: "repository_operation_kind option"
  sl_update_worker :: "update_package option"
  sl_enrolling :: bool

record loop_env =
  le_now :: datetime
  le_evaluated_at :: datetime
  le_ac_line :: "u8 option"
  le_profiles :: "connection_profile list option"
  le_spawned :: bool
  le_history :: "history_error option"
  le_transaction_ok :: bool
  le_state_saved :: bool

definition current_conditions :: "u8 option \<Rightarrow> connection_profile list option \<Rightarrow> system_conditions" where
  "current_conditions ac_line profiles =
     (case query_conditions ac_line profiles of Ok conditions \<Rightarrow> conditions | _ \<Rightarrow> conservative)"

abbreviation finish_backup :: "chrono \<Rightarrow> loop_env \<Rightarrow> backup_outcome \<Rightarrow> runtime \<Rightarrow> runtime option" where
  "finish_backup K env result \<equiv>
     finish_backup_at K (le_now env) (le_history env) (le_transaction_ok env) (le_state_saved env) result"

definition start_backup_worker :: "service_loop \<Rightarrow> service_loop" where
  "start_backup_worker s = s\<lparr>sl_backup_worker := Some BackingUp, sl_runtime :=
     record_diagnostic Information ''backup.started'' ''Backup started.'' None (sl_runtime s)\<rparr>"

definition start_repository_worker :: "repository_operation_kind \<Rightarrow> service_loop \<Rightarrow> service_loop" where
  "start_repository_worker operation s = s\<lparr>sl_repository_worker := Some operation\<rparr>"

definition start_update_worker :: "update_package \<Rightarrow> service_loop \<Rightarrow> service_loop" where
  "start_update_worker package s = s\<lparr>sl_update_worker := Some package, sl_runtime :=
     record_diagnostic Information ''update.started'' ''A signed resticpal update started downloading.'' None
       (sl_runtime s)\<rparr>"

definition evaluate_and_maybe_start :: "chrono \<Rightarrow> loop_env \<Rightarrow> service_loop \<Rightarrow> service_loop option" where
  "evaluate_and_maybe_start K env s =
     (if sl_active_backup s \<noteq> None then Some s
      else Option.bind (evaluate_schedule K (le_evaluated_at env)
          (current_conditions (le_ac_line env) (le_profiles env)) (sl_runtime s)) (\<lambda>(action, rt).
        case action of
          NoAction \<Rightarrow> Some (s\<lparr>sl_runtime := rt\<rparr>)
        | StartBackup trigger \<Rightarrow>
            if le_spawned env then Some (start_backup_worker (s\<lparr>sl_runtime := rt, sl_active_backup := Some False\<rparr>))
            else map_option (\<lambda>rt. s\<lparr>sl_runtime := rt, sl_active_backup := None\<rparr>)
              (finish_backup K env (backup_failed ''executor_start_failed'') rt)))"

definition cancel_token :: "bool option \<Rightarrow> bool option" where
  "cancel_token token = map_option (\<lambda>_. True) token"

fun handle_event :: "chrono \<Rightarrow> loop_env \<Rightarrow> runtime_event \<Rightarrow> service_loop \<Rightarrow> service_loop option" where
  "handle_event K env Stop s =
     Some (s\<lparr>sl_active_backup := cancel_token (sl_active_backup s),
       sl_active_repository_operation := cancel_token (sl_active_repository_operation s), sl_phase := Draining\<rparr>)"
| "handle_event K env RunNow s = evaluate_and_maybe_start K env s"
| "handle_event K env Cancel s = Some (s\<lparr>sl_active_backup := cancel_token (sl_active_backup s)\<rparr>)"
| "handle_event K env (BackupFinished result) s =
     map_option (\<lambda>rt. s\<lparr>sl_runtime := rt, sl_active_backup := None\<rparr>) (finish_backup K env result (sl_runtime s))"
| "handle_event K env (RepositoryOperationRequested operation) s =
     (if sl_active_backup s \<noteq> None \<or> sl_active_repository_operation s \<noteq> None then
        Some (s\<lparr>sl_runtime := finish_repository_operation K (le_now env) (le_state_saved env) operation
          (RepositoryFailed ''repository_operation_conflict'') (sl_runtime s)\<rparr>)
      else if le_spawned env then
        Some (start_repository_worker operation (s\<lparr>sl_active_repository_operation := Some False\<rparr>))
      else
        Some (s\<lparr>sl_runtime := finish_repository_operation K (le_now env) (le_state_saved env) operation
          (RepositoryFailed ''executor_start_failed'') (sl_runtime s), sl_active_repository_operation := None\<rparr>))"
| "handle_event K env (RepositoryOperationFinished operation result) s =
     evaluate_and_maybe_start K env (s\<lparr>sl_runtime :=
       finish_repository_operation K (le_now env) (le_state_saved env) operation result (sl_runtime s),
       sl_active_repository_operation := None\<rparr>)"
| "handle_event K env (UpdateInstallRequested package) s =
     (if sl_active_backup s \<noteq> None \<or> sl_active_repository_operation s \<noteq> None then
        Some (s\<lparr>sl_runtime := finish_update_install (le_now env) (UpdateFailed ''update_operation_conflict'') (sl_runtime s)\<rparr>)
      else if le_spawned env then Some (start_update_worker package s)
      else Some (s\<lparr>sl_runtime :=
        finish_update_install (le_now env) (UpdateFailed ''update_worker_start_failed'') (sl_runtime s)\<rparr>))"
| "handle_event K env (UpdateInstallFinished result) s =
     evaluate_and_maybe_start K env (s\<lparr>sl_runtime := finish_update_install (le_now env) result (sl_runtime s)\<rparr>)"
| "handle_event K env Resume s =
     evaluate_and_maybe_start K env (s\<lparr>sl_runtime := record_resume (le_now env) (sl_runtime s)\<rparr>)"
| "handle_event K env PowerStatusChanged s = evaluate_and_maybe_start K env s"
| "handle_event K env TimeChanged s = evaluate_and_maybe_start K env s"
| "handle_event K env Deferred s = evaluate_and_maybe_start K env s"
| "handle_event K env ConfigurationChanged s = evaluate_and_maybe_start K env s"

text \<open>
  After a stop only the results of cancelled operations are taken; the loop ends when none is
  outstanding or the time for them is over.
\<close>

fun drain_event :: "chrono \<Rightarrow> loop_env \<Rightarrow> runtime_event \<Rightarrow> service_loop \<Rightarrow> service_loop option" where
  "drain_event K env (BackupFinished result) s =
     map_option (\<lambda>rt. s\<lparr>sl_runtime := rt, sl_active_backup := None\<rparr>) (finish_backup K env result (sl_runtime s))"
| "drain_event K env (RepositoryOperationFinished operation result) s =
     Some (s\<lparr>sl_runtime := finish_repository_operation K (le_now env) (le_state_saved env) operation result (sl_runtime s),
       sl_active_repository_operation := None\<rparr>)"
| "drain_event K env _ s = Some s"

definition drain_wanted :: "service_loop \<Rightarrow> bool" where
  "drain_wanted s \<longleftrightarrow> sl_active_backup s \<noteq> None \<or> sl_active_repository_operation s \<noteq> None"

text \<open>The loop takes the first event of the channel.\<close>

definition receive_event :: "chrono \<Rightarrow> loop_env \<Rightarrow> service_loop \<Rightarrow> service_loop option" where
  "receive_event K env s =
     (case rt_events (sl_runtime s) of
        [] \<Rightarrow> None
      | event # events \<Rightarrow>
          let s = s\<lparr>sl_runtime := (sl_runtime s)\<lparr>rt_events := events\<rparr>\<rparr>
          in case sl_phase s of
               Serving \<Rightarrow> handle_event K env event s
             | Draining \<Rightarrow> if drain_wanted s then drain_event K env event s else None
             | Stopped \<Rightarrow> None)"

section \<open>Threads\<close>

definition backup_done :: "datetime \<Rightarrow> backup_outcome \<Rightarrow> service_loop \<Rightarrow> service_loop" where
  "backup_done now result s =
     (if bo_kind result \<in> {BackupSucceeded, BackupSucceededWithWarnings} then
        (case begin_retention now (sl_runtime s) of
           (Some plan, rt) \<Rightarrow> s\<lparr>sl_runtime := rt, sl_backup_worker := Some (Retaining result plan)\<rparr>
         | (None, rt) \<Rightarrow> s\<lparr>sl_runtime := post_event (BackupFinished result) rt, sl_backup_worker := None\<rparr>)
      else s\<lparr>sl_runtime := post_event (BackupFinished result) (sl_runtime s), sl_backup_worker := None\<rparr>)"

definition retention_done :: "datetime \<Rightarrow> bool \<Rightarrow> backup_outcome \<Rightarrow> retention_outcome \<Rightarrow> service_loop \<Rightarrow> service_loop" where
  "retention_done now saved result retention s =
     (let (result, rt) = finish_retention now saved result retention (sl_runtime s)
      in s\<lparr>sl_runtime := post_event (BackupFinished result) rt, sl_backup_worker := None\<rparr>)"

definition repository_done :: "repository_operation_kind \<Rightarrow> repository_outcome \<Rightarrow> service_loop \<Rightarrow> service_loop" where
  "repository_done operation result s =
     s\<lparr>sl_runtime := post_event (RepositoryOperationFinished operation result) (sl_runtime s), sl_repository_worker := None\<rparr>"

definition update_done :: "update_outcome \<Rightarrow> service_loop \<Rightarrow> service_loop" where
  "update_done result s =
     s\<lparr>sl_runtime := post_event (UpdateInstallFinished result) (sl_runtime s), sl_update_worker := None\<rparr>"

text \<open>
  The steps of the service. The executor, the installer and the clock may answer anything; the clock
  only has to be inside the range of the time library when the schedule is evaluated.
\<close>

inductive service_step :: "chrono \<Rightarrow> service_loop \<Rightarrow> service_loop \<Rightarrow> bool" for K :: chrono where
  request: "service_step K s (s\<lparr>sl_runtime := snd (handle_request K env request (sl_runtime s))\<rparr>)"
    if "sl_phase s \<noteq> Stopped" "\<not> sl_enrolling s" "\<And>url. rq_command request \<noteq> Enroll url"
| begin_enrollment: "service_step K s (s\<lparr>sl_runtime := set_management_active True (sl_runtime s), sl_enrolling := True\<rparr>)"
    if "sl_phase s \<noteq> Stopped" "\<not> sl_enrolling s" "\<not> operation_active now (rt_state (sl_runtime s))"
| end_enrollment: "service_step K s (s\<lparr>sl_runtime := set_management_active False rt, sl_enrolling := False\<rparr>)"
    if "sl_phase s \<noteq> Stopped" "sl_enrolling s"
      "perform_enrollment K now parse calls cleanup config_saved state_saved client (sl_runtime s) = (result, rt)"
| managed_policy: "service_step K s (s\<lparr>sl_runtime := rt\<rparr>)"
    if "sl_phase s \<noteq> Stopped"
      "apply_managed_policy_if_current K now saved policy expected (sl_runtime s) = (result, rt)"
| control: "service_step K s (s\<lparr>sl_runtime := snd (event_handler c (sl_runtime s))\<rparr>)"
    if "sl_phase s \<noteq> Stopped"
| receive: "service_step K s s'"
    if "receive_event K env s = Some s'" "clock_ok K (le_evaluated_at env)"
| wake_up: "service_step K s s'"
    if "sl_phase s = Serving" "evaluate_and_maybe_start K env s = Some s'" "clock_ok K (le_evaluated_at env)"
| end_drain: "service_step K s (s\<lparr>sl_phase := Stopped\<rparr>)"
    if "sl_phase s = Draining"
| backup_progress: "service_step K s (s\<lparr>sl_runtime := update_progress progress (sl_runtime s)\<rparr>)"
    if "sl_phase s \<noteq> Stopped" "sl_backup_worker s = Some BackingUp"
| backup_end: "service_step K s (backup_done now outcome' s)"
    if "sl_phase s \<noteq> Stopped" "sl_backup_worker s = Some BackingUp"
| retention_end: "service_step K s (retention_done now saved outcome' retention s)"
    if "sl_phase s \<noteq> Stopped" "sl_backup_worker s = Some (Retaining outcome' plan)"
| repository_end: "service_step K s (repository_done operation result s)"
    if "sl_phase s \<noteq> Stopped" "sl_repository_worker s = Some operation"
| update_end: "service_step K s (update_done result s)"
    if "sl_phase s \<noteq> Stopped" "sl_update_worker s = Some package"

text \<open>The loop when the service reports itself running.\<close>

definition first_loop :: "runtime \<Rightarrow> service_loop" where
  "first_loop rt = \<lparr>sl_runtime = rt, sl_active_backup = None, sl_active_repository_operation = None,
     sl_phase = Serving, sl_backup_worker = None, sl_repository_worker = None, sl_update_worker = None,
     sl_enrolling = False\<rparr>"

definition service_start :: "chrono \<Rightarrow> service_loop \<Rightarrow> bool" where
  "service_start K s \<longleftrightarrow>
     (\<exists>L env path d rt cleared d'. start_runtime K L env path d = Some (rt, cleared, d') \<and> s = first_loop rt)"

text \<open>Enrolment by request is the composition of its two steps.\<close>

lemma enroll_in_steps:
  "snd (enroll K now parse calls cleanup config_saved state_saved client url elevated rt) =
     (if elevated \<and> valid_utf8 url \<and> \<not> operation_active now (rt_state rt)
      then set_management_active False (snd (perform_enrollment K now parse calls cleanup config_saved state_saved client
        (set_management_active True rt)))
      else rt)"
  by (simp add: enroll_def Let_def split_beta split: outcome.split)

section \<open>Work in flight\<close>

fun repository_kinds :: "runtime_event \<Rightarrow> repository_operation_kind list" where
  "repository_kinds (RepositoryOperationRequested k) = [k]"
| "repository_kinds (RepositoryOperationFinished k result) = [k]"
| "repository_kinds _ = []"

fun is_repository_result :: "runtime_event \<Rightarrow> bool" where
  "is_repository_result (RepositoryOperationFinished k result) = True"
| "is_repository_result _ = False"

fun is_backup_result :: "runtime_event \<Rightarrow> bool" where
  "is_backup_result (BackupFinished result) = True"
| "is_backup_result _ = False"

fun is_update_event :: "runtime_event \<Rightarrow> bool" where
  "is_update_event (UpdateInstallRequested package) = True"
| "is_update_event (UpdateInstallFinished result) = True"
| "is_update_event _ = False"

definition work_event :: "runtime_event \<Rightarrow> bool" where
  "work_event e \<longleftrightarrow> repository_kinds e \<noteq> [] \<or> is_backup_result e \<or> is_update_event e"

definition work_events :: "runtime \<Rightarrow> runtime_event list" where
  "work_events rt = filter work_event (rt_events rt)"

definition running_kinds :: "runtime_state \<Rightarrow> repository_operation_kind list" where
  "running_kinds st = (case st_repository_operation st of OpRunning k \<Rightarrow> [k] | _ \<Rightarrow> [])"

definition repository_work :: "service_loop \<Rightarrow> repository_operation_kind list" where
  "repository_work s =
     (case sl_repository_worker s of None \<Rightarrow> [] | Some k \<Rightarrow> [k])
     @ concat (map repository_kinds (work_events (sl_runtime s)))"

definition alive :: "'a option \<Rightarrow> nat" where
  "alive t = (if t = None then 0 else 1)"

text \<open>What every reachable state satisfies.\<close>

definition loop_inv :: "service_loop \<Rightarrow> bool" where
  "loop_inv s \<longleftrightarrow>
     (let rt = sl_runtime s; st = rt_state rt; running = is_running (ss_state (st_status st)) in
      rt_receiver_alive rt
      \<and> alive (sl_backup_worker s) + length (filter is_backup_result (work_events rt)) = alive (sl_active_backup s)
      \<and> alive (sl_repository_worker s) + length (filter is_repository_result (work_events rt))
          = alive (sl_active_repository_operation s)
      \<and> alive (sl_update_worker s) + length (filter is_update_event (work_events rt))
          \<le> (if st_update_install_active st then 1 else 0)
      \<and> (sl_active_backup s \<noteq> None \<longleftrightarrow> running)
      \<and> (repository_work s = running_kinds st \<or> sl_phase s \<noteq> Serving \<and> repository_work s = [])
      \<and> (running \<longrightarrow> running_kinds st = [] \<and> \<not> st_update_install_active st
           \<and> st_update_hold_previous_status st = None \<and> \<not> sl_enrolling s)
      \<and> (st_update_install_active st \<longrightarrow> running_kinds st = [])
      \<and> (st_management_operation_active st \<longleftrightarrow> sl_enrolling s)
      \<and> (sl_enrolling s \<longrightarrow> running_kinds st = [])
      \<and> hold_sound st)"

section \<open>Steps that start or end nothing\<close>

definition activity_kept :: "runtime \<Rightarrow> runtime \<Rightarrow> bool" where
  "activity_kept rt rt' \<longleftrightarrow>
     same_activity (rt_state rt) (rt_state rt') \<and> rt_receiver_alive rt' = rt_receiver_alive rt
     \<and> work_events rt' = work_events rt"

lemma activity_kept_refl [simp]: "activity_kept rt rt"
  by (simp add: activity_kept_def)

lemma running_kinds_iff: "running_kinds st = [] \<longleftrightarrow> \<not> repository_operation_running st"
  by (auto simp: running_kinds_def repository_operation_running_def split: repository_operation_status.splits)

lemma running_kinds_update [simp]:
  "running_kinds (st\<lparr>st_update_install_active := b\<rparr>) = running_kinds st"
  "running_kinds (st\<lparr>st_update_hold_until := u\<rparr>) = running_kinds st"
  "running_kinds (st\<lparr>st_update_hold_previous_status := h\<rparr>) = running_kinds st"
  "running_kinds (st\<lparr>st_status := status\<rparr>) = running_kinds st"
  "running_kinds (st\<lparr>st_management_operation_active := b\<rparr>) = running_kinds st"
  by (simp_all add: running_kinds_def)

lemma hold_sound_update [simp]:
  "hold_sound (st\<lparr>st_update_install_active := b\<rparr>) = hold_sound st"
  "hold_sound (st\<lparr>st_status := status\<rparr>) = hold_sound st"
  "hold_sound (st\<lparr>st_management_operation_active := b\<rparr>) = hold_sound st"
  "hold_sound (st\<lparr>st_update_hold_previous_status := None\<rparr>)"
  by (simp_all add: hold_sound_def)

lemma work_events_update [simp]: "work_events (rt\<lparr>rt_state := st\<rparr>) = work_events rt"
  by (simp add: work_events_def)

lemma same_activityD:
  assumes "same_activity st st'"
  shows "running_kinds st' = running_kinds st" "hold_sound st' = hold_sound st"
    "st_update_install_active st' = st_update_install_active st"
    "st_update_hold_previous_status st' = st_update_hold_previous_status st"
    "st_management_operation_active st' = st_management_operation_active st"
    "is_running (ss_state (st_status st')) = is_running (ss_state (st_status st))"
proof -
  from assms show "running_kinds st' = running_kinds st"
    by (cases "st_repository_operation st")
      (auto simp: same_activity_def running_kinds_def repository_operation_running_def)
qed (use assms in \<open>simp_all add: same_activity_def hold_sound_def\<close>)

lemma loop_invD:
  assumes "loop_inv s"
  shows "rt_receiver_alive (sl_runtime s)"
    "alive (sl_backup_worker s) + length (filter is_backup_result (work_events (sl_runtime s))) = alive (sl_active_backup s)"
    "alive (sl_repository_worker s) + length (filter is_repository_result (work_events (sl_runtime s)))
       = alive (sl_active_repository_operation s)"
    "alive (sl_update_worker s) + length (filter is_update_event (work_events (sl_runtime s)))
       \<le> (if st_update_install_active (rt_state (sl_runtime s)) then 1 else 0)"
    "is_running (ss_state (st_status (rt_state (sl_runtime s)))) \<longleftrightarrow> sl_active_backup s \<noteq> None"
    "repository_work s = running_kinds (rt_state (sl_runtime s)) \<or> sl_phase s \<noteq> Serving \<and> repository_work s = []"
    "sl_active_backup s \<noteq> None \<Longrightarrow> running_kinds (rt_state (sl_runtime s)) = []"
    "sl_active_backup s \<noteq> None \<Longrightarrow> \<not> st_update_install_active (rt_state (sl_runtime s))"
    "sl_active_backup s \<noteq> None \<Longrightarrow> st_update_hold_previous_status (rt_state (sl_runtime s)) = None"
    "sl_active_backup s \<noteq> None \<Longrightarrow> \<not> sl_enrolling s"
    "st_update_install_active (rt_state (sl_runtime s)) \<Longrightarrow> running_kinds (rt_state (sl_runtime s)) = []"
    "st_management_operation_active (rt_state (sl_runtime s)) \<longleftrightarrow> sl_enrolling s"
    "sl_enrolling s \<Longrightarrow> running_kinds (rt_state (sl_runtime s)) = []"
    "hold_sound (rt_state (sl_runtime s))"
  using assms unfolding loop_inv_def Let_def by blast+

lemma similar_inv:
  assumes "loop_inv s" and "rt_receiver_alive rt = rt_receiver_alive (sl_runtime s)"
    and "work_events rt = work_events (sl_runtime s)"
    and "running_kinds (rt_state rt) = running_kinds (rt_state (sl_runtime s))"
    and "st_update_install_active (rt_state rt) = st_update_install_active (rt_state (sl_runtime s))"
    and "st_update_hold_previous_status (rt_state rt) = st_update_hold_previous_status (rt_state (sl_runtime s))"
    and "st_management_operation_active (rt_state rt) = st_management_operation_active (rt_state (sl_runtime s))"
    and "is_running (ss_state (st_status (rt_state rt))) = is_running (ss_state (st_status (rt_state (sl_runtime s))))"
  shows "loop_inv (s\<lparr>sl_runtime := rt\<rparr>)"
proof -
  have "hold_sound (rt_state rt) = hold_sound (rt_state (sl_runtime s))"
    using assms(6) by (simp add: hold_sound_def)
  with assms show ?thesis
    by (simp add: loop_inv_def repository_work_def Let_def del: not_None_eq)
qed

lemma activity_kept_inv:
  assumes "loop_inv s" and "activity_kept (sl_runtime s) rt"
  shows "loop_inv (s\<lparr>sl_runtime := rt\<rparr>)"
  by (rule similar_inv [OF assms(1)])
    (use assms(2) in \<open>auto simp: activity_kept_def same_activityD\<close>)

lemma rt_events_post [simp]:
  "rt_events (post_event e rt) = (if rt_receiver_alive rt then rt_events rt @ [e] else rt_events rt)"
  by (simp add: post_event_def)

lemma work_events_post [simp]:
  "work_events (post_event e rt) = (if rt_receiver_alive rt \<and> work_event e then work_events rt @ [e] else work_events rt)"
  by (simp add: work_events_def)

lemma work_event_simps [simp]:
  "work_event (RepositoryOperationRequested k)" "work_event (RepositoryOperationFinished k r)"
  "work_event (UpdateInstallRequested package)" "work_event (UpdateInstallFinished u)" "work_event (BackupFinished b)"
  "\<not> work_event Stop" "\<not> work_event Resume" "\<not> work_event PowerStatusChanged" "\<not> work_event TimeChanged"
  "\<not> work_event RunNow" "\<not> work_event Cancel" "\<not> work_event Deferred" "\<not> work_event ConfigurationChanged"
  by (simp_all add: work_event_def)

lemma work_events_cong: "rt_events rt' = rt_events rt \<Longrightarrow> work_events rt' = work_events rt"
  by (simp add: work_events_def)

lemma untouched_alive: "untouched rt rt' \<Longrightarrow> rt_receiver_alive rt' = rt_receiver_alive rt"
  unfolding untouched_def by (metis runtime.select_convs(11) runtime.surjective runtime.update_convs(6,7))

definition only_announces :: "runtime \<Rightarrow> runtime \<Rightarrow> bool" where
  "only_announces rt rt' \<longleftrightarrow> rt_receiver_alive rt' = rt_receiver_alive rt
     \<and> (rt_events rt' = rt_events rt \<or> rt_events rt' = rt_events rt @ [ConfigurationChanged])"

lemma settings_kept:
  assumes "settled env response rt rt'" and "only_announces rt rt'"
  shows "activity_kept rt rt'"
  using assms unfolding only_announces_def by (auto simp: settled_def adopted_def activity_kept_def work_events_def dest: untouchedD)

lemma update_update_settings_kept: "activity_kept rt (snd (update_update_settings env q rt))"
proof (cases "update_update_settings env q rt")
  case (Pair response rt')
  then have "only_announces rt rt'"
    by (cases rule: update_update_settings_result) (auto simp: only_announces_def)
  with settings_kept [OF update_settings.outcome [OF Pair]] Pair show ?thesis by simp
qed

lemma update_retention_kept: "activity_kept rt (snd (update_retention env q rt))"
proof (cases "update_retention env q rt")
  case (Pair response rt')
  then have "only_announces rt rt'"
    by (cases rule: update_retention_result) (auto simp: only_announces_def)
  with settings_kept [OF retention_settings.outcome [OF Pair]] Pair show ?thesis by simp
qed

lemma update_schedule_kept: "activity_kept rt (snd (update_schedule K env q rt))"
proof (cases "update_schedule K env q rt")
  case (Pair response rt')
  then have "only_announces rt rt'"
    by (cases rule: update_schedule_result) (auto simp: only_announces_def)
  with settings_kept [OF schedule_settings.outcome [OF Pair]] Pair show ?thesis by simp
qed

lemma update_backup_sources_kept: "activity_kept rt (snd (update_backup_sources K env (paths, exclusions) rt))"
proof (cases "update_backup_sources K env (paths, exclusions) rt")
  case (Pair response rt')
  then have "only_announces rt rt'"
    by (cases rule: update_backup_sources_result) (auto simp: only_announces_def)
  with settings_kept [OF source_settings.outcome [OF Pair]] Pair show ?thesis by simp
qed

lemma commit_repository_events:
  "rt_events (snd (commit_repository env q changed candidate effective rt)) = rt_events rt
   \<and> rt_receiver_alive (snd (commit_repository env q changed candidate effective rt)) = rt_receiver_alive rt"
  by (simp add: commit_repository_def Let_def split_beta save_service_state_def split: outcome.split)

lemma update_repository_kept: "activity_kept rt (snd (update_repository K env q rt))"
proof (cases "update_repository K env q rt")
  case (Pair response rt')
  then have "only_announces rt rt'"
  proof (cases rule: update_repository_result)
    case (refused c m)
    then show ?thesis by (auto simp: only_announces_def untouchedD untouched_alive)
  next
    case (accepted changed candidate effective candidate' effective' next_state retired rt1)
    then show ?thesis
      using commit_repository_events [of env q changed candidate effective rt] by (auto simp: only_announces_def)
  qed
  with settings_kept [OF repository_settings.outcome [OF Pair]] Pair show ?thesis by simp
qed

lemma run_backup_now_kept: "activity_kept rt (snd (run_backup_now env rt))"
  by (simp add: run_backup_now_def Let_def activity_kept_def same_activity_def)

lemma cancel_backup_kept: "activity_kept rt (snd (cancel_backup rt))"
  by (simp add: cancel_backup_def send_event_def activity_kept_def)

lemma defer_backup_kept: "activity_kept rt (snd (defer_backup K env deferral rt))"
  by (simp add: defer_backup_def send_event_def Let_def activity_kept_def same_activity_def)

lemma same_activity_idle:
  assumes "\<not> is_running (ss_state (st_status st))" and "same_activity st st'"
  shows "same_activity st (apply_configuration_status K c now st')"
  using assms apply_configuration_status_not_running [of st' K c now]
  by (auto simp: same_activity_def)

lemma adopt_resolved_kept:
  assumes "\<not> is_running (ss_state (st_status (rt_state rt)))" and "\<not> repository_operation_running (rt_state rt)"
  shows "activity_kept rt (adopt_resolved K now saved resolved rt)"
proof -
  have "same_activity (rt_state rt) (rt_state (adopt_resolved K now saved resolved rt))"
    using assms by (auto simp: adopt_resolved_def Let_def intro!: same_activity_idle) (auto simp: same_activity_def)
  then show ?thesis
    by (simp add: activity_kept_def adopt_resolved_def Let_def work_events_def)
qed

lemma activity_kept_trans: "activity_kept a b \<Longrightarrow> activity_kept b c \<Longrightarrow> activity_kept a c"
  by (auto simp: activity_kept_def same_activity_def repository_operation_running_def)

lemma activity_kept_announce: "activity_kept a b \<Longrightarrow> activity_kept a (post_event ConfigurationChanged b)"
  by (simp add: activity_kept_def)

lemma activity_kept_fields:
  "rt_state b' = rt_state b \<Longrightarrow> rt_events b' = rt_events b \<Longrightarrow> rt_receiver_alive b' = rt_receiver_alive b \<Longrightarrow>
   activity_kept a b' = activity_kept a b"
  by (simp add: activity_kept_def work_events_def)

lemma managed_policy_kept:
  assumes "apply_managed_policy_if_current K now saved policy expected rt = (result, rt')"
  shows "activity_kept rt rt'"
proof (cases "resolve_config default_effective_config (rt_local_config rt) (Some policy)")
  case (Ok resolved)
  with assms show ?thesis
    by (auto simp: apply_managed_policy_if_current_def split: if_splits intro!: activity_kept_announce adopt_resolved_kept)
qed (use assms in \<open>auto simp: apply_managed_policy_if_current_def split: if_splits\<close>)

lemma unenroll_kept: "activity_kept rt (snd (unenroll K now cleanup config_saved elevated rt))"
proof (cases "operation_active now (rt_state rt)")
  case True
  then show ?thesis by (simp add: unenroll_def Let_def)
next
  case False
  then have "same_activity (rt_state rt) (apply_configuration_status K c now ((rt_state rt)\<lparr>st_status :=
      (st_status (rt_state rt))\<lparr>ss_managed_revision := None\<rparr>\<rparr>))" for c
    by (intro same_activity_idle) (auto simp: operation_active_def same_activity_def)
  then show ?thesis
    by (auto simp: unenroll_def Let_def activity_kept_def work_events_def split: outcome.split)
qed

lemma perform_enrollment_kept:
  assumes "perform_enrollment K now parse calls cleanup config_saved state_saved client rt = (result, rt')"
    and "\<not> is_running (ss_state (st_status (rt_state rt)))" and "\<not> repository_operation_running (rt_state rt)"
  shows "activity_kept rt rt'"
proof -
  have commit: "activity_kept rt (snd (commit_enrollment K now parse calls cleanup config_saved state_saved pending rt))"
    for pending
  proof (cases "rt_credentials rt")
    case (Some dir)
    obtain r created dir' where run: "enrollment_candidate parse calls (rt_local_config rt) pending ([], dir) = (r, (created, dir'))"
      by (metis surj_pair)
    have adopted: "activity_kept rt (adopt_resolved K now state_saved resolved (rt\<lparr>rt_saved_local := c\<rparr>))" for resolved c
      using adopt_resolved_kept [of "rt\<lparr>rt_saved_local := c\<rparr>"] assms(2,3)
      by (simp add: activity_kept_def) (simp add: work_events_def)
    show ?thesis
      using Some run adopted
      by (cases r) (auto simp: commit_enrollment_def Let_def ensure_def activity_kept_fields [of "rt\<lparr>rt_credentials := x\<rparr>" rt for x]
          intro!: activity_kept_announce split: prod.splits
          simp: activity_kept_fields [of "adopt_resolved K now state_saved resolved rt1\<lparr>rt_local_config := x, rt_credentials := y\<rparr>"
            "adopt_resolved K now state_saved resolved rt1" for resolved rt1 x y])
  qed (simp add: commit_enrollment_def)
  show ?thesis
  proof (cases client)
    case (Some pending)
    with assms(1) have "rt' = snd (commit_enrollment K now parse calls cleanup config_saved state_saved pending rt)"
      by (simp add: perform_enrollment_def)
    with commit show ?thesis by simp
  qed (use assms(1) in \<open>simp add: perform_enrollment_def\<close>)
qed

section \<open>Requests\<close>

lemma begin_repository_operation_result:
  assumes "begin_repository_operation env operation rt = (response, rt')"
  obtains (refused) c m where "response = Rejected c m" "rt' = rt"
  | (admitted) st where "\<not> update_pending (re_now env) (rt_state rt)"
      "\<not> is_running (ss_state (st_status (rt_state rt)))" "\<not> repository_operation_running (rt_state rt)"
      "\<not> is_running (ss_state (st_status st))" "st_update_install_active st = st_update_install_active (rt_state rt)"
      "st_update_hold_previous_status st = st_update_hold_previous_status (rt_state rt)"
      "st_management_operation_active st = st_management_operation_active (rt_state rt)"
      "rt_state rt' = st" "rt_receiver_alive rt' = rt_receiver_alive rt"
      "running_kinds st = [] \<and> rt_events rt' = rt_events rt
       \<or> running_kinds st = [operation] \<and> rt_events rt' = rt_events rt @ [RepositoryOperationRequested operation]"
proof (cases "\<exists>c m. response = Rejected c m \<and> rt' = rt")
  case False
  note facts = assms [unfolded begin_repository_operation_def refusal_defs Let_def passed_guard [OF False]]
  show thesis
    by (rule admitted) (use facts in \<open>auto simp: running_kinds_def split: if_splits\<close>)
qed (use refused in blast)

lemma begin_repository_operation_inv:
  assumes "loop_inv s" and "\<not> sl_enrolling s"
  shows "loop_inv (s\<lparr>sl_runtime := snd (begin_repository_operation env operation (sl_runtime s))\<rparr>)"
proof (cases "begin_repository_operation env operation (sl_runtime s)")
  case (Pair response rt')
  note inv = loop_invD [OF assms(1)]
  from Pair show ?thesis
  proof (cases rule: begin_repository_operation_result)
    case (refused c m)
    with Pair assms show ?thesis by simp
  next
    case (admitted st)
    have idle: "running_kinds (rt_state (sl_runtime s)) = []" "repository_work s = []"
      using admitted(3) inv(6) by (auto simp: running_kinds_iff)
    from admitted(10) show ?thesis
    proof
      assume "running_kinds st = [] \<and> rt_events rt' = rt_events (sl_runtime s)"
      with admitted idle Pair show ?thesis
        by (auto intro!: similar_inv [OF assms(1)] work_events_cong)
    next
      assume new: "running_kinds st = [operation]
        \<and> rt_events rt' = rt_events (sl_runtime s) @ [RepositoryOperationRequested operation]"
      then have events: "work_events rt' = work_events (sl_runtime s) @ [RepositoryOperationRequested operation]"
        by (simp add: work_events_def)
      have "\<not> st_update_install_active (rt_state (sl_runtime s))" "sl_active_backup s = None"
        using admitted(1,2) inv(5) by (auto simp: update_pending_def)
      moreover have "hold_sound st"
        using inv(14) admitted(6) by (simp add: hold_sound_def)
      ultimately show ?thesis
        using new events admitted idle Pair inv(1-4,12) assms(2)
        by (simp add: loop_inv_def Let_def repository_work_def)
    qed
  qed
qed

lemma hold_backups_sound:
  "\<not> is_running (ss_state (st_status st)) \<Longrightarrow> hold_sound st \<Longrightarrow> hold_sound (hold_backups now deadline st)"
  by (auto simp: hold_sound_def split: option.splits)

lemma hold_backups_kinds [simp]: "running_kinds (hold_backups now deadline st) = running_kinds st"
  by (simp add: running_kinds_def)

lemma prepare_for_update_inv:
  assumes "loop_inv s"
  shows "loop_inv (s\<lparr>sl_runtime := snd (prepare_for_update K env hold_seconds (sl_runtime s))\<rparr>)"
proof (cases "prepare_for_update K env hold_seconds (sl_runtime s)")
  case (Pair response rt')
  note inv = loop_invD [OF assms(1)]
  from Pair show ?thesis
  proof (cases rule: prepare_for_update_result)
    case held
    have "sl_active_backup s = None"
      using held(5) inv(5) by simp
    with held Pair inv hold_backups_sound [OF held(5) inv(14)] show ?thesis
      by (simp add: loop_inv_def Let_def repository_work_def work_events_def)
  qed (use Pair assms in simp)
qed

lemma begin_update_install_inv:
  assumes "loop_inv s"
  shows "loop_inv (s\<lparr>sl_runtime := snd (begin_update_install K env decode package (sl_runtime s))\<rparr>)"
proof (cases "begin_update_install K env decode package (sl_runtime s)")
  case (Pair response rt')
  note inv = loop_invD [OF assms(1)]
  from Pair show ?thesis
  proof (cases rule: begin_update_install_result)
    case started
    have "sl_active_backup s = None" "\<not> st_update_install_active (rt_state (sl_runtime s))"
      using started(3,4) inv(5) by (simp_all add: update_pending_def)
    with started Pair inv hold_backups_sound [OF started(4) inv(14)] show ?thesis
      by (simp add: loop_inv_def Let_def repository_work_def running_kinds_iff [of "rt_state (sl_runtime s)"])
  next
    case (stopping st previous_state previous_deadline)
    have "\<not> is_running previous_state"
      using stopping(2,5,6) inv(14) by (auto simp: hold_sound_def split: option.splits)
    moreover have "sl_active_backup s = None" "\<not> st_update_install_active (rt_state (sl_runtime s))"
      using stopping(1,2) inv(5) by (simp_all add: update_pending_def)
    ultimately show ?thesis
      using stopping Pair inv
      by (simp add: loop_inv_def Let_def repository_work_def hold_sound_def running_kinds_def work_events_def)
  qed (use Pair assms in simp)
qed

lemma request_inv:
  assumes "loop_inv s" and "\<not> sl_enrolling s" and "\<And>url. rq_command request \<noteq> Enroll url"
  shows "loop_inv (s\<lparr>sl_runtime := snd (handle_request K env request (sl_runtime s))\<rparr>)"
proof -
  have kept: "loop_inv (s\<lparr>sl_runtime := rt\<rparr>)" if "activity_kept (sl_runtime s) rt" for rt
    using activity_kept_inv [OF assms(1) that] .
  have "loop_inv (s\<lparr>sl_runtime := snd (dispatch K env (rq_command request) (sl_runtime s))\<rparr>)"
    using assms(3)
    by (cases "rq_command request")
      (auto intro: kept begin_repository_operation_inv prepare_for_update_inv begin_update_install_inv
        simp: for_administrator_def assms(1,2) unenroll_kept update_update_settings_kept update_retention_kept
          update_schedule_kept update_backup_sources_kept update_repository_kept run_backup_now_kept
          cancel_backup_kept defer_backup_kept)
  then show ?thesis
    by (simp add: handle_request_def split_beta)
qed

section \<open>Events\<close>

lemma evaluate_state_NoAction_fields:
  assumes "evaluate_state K c now conditions st = Some (NoAction, st')" and "clock_ok K now"
  shows "st_repository_operation st' = st_repository_operation st"
    "st_update_install_active st' = st_update_install_active st"
    "st_management_operation_active st' = st_management_operation_active st"
    "st_update_hold_previous_status st' \<in> {st_update_hold_previous_status st, None}"
proof -
  have decided: "st_repository_operation st' = st_repository_operation st
      \<and> st_update_install_active st' = st_update_install_active st
      \<and> st_management_operation_active st' = st_management_operation_active st
      \<and> st_update_hold_previous_status st' = st_update_hold_previous_status st"
    if "apply_decision now decision st = Some (NoAction, st')" for decision and st :: runtime_state
    using that by (cases decision) (auto simp: apply_decision_def Let_def split: list.splits)
  have "st_repository_operation st' = st_repository_operation st
      \<and> st_update_install_active st' = st_update_install_active st
      \<and> st_management_operation_active st' = st_management_operation_active st
      \<and> st_update_hold_previous_status st' \<in> {st_update_hold_previous_status st, None}"
  proof (cases "ready_to_back_up c now st")
    case True
    then show ?thesis
      by (rule evaluate_state_readyD [OF _ assms(1)]) (auto dest!: decided)
  next
    case False
    then show ?thesis
      using evaluate_state_not_ready [OF False assms(2), of conditions] assms(1) by (auto split: if_splits)
  qed
  then show "st_repository_operation st' = st_repository_operation st"
    "st_update_install_active st' = st_update_install_active st"
    "st_management_operation_active st' = st_management_operation_active st"
    "st_update_hold_previous_status st' \<in> {st_update_hold_previous_status st, None}" by blast+
qed

lemma release_not_running:
  assumes "hold_sound st" and "\<not> is_running (ss_state (st_status st))"
  shows "\<not> is_running (ss_state (st_status (release_update_hold now st)))"
  using assms by (auto simp: release_update_hold_def hold_sound_def Let_def split: option.splits)

lemma running_kinds_allowed: "repository_operation_allows_backup (st_repository_operation st) \<Longrightarrow> running_kinds st = []"
  by (cases "st_repository_operation st") (simp_all add: running_kinds_def)

lemma finish_backup_effect:
  assumes "finish_backup_at K now opened transaction_ok saved result rt = Some rt'"
  shows "\<not> is_running (ss_state (st_status (rt_state rt')))" "running_kinds (rt_state rt') = running_kinds (rt_state rt)"
    "st_update_install_active (rt_state rt') = st_update_install_active (rt_state rt)"
    "st_management_operation_active (rt_state rt') = st_management_operation_active (rt_state rt)"
    "st_update_hold_previous_status (rt_state rt') = st_update_hold_previous_status (rt_state rt)"
    "rt_receiver_alive rt' = rt_receiver_alive rt" "rt_events rt' = rt_events rt"
proof -
  obtain st' where st': "finish_backup_state K (sc_interval_hours (ec_schedule (rt_config rt))) now (bo_kind result)
      (rt_state rt) = Some st'" "rt_state rt' = st'" "rt_receiver_alive rt' = rt_receiver_alive rt" "rt_events rt' = rt_events rt"
    using assms by (auto simp: finish_backup_at_def Let_def split_beta split: if_splits)
  from st'(1) have "\<not> is_running (ss_state (st_status st')) \<and> st_repository_operation st' = st_repository_operation (rt_state rt)
      \<and> st_update_install_active st' = st_update_install_active (rt_state rt)
      \<and> st_management_operation_active st' = st_management_operation_active (rt_state rt)
      \<and> st_update_hold_previous_status st' = st_update_hold_previous_status (rt_state rt)"
    by (cases "bo_kind result") (auto simp: finish_backup_state_def Let_def)
  with st' show "\<not> is_running (ss_state (st_status (rt_state rt')))" "running_kinds (rt_state rt') = running_kinds (rt_state rt)"
    "st_update_install_active (rt_state rt') = st_update_install_active (rt_state rt)"
    "st_management_operation_active (rt_state rt') = st_management_operation_active (rt_state rt)"
    "st_update_hold_previous_status (rt_state rt') = st_update_hold_previous_status (rt_state rt)"
    "rt_receiver_alive rt' = rt_receiver_alive rt" "rt_events rt' = rt_events rt"
    by (simp_all add: running_kinds_def)
qed

lemma evaluate_inv:
  assumes "loop_inv s" and "evaluate_and_maybe_start K env s = Some s'" and "clock_ok K (le_evaluated_at env)"
  shows "loop_inv s'"
proof (cases "sl_active_backup s")
  case None
  note inv = loop_invD [OF assms(1)]
  let ?st = "rt_state (sl_runtime s)" let ?now = "le_evaluated_at env"
  let ?conditions = "current_conditions (le_ac_line env) (le_profiles env)"
  have idle: "\<not> is_running (ss_state (st_status ?st))"
    using inv(5) None by simp
  obtain action st' where ev: "evaluate_state K (rt_config (sl_runtime s)) ?now ?conditions ?st = Some (action, st')"
    using assms(2) None by (auto simp: evaluate_and_maybe_start_def evaluate_schedule_def bind_eq_Some_conv)
  show ?thesis
  proof (cases action)
    case NoAction
    note fields = evaluate_state_NoAction_fields [OF ev [unfolded NoAction] assms(3)]
    have "\<not> is_running (ss_state (st_status st'))"
      using evaluate_state_NoAction_running [OF ev [unfolded NoAction] assms(3)] release_not_running [OF inv(14) idle] by blast
    moreover have "hold_sound st'" "running_kinds st' = running_kinds ?st"
      using fields inv(14) by (auto simp: hold_sound_def running_kinds_def)
    moreover have "s' = s\<lparr>sl_runtime := (sl_runtime s)\<lparr>rt_state := st'\<rparr>\<rparr>"
      using assms(2) None ev NoAction by (simp add: evaluate_and_maybe_start_def evaluate_schedule_def)
    ultimately show ?thesis
      using inv fields None idle by (simp add: loop_inv_def Let_def repository_work_def)
  next
    case (StartBackup trigger)
    note effect = evaluate_state_Start_effect [OF ev [unfolded StartBackup] assms(3)]
    have ready: "\<not> st_update_install_active ?st" "\<not> st_management_operation_active ?st" "running_kinds ?st = []"
      using effect(1) by (auto simp: ready_to_back_up_def update_pending_def intro: running_kinds_allowed)
    have st': "is_running (ss_state (st_status st'))" "st_update_hold_previous_status st' = None" "running_kinds st' = []"
      "\<not> st_update_install_active st'" "\<not> st_management_operation_active st'" "hold_sound st'"
      using ready unfolding effect(2) by (simp_all add: running_kinds_def hold_sound_def)
    show ?thesis
    proof (cases "le_spawned env")
      case True
      then have "s' = start_backup_worker (s\<lparr>sl_runtime := (sl_runtime s)\<lparr>rt_state := st'\<rparr>, sl_active_backup := Some False\<rparr>)"
        using assms(2) None ev StartBackup by (simp add: evaluate_and_maybe_start_def evaluate_schedule_def)
      with inv st' ready None show ?thesis
        by (simp add: loop_inv_def Let_def repository_work_def start_backup_worker_def work_events_def alive_def)
    next
      case False
      then obtain rt' where rt': "finish_backup K env (backup_failed ''executor_start_failed'')
          ((sl_runtime s)\<lparr>rt_state := st'\<rparr>) = Some rt'" "s' = s\<lparr>sl_runtime := rt', sl_active_backup := None\<rparr>"
        using assms(2) None ev StartBackup by (auto simp: evaluate_and_maybe_start_def evaluate_schedule_def)
      note finished = finish_backup_effect [OF rt'(1)]
      have "work_events rt' = work_events (sl_runtime s)" "hold_sound (rt_state rt')"
        using finished st' by (simp_all add: work_events_def hold_sound_def)
      with inv st' ready None finished show ?thesis
        unfolding rt'(2) by (simp add: loop_inv_def Let_def repository_work_def alive_def)
    qed
  qed
qed (use assms in \<open>simp add: evaluate_and_maybe_start_def\<close>)

lemma finish_repository_operation_effect:
  fixes K now saved k result rt
  assumes "running_kinds (rt_state rt) = [k]" and "\<not> is_running (ss_state (st_status (rt_state rt)))"
  defines "rt' \<equiv> finish_repository_operation K now saved k result rt"
  shows "running_kinds (rt_state rt') = []" "\<not> is_running (ss_state (st_status (rt_state rt')))"
    "st_update_install_active (rt_state rt') = st_update_install_active (rt_state rt)"
    "st_management_operation_active (rt_state rt') = st_management_operation_active (rt_state rt)"
    "st_update_hold_previous_status (rt_state rt') = st_update_hold_previous_status (rt_state rt)"
    "rt_receiver_alive rt' = rt_receiver_alive rt" "rt_events rt' = rt_events rt"
proof -
  have op: "st_repository_operation (rt_state rt) = OpRunning k"
    using assms(1) by (cases "st_repository_operation (rt_state rt)") (simp_all add: running_kinds_def)
  show "running_kinds (rt_state rt') = []" "\<not> is_running (ss_state (st_status (rt_state rt')))"
    "st_update_install_active (rt_state rt') = st_update_install_active (rt_state rt)"
    "st_management_operation_active (rt_state rt') = st_management_operation_active (rt_state rt)"
    "st_update_hold_previous_status (rt_state rt') = st_update_hold_previous_status (rt_state rt)"
    "rt_receiver_alive rt' = rt_receiver_alive rt" "rt_events rt' = rt_events rt"
    unfolding rt'_def using op assms(2)
    by (cases result; simp add: finish_repository_operation_def Let_def running_kinds_def
        apply_configuration_status_not_running)+
qed

lemma finish_update_install_effect:
  fixes now result rt
  assumes "hold_sound (rt_state rt)" and "\<not> is_running (ss_state (st_status (rt_state rt)))"
  defines "rt' \<equiv> finish_update_install now result rt"
  shows "running_kinds (rt_state rt') = running_kinds (rt_state rt)" "\<not> is_running (ss_state (st_status (rt_state rt')))"
    "st_management_operation_active (rt_state rt') = st_management_operation_active (rt_state rt)"
    "hold_sound (rt_state rt')" "rt_receiver_alive rt' = rt_receiver_alive rt" "rt_events rt' = rt_events rt"
  unfolding rt'_def using assms(1,2)
  by (cases result; cases "st_update_hold_previous_status (rt_state rt)";
      auto simp: finish_update_install_def Let_def running_kinds_def hold_sound_def)+

lemma work_events_pop:
  assumes "rt_events rt = e # es"
  shows "work_events rt = (if work_event e then [e] else []) @ work_events (rt\<lparr>rt_events := es\<rparr>)"
  using assms by (simp add: work_events_def)

lemma repository_work_single:
  assumes "loop_inv s" and "work_events (sl_runtime s) = e # es" and "repository_kinds e = [k]"
  shows "running_kinds (rt_state (sl_runtime s)) = [k]" "sl_repository_worker s = None"
    "concat (map repository_kinds es) = []"
proof -
  have "repository_work s = running_kinds (rt_state (sl_runtime s))"
    using loop_invD(6) [OF assms(1)] assms(2,3) by (auto simp: repository_work_def)
  then have "running_kinds (rt_state (sl_runtime s)) = (case sl_repository_worker s of None \<Rightarrow> [] | Some w \<Rightarrow> [w])
      @ k # concat (map repository_kinds es)"
    using assms(2,3) by (simp add: repository_work_def)
  moreover have "length (running_kinds (rt_state (sl_runtime s))) \<le> 1"
    by (simp add: running_kinds_def split: repository_operation_status.split)
  ultimately show "running_kinds (rt_state (sl_runtime s)) = [k]" "sl_repository_worker s = None"
    "concat (map repository_kinds es) = []"
    by (auto split: option.splits)
qed

lemma alive_simps [simp]: "alive None = 0" "alive (Some x) = 1" "alive t = 0 \<longleftrightarrow> t = None"
  by (simp_all add: alive_def)

lemma cancel_token_simps [simp]: "cancel_token t = None \<longleftrightarrow> t = None" "alive (cancel_token t) = alive t"
  by (simp_all add: cancel_token_def alive_def)

lemma pop_quiet_inv:
  assumes "loop_inv s" and "rt_events (sl_runtime s) = e # es" and "\<not> work_event e"
  shows "loop_inv (s\<lparr>sl_runtime := (sl_runtime s)\<lparr>rt_events := es\<rparr>\<rparr>)"
  by (rule similar_inv [OF assms(1)]) (use work_events_pop [OF assms(2)] assms(3) in simp_all)

lemma backup_finished_inv:
  assumes "loop_inv s" and "rt_events (sl_runtime s) = BackupFinished result # es"
    and "finish_backup K env result ((sl_runtime s)\<lparr>rt_events := es\<rparr>) = Some rt"
  shows "loop_inv (s\<lparr>sl_runtime := rt, sl_active_backup := None\<rparr>)"
proof -
  note inv = loop_invD [OF assms(1)] and finished = finish_backup_effect [OF assms(3)]
  have events: "work_events (sl_runtime s) = BackupFinished result # work_events rt"
    using work_events_pop [OF assms(2)] finished(7) by (simp add: work_events_def)
  have "sl_active_backup s \<noteq> None"
    using inv(2) events by (cases "sl_active_backup s") auto
  moreover from this have "alive (sl_backup_worker s) + length (filter is_backup_result (work_events rt)) = 0"
    using inv(2) events by auto
  moreover have "hold_sound (rt_state rt)"
    using inv(14) finished(5) by (simp add: hold_sound_def)
  ultimately show ?thesis
    using inv finished events by (simp add: loop_inv_def Let_def repository_work_def)
qed

lemma repository_finished_inv:
  assumes "loop_inv s" and "rt_events (sl_runtime s) = RepositoryOperationFinished k result # es"
  shows "loop_inv (s\<lparr>sl_runtime := finish_repository_operation K now saved k result ((sl_runtime s)\<lparr>rt_events := es\<rparr>),
    sl_active_repository_operation := None\<rparr>)"
proof -
  let ?rt = "(sl_runtime s)\<lparr>rt_events := es\<rparr>" let ?rt' = "finish_repository_operation K now saved k result ?rt"
  note inv = loop_invD [OF assms(1)]
  have events: "work_events (sl_runtime s) = RepositoryOperationFinished k result # work_events ?rt"
    using work_events_pop [OF assms(2)] by simp
  note single = repository_work_single [OF assms(1) events repository_kinds.simps(2)]
  have idle: "sl_active_backup s = None"
    using inv(7) single(1) by (cases "sl_active_backup s") auto
  note finished = finish_repository_operation_effect [of ?rt k K now saved result]
  have "work_events ?rt' = work_events ?rt" "hold_sound (rt_state ?rt')"
    using finished(5,7) single(1) inv(5,14) idle by (simp_all add: work_events_def hold_sound_def)
  moreover have "filter is_repository_result (work_events ?rt) = []"
    using inv(3) events by (cases "sl_active_repository_operation s") auto
  ultimately show ?thesis
    using inv finished single idle events by (simp add: loop_inv_def Let_def repository_work_def)
qed

lemma repository_requested_inv:
  assumes "loop_inv s" and "sl_phase s = Serving"
    and "rt_events (sl_runtime s) = RepositoryOperationRequested k # es"
    and "handle_event K env (RepositoryOperationRequested k) (s\<lparr>sl_runtime := (sl_runtime s)\<lparr>rt_events := es\<rparr>\<rparr>) = Some s'"
  shows "loop_inv s'"
    and "sl_active_backup s = None" and "sl_active_repository_operation s = None"
proof -
  let ?rt = "(sl_runtime s)\<lparr>rt_events := es\<rparr>"
  note inv = loop_invD [OF assms(1)]
  have events: "work_events (sl_runtime s) = RepositoryOperationRequested k # work_events ?rt"
    using work_events_pop [OF assms(3)] by simp
  note single = repository_work_single [OF assms(1) events repository_kinds.simps(1)]
  show idle: "sl_active_backup s = None"
    using inv(7) single(1) by (cases "sl_active_backup s") auto
  have results: "filter is_repository_result (work_events ?rt) = []"
    using single(3) by (auto simp: filter_empty_conv elim!: is_repository_result.elims)
  have free: "\<not> st_update_install_active (rt_state (sl_runtime s))" "\<not> sl_enrolling s"
    using inv(11,13) single(1) by auto
  from results show none: "sl_active_repository_operation s = None"
    using inv(3) events single(2) by (cases "sl_active_repository_operation s") auto
  show "loop_inv s'"
  proof (cases "le_spawned env")
    case True
    then have "s' = s\<lparr>sl_runtime := ?rt, sl_active_repository_operation := Some False, sl_repository_worker := Some k\<rparr>"
      using assms(4) idle none by (simp add: start_repository_worker_def)
    with inv(1-6,12,14) single idle events results free assms(2) show ?thesis by (simp add: loop_inv_def Let_def repository_work_def)
  next
    case False
    let ?rt' = "finish_repository_operation K (le_now env) (le_state_saved env) k (RepositoryFailed ''executor_start_failed'') ?rt"
    have s': "s' = s\<lparr>sl_runtime := ?rt', sl_active_repository_operation := None\<rparr>"
      using assms(4) idle none False by simp
    note finished = finish_repository_operation_effect [of ?rt k K "le_now env" "le_state_saved env" "RepositoryFailed ''executor_start_failed''"]
    have "work_events ?rt' = work_events ?rt" "hold_sound (rt_state ?rt')"
      using finished(5,7) single(1) inv(5,14) idle by (simp_all add: work_events_def hold_sound_def)
    with inv(1-6,12,14) finished single idle none events results free show ?thesis
      unfolding s' by (simp add: loop_inv_def Let_def repository_work_def)
  qed
qed

lemma update_event_facts:
  assumes "loop_inv s" and "work_events (sl_runtime s) = e # es" and "is_update_event e"
  shows "st_update_install_active (rt_state (sl_runtime s))" "sl_update_worker s = None"
    "filter is_update_event es = []" "running_kinds (rt_state (sl_runtime s)) = []" "repository_work s = []"
    "sl_active_backup s = None" "sl_active_repository_operation s = None"
proof -
  note inv = loop_invD [OF assms(1)]
  show install: "st_update_install_active (rt_state (sl_runtime s))" and "sl_update_worker s = None"
    and "filter is_update_event es = []"
    using inv(4) assms(2,3) by (auto split: if_splits)
  show kinds: "running_kinds (rt_state (sl_runtime s)) = []" using inv(11) install by blast
  then show work: "repository_work s = []" using inv(6) by auto
  show "sl_active_backup s = None"
    using inv(8) install by (cases "sl_active_backup s") auto
  have "sl_repository_worker s = None" "filter is_repository_result (work_events (sl_runtime s)) = []"
    using work by (auto simp: repository_work_def filter_empty_conv elim!: is_repository_result.elims split: option.splits)
  with inv(3) show "sl_active_repository_operation s = None"
    by (cases "sl_active_repository_operation s") auto
qed

lemma update_finished_inv:
  assumes "loop_inv s" and "rt_events (sl_runtime s) = e # es" and "is_update_event e"
  shows "loop_inv (s\<lparr>sl_runtime := finish_update_install now result ((sl_runtime s)\<lparr>rt_events := es\<rparr>)\<rparr>)"
proof -
  let ?rt = "(sl_runtime s)\<lparr>rt_events := es\<rparr>" let ?rt' = "finish_update_install now result ?rt"
  note inv = loop_invD [OF assms(1)]
  have events: "work_events (sl_runtime s) = e # work_events ?rt"
    using work_events_pop [OF assms(2)] assms(3) by (simp add: work_event_def)
  have quiet: "repository_kinds e = []" "\<not> is_backup_result e" "\<not> is_repository_result e"
    using assms(3) by (auto elim: is_update_event.elims)
  note facts = update_event_facts [OF assms(1) events assms(3)]
  note finished = finish_update_install_effect [of ?rt now result]
  have "work_events ?rt' = work_events ?rt"
    using finished(6) inv(5,14) facts(6) by (simp add: work_events_def)
  moreover have "sl_enrolling s \<Longrightarrow> running_kinds (rt_state ?rt') = []"
    using finished(1) inv(5,14) facts(4,6) by simp
  ultimately show ?thesis
    using inv finished facts events quiet by (simp add: loop_inv_def Let_def repository_work_def)
qed

lemma update_requested_inv:
  assumes "loop_inv s" and "rt_events (sl_runtime s) = UpdateInstallRequested package # es"
    and "handle_event K env (UpdateInstallRequested package) (s\<lparr>sl_runtime := (sl_runtime s)\<lparr>rt_events := es\<rparr>\<rparr>) = Some s'"
  shows "loop_inv s'"
proof -
  let ?rt = "(sl_runtime s)\<lparr>rt_events := es\<rparr>"
  note inv = loop_invD [OF assms(1)]
  have events: "work_events (sl_runtime s) = UpdateInstallRequested package # work_events ?rt"
    using work_events_pop [OF assms(2)] by simp
  have "is_update_event (UpdateInstallRequested package)" by simp
  note facts = update_event_facts [OF assms(1) events this]
  show ?thesis
  proof (cases "le_spawned env")
    case True
    then have "s' = start_update_worker package (s\<lparr>sl_runtime := ?rt\<rparr>)"
      using assms(3) facts by simp
    moreover have "work_events (record_diagnostic l i m c ?rt) = work_events ?rt" for l i m c
      by (simp add: work_events_def)
    ultimately show ?thesis
      using inv facts events by (simp add: loop_inv_def Let_def repository_work_def start_update_worker_def)
  next
    case False
    with assms(3) facts have "s' = s\<lparr>sl_runtime :=
        finish_update_install (le_now env) (UpdateFailed ''update_worker_start_failed'') ?rt\<rparr>" by simp
    then show ?thesis
      using update_finished_inv [OF assms(1,2)] by simp
  qed
qed

lemma handle_event_inv:
  assumes "loop_inv s" and "sl_phase s = Serving" and "rt_events (sl_runtime s) = e # es"
    and "handle_event K env e (s\<lparr>sl_runtime := (sl_runtime s)\<lparr>rt_events := es\<rparr>\<rparr>) = Some s'"
    and "clock_ok K (le_evaluated_at env)"
  shows "loop_inv s'"
proof -
  let ?s = "s\<lparr>sl_runtime := (sl_runtime s)\<lparr>rt_events := es\<rparr>\<rparr>"
  have popped: "loop_inv ?s" if "\<not> work_event e"
    using pop_quiet_inv [OF assms(1,3) that] .
  have cancelled: "loop_inv (t\<lparr>sl_active_backup := cancel_token (sl_active_backup t)\<rparr>)"
    "loop_inv (t\<lparr>sl_active_backup := cancel_token (sl_active_backup t),
       sl_active_repository_operation := cancel_token (sl_active_repository_operation t), sl_phase := Draining\<rparr>)"
    if "loop_inv t" for t
    using that by (auto simp: loop_inv_def Let_def repository_work_def)
  show ?thesis
  proof (cases e)
    case Stop
    with assms(4) cancelled(2) [OF popped] show ?thesis by auto
  next
    case Resume
    have "loop_inv (?s\<lparr>sl_runtime := record_resume (le_now env) (sl_runtime ?s)\<rparr>)"
      by (rule similar_inv [OF popped]) (use Resume in \<open>simp_all add: record_resume_def running_kinds_def\<close>)
    with evaluate_inv [OF _ _ assms(5)] assms(4) Resume show ?thesis by auto
  next
    case Cancel
    with assms(4) cancelled(1) [OF popped] show ?thesis by auto
  next
    case (BackupFinished result)
    with assms(1,3,4) show ?thesis by (auto intro: backup_finished_inv)
  next
    case (RepositoryOperationRequested k)
    with assms show ?thesis using repository_requested_inv(1) by blast
  next
    case (RepositoryOperationFinished k result)
    with assms(4) repository_finished_inv [OF assms(1), of k result es K "le_now env" "le_state_saved env"]
      assms(3) evaluate_inv [OF _ _ assms(5)] show ?thesis by auto
  next
    case (UpdateInstallRequested package)
    with assms show ?thesis using update_requested_inv by blast
  next
    case (UpdateInstallFinished result)
    with assms(4) update_finished_inv [OF assms(1,3), of "le_now env" result] evaluate_inv [OF _ _ assms(5)]
    show ?thesis by auto
  qed (use assms(4) popped evaluate_inv [OF _ _ assms(5)] in auto)
qed

lemma drop_work_inv:
  assumes "loop_inv s" and "sl_phase s = Draining" and "rt_events (sl_runtime s) = e # es"
    and "\<not> is_backup_result e" and "\<not> is_repository_result e"
  shows "loop_inv (s\<lparr>sl_runtime := (sl_runtime s)\<lparr>rt_events := es\<rparr>\<rparr>)"
proof (cases "work_event e")
  case True
  let ?rt = "(sl_runtime s)\<lparr>rt_events := es\<rparr>"
  note inv = loop_invD [OF assms(1)]
  have events: "work_events (sl_runtime s) = e # work_events ?rt"
    using work_events_pop [OF assms(3)] True by simp
  have "repository_work (s\<lparr>sl_runtime := ?rt\<rparr>) = running_kinds (rt_state (sl_runtime s))
      \<or> repository_work (s\<lparr>sl_runtime := ?rt\<rparr>) = []"
  proof (cases "repository_kinds e")
    case Nil
    with inv(6) events show ?thesis by (auto simp: repository_work_def)
  next
    case (Cons k ks)
    then have "repository_kinds e = [k]" by (cases e) auto
    from repository_work_single [OF assms(1) events this] show ?thesis by (simp add: repository_work_def)
  qed
  with inv events assms(2,4,5) show ?thesis
    by (auto simp: loop_inv_def Let_def split: if_splits)
qed (use pop_quiet_inv assms in blast)

lemma drain_event_inv:
  assumes "loop_inv s" and "sl_phase s = Draining" and "rt_events (sl_runtime s) = e # es"
    and "drain_event K env e (s\<lparr>sl_runtime := (sl_runtime s)\<lparr>rt_events := es\<rparr>\<rparr>) = Some s'"
  shows "loop_inv s'"
proof (cases e)
  case (BackupFinished result)
  with assms(1,3,4) show ?thesis by (auto intro: backup_finished_inv)
next
  case (RepositoryOperationFinished k result)
  with assms(4) repository_finished_inv [OF assms(1), of k result es K "le_now env" "le_state_saved env"] assms(3)
  show ?thesis by auto
qed (use assms drop_work_inv [OF assms(1-3)] in auto)

lemma receive_event_inv:
  assumes "loop_inv s" and "receive_event K env s = Some s'" and "clock_ok K (le_evaluated_at env)"
  shows "loop_inv s'"
  using assms handle_event_inv [OF assms(1)] drain_event_inv [OF assms(1)]
  by (cases "sl_phase s") (auto simp: receive_event_def Let_def split: list.splits if_splits)

section \<open>Threads\<close>

lemma working_backup:
  assumes "loop_inv s" and "sl_backup_worker s \<noteq> None"
  shows "sl_active_backup s \<noteq> None" "is_running (ss_state (st_status (rt_state (sl_runtime s))))"
proof -
  show "sl_active_backup s \<noteq> None"
    using loop_invD(2) [OF assms(1)] assms(2) by (cases "sl_active_backup s") auto
  then show "is_running (ss_state (st_status (rt_state (sl_runtime s))))"
    using loop_invD(5) [OF assms(1)] by blast
qed

lemma backup_progress_inv:
  assumes "loop_inv s" and "sl_backup_worker s \<noteq> None"
  shows "loop_inv (s\<lparr>sl_runtime := update_progress progress (sl_runtime s)\<rparr>)"
  by (rule similar_inv [OF assms(1)])
    (use working_backup [OF assms] in \<open>simp_all add: update_progress_def Let_def\<close>)

lemma backup_result_inv:
  assumes "loop_inv s" and "sl_backup_worker s \<noteq> None"
  shows "loop_inv (s\<lparr>sl_runtime := post_event (BackupFinished result) (sl_runtime s), sl_backup_worker := None\<rparr>)"
  using loop_invD [OF assms(1)] assms(2)
  by (auto simp: loop_inv_def Let_def repository_work_def)

lemma record_diagnostic_events [simp]: "work_events (record_diagnostic l i m c rt) = work_events rt"
  by (simp add: work_events_def)

lemma backup_done_inv:
  assumes "loop_inv s" and "sl_backup_worker s \<noteq> None"
  shows "loop_inv (backup_done now result s)"
proof -
  obtain plan rt where retention: "begin_retention now (sl_runtime s) = (plan, rt)" by force
  note inv = loop_invD [OF assms(1)] and working = working_backup [OF assms]
  have rt: "loop_inv (s\<lparr>sl_runtime := rt\<rparr>)"
    by (rule similar_inv [OF assms(1)])
      (use retention working in \<open>auto simp: begin_retention_def Let_def split: if_splits\<close>)
  have "loop_inv (s\<lparr>sl_runtime := rt, sl_backup_worker := Some stage\<rparr>)" for stage
    using rt assms(2) by (auto simp: loop_inv_def Let_def repository_work_def)
  with retention backup_result_inv [OF rt, of result] backup_result_inv [OF assms, of result] assms(2) show ?thesis
    by (auto simp: backup_done_def split: option.split)
qed

lemma retention_done_inv:
  assumes "loop_inv s" and "sl_backup_worker s \<noteq> None"
  shows "loop_inv (retention_done now saved result retention s)"
proof -
  obtain result' rt where finished: "finish_retention now saved result retention (sl_runtime s) = (result', rt)" by force
  have "loop_inv (s\<lparr>sl_runtime := rt\<rparr>)"
    by (rule similar_inv [OF assms(1)])
      (use finished in \<open>cases retention; auto simp: finish_retention_def Let_def running_kinds_def work_events_def split: if_splits\<close>)+
  with finished backup_result_inv [OF this, of result'] assms(2) show ?thesis
    by (simp add: retention_done_def)
qed

lemma repository_done_inv:
  assumes "loop_inv s" and "sl_repository_worker s = Some k"
  shows "loop_inv (repository_done k result s)"
proof -
  note inv = loop_invD [OF assms(1)]
  have kinds: "running_kinds (rt_state (sl_runtime s)) = k # concat (map repository_kinds (work_events (sl_runtime s)))"
    using inv(6) assms(2) by (auto simp: repository_work_def)
  moreover have "length (running_kinds (rt_state (sl_runtime s))) \<le> 1"
    by (simp add: running_kinds_def split: repository_operation_status.split)
  ultimately have none: "concat (map repository_kinds (work_events (sl_runtime s))) = []"
    by simp
  have "sl_active_backup s = None" "\<not> st_update_install_active (rt_state (sl_runtime s))" "\<not> sl_enrolling s"
    using inv(7,11,13) kinds by (cases "sl_active_backup s"; auto)+
  with inv(1-6,12,14) assms(2) kinds none show ?thesis
    by (simp add: repository_done_def loop_inv_def Let_def repository_work_def)
qed

lemma update_done_inv:
  assumes "loop_inv s" and "sl_update_worker s = Some package"
  shows "loop_inv (update_done result s)"
  using loop_invD [OF assms(1)] assms(2)
  by (auto simp: update_done_def loop_inv_def Let_def repository_work_def)

lemma begin_enrollment_inv:
  assumes "loop_inv s" and "\<not> operation_active now (rt_state (sl_runtime s))"
  shows "loop_inv (s\<lparr>sl_runtime := set_management_active True (sl_runtime s), sl_enrolling := True\<rparr>)"
proof -
  note inv = loop_invD [OF assms(1)]
  have "sl_active_backup s = None" "running_kinds (rt_state (sl_runtime s)) = []"
    using assms(2) inv(5) by (auto simp: operation_active_def running_kinds_iff)
  with inv show ?thesis
    by (simp add: loop_inv_def Let_def repository_work_def set_management_active_def)
qed

lemma end_enrollment_inv:
  assumes "loop_inv s" and "sl_enrolling s"
    and "perform_enrollment K now parse calls cleanup config_saved state_saved client (sl_runtime s) = (result, rt)"
  shows "loop_inv (s\<lparr>sl_runtime := set_management_active False rt, sl_enrolling := False\<rparr>)"
proof -
  note inv = loop_invD [OF assms(1)]
  have idle: "\<not> is_running (ss_state (st_status (rt_state (sl_runtime s))))" "\<not> repository_operation_running (rt_state (sl_runtime s))"
    using inv(5,10,13) assms(2) by (auto simp: running_kinds_iff)
  have "loop_inv (s\<lparr>sl_runtime := rt\<rparr>)"
    by (rule activity_kept_inv [OF assms(1) perform_enrollment_kept [OF assms(3) idle]])
  note inv = loop_invD [OF this]
  show ?thesis
    using inv assms(2) by (auto simp: loop_inv_def Let_def repository_work_def set_management_active_def)
qed

lemma service_step_inv:
  assumes "service_step K s s'" and "loop_inv s"
  shows "loop_inv s'"
  using assms
proof (induction rule: service_step.induct)
  case (request s request env)
  then show ?case using request_inv by blast
next
  case (control s c)
  have "activity_kept (sl_runtime s) (snd (event_handler c (sl_runtime s)))"
    by (cases "(c, sl_runtime s)" rule: event_handler.cases) (simp_all add: activity_kept_def)
  with control show ?case by (blast intro: activity_kept_inv)
next
  case (end_drain s)
  then show ?case by (auto simp: loop_inv_def Let_def repository_work_def)
qed (auto intro: begin_enrollment_inv end_enrollment_inv activity_kept_inv managed_policy_kept receive_event_inv
    evaluate_inv backup_progress_inv backup_done_inv retention_done_inv repository_done_inv update_done_inv)

lemma fresh_loop_inv:
  assumes "\<not> is_running (ss_state (st_status (rt_state rt)))" and "running_kinds (rt_state rt) = []"
    and "\<not> st_update_install_active (rt_state rt)" and "\<not> st_management_operation_active (rt_state rt)"
    and "hold_sound (rt_state rt)" and "rt_receiver_alive rt" and "rt_events rt = []"
  shows "loop_inv (first_loop rt)"
  using assms by (simp add: loop_inv_def first_loop_def Let_def repository_work_def work_events_def)

lemma enroll_bootstrap_inv:
  assumes "loop_inv (first_loop rt)"
  shows "loop_inv (first_loop (snd (enroll_bootstrap K now parse calls cleanup config_saved state_saved client rt)))"
proof (cases "operation_active now (rt_state rt)")
  case False
  obtain result rt' where performed: "perform_enrollment K now parse calls cleanup config_saved state_saved client
      (set_management_active True rt) = (result, rt')"
    by force
  have "loop_inv ((first_loop rt)\<lparr>sl_runtime := set_management_active True rt, sl_enrolling := True\<rparr>)"
    using begin_enrollment_inv [OF assms, of now] False by (simp add: first_loop_def)
  from end_enrollment_inv [OF this] performed False show ?thesis
    by (simp add: first_loop_def enroll_bootstrap_def)
qed (use assms in \<open>simp add: enroll_bootstrap_def\<close>)

lemma loaded_runtime_inv:
  assumes "load_with_credentials_and_policy K now loaded_config loaded_state credentials policy history = Ok rt"
  shows "loop_inv (first_loop (record_diagnostic l i m c rt))"
  using assms
proof (rule load_cases)
  fix s resolved local saved diagnostics
  assume "rt = from_resolved_with_state K now resolved local s saved credentials history diagnostics"
  then show ?thesis
    by (intro fresh_loop_inv) (auto simp: from_resolved_with_state_def Let_def initial_repository_operation_def
        running_kinds_def hold_sound_def split: option.splits)
qed

lemma broken_runtime_inv:
  "loop_inv (first_loop (record_diagnostic l i m c (configuration_error now saved_local saved credentials history)))"
  by (rule fresh_loop_inv) (auto simp: configuration_error_def running_kinds_def hold_sound_def)

lemma initial_runtime_inv: "loop_inv (first_loop (initial_runtime K env managed))"
  unfolding initial_runtime_def
  by (cases "load_with_credentials_and_policy K (sv_now env) (sv_config env) (sv_state env) (sv_credentials env)
        managed (sv_history env)")
    (simp_all add: loaded_runtime_inv broken_runtime_inv)

lemma start_runtime_inv:
  assumes "start_runtime K L env path d = Some (rt, cleared, d')"
  shows "loop_inv (first_loop rt)"
proof -
  obtain policy d1 where policy: "(case sv_config env of
      Ok local \<Rightarrow> load_best_policy K L (sv_load env) path local d | _ \<Rightarrow> (Ok None, d)) = (policy, d1)"
    by force
  let ?rt = "initial_runtime K env (map_option lp_policy (Option.bind (ok_value policy) id))"
  show ?thesis
  proof (cases "\<exists>url. sv_staged env = Ok (Some url)")
    case True
    then obtain url where url: "sv_staged env = Ok (Some url)" ..
    have "rt = snd (enroll_bootstrap K (sv_now env) (ul_parse (ml_url L)) (sv_calls env) (sv_cleanup env)
        (sv_config_saved env) (sv_state_saved env) (ok_value (client_enroll K L (sv_enroll env) url)) ?rt)"
      using assms unfolding start_runtime_def policy url by (simp add: Let_def split_beta split: if_splits)
    then show ?thesis
      by (simp add: enroll_bootstrap_inv initial_runtime_inv)
  next
    case False
    have "rt = ?rt"
      using assms False unfolding start_runtime_def policy
      by (cases "sv_staged env") (auto simp: Let_def split: if_splits option.splits)
    then show ?thesis by (simp add: initial_runtime_inv)
  qed
qed

section \<open>Reachable states\<close>

text \<open>A transition system with an inductive invariant.\<close>

locale guarded_system =
  fixes start :: "'s \<Rightarrow> bool" and step :: "'s \<Rightarrow> 's \<Rightarrow> bool" and inv :: "'s \<Rightarrow> bool"
  assumes start_inv: "start s \<Longrightarrow> inv s"
    and step_inv: "step s s' \<Longrightarrow> inv s \<Longrightarrow> inv s'"
begin

definition reachable :: "'s \<Rightarrow> bool" where
  "reachable s \<longleftrightarrow> (\<exists>s0. start s0 \<and> step\<^sup>*\<^sup>* s0 s)"

lemma run_inv: "step\<^sup>*\<^sup>* s s' \<Longrightarrow> inv s \<Longrightarrow> inv s'"
  by (induction rule: rtranclp_induct) (blast intro: step_inv)+

lemma reachable_inv: "reachable s \<Longrightarrow> inv s"
  unfolding reachable_def using start_inv run_inv by blast

lemma reachableI: "start s0 \<Longrightarrow> step\<^sup>*\<^sup>* s0 s \<Longrightarrow> reachable s"
  unfolding reachable_def by blast

end

interpretation service: guarded_system "service_start K" "service_step K" loop_inv for K
proof
  show "service_start K s \<Longrightarrow> loop_inv s" for s
    unfolding service_start_def using start_runtime_inv by blast
  show "service_step K s s' \<Longrightarrow> loop_inv s \<Longrightarrow> loop_inv s'" for s s'
    by (rule service_step_inv)
qed


section \<open>Properties\<close>







end
