(* ===== verification/NamedPipe.thy ===== *)
theory NamedPipe
  imports Requests
begin

text \<open>
  \<^verbatim>\<open>crates/resticpal-windows/src/named_pipe.rs\<close>: the local transport, one request and one answer
  per connection, over a pipe that is polled until a deadline. The answers of the system are a
  sequence of polls; a loop that never gets an answer in time has no result. Instants are
  milliseconds.
\<close>

section \<open>Pipes and deadlines\<close>

definition SERVER_IO_TIMEOUT :: nat where "SERVER_IO_TIMEOUT = 5 * 1000"
definition DEFAULT_CONNECT_TIMEOUT :: nat where "DEFAULT_CONNECT_TIMEOUT = 2 * 1000"

datatype pipe_error =
    InvalidPipeName
  | WindowsError
  | PipeIo
  | PipeFrame frame_error
  | IncompatibleResponseProtocol u32 u32
  | MismatchedResponse u64 u64

datatype call_status = CallOk | NoData | PipeListening | BrokenPipe | PipeNotConnected | OtherFailure

text \<open>
  One poll: when it is made, what the call answers, which bytes have arrived since the last poll and
  how many bytes the pipe takes.
\<close>

record io_poll =
  po_instant :: nat
  po_status :: call_status
  po_arrived :: "u8 list"
  po_room :: nat

record pipe_connection =
  pi_next :: nat
  pi_buffer :: "u8 list"
  pi_sent :: "u8 list"
  pi_deadline :: nat

type_synonym 'a piped = "((pipe_error, 'a) outcome \<times> pipe_connection) option"

definition pipe_then :: "'a piped \<Rightarrow> ('a \<Rightarrow> pipe_connection \<Rightarrow> 'b piped) \<Rightarrow> 'b piped" where
  "pipe_then m f = Option.bind m (\<lambda>(r, c). case r of
     Ok x \<Rightarrow> f x c | Err e \<Rightarrow> Some (Err e, c) | Panic \<Rightarrow> Some (Panic, c))"

datatype 'a attempt = Finished 'a | Again | Refused

text \<open>Every read and write repeats the call until it makes progress, fails or the deadline has passed.\<close>

definition poll_arrives :: "io_poll \<Rightarrow> pipe_connection \<Rightarrow> pipe_connection" where
  "poll_arrives p c = c\<lparr>pi_next := Suc (pi_next c), pi_buffer := pi_buffer c @ po_arrived p\<rparr>"

partial_function (option) poll_until ::
  "(nat \<Rightarrow> io_poll) \<Rightarrow> (io_poll \<Rightarrow> pipe_connection \<Rightarrow> 'a attempt \<times> pipe_connection) \<Rightarrow> pipe_connection \<Rightarrow> 'a piped" where
  "poll_until polls attempt c =
     (let p = polls (pi_next c); (answer, c) = attempt p (poll_arrives p c)
      in case answer of
           Finished x \<Rightarrow> Some (Ok x, c)
         | Refused \<Rightarrow> Some (Err PipeIo, c)
         | Again \<Rightarrow> if pi_deadline c \<le> po_instant p then Some (Err PipeIo, c) else poll_until polls attempt c)"

definition read_attempt :: "nat \<Rightarrow> io_poll \<Rightarrow> pipe_connection \<Rightarrow> u8 list attempt \<times> pipe_connection" where
  "read_attempt n p c =
     (if po_status p = CallOk then
        if pi_buffer c = [] then (Again, c)
        else (Finished (take n (pi_buffer c)), c\<lparr>pi_buffer := drop n (pi_buffer c)\<rparr>)
      else if po_status p = NoData \<or> po_status p = PipeListening then (Again, c)
      else (Refused, c))"

definition write_attempt :: "u8 list \<Rightarrow> io_poll \<Rightarrow> pipe_connection \<Rightarrow> nat attempt \<times> pipe_connection" where
  "write_attempt bs p c =
     (if po_status p = CallOk then
        if min (po_room p) (length bs) = 0 then (Again, c)
        else (Finished (min (po_room p) (length bs)), c\<lparr>pi_sent := pi_sent c @ take (po_room p) bs\<rparr>)
      else if po_status p = NoData \<or> po_status p = PipeListening then (Again, c)
      else (Refused, c))"

definition acknowledgement_attempt :: "io_poll \<Rightarrow> pipe_connection \<Rightarrow> unit attempt \<times> pipe_connection" where
  "acknowledgement_attempt p c =
     (if po_status p = CallOk then
        if pi_buffer c = [] then (Again, c) else (Finished (), c\<lparr>pi_buffer := drop 1 (pi_buffer c)\<rparr>)
      else if po_status p = BrokenPipe \<or> po_status p = PipeNotConnected then (Finished (), c)
      else if po_status p = NoData \<or> po_status p = PipeListening then (Again, c)
      else (Refused, c))"

text \<open>The loops of the standard library that fill or drain a whole buffer.\<close>

fun pipe_read_exact :: "(nat \<Rightarrow> io_poll) \<Rightarrow> nat \<Rightarrow> pipe_connection \<Rightarrow> u8 list piped" where
  "pipe_read_exact polls n c =
     (if n = 0 then Some (Ok [], c)
      else case poll_until polls (read_attempt n) c of
             None \<Rightarrow> None
           | Some (Ok chunk, c) \<Rightarrow>
               if chunk = [] then Some (Err PipeIo, c)
               else pipe_then (pipe_read_exact polls (n - length chunk) c) (\<lambda>rest c. Some (Ok (chunk @ rest), c))
           | Some (Err e, c) \<Rightarrow> Some (Err e, c)
           | Some (Panic, c) \<Rightarrow> Some (Panic, c))"

fun pipe_write_all :: "(nat \<Rightarrow> io_poll) \<Rightarrow> u8 list \<Rightarrow> pipe_connection \<Rightarrow> unit piped" where
  "pipe_write_all polls bs c =
     (if bs = [] then Some (Ok (), c)
      else case poll_until polls (write_attempt bs) c of
             None \<Rightarrow> None
           | Some (Ok n, c) \<Rightarrow> if n = 0 then Some (Err PipeIo, c) else pipe_write_all polls (drop n bs) c
           | Some (Err e, c) \<Rightarrow> Some (Err e, c)
           | Some (Panic, c) \<Rightarrow> Some (Panic, c))"

definition pipe_read_frame :: "(nat \<Rightarrow> io_poll) \<Rightarrow> (u8 list \<Rightarrow> 'a option) \<Rightarrow> pipe_connection \<Rightarrow> 'a piped" where
  "pipe_read_frame polls from_slice c =
     pipe_then (pipe_read_exact polls 4 c) (\<lambda>header c.
     let n = unat (from_le_bytes header) in
     if n = 0 \<or> MAX_FRAME_BYTES < n then Some (Err (PipeFrame (InvalidLength n)), c)
     else pipe_then (pipe_read_exact polls n c) (\<lambda>payload c.
       Some (ok_or (from_slice payload) (PipeFrame Json), c)))"

definition pipe_write_frame :: "(nat \<Rightarrow> io_poll) \<Rightarrow> ('a \<Rightarrow> u8 list option) \<Rightarrow> 'a \<Rightarrow> pipe_connection \<Rightarrow> unit piped" where
  "pipe_write_frame polls to_vec v c =
     (case to_vec v of
        None \<Rightarrow> Some (Err (PipeFrame Json), c)
      | Some payload \<Rightarrow>
          if MAX_FRAME_BYTES < length payload then Some (Err (PipeFrame (TooLarge (length payload))), c)
          else pipe_then (pipe_write_all polls (to_le_bytes (of_nat (length payload))) c) (\<lambda>_ c.
            pipe_write_all polls payload c))"

section \<open>Server\<close>

text \<open>What the system answers while one client is served.\<close>

datatype connect_answer = Connected | AlreadyConnected | ConnectFailed

record serve_env =
  nv_create :: "bool \<Rightarrow> bool"
  nv_connect :: connect_answer
  nv_set_mode :: bool
  nv_impersonate :: bool
  nv_well_known_sid :: bool
  nv_membership :: "bool option"
  nv_revert :: bool
  nv_polls :: "nat \<Rightarrow> io_poll"

definition new_server :: "u16 list \<Rightarrow> bool \<Rightarrow> (pipe_error, bool) outcome" where
  "new_server name descriptor_ok =
     (if name = [] \<or> 0 \<in> set name then Err InvalidPipeName
      else if \<not> descriptor_ok then Err WindowsError else Ok True)"

text \<open>The flag for the first instance is given up by the first attempt, whatever becomes of it.\<close>

definition accept :: "serve_env \<Rightarrow> bool \<Rightarrow> (pipe_error, pipe_connection) outcome \<times> bool" where
  "accept env first_instance =
     (if \<not> nv_create env first_instance then (Err WindowsError, False)
      else if nv_connect env = ConnectFailed then (Err WindowsError, False)
      else if \<not> nv_set_mode env then (Err WindowsError, False)
      else (Ok \<lparr>pi_next = 0, pi_buffer = [], pi_sent = [],
              pi_deadline = po_instant (nv_polls env 0) + SERVER_IO_TIMEOUT\<rparr>, False))"

definition reset_deadline :: "serve_env \<Rightarrow> pipe_connection \<Rightarrow> pipe_connection" where
  "reset_deadline env c = c\<lparr>pi_deadline := po_instant (nv_polls env (pi_next c)) + SERVER_IO_TIMEOUT\<rparr>"

text \<open>The thread reverts to itself before the answer of the membership test is looked at.\<close>

definition client_identity :: "serve_env \<Rightarrow> (pipe_error, bool) outcome" where
  "client_identity env =
     (if \<not> nv_impersonate env \<or> \<not> nv_revert env then Err WindowsError
      else if \<not> nv_well_known_sid env then Err WindowsError
      else ok_or (nv_membership env) WindowsError)"

record json_codec =
  jc_read_request :: "u8 list \<Rightarrow> request option"
  jc_write_request :: "request \<Rightarrow> u8 list option"
  jc_read_response :: "u8 list \<Rightarrow> response option"
  jc_write_response :: "response \<Rightarrow> u8 list option"

definition answer_request ::
  "serve_env \<Rightarrow> json_codec \<Rightarrow> (request \<Rightarrow> bool \<Rightarrow> 's \<Rightarrow> response \<times> 's) \<Rightarrow> pipe_connection \<Rightarrow> request \<Rightarrow> 's \<Rightarrow>
     unit piped \<times> 's" where
  "answer_request env J handler c request s =
     (case client_identity env of
        Err e \<Rightarrow> (Some (Err e, c), s)
      | Panic \<Rightarrow> (Some (Panic, c), s)
      | Ok elevated \<Rightarrow>
          let (response, s) =
                (if rq_protocol_version request = PROTOCOL_VERSION then handler request elevated s
                 else (incompatible (rq_request_id request) (rq_protocol_version request), s))
          in (pipe_then (pipe_write_frame (nv_polls env) (jc_write_response J) response (reset_deadline env c)) (\<lambda>_ c.
                poll_until (nv_polls env) acknowledgement_attempt c), s))"

definition serve_one ::
  "serve_env \<Rightarrow> json_codec \<Rightarrow> (request \<Rightarrow> bool \<Rightarrow> 's \<Rightarrow> response \<times> 's) \<Rightarrow> bool \<Rightarrow> 's \<Rightarrow> unit piped \<times> bool \<times> 's" where
  "serve_one env J handler first_instance s =
     (case accept env first_instance of
        (Ok c, first_instance) \<Rightarrow>
          (case pipe_read_frame (nv_polls env) (jc_read_request J) c of
             None \<Rightarrow> (None, first_instance, s)
           | Some (Ok request, c) \<Rightarrow>
               let (result, s) = answer_request env J handler (reset_deadline env c) request s
               in (result, first_instance, s)
           | Some (Err e, c) \<Rightarrow> (Some (Err e, c), first_instance, s)
           | Some (Panic, c) \<Rightarrow> (Some (Panic, c), first_instance, s))
      | (Err e, first_instance) \<Rightarrow>
          (Some (Err e, \<lparr>pi_next = 0, pi_buffer = [], pi_sent = [], pi_deadline = 0\<rparr>), first_instance, s)
      | (Panic, first_instance) \<Rightarrow>
          (Some (Panic, \<lparr>pi_next = 0, pi_buffer = [], pi_sent = [], pi_deadline = 0\<rparr>), first_instance, s))"

text \<open>The request thread serves one client after the other; a pass that fails is only logged.\<close>

fun serve_clients ::
  "json_codec \<Rightarrow> (request \<Rightarrow> bool \<Rightarrow> 's \<Rightarrow> response \<times> 's) \<Rightarrow> serve_env list \<Rightarrow> bool \<Rightarrow> 's \<Rightarrow> 's option" where
  "serve_clients J handler [] first_instance s = Some s"
| "serve_clients J handler (env # envs) first_instance s =
     (case serve_one env J handler first_instance s of
        (None, first_instance, s) \<Rightarrow> None
      | (Some _, first_instance, s) \<Rightarrow> serve_clients J handler envs first_instance s)"

section \<open>Client\<close>

datatype open_answer = Opened | NotFound | PermissionDenied | WouldBlock | PipeBusy | OtherOpenFailure

definition pipe_connect_error_is_retryable :: "open_answer \<Rightarrow> bool" where
  "pipe_connect_error_is_retryable answer \<longleftrightarrow> answer \<in> {NotFound, PermissionDenied, WouldBlock, PipeBusy}"

record client_env =
  cn_open :: "nat \<Rightarrow> open_answer \<times> nat"
  cn_started :: nat
  cn_set_mode :: bool
  cn_polls :: "nat \<Rightarrow> io_poll"

partial_function (option) open_pipe :: "(nat \<Rightarrow> open_answer \<times> nat) \<Rightarrow> nat \<Rightarrow> nat \<Rightarrow> (pipe_error, unit) outcome option" where
  "open_pipe opens deadline i =
     (let (answer, now) = opens i
      in if answer = Opened then Some (Ok ())
         else if now < deadline \<and> pipe_connect_error_is_retryable answer then open_pipe opens deadline (Suc i)
         else Some (Err PipeIo))"

definition check_response :: "request \<Rightarrow> response \<Rightarrow> (pipe_error, response) outcome" where
  "check_response request response =
     (if rp_protocol_version response \<noteq> PROTOCOL_VERSION then
        Err (IncompatibleResponseProtocol PROTOCOL_VERSION (rp_protocol_version response))
      else if rp_request_id response \<noteq> rq_request_id request then
        Err (MismatchedResponse (rq_request_id request) (rp_request_id response))
      else Ok response)"

definition request_at :: "client_env \<Rightarrow> json_codec \<Rightarrow> nat \<Rightarrow> request \<Rightarrow> response piped" where
  "request_at env J timeout request =
     (let c = \<lparr>pi_next = 0, pi_buffer = [], pi_sent = [], pi_deadline = cn_started env + timeout\<rparr> in
      case open_pipe (cn_open env) (pi_deadline c) 0 of
        None \<Rightarrow> None
      | Some (Err e) \<Rightarrow> Some (Err e, c)
      | Some Panic \<Rightarrow> Some (Panic, c)
      | Some (Ok _) \<Rightarrow>
          if \<not> cn_set_mode env then Some (Err WindowsError, c)
          else pipe_then (pipe_write_frame (cn_polls env) (jc_write_request J) request c) (\<lambda>_ c.
            pipe_then (pipe_read_frame (cn_polls env) (jc_read_response J) c) (\<lambda>response c.
            pipe_then (Some (check_response request response, c)) (\<lambda>response c.
            map_option (\<lambda>(_, c). (Ok response, c)) (pipe_write_all (cn_polls env) [0] c)))))"

definition pipe_request :: "client_env \<Rightarrow> json_codec \<Rightarrow> request \<Rightarrow> response piped" where
  "pipe_request env J r = request_at env J DEFAULT_CONNECT_TIMEOUT r"

declare pipe_read_exact.simps [simp del] pipe_write_all.simps [simp del]

section \<open>Polling\<close>

text \<open>The bytes that arrive with a range of polls, and a connection that has only waited until then.\<close>

definition arrived :: "(nat \<Rightarrow> io_poll) \<Rightarrow> nat \<Rightarrow> nat \<Rightarrow> u8 list" where
  "arrived polls i j = concat (map (\<lambda>k. po_arrived (polls k)) [i..<j])"

definition catch_up :: "(nat \<Rightarrow> io_poll) \<Rightarrow> nat \<Rightarrow> pipe_connection \<Rightarrow> pipe_connection" where
  "catch_up polls j c = c\<lparr>pi_next := j, pi_buffer := pi_buffer c @ arrived polls (pi_next c) j\<rparr>"

lemma arrived_append: "i \<le> j \<Longrightarrow> j \<le> k \<Longrightarrow> arrived polls i j @ arrived polls j k = arrived polls i k"
  unfolding arrived_def by (metis concat_append le_add_diff_inverse map_append upt_add_eq_append)

lemma arrived_simps [simp]: "arrived polls i i = []" "arrived polls i (Suc i) = po_arrived (polls i)"
  by (simp_all add: arrived_def)

lemma catch_up_fields [simp]:
  "pi_next (catch_up polls j c) = j" "pi_sent (catch_up polls j c) = pi_sent c"
  "pi_deadline (catch_up polls j c) = pi_deadline c"
  "pi_buffer (catch_up polls j c) = pi_buffer c @ arrived polls (pi_next c) j"
  by (simp_all add: catch_up_def)

lemma poll_arrives_eq: "poll_arrives (polls (pi_next c)) c = catch_up polls (Suc (pi_next c)) c"
  by (simp add: poll_arrives_def catch_up_def)

lemma catch_up_step:
  "pi_next c \<le> j \<Longrightarrow> catch_up polls (Suc k) (catch_up polls j c) = catch_up polls (Suc k) c" if "j \<le> Suc k"
  using that by (simp add: catch_up_def arrived_append)

text \<open>
  The contract that reads, writes and the acknowledgement share: an attempt that has to be repeated
  changes nothing, and none touches the clock.
\<close>

locale polled =
  fixes attempt :: "io_poll \<Rightarrow> pipe_connection \<Rightarrow> 'a attempt \<times> pipe_connection"
  assumes again_keeps: "attempt p c = (Again, c') \<Longrightarrow> c' = c"
    and clock_kept: "attempt p c = (answer, c') \<Longrightarrow> pi_next c' = pi_next c \<and> pi_deadline c' = pi_deadline c"
begin

lemma result:
  assumes "poll_until polls attempt c = Some (r, c')"
  shows "\<exists>k \<ge> pi_next c. \<exists>answer. attempt (polls k) (catch_up polls (Suc k) c) = (answer, c')
    \<and> (case r of Ok x \<Rightarrow> answer = Finished x | Err e \<Rightarrow> e = PipeIo | Panic \<Rightarrow> False)"
proof -
  have "case y of (r, c') \<Rightarrow> attempt = attempt' \<longrightarrow> (\<exists>k \<ge> pi_next c. \<exists>answer.
      attempt (polls k) (catch_up polls (Suc k) c) = (answer, c')
      \<and> (case r of Ok x \<Rightarrow> answer = Finished x | Err e \<Rightarrow> e = PipeIo | Panic \<Rightarrow> False))"
    if "poll_until polls attempt' c = Some y" for y attempt'
    using that
  proof (induction polls attempt' c y rule: poll_until.raw_induct [rotated, consumes 1])
    case (1 poll polls attempt' c y)
    show ?case
    proof (clarify)
      fix r c'
      assume y: "y = (r, c')" and [simp]: "attempt = attempt'"
      let ?p = "polls (pi_next c)"
      obtain answer c1 where answer: "attempt ?p (catch_up polls (Suc (pi_next c)) c) = (answer, c1)"
        by fastforce
      show "\<exists>k \<ge> pi_next c. \<exists>answer. attempt' (polls k) (catch_up polls (Suc k) c) = (answer, c')
        \<and> (case r of Ok x \<Rightarrow> answer = Finished x | Err e \<Rightarrow> e = PipeIo | Panic \<Rightarrow> False)"
      proof (cases "answer = Again \<and> po_instant ?p < pi_deadline c")
        case True
        then have c1: "c1 = catch_up polls (Suc (pi_next c)) c"
          using again_keeps answer by blast
        then have "poll polls attempt' c1 = Some (r, c')"
          using 1(2) True answer y by (simp add: poll_arrives_eq)
        from 1(1) [OF this] obtain k where "pi_next c1 \<le> k" "\<exists>answer. attempt (polls k) (catch_up polls (Suc k) c1) = (answer, c')
            \<and> (case r of Ok x \<Rightarrow> answer = Finished x | Err e \<Rightarrow> e = PipeIo | Panic \<Rightarrow> False)"
          by auto
        then show ?thesis
          by (intro exI [of _ k]) (simp add: c1 catch_up_step)
      next
        case False
        then show ?thesis
          using 1(2) answer y clock_kept [OF answer]
          by (intro exI [of _ "pi_next c"]) (auto simp: poll_arrives_eq split: attempt.splits)
      qed
    qed
  qed
  from this [OF assms] show ?thesis by simp
qed

text \<open>Time runs out for every connection: the loop returns whatever the peer does.\<close>

lemma returns:
  assumes "\<forall>t. \<exists>j. \<forall>k \<ge> j. t \<le> po_instant (polls k)"
  shows "\<exists>r c'. poll_until polls attempt c = Some (r, c')"
proof -
  obtain j where late: "\<And>k. j \<le> k \<Longrightarrow> pi_deadline c \<le> po_instant (polls k)"
    using assms by blast
  then show ?thesis
  proof (induction "j - pi_next c" arbitrary: c rule: less_induct)
    case less
    let ?p = "polls (pi_next c)"
    obtain answer c1 where answer: "attempt ?p (poll_arrives ?p c) = (answer, c1)"
      by fastforce
    show ?case
    proof (cases "answer = Again \<and> po_instant ?p < pi_deadline c")
      case True
      then have c1: "c1 = catch_up polls (Suc (pi_next c)) c"
        using again_keeps answer by (simp add: poll_arrives_eq)
      have "pi_next c < j"
        using True less.prems [of "pi_next c"] by fastforce
      with c1 have "\<exists>r c'. poll_until polls attempt c1 = Some (r, c')"
        by (intro less.hyps) (auto intro: less.prems)
      then show ?thesis
        using True answer c1 by (subst poll_until.simps) simp
    next
      case False
      then show ?thesis
        using answer clock_kept [OF answer]
        by (subst poll_until.simps) (auto simp: poll_arrives_def split: attempt.split)
    qed
  qed
qed

end

interpretation reading: polled "read_attempt n" for n
  by unfold_locales (auto simp: read_attempt_def split: if_splits)

interpretation writing: polled "write_attempt bs" for bs
  by unfold_locales (auto simp: write_attempt_def split: if_splits)

interpretation acknowledgement: polled acknowledgement_attempt
  by unfold_locales (auto simp: acknowledgement_attempt_def split: if_splits)

section \<open>Whole messages\<close>

text \<open>Between two moments a connection takes some bytes from its peer and sends others.\<close>

definition exchanged :: "(nat \<Rightarrow> io_poll) \<Rightarrow> pipe_connection \<Rightarrow> u8 list \<Rightarrow> u8 list \<Rightarrow> pipe_connection \<Rightarrow> bool" where
  "exchanged polls c taken given c' \<longleftrightarrow> pi_next c \<le> pi_next c' \<and> pi_sent c' = pi_sent c @ given
     \<and> pi_buffer c @ arrived polls (pi_next c) (pi_next c') = taken @ pi_buffer c'"

lemma exchanged_refl [simp]: "exchanged polls c [] [] c"
  by (simp add: exchanged_def)

lemma exchanged_trans:
  assumes "exchanged polls c taken given c'" and "exchanged polls c' taken' given' c''"
  shows "exchanged polls c (taken @ taken') (given @ given') c''"
proof -
  have "arrived polls (pi_next c) (pi_next c'') = arrived polls (pi_next c) (pi_next c') @ arrived polls (pi_next c') (pi_next c'')"
    using assms by (simp add: exchanged_def arrived_append)
  with assms show ?thesis
    by (simp add: exchanged_def flip: append_assoc) (simp add: append_assoc)
qed

lemma exchanged_reset [simp]:
  "exchanged polls (reset_deadline env c) taken given c' \<longleftrightarrow> exchanged polls c taken given c'"
  by (simp add: exchanged_def reset_deadline_def)

lemma pipe_then_Ok: "pipe_then m f = Some (Ok y, c') \<longleftrightarrow> (\<exists>x c. m = Some (Ok x, c) \<and> f x c = Some (Ok y, c'))"
  by (cases m; cases "fst (the m)") (auto simp: pipe_then_def)

lemma pipe_then_None: "pipe_then m f = None \<longleftrightarrow> m = None \<or> (\<exists>x c. m = Some (Ok x, c) \<and> f x c = None)"
  by (cases m; cases "fst (the m)") (auto simp: pipe_then_def)

lemma read_chunk:
  assumes "poll_until polls (read_attempt n) c = Some (Ok chunk, c')"
  shows "exchanged polls c chunk [] c' \<and> length chunk \<le> n"
  using reading.result [OF assms]
  by (auto simp: exchanged_def read_attempt_def simp del: take_append drop_append split: if_splits)

lemma write_chunk:
  assumes "poll_until polls (write_attempt bs) c = Some (Ok n, c')"
  shows "exchanged polls c [] (take n bs) c'"
  using writing.result [OF assms]
  by (auto simp: exchanged_def write_attempt_def min_def split: if_splits)

lemma pipe_read_exact_Ok:
  "pipe_read_exact polls n c = Some (Ok bs, c') \<Longrightarrow> exchanged polls c bs [] c' \<and> length bs = n"
proof (induction polls n c arbitrary: bs rule: pipe_read_exact.induct)
  case (1 polls n c)
  show ?case
  proof (cases "n = 0")
    case False
    with "1.prems" obtain chunk rest c1 where chunk: "poll_until polls (read_attempt n) c = Some (Ok chunk, c1)" "chunk \<noteq> []"
      and rest: "pipe_read_exact polls (n - length chunk) c1 = Some (Ok rest, c')" and bs: "bs = chunk @ rest"
      by (subst (asm) pipe_read_exact.simps) (auto simp: pipe_then_Ok split: option.splits outcome.splits if_splits)
    note taken = read_chunk [OF chunk(1)]
    have "exchanged polls c1 rest [] c' \<and> length rest = n - length chunk"
      using "1.IH" [OF False chunk(1) _ _ chunk(2) rest] by simp
    with taken bs show ?thesis
      using exchanged_trans [of polls c chunk "[]" c1 rest "[]" c'] by auto
  qed (use "1.prems" in \<open>simp add: pipe_read_exact.simps\<close>)
qed

lemma pipe_write_all_Ok: "pipe_write_all polls bs c = Some (Ok u, c') \<Longrightarrow> exchanged polls c [] bs c'"
proof (induction polls bs c rule: pipe_write_all.induct)
  case (1 polls bs c)
  show ?case
  proof (cases "bs = []")
    case False
    with "1.prems" obtain n c1 where n: "poll_until polls (write_attempt bs) c = Some (Ok n, c1)" "n \<noteq> 0"
      and rest: "pipe_write_all polls (drop n bs) c1 = Some (Ok u, c')"
      by (subst (asm) pipe_write_all.simps) (auto split: option.splits outcome.splits if_splits)
    have "exchanged polls c1 [] (drop n bs) c'"
      using "1.IH" [OF False n(1) _ _ n(2) rest] by simp
    then show ?thesis
      using exchanged_trans [OF write_chunk [OF n(1)]] by fastforce
  qed (use "1.prems" in \<open>simp add: pipe_write_all.simps\<close>)
qed

lemma pipe_read_frame_Ok:
  assumes "pipe_read_frame polls from_slice c = Some (Ok v, c')"
  obtains payload where "exchanged polls c (encoded_frame payload) [] c'" "from_slice payload = Some v"
    "payload \<noteq> []" "length payload \<le> MAX_FRAME_BYTES"
proof -
  obtain header payload c1 where r: "pipe_read_exact polls 4 c = Some (Ok header, c1)"
    "unat (from_le_bytes header) \<noteq> 0" "unat (from_le_bytes header) \<le> MAX_FRAME_BYTES"
    "pipe_read_exact polls (unat (from_le_bytes header)) c1 = Some (Ok payload, c')" "from_slice payload = Some v"
    using assms by (auto simp: pipe_read_frame_def pipe_then_Ok Let_def ok_or_iffs split: if_splits)
  note header = pipe_read_exact_Ok [OF r(1)] and payload = pipe_read_exact_Ok [OF r(4)]
  then have "encoded_frame payload = header @ payload"
    by (simp add: encoded_frame_def to_from_le_bytes)
  with header payload show thesis
    using exchanged_trans [of polls c header "[]" c1 payload "[]" c'] r(2,3,5) by (intro that [of payload]) auto
qed

lemma pipe_write_frame_Ok:
  assumes "pipe_write_frame polls to_vec v c = Some (Ok u, c')"
  obtains payload where "exchanged polls c [] (encoded_frame payload) c'" "to_vec v = Some payload"
    "length payload \<le> MAX_FRAME_BYTES"
proof -
  obtain payload c1 where w: "to_vec v = Some payload" "length payload \<le> MAX_FRAME_BYTES"
    "pipe_write_all polls (to_le_bytes (of_nat (length payload))) c = Some (Ok (), c1)"
    "pipe_write_all polls payload c1 = Some (Ok u, c')"
    using assms by (auto simp: pipe_write_frame_def pipe_then_Ok split: option.splits if_splits)
  from exchanged_trans [OF w(3,4) [THEN pipe_write_all_Ok]] w(1,2) show thesis
    by (auto simp: encoded_frame_def intro!: that)
qed

lemma frame_unique:
  assumes "encoded_frame p @ a = encoded_frame q @ b" "length p \<le> MAX_FRAME_BYTES" "length q \<le> MAX_FRAME_BYTES"
  shows "p = q \<and> a = b"
proof -
  from assms(1) have "to_le_bytes (of_nat (length p)) = to_le_bytes (of_nat (length q))" and rest: "p @ a = q @ b"
    by (simp_all add: encoded_frame_def append_eq_append_conv)
  then have "(of_nat (length p) :: u32) = of_nat (length q)"
    by (metis from_to_le_bytes)
  with assms(2,3) have "length p = length q"
    by (metis unat_frame_length)
  with rest show ?thesis by simp
qed

lemma pipe_write_all_sends:
  "pipe_write_all polls bs c = Some (r, c') \<Longrightarrow> pi_next c \<le> pi_next c' \<and> prefix (pi_sent c) (pi_sent c')"
proof (induction polls bs c arbitrary: r rule: pipe_write_all.induct)
  case (1 polls bs c)
  show ?case
  proof (cases "bs = []")
    case False
    with "1.prems" obtain r1 c1 where first: "poll_until polls (write_attempt bs) c = Some (r1, c1)"
      by (auto simp: pipe_write_all.simps [of polls bs] split: option.splits)
    have "pi_next c \<le> pi_next c1 \<and> prefix (pi_sent c) (pi_sent c1)"
      using writing.result [OF first] by (auto simp: write_attempt_def split: if_splits)
    moreover have "pi_next c1 \<le> pi_next c' \<and> prefix (pi_sent c1) (pi_sent c')"
      using "1.prems" "1.IH" [OF False first] False first
      by (subst (asm) pipe_write_all.simps) (auto split: outcome.splits if_splits)
    ultimately show ?thesis by auto
  qed (use "1.prems" in \<open>simp add: pipe_write_all.simps\<close>)
qed

lemma accept_Ok:
  "accept env first_instance = (Ok c, first') \<Longrightarrow> pi_next c = 0 \<and> pi_buffer c = [] \<and> pi_sent c = []"
  by (auto simp: accept_def split: if_splits)

lemma client_identity_Ok:
  "client_identity env = Ok elevated \<longleftrightarrow>
     nv_impersonate env \<and> nv_revert env \<and> nv_well_known_sid env \<and> nv_membership env = Some elevated"
  by (auto simp: client_identity_def ok_or_iffs)

definition reply :: "(request \<Rightarrow> bool \<Rightarrow> 's \<Rightarrow> response \<times> 's) \<Rightarrow> request \<Rightarrow> bool \<Rightarrow> 's \<Rightarrow> response \<times> 's" where
  "reply handler request elevated s =
     (if rq_protocol_version request = PROTOCOL_VERSION then handler request elevated s
      else (incompatible (rq_request_id request) (rq_protocol_version request), s))"

lemma request_at_Ok:
  assumes "request_at env J timeout request = Some (Ok response, c')"
  obtains q b d c where "jc_write_request J request = Some q" "length q \<le> MAX_FRAME_BYTES" "length b \<le> MAX_FRAME_BYTES"
    "jc_read_response J b = Some response" "check_response request response = Ok response"
    "exchanged (cn_polls env) \<lparr>pi_next = 0, pi_buffer = [], pi_sent = [], pi_deadline = d\<rparr>
       (encoded_frame b) (encoded_frame q) c"
    "pi_next c \<le> pi_next c'" "prefix (pi_sent c) (pi_sent c')"
proof -
  let ?c = "\<lparr>pi_next = 0, pi_buffer = [], pi_sent = [], pi_deadline = cn_started env + timeout\<rparr>"
  obtain r c1 c2 last_write where
    written: "pipe_write_frame (cn_polls env) (jc_write_request J) request ?c = Some (Ok (), c1)"
    and read: "pipe_read_frame (cn_polls env) (jc_read_response J) c1 = Some (Ok r, c2)"
    and checked: "check_response request r = Ok response"
    and acknowledged: "pipe_write_all (cn_polls env) [0] c2 = Some (last_write, c')"
    using assms by (auto simp: request_at_def Let_def pipe_then_Ok split: option.splits outcome.splits if_splits)
  from checked have "r = response"
    by (simp add: check_response_def split: if_splits)
  from written obtain q where q: "exchanged (cn_polls env) ?c [] (encoded_frame q) c1" "jc_write_request J request = Some q"
    "length q \<le> MAX_FRAME_BYTES"
    by (rule pipe_write_frame_Ok)
  from read obtain b where b: "exchanged (cn_polls env) c1 (encoded_frame b) [] c2" "jc_read_response J b = Some r"
    "length b \<le> MAX_FRAME_BYTES"
    by (rule pipe_read_frame_Ok)
  from exchanged_trans [OF q(1) b(1)] q b checked \<open>r = response\<close> pipe_write_all_sends [OF acknowledged] show thesis
    by (intro that [of q b "cn_started env + timeout" c2]) simp_all
qed

text \<open>The first frame that one side takes is the first one that the other side sent.\<close>

lemma first_frame:
  assumes "exchanged polls c (encoded_frame p) given c'" "pi_next c = 0" "pi_buffer c = []" "pi_next c' \<le> j"
    and "prefix (arrived polls 0 j) (encoded_frame q @ rest)"
    and "length p \<le> MAX_FRAME_BYTES" "length q \<le> MAX_FRAME_BYTES"
  shows "p = q"
proof -
  have "arrived polls 0 j = encoded_frame p @ pi_buffer c' @ arrived polls (pi_next c') j"
    using assms(1-4) arrived_append [of 0 "pi_next c'" j polls] by (auto simp: exchanged_def)
  with assms(5) obtain more where "encoded_frame p @ more = encoded_frame q @ rest"
    by (auto simp: prefix_def)
  then show ?thesis
    using frame_unique assms(6,7) by blast
qed

text \<open>A client reaches the handler only with one whole request and a known identity.\<close>

lemma serve_one_handles:
  assumes "serve_one env J handler first_instance s = (r, first', s')"
  obtains (nothing) "s' = s" "\<And>c. r \<noteq> Some (Ok (), c)"
  | (request) c c1 payload request elevated where "accept env first_instance = (Ok c, first')"
      "exchanged (nv_polls env) c (encoded_frame payload) [] c1" "jc_read_request J payload = Some request"
      "payload \<noteq> []" "length payload \<le> MAX_FRAME_BYTES" "client_identity env = Ok elevated"
      "s' = snd (reply handler request elevated s)"
      "r = pipe_then (pipe_write_frame (nv_polls env) (jc_write_response J) (fst (reply handler request elevated s))
         (reset_deadline env (reset_deadline env c1))) (\<lambda>_ c. poll_until (nv_polls env) acknowledgement_attempt c)"
proof (cases "\<exists>c c1 request elevated. accept env first_instance = (Ok c, first')
    \<and> pipe_read_frame (nv_polls env) (jc_read_request J) c = Some (Ok request, c1) \<and> client_identity env = Ok elevated")
  case True
  then obtain c c1 request' elevated where served: "accept env first_instance = (Ok c, first')"
    "pipe_read_frame (nv_polls env) (jc_read_request J) c = Some (Ok request', c1)" "client_identity env = Ok elevated"
    by blast
  from served(2) obtain payload where "exchanged (nv_polls env) c (encoded_frame payload) [] c1"
    "jc_read_request J payload = Some request'" "payload \<noteq> []" "length payload \<le> MAX_FRAME_BYTES"
    by (rule pipe_read_frame_Ok)
  with served assms show thesis
    by (intro request [of c payload c1 request' elevated])
      (auto simp: serve_one_def answer_request_def reply_def Let_def split: prod.splits if_splits)
next
  case False
  with assms have "s' = s \<and> r \<noteq> Some (Ok (), c)" for c
    by (auto simp: serve_one_def answer_request_def split: prod.splits outcome.splits option.splits)
  then show thesis
    by (intro that(1)) simp_all
qed

section \<open>Properties\<close>

text \<open>The clock of the polls passes every instant.\<close>

definition time_passes :: "(nat \<Rightarrow> io_poll) \<Rightarrow> bool" where
  "time_passes polls \<longleftrightarrow> (\<forall>t. \<exists>j. \<forall>k \<ge> j. t \<le> po_instant (polls k))"

lemma pipe_read_exact_returns: "time_passes polls \<Longrightarrow> pipe_read_exact polls n c \<noteq> None"
proof (induction polls n c rule: pipe_read_exact.induct)
  case (1 polls n c)
  obtain r c1 where first: "poll_until polls (read_attempt n) c = Some (r, c1)"
    using reading.returns "1.prems" by (fastforce simp: time_passes_def)
  have "pipe_read_exact polls (n - length chunk) c1 \<noteq> None" if "n \<noteq> 0" "r = Ok chunk" "chunk \<noteq> []" for chunk
    using "1.IH" [OF that(1) first _ that(2) that(3)] "1.prems" by simp
  then show ?case
    by (subst pipe_read_exact.simps) (simp add: first pipe_then_None del: not_None_eq split: outcome.split)
qed

lemma pipe_write_all_returns: "time_passes polls \<Longrightarrow> pipe_write_all polls bs c \<noteq> None"
proof (induction polls bs c rule: pipe_write_all.induct)
  case (1 polls bs c)
  then show ?case
    using writing.returns [of polls bs c]
    by (subst pipe_write_all.simps) (auto simp: time_passes_def split: outcome.split)
qed

lemma pipe_read_frame_returns: "time_passes polls \<Longrightarrow> pipe_read_frame polls from_slice c \<noteq> None"
  by (simp add: pipe_read_frame_def Let_def pipe_then_None pipe_read_exact_returns del: not_None_eq)

lemma pipe_write_frame_returns: "time_passes polls \<Longrightarrow> pipe_write_frame polls to_vec v c \<noteq> None"
  by (simp add: pipe_write_frame_def pipe_then_None pipe_write_all_returns del: not_None_eq split: option.split)

text \<open>
  C14. No client can stall or confuse the request thread. Whatever a client sends, however slowly
  and in whatever pieces, and even when it never takes its answer, serving it ends once the clock has
  passed the deadlines. The handler runs at most once, and only for one complete frame within the size
  limit that decodes to a request of this protocol version; it is told that the client is an
  administrator exactly when Windows says so of the impersonated client. In every other case the
  state of the service is untouched.
\<close>

theorem clients_cannot_stall_the_service:
  assumes "time_passes (nv_polls env)"
    and "serve_one env J handler first_instance s = (r, first', s')"
  shows "r \<noteq> None
    \<and> (s' = s \<or> (\<exists>j payload rest request elevated. arrived (nv_polls env) 0 j = encoded_frame payload @ rest
         \<and> length payload \<le> MAX_FRAME_BYTES \<and> jc_read_request J payload = Some request
         \<and> rq_protocol_version request = PROTOCOL_VERSION \<and> nv_impersonate env \<and> nv_revert env
         \<and> nv_membership env = Some elevated \<and> s' = snd (handler request elevated s)))"
proof
  have "poll_until (nv_polls env) acknowledgement_attempt c \<noteq> None" for c
    using acknowledgement.returns assms(1) by (fastforce simp: time_passes_def)
  then have "fst (answer_request env J handler c request s) \<noteq> None" for c request
    by (simp add: answer_request_def pipe_then_None pipe_write_frame_returns [OF assms(1)] Let_def split_beta
        del: not_None_eq split: outcome.split)
  then have "fst (serve_one env J handler first_instance s) \<noteq> None"
    by (simp add: serve_one_def pipe_read_frame_returns [OF assms(1)] Let_def split_beta del: not_None_eq
        split: outcome.split option.split)
  with assms(2) show "r \<noteq> None" by simp
next
  from assms(2) show "s' = s \<or> (\<exists>j payload rest request elevated. arrived (nv_polls env) 0 j = encoded_frame payload @ rest
      \<and> length payload \<le> MAX_FRAME_BYTES \<and> jc_read_request J payload = Some request
      \<and> rq_protocol_version request = PROTOCOL_VERSION \<and> nv_impersonate env \<and> nv_revert env
      \<and> nv_membership env = Some elevated \<and> s' = snd (handler request elevated s))"
  proof (cases rule: serve_one_handles)
    case (request c c1 payload request elevated)
    then have "arrived (nv_polls env) 0 (pi_next c1) = encoded_frame payload @ pi_buffer c1"
      using accept_Ok [OF request(1)] by (simp add: exchanged_def)
    with request show ?thesis
      by (auto simp: reply_def client_identity_Ok)
  qed simp
qed

definition sample_polls :: "nat \<Rightarrow> u8 list \<Rightarrow> u8 list \<Rightarrow> nat \<Rightarrow> io_poll" where
  "sample_polls when first ack k = \<lparr>po_instant = 1000 * k, po_status = CallOk,
     po_arrived = (if k = when then first else if k = 4 then ack else []), po_room = 100\<rparr>"

definition sample_serve :: "(nat \<Rightarrow> io_poll) \<Rightarrow> serve_env" where
  "sample_serve polls = \<lparr>nv_create = (\<lambda>_. True), nv_connect = Connected, nv_set_mode = True, nv_impersonate = True,
     nv_well_known_sid = True, nv_membership = Some False, nv_revert = True, nv_polls = polls\<rparr>"

definition sample_json :: json_codec where
  "sample_json = \<lparr>jc_read_request = (\<lambda>bs. if bs = [7] then Some (new_request 9 Unenroll) else None),
     jc_write_request = (\<lambda>r. if r = new_request 9 Unenroll then Some [7] else None),
     jc_read_response = (\<lambda>bs. if bs = [8] then Some (new_response 9 administrator_required) else None),
     jc_write_response = (\<lambda>r. if r = new_response 9 administrator_required then Some [8] else None)\<rparr>"

lemma sample_time_passes: "time_passes (sample_polls when first ack)"
  unfolding time_passes_def sample_polls_def
proof
  fix t :: nat
  show "\<exists>j. \<forall>k\<ge>j. t \<le> po_instant \<lparr>po_instant = 1000 * k, po_status = CallOk,
      po_arrived = (if k = when then first else if k = 4 then ack else []), po_room = 100\<rparr>"
    by (intro exI [of _ t]) simp
qed

theorem clients_cannot_stall_the_service_witness:
  "fst (serve_one (sample_serve (sample_polls 0 [2, 0] [])) sample_json
     (\<lambda>request elevated rt. handle_request sample_chrono (sample_dispatch_env\<lparr>re_elevated := elevated\<rparr>) request rt)
     True sample_runtime) \<noteq> None"
proof -
  obtain r first' s' where r: "serve_one (sample_serve (sample_polls 0 [2, 0] [])) sample_json
     (\<lambda>request elevated rt. handle_request sample_chrono (sample_dispatch_env\<lparr>re_elevated := elevated\<rparr>) request rt)
     True sample_runtime = (r, first', s')"
    by (meson prod_cases3)
  have "time_passes (nv_polls (sample_serve (sample_polls 0 [2, 0] [])))"
    by (simp add: sample_serve_def sample_time_passes)
  from clients_cannot_stall_the_service [OF this r] r show ?thesis by simp
qed

text \<open>
  C10. A request gets the answer of the service and no other. When the client returns a response, the
  service has completed the exchange, and each side received the bytes that the other one sent, in
  order and possibly not all of them, then the response is the one that the handler computed for
  exactly this request with the rights of this client, and the service is in the state the handler
  left.
\<close>

theorem requests_reach_the_handler:
  assumes "request_at cenv J timeout request = Some (Ok response, cc)"
    and "serve_one senv J handler first_instance s = (Some (Ok (), sc), first', s')"
    and "prefix (arrived (nv_polls senv) 0 (pi_next sc)) (pi_sent cc)"
    and "prefix (arrived (cn_polls cenv) 0 (pi_next cc)) (pi_sent sc)"
    and "\<And>r bs. jc_write_request J r = Some bs \<Longrightarrow> jc_read_request J bs = Some r"
    and "\<And>r bs. jc_write_response J r = Some bs \<Longrightarrow> jc_read_response J bs = Some r"
    and "rq_protocol_version request = PROTOCOL_VERSION"
  shows "\<exists>elevated. nv_membership senv = Some elevated \<and> handler request elevated s = (response, s')
    \<and> rp_protocol_version response = PROTOCOL_VERSION \<and> rp_request_id response = rq_request_id request"
  using assms(2)
proof (cases rule: serve_one_handles)
  case (request c c1 payload request' elevated)
  obtain answer c2 where answer: "exchanged (nv_polls senv) c1 [] (encoded_frame answer) c2"
      "jc_write_response J (fst (reply handler request' elevated s)) = Some answer" "length answer \<le> MAX_FRAME_BYTES"
    and ack: "poll_until (nv_polls senv) acknowledgement_attempt c2 = Some (Ok (), sc)"
    using request(8) [symmetric] by (auto simp: pipe_then_Ok elim!: pipe_write_frame_Ok)
  note start = accept_Ok [OF request(1)]
  have sc: "pi_next c2 \<le> pi_next sc" "pi_sent sc = encoded_frame answer"
    using acknowledgement.result [OF ack] exchanged_trans [OF request(2) answer(1)] start
    by (auto simp: acknowledgement_attempt_def exchanged_def split: if_splits)
  from assms(1) obtain q b d c3 where client: "jc_write_request J request = Some q" "length q \<le> MAX_FRAME_BYTES"
      "length b \<le> MAX_FRAME_BYTES" "jc_read_response J b = Some response" "check_response request response = Ok response"
      "exchanged (cn_polls cenv) \<lparr>pi_next = 0, pi_buffer = [], pi_sent = [], pi_deadline = d\<rparr>
         (encoded_frame b) (encoded_frame q) c3"
      "pi_next c3 \<le> pi_next cc" "prefix (pi_sent c3) (pi_sent cc)"
    by (rule request_at_Ok)
  from client(6,8) obtain rest where "pi_sent cc = encoded_frame q @ rest"
    by (auto simp: exchanged_def prefix_def)
  then have "payload = q"
    using first_frame [OF request(2), of "pi_next sc" q rest] start answer(1) sc(1) assms(3) request(5) client(2)
    by (simp add: exchanged_def)
  then have "request' = request"
    using assms(5) [OF client(1)] request(3) by simp
  have "b = answer"
    using first_frame [OF client(6), of "pi_next cc" answer "[]"] client(3,7) assms(4) sc(2) answer(3) by simp
  then have "fst (reply handler request' elevated s) = response"
    using assms(6) [OF answer(2)] client(4) by simp
  with \<open>request' = request\<close> request(6,7) assms(7) client(5) show ?thesis
    by (auto simp: reply_def client_identity_Ok check_response_def prod_eq_iff split: if_splits)
qed blast+

definition sample_client :: "(nat \<Rightarrow> io_poll) \<Rightarrow> client_env" where
  "sample_client polls = \<lparr>cn_open = (\<lambda>i. (if i = 0 then PipeBusy else Opened, i)), cn_started = 0, cn_set_mode = True, cn_polls = polls\<rparr>"

definition sample_handler :: "request \<Rightarrow> bool \<Rightarrow> nat \<Rightarrow> response \<times> nat" where
  "sample_handler request elevated s = (new_response (rq_request_id request) administrator_required, s + 1)"

lemma serve_one_joined:
  assumes "nv_create env False"
  shows "serve_one env J handler False s = serve_one (env\<lparr>nv_create := \<lambda>_. True\<rparr>) J handler True s"
proof -
  have reset: "reset_deadline (env\<lparr>nv_create := \<lambda>_. True\<rparr>) c = reset_deadline env c" for c
    by (simp add: reset_deadline_def)
  have answer: "answer_request (env\<lparr>nv_create := \<lambda>_. True\<rparr>) J handler c request s = answer_request env J handler c request s"
    for c request s
    by (simp add: answer_request_def client_identity_def reset Let_def split_beta split: outcome.split)
  from assms show ?thesis
    by (simp add: serve_one_def accept_def answer reset Let_def split_beta split: outcome.split option.split)
qed

text \<open>
  C38. The protection against a program that takes the pipe name before the service starts does not
  last. The first pass of the request loop is refused as intended and serves nobody, but the flag is
  given up with it: if the owner of the foreign pipe lets the service create an instance of it, the
  next passes serve clients there exactly as if the name were the service's own.
\<close>

theorem squatted_name_is_joined:
  assumes "\<not> nv_create env True" and "nv_create env' False"
  shows "(\<exists>c. serve_one env J handler True s = (Some (Err WindowsError, c), False, s))
    \<and> serve_clients J handler (env # env' # envs) True s
      = serve_clients J handler (env'\<lparr>nv_create := \<lambda>_. True\<rparr> # envs) True s"
  using assms serve_one_joined [OF assms(2), of J handler s] by (simp add: serve_one_def [of env] accept_def [of env])

theorem squatted_name_is_joined_witness:
  "serve_clients sample_json sample_handler [sample_serve (sample_polls 0 [] [])\<lparr>nv_create := Not\<rparr>,
       sample_serve (sample_polls 0 [1, 0, 0, 0, 7] [0])\<lparr>nv_create := Not\<rparr>] True 0
     = serve_clients sample_json sample_handler [sample_serve (sample_polls 0 [1, 0, 0, 0, 7] [0])\<lparr>nv_create := \<lambda>_. True\<rparr>] True 0"
  using squatted_name_is_joined [of "sample_serve (sample_polls 0 [] [])\<lparr>nv_create := Not\<rparr>"
      "sample_serve (sample_polls 0 [1, 0, 0, 0, 7] [0])\<lparr>nv_create := Not\<rparr>" sample_json sample_handler 0 "[]"]
  by simp

lemma sample_exchange:
  "request_at (sample_client (sample_polls 2 [1, 0, 0, 0, 8] [])) sample_json 2000 (new_request 9 Unenroll) =
     Some (Ok (new_response 9 administrator_required),
       \<lparr>pi_next = 5, pi_buffer = [], pi_sent = [1, 0, 0, 0, 7, 0], pi_deadline = 2000\<rparr>)"
  "serve_one (sample_serve (sample_polls 0 [1, 0, 0, 0, 7] [0])) sample_json sample_handler True 0 =
     (Some (Ok (), \<lparr>pi_next = 5, pi_buffer = [], pi_sent = [1, 0, 0, 0, 8], pi_deadline = 7000\<rparr>), False, 1)"
  by (simp_all add: request_at_def serve_one_def accept_def answer_request_def client_identity_def
      sample_client_def sample_serve_def sample_json_def sample_handler_def sample_polls_def open_pipe.simps
      pipe_connect_error_is_retryable_def pipe_read_frame_def pipe_write_frame_def pipe_then_def
      pipe_read_exact.simps pipe_write_all.simps poll_until.simps poll_arrives_def read_attempt_def
      write_attempt_def acknowledgement_attempt_def reset_deadline_def check_response_def new_request_def
      new_response_def to_le_bytes_def from_le_bytes_def MAX_FRAME_BYTES_def SERVER_IO_TIMEOUT_def Let_def)

theorem requests_reach_the_handler_witness:
  "\<exists>elevated. sample_handler (new_request 9 Unenroll) elevated 0 = (new_response 9 administrator_required, 1)"
proof -
  have "prefix (arrived (nv_polls (sample_serve (sample_polls 0 [1, 0, 0, 0, 7] [0]))) 0 5) [1, 0, 0, 0, 7, 0]"
    "prefix (arrived (cn_polls (sample_client (sample_polls 2 [1, 0, 0, 0, 8] []))) 0 5) [1, 0, 0, 0, 8]"
    by (simp_all add: arrived_def sample_serve_def sample_client_def sample_polls_def upt_rec)
  then have "\<exists>elevated. nv_membership (sample_serve (sample_polls 0 [1, 0, 0, 0, 7] [0])) = Some elevated
      \<and> sample_handler (new_request 9 Unenroll) elevated 0 = (new_response 9 administrator_required, 1)
      \<and> rp_protocol_version (new_response 9 administrator_required) = PROTOCOL_VERSION
      \<and> rp_request_id (new_response 9 administrator_required) = rq_request_id (new_request 9 Unenroll)"
    by (intro requests_reach_the_handler [OF sample_exchange])
      (auto simp: sample_json_def new_request_def split: if_splits)
  then show ?thesis by blast
qed

end
