(* ===== verification/Diagnostics.thy ===== *)
theory Diagnostics
  imports Protocol Outcomes
begin

text \<open>
  \<^verbatim>\<open>apps/resticpal-service/src/diagnostics.rs\<close>: the operational log, one JSON document per line, in a
  file that is rotated through three archives. The directory maps file names to contents; a set of
  faults says which system calls fail. The JSON library is a pair of arguments. Writers and readers
  hold one lock, so that an operation is one step.
\<close>

section \<open>Log files\<close>






definition archive_path :: "nat \<Rightarrow> string" where
  "archive_path index = ''service.'' @ ''jsonl.'' @ decimal index"










section \<open>What the log holds\<close>

lemma archive_paths [simp]:
  "archive_path 1 = ''service.jsonl.1''" "archive_path (Suc 0) = ''service.jsonl.1''"
  "archive_path 2 = ''service.jsonl.2''" "archive_path (Suc (Suc 0)) = ''service.jsonl.2''" "archive_path 3 = ''service.jsonl.3''"
  by (simp_all add: archive_path_def decimal.simps digit_char_def char_of_def bit_0)




















section \<open>Properties\<close>













end
