(* ===== verification/Tray.thy ===== *)
theory Tray
  imports Requests
begin

text \<open>
  \<^verbatim>\<open>apps/resticpal-tray/src/main.rs\<close>: the notification-area program of a user session. Its state
  is the variables the window procedure and the update thread share; its effects on the desktop and
  the requests it sends are recorded in the state. The answers of the service, of the shell and of the
  clock during one message are arguments, as are the HTTP client and the signature library.
\<close>

section \<open>Notifications\<close>

datatype ui_destination = DefaultPage | SetupPage | UpdatesPage

definition MAX_PENDING_BALLOON_ROUTES :: nat where "MAX_PENDING_BALLOON_ROUTES = 16"

record balloon_routes =
  br_pending :: "ui_destination list"
  br_active :: "ui_destination option"

definition reserve_route :: "ui_destination \<Rightarrow> balloon_routes \<Rightarrow> bool \<times> balloon_routes" where
  "reserve_route destination b =
     (if MAX_PENDING_BALLOON_ROUTES \<le> length (br_pending b) then (False, b)
      else (True, b\<lparr>br_pending := br_pending b @ [destination]\<rparr>))"

definition cancel_latest :: "balloon_routes \<Rightarrow> balloon_routes" where
  "cancel_latest b = b\<lparr>br_pending := butlast (br_pending b)\<rparr>"

definition balloon_shown :: "balloon_routes \<Rightarrow> balloon_routes" where
  "balloon_shown b = (case br_pending b of [] \<Rightarrow> b | d # ds \<Rightarrow> b\<lparr>br_pending := ds, br_active := Some d\<rparr>)"

definition balloon_dismissed :: "balloon_routes \<Rightarrow> balloon_routes" where
  "balloon_dismissed b =
     (case br_active b of None \<Rightarrow> b\<lparr>br_pending := tl (br_pending b)\<rparr> | Some d \<Rightarrow> b\<lparr>br_active := None\<rparr>)"

definition balloon_clicked :: "balloon_routes \<Rightarrow> ui_destination \<times> balloon_routes" where
  "balloon_clicked b =
     (case br_active b of
        Some d \<Rightarrow> (d, b\<lparr>br_active := None\<rparr>)
      | None \<Rightarrow> (case br_pending b of [] \<Rightarrow> (DefaultPage, b) | d # ds \<Rightarrow> (d, b\<lparr>br_pending := ds\<rparr>)))"

definition no_routes :: balloon_routes where "no_routes = \<lparr>br_pending = [], br_active = None\<rparr>"

section \<open>State\<close>

datatype tray_timer = OnboardingTimer | UpdateTimer | UpdateRetryTimer | BackupStatusTimer

definition ONBOARDING_RETRY_INTERVAL_MS :: u32 where "ONBOARDING_RETRY_INTERVAL_MS = 1000"
definition ONBOARDING_MAX_ATTEMPTS :: u64 where "ONBOARDING_MAX_ATTEMPTS = 120"
definition BACKUP_STATUS_INTERVAL_MS :: u32 where "BACKUP_STATUS_INTERVAL_MS = 1000"
definition BACKUP_WAITING_INTERVAL_MS :: u32 where "BACKUP_WAITING_INTERVAL_MS = 30000"
definition BACKUP_FAST_POLL_TICKS :: u64 where "BACKUP_FAST_POLL_TICKS = 15"
definition BACKUP_MONITOR_TIMEOUT :: nat where "BACKUP_MONITOR_TIMEOUT = 2 * 60 * 60"
definition UPDATE_CHECK_INTERVAL_MS :: u32 where "UPDATE_CHECK_INTERVAL_MS = 6 * 60 * 60 * 1000"
definition UPDATE_RETRY_INTERVAL_MS :: u32 where "UPDATE_RETRY_INTERVAL_MS = 5 * 60 * 1000"
definition UPDATE_ACCEPTED_FOLLOW_UP_INTERVAL_MS :: u32 where
  "UPDATE_ACCEPTED_FOLLOW_UP_INTERVAL_MS = UPDATE_CHECK_INTERVAL_MS"
definition UPDATE_PROMPT_INTERVAL :: nat where "UPDATE_PROMPT_INTERVAL = 24 * 60 * 60"
definition MAX_UPDATE_APPCAST_BYTES :: nat where "MAX_UPDATE_APPCAST_BYTES = 256 * 1024"
definition MAX_UPDATE_SIGNATURE_BYTES :: nat where "MAX_UPDATE_SIGNATURE_BYTES = 1024"
definition BACKUP_WARNING_NOTIFICATION :: string where
  "BACKUP_WARNING_NOTIFICATION = ''The backup finished with a warning. Open resticpal to review what needs attention.''"

record tray =
  tr_routes :: balloon_routes
  tr_update_available :: bool
  tr_update_check_running :: bool
  tr_timers :: "tray_timer \<rightharpoonup> u32"
  tr_onboarding_attempts :: u64
  tr_last_left_click :: "u32 option"
  tr_baseline_known :: bool
  tr_baseline_attempt :: "int option"
  tr_ticks :: u64
  tr_started :: "nat option"
  tr_observed_running :: bool
  tr_started_shown :: bool
  tr_next_request_id :: u64
  tr_requests :: "request list"
  tr_notifications :: "(string \<times> string \<times> ui_destination) list"
  tr_launches :: "ui_destination list"
  tr_errors :: "string list"
  tr_update_posted :: nat
  tr_open :: bool

text \<open>What the service, the shell, the files of the user and the clocks answer during one message.\<close>

datatype menu_choice = MenuOpen | MenuUpdate | MenuRunBackup | MenuExit | MenuNothing

record tray_env =
  te_respond :: "request_command \<Rightarrow> response_payload option"
  te_shell_ok :: bool
  te_now :: nat
  te_onboarding_marker :: bool
  te_launch_in_progress :: bool
  te_executable_known :: bool
  te_launched :: bool
  te_menu_ok :: bool
  te_menu_choice :: menu_choice
  te_message_time :: u32
  te_double_click_time :: u32

definition set_timer :: "tray_timer \<Rightarrow> u32 \<Rightarrow> tray \<Rightarrow> tray" where
  "set_timer timer interval t = t\<lparr>tr_timers := (tr_timers t)(timer \<mapsto> interval)\<rparr>"

definition kill_timer :: "tray_timer \<Rightarrow> tray \<Rightarrow> tray" where
  "kill_timer timer t = t\<lparr>tr_timers := (tr_timers t)(timer := None)\<rparr>"

definition show_error :: "string \<Rightarrow> tray \<Rightarrow> tray" where
  "show_error message t = t\<lparr>tr_errors := tr_errors t @ [message]\<rparr>"

definition send_request :: "tray_env \<Rightarrow> request_command \<Rightarrow> tray \<Rightarrow> response_payload option \<times> tray" where
  "send_request env command t =
     (te_respond env command, t\<lparr>tr_next_request_id := tr_next_request_id t + 1,
        tr_requests := tr_requests t @ [new_request (tr_next_request_id t) command]\<rparr>)"

definition show_tray_notification :: "tray_env \<Rightarrow> string \<Rightarrow> string \<Rightarrow> ui_destination \<Rightarrow> tray \<Rightarrow> tray" where
  "show_tray_notification env title message destination t =
     (case reserve_route destination (tr_routes t) of
        (False, routes) \<Rightarrow> t\<lparr>tr_routes := routes\<rparr>
      | (True, routes) \<Rightarrow>
          if te_shell_ok env then
            t\<lparr>tr_routes := routes, tr_notifications := tr_notifications t @ [(title, message, destination)]\<rparr>
          else t\<lparr>tr_routes := cancel_latest routes\<rparr>)"

text \<open>
  Consent to the elevation pumps messages: a message can be handled inside a launch, and then starts no
  other one. Of messages that quote an error only the fixed part is kept.
\<close>

definition launch_ui :: "tray_env \<Rightarrow> ui_destination \<Rightarrow> tray \<Rightarrow> bool \<times> tray" where
  "launch_ui env destination t =
     (if te_launch_in_progress env then (True, t)
      else if \<not> te_executable_known env then
        (False, show_error ''The resticpal installation path could not be found.'' t)
      else if te_launched env then (True, t\<lparr>tr_launches := tr_launches t @ [destination]\<rparr>)
      else (False, show_error ''The resticpal settings application could not be opened.'' t))"

section \<open>Updates\<close>

record update_source =
  us_appcast_url :: string
  us_signature_url :: string

definition UPDATE_APPCAST_SOURCES :: "update_source list" where
  "UPDATE_APPCAST_SOURCES =
     [\<lparr>us_appcast_url = ''https://updates.resticpal.com/appcast-v2.xml'',
       us_signature_url = ''https://updates.resticpal.com/appcast-v2.xml.signature''\<rparr>,
      \<lparr>us_appcast_url = ''https://github.com/theatrus/resticpal/releases/latest/download/appcast-v2.xml'',
       us_signature_url = ''https://github.com/theatrus/resticpal/releases/latest/download/appcast-v2.xml.signature''\<rparr>]"

datatype update_check = Current | Available update_package

datatype automatic_update_setting = UpdatesEnabled | UpdatesDisabled | UpdatesUnavailable
datatype available_update_action = RequestSilentInstall | Prompt | RetryAvailable
datatype user_update_action = OpenManualUi | CheckSilently | RetryUser

fun available_update_action_of :: "automatic_update_setting \<Rightarrow> available_update_action" where
  "available_update_action_of UpdatesEnabled = RequestSilentInstall"
| "available_update_action_of UpdatesDisabled = Prompt"
| "available_update_action_of UpdatesUnavailable = RetryAvailable"

definition automatic_update_follow_up_interval :: "bool \<Rightarrow> u32" where
  "automatic_update_follow_up_interval accepted =
     (if accepted then UPDATE_ACCEPTED_FOLLOW_UP_INTERVAL_MS else UPDATE_RETRY_INTERVAL_MS)"

fun user_update_action_of :: "automatic_update_setting \<Rightarrow> user_update_action" where
  "user_update_action_of UpdatesDisabled = OpenManualUi"
| "user_update_action_of UpdatesEnabled = CheckSilently"
| "user_update_action_of UpdatesUnavailable = RetryUser"

text \<open>\<^verbatim>\<open>str::find\<close>, the byte position of the first occurrence.\<close>

fun find_str :: "string \<Rightarrow> string \<Rightarrow> nat option" where
  "find_str p s =
     (if prefix p s then Some 0
      else case s of [] \<Rightarrow> None | _ # s' \<Rightarrow> map_option Suc (find_str p s'))"

definition extract_between :: "string \<Rightarrow> string \<Rightarrow> string \<Rightarrow> string option" where
  "extract_between document opening closing =
     Option.bind (find_str opening document) (\<lambda>position.
     let start = position + length opening
     in map_option (\<lambda>n. take n (drop start document)) (find_str closing (drop start document)))"

definition extract_xml_attribute :: "string \<Rightarrow> string \<Rightarrow> string option" where
  "extract_xml_attribute element name =
     (let marker = '' '' @ name @ [CHR ''='', CHR 0x22]
      in Option.bind (find_str marker element) (\<lambda>position.
         let rest = drop (position + length marker) element
         in Option.bind (find_str [CHR 0x22] rest) (\<lambda>n. if take n rest = [] then None else Some (take n rest))))"

text \<open>The integer parser of the standard library takes an optional plus sign.\<close>

definition parse_u64 :: "string \<Rightarrow> u64 option" where
  "parse_u64 s =
     (let digits = (if s \<noteq> [] \<and> hd s = CHR ''+'' then tl s else s)
      in if digits \<noteq> [] \<and> list_all is_ascii_digit digits \<and> decimal_value digits < 2 ^ 64
         then Some (of_nat (decimal_value digits)) else None)"

definition parse_version_component :: "string \<Rightarrow> u64 option" where
  "parse_version_component v = (if v \<noteq> [] \<and> list_all is_ascii_digit v then parse_u64 v else None)"

definition parse_product_version :: "string \<Rightarrow> (u64 \<times> u64 \<times> u64) option" where
  "parse_product_version v =
     (case split_char (CHR ''.'') v of
        [a, b, c] \<Rightarrow>
          Option.bind (parse_version_component a) (\<lambda>x.
          Option.bind (parse_version_component b) (\<lambda>y.
          Option.bind (parse_version_component c) (\<lambda>z. Some (x, y, z))))
      | _ \<Rightarrow> None)"

fun product_version_less :: "u64 \<times> u64 \<times> u64 \<Rightarrow> u64 \<times> u64 \<times> u64 \<Rightarrow> bool" where
  "product_version_less (a, b, c) (x, y, z) = (a < x \<or> a = x \<and> (b < y \<or> b = y \<and> c < z))"

definition extract_update_package :: "string \<Rightarrow> update_package option" where
  "extract_update_package document =
     Option.bind (extract_between document ''<sparkle:version>'' ''</sparkle:version>'') (\<lambda>text_between.
     let version = trim text_between in
     Option.bind (parse_product_version version) (\<lambda>_.
     Option.bind (find_str ''<enclosure '' document) (\<lambda>start.
     let enclosure = drop start document in
     Option.bind (find_str ''>'' enclosure) (\<lambda>n.
     let enclosure = take (Suc n) enclosure in
     Option.bind (extract_xml_attribute enclosure ''url'') (\<lambda>url.
     Option.bind (extract_xml_attribute enclosure ''sparkle:signature'') (\<lambda>signature.
     Option.bind (extract_xml_attribute enclosure ''length'') (\<lambda>len.
     Option.bind (parse_u64 len) (\<lambda>n.
     Some \<lparr>up_version = version, up_url = url, up_signature = signature, up_length = n\<rparr>))))))))"

text \<open>The HTTP client answers with at most one byte more than asked for.\<close>

record feed_env =
  fe_fetch :: "string \<Rightarrow> nat \<Rightarrow> string option"
  fe_base64 :: "string \<Rightarrow> u8 list option"
  fe_valid_key :: "u8 list \<Rightarrow> bool"
  fe_verify_strict :: "u8 list \<Rightarrow> string \<Rightarrow> u8 list \<Rightarrow> bool"

definition fetch_bounded :: "feed_env \<Rightarrow> string \<Rightarrow> nat \<Rightarrow> string option" where
  "fetch_bounded env url max_bytes =
     Option.bind (fe_fetch env url (max_bytes + 1)) (\<lambda>body. if length body \<le> max_bytes then Some body else None)"

definition verify_signed_document :: "feed_env \<Rightarrow> string \<Rightarrow> string \<Rightarrow> string \<Rightarrow> bool" where
  "verify_signed_document env document signature public_key =
     (case fe_base64 env (trim public_key) of
        None \<Rightarrow> False
      | Some key \<Rightarrow>
          if length key \<noteq> 32 \<or> \<not> fe_valid_key env key then False
          else case fe_base64 env (trim signature) of
                 None \<Rightarrow> False
               | Some sig \<Rightarrow> length sig = 64 \<and> fe_verify_strict env key document sig)"

definition check_update_source :: "feed_env \<Rightarrow> update_source \<Rightarrow> update_check option" where
  "check_update_source env source =
     Option.bind (fetch_bounded env (us_appcast_url source) MAX_UPDATE_APPCAST_BYTES) (\<lambda>appcast.
     Option.bind (fetch_bounded env (us_signature_url source) MAX_UPDATE_SIGNATURE_BYTES) (\<lambda>signature.
     if \<not> valid_utf8 signature then None
     else if \<not> verify_signed_document env appcast signature UPDATE_PUBLIC_KEY then None
     else if \<not> valid_utf8 appcast then None
     else Option.bind (extract_update_package appcast) (\<lambda>package.
       Option.bind (parse_product_version (up_version package)) (\<lambda>available.
       Option.bind (parse_product_version CARGO_PKG_VERSION) (\<lambda>current.
       Some (if product_version_less current available then Available package else Current))))))"

fun check_update_sources :: "update_source list \<Rightarrow> (update_source \<Rightarrow> update_check option) \<Rightarrow> bool \<Rightarrow> update_check option" where
  "check_update_sources [] check current_feed_seen = (if current_feed_seen then Some Current else None)"
| "check_update_sources (source # sources) check current_feed_seen =
     (case check source of
        Some (Available package) \<Rightarrow> Some (Available package)
      | Some Current \<Rightarrow> check_update_sources sources check True
      | None \<Rightarrow> check_update_sources sources check current_feed_seen)"

definition check_for_update :: "feed_env \<Rightarrow> update_check option" where
  "check_for_update env = check_update_sources UPDATE_APPCAST_SOURCES (check_update_source env) False"

definition automatic_update_setting_of :: "tray_env \<Rightarrow> tray \<Rightarrow> automatic_update_setting \<times> tray" where
  "automatic_update_setting_of env t =
     (let (answer, t) = send_request env GetUpdateSettings t
      in (case answer of
            Some (UpdateSettingsResponse configuration) \<Rightarrow>
              if uv_automatic_install configuration then UpdatesEnabled else UpdatesDisabled
          | _ \<Rightarrow> UpdatesUnavailable, t))"

definition request_automatic_update :: "tray_env \<Rightarrow> update_package \<Rightarrow> tray \<Rightarrow> bool \<times> tray" where
  "request_automatic_update env package t =
     (let (answer, t) = send_request env (InstallUpdate package) t
      in (case answer of Some (Accepted message) \<Rightarrow> True | _ \<Rightarrow> False, t))"

definition update_prompt_is_due :: "nat \<Rightarrow> nat option \<Rightarrow> bool" where
  "update_prompt_is_due now last_prompt =
     (case last_prompt of None \<Rightarrow> True | Some before \<Rightarrow> before \<le> now \<and> UPDATE_PROMPT_INTERVAL \<le> now - before)"

text \<open>The marker file: no path when the environment names no directory, else when it was last written.\<close>

definition record_update_prompt_if_due :: "nat \<Rightarrow> nat option option \<Rightarrow> bool \<times> nat option option" where
  "record_update_prompt_if_due now marker =
     (case marker of
        None \<Rightarrow> (True, None)
      | Some last_prompt \<Rightarrow>
          if update_prompt_is_due now last_prompt then (True, Some (Some now)) else (False, Some last_prompt))"

definition start_update_check :: "tray \<Rightarrow> bool \<times> tray" where
  "start_update_check t =
     (if tr_update_check_running t then (False, t) else (True, t\<lparr>tr_update_check_running := True\<rparr>))"

text \<open>The end of the update thread, with the result of the check.\<close>

definition finish_update_check :: "tray_env \<Rightarrow> bool \<Rightarrow> update_check option \<Rightarrow> tray \<Rightarrow> tray" where
  "finish_update_check env prompt_due result t =
     (let t = (case result of
          Some (Available package) \<Rightarrow>
            (let (setting, t) = automatic_update_setting_of env t
             in case available_update_action_of setting of
                  RequestSilentInstall \<Rightarrow>
                    let (accepted, t) = request_automatic_update env package (t\<lparr>tr_update_available := False\<rparr>)
                    in set_timer UpdateRetryTimer (automatic_update_follow_up_interval accepted) t
                | Prompt \<Rightarrow>
                    let t = t\<lparr>tr_update_available := True\<rparr>
                    in if prompt_due then t\<lparr>tr_update_posted := tr_update_posted t + 1\<rparr> else t
                | RetryAvailable \<Rightarrow>
                    set_timer UpdateRetryTimer UPDATE_RETRY_INTERVAL_MS (t\<lparr>tr_update_available := False\<rparr>))
        | Some Current \<Rightarrow> t\<lparr>tr_update_available := False\<rparr>
        | None \<Rightarrow> t)
      in t\<lparr>tr_update_check_running := False\<rparr>)"

definition check_update_silently :: "tray \<Rightarrow> tray" where
  "check_update_silently t =
     set_timer UpdateRetryTimer UPDATE_RETRY_INTERVAL_MS (snd (start_update_check (t\<lparr>tr_update_available := False\<rparr>)))"

definition retry_update_silently :: "tray \<Rightarrow> tray" where
  "retry_update_silently t = set_timer UpdateRetryTimer UPDATE_RETRY_INTERVAL_MS (t\<lparr>tr_update_available := False\<rparr>)"

definition handle_user_update_request :: "tray_env \<Rightarrow> tray \<Rightarrow> tray" where
  "handle_user_update_request env t =
     (let (setting, t) = automatic_update_setting_of env t
      in case user_update_action_of setting of
           OpenManualUi \<Rightarrow> snd (launch_ui env UpdatesPage t)
         | CheckSilently \<Rightarrow> check_update_silently t
         | RetryUser \<Rightarrow> retry_update_silently t)"

definition show_update_notification :: "tray_env \<Rightarrow> tray \<Rightarrow> tray" where
  "show_update_notification env t =
     show_tray_notification env ''resticpal update available''
       ''A signed resticpal update is ready. Click to review and install it.'' UpdatesPage t"

declare find_str.simps [simp del]

section \<open>Backups\<close>

definition fetch_service_status :: "tray_env \<Rightarrow> tray \<Rightarrow> service_status option option \<times> tray" where
  "fetch_service_status env t =
     (let (answer, t) = send_request env GetStatus t
      in (case answer of
            None \<Rightarrow> None
          | Some (StatusResponse status) \<Rightarrow> Some (Some status)
          | Some _ \<Rightarrow> Some None, t))"

fun status_tooltip :: "backup_state \<Rightarrow> backup_progress option \<Rightarrow> string" where
  "status_tooltip Unconfigured progress = ''resticpal: setup required''"
| "status_tooltip Idle progress = ''resticpal: protected''"
| "status_tooltip Succeeded progress = ''resticpal: protected''"
| "status_tooltip (Waiting reason) progress =
     (case reason of
        Battery \<Rightarrow> ''resticpal: backup waiting for AC power''
      | Network \<Rightarrow> ''resticpal: backup waiting for network''
      | MeteredNetwork \<Rightarrow> ''resticpal: backup waiting for an unmetered network''
      | _ \<Rightarrow> ''resticpal: backup waiting'')"
| "status_tooltip (Running phase) progress =
     (case Option.bind progress bp_percent_done of
        Some percent \<Rightarrow> ''resticpal: backup running ('' @ decimal (unat percent) @ ''%)''
      | None \<Rightarrow> ''resticpal: backup running'')"
| "status_tooltip SucceededWithWarnings progress = ''resticpal: backup completed with warnings''"
| "status_tooltip (Failed c) progress = ''resticpal: backup needs attention''"
| "status_tooltip Cancelled progress = ''resticpal: last backup cancelled''"
| "status_tooltip Paused progress = ''resticpal: backups paused''"

text \<open>Refreshing the tool tip fails when the service or the shell does; the tool tip itself is not kept.\<close>

definition refresh_tray_status :: "tray_env \<Rightarrow> tray \<Rightarrow> service_status option option \<times> tray" where
  "refresh_tray_status env t =
     (let (answer, t) = fetch_service_status env t
      in (case answer of
            Some (Some status) \<Rightarrow> if te_shell_ok env then Some (Some status) else None
          | other \<Rightarrow> other, t))"

record attempt_baseline =
  ab_known :: bool
  ab_attempt :: "int option"

definition unknown_baseline :: attempt_baseline where
  "unknown_baseline = \<lparr>ab_known = False, ab_attempt = None\<rparr>"

definition baseline_from_status :: "service_status \<Rightarrow> attempt_baseline" where
  "baseline_from_status status =
     \<lparr>ab_known = True, ab_attempt = map_option timestamp_millis (ss_last_attempt status)\<rparr>"

definition start_backup_status_monitor :: "tray_env \<Rightarrow> attempt_baseline \<Rightarrow> bool \<Rightarrow> tray \<Rightarrow> tray" where
  "start_backup_status_monitor env baseline observed_running t =
     set_timer BackupStatusTimer BACKUP_STATUS_INTERVAL_MS
       (t\<lparr>tr_baseline_attempt := ab_attempt baseline, tr_baseline_known := ab_known baseline, tr_ticks := 0,
          tr_started := Some (te_now env), tr_observed_running := observed_running, tr_started_shown := observed_running\<rparr>)"

definition send_backup_action :: "tray_env \<Rightarrow> request_command \<Rightarrow> tray \<Rightarrow> tray" where
  "send_backup_action env command t =
     (let run_backup = (command = RunBackupNow);
          (baseline, t) =
            (if run_backup then
               let (status, t) = fetch_service_status env t
               in (case status of Some (Some s) \<Rightarrow> baseline_from_status s | _ \<Rightarrow> unknown_baseline, t)
             else (unknown_baseline, t));
          (answer, t) = send_request env command t
      in case answer of
           Some (Accepted message) \<Rightarrow>
             let t = show_tray_notification env
                   (if run_backup then ''Backup requested'' else ''Cancellation requested'') message DefaultPage t;
                 t = snd (refresh_tray_status env t)
             in start_backup_status_monitor env baseline (\<not> run_backup) t
         | Some (Rejected c message) \<Rightarrow> show_error message t
         | Some _ \<Rightarrow> show_error ''The backup service returned an unexpected response.'' t
         | None \<Rightarrow> show_error ''The backup service could not be reached.'' t)"

definition backup_attempt_changed :: "bool \<Rightarrow> int option \<Rightarrow> int option \<Rightarrow> bool" where
  "backup_attempt_changed baseline_known baseline_attempt last_attempt \<longleftrightarrow>
     baseline_known \<and> last_attempt \<noteq> None \<and> last_attempt \<noteq> baseline_attempt"

definition backup_monitor_timed_out :: "tray_env \<Rightarrow> tray \<Rightarrow> bool" where
  "backup_monitor_timed_out env t =
     (case tr_started t of
        None \<Rightarrow> False
      | Some started \<Rightarrow> started \<le> te_now env \<and> BACKUP_MONITOR_TIMEOUT \<le> te_now env - started)"

definition finish_backup_status_monitor :: "tray_env \<Rightarrow> string \<Rightarrow> string \<Rightarrow> tray \<Rightarrow> tray" where
  "finish_backup_status_monitor env title message t =
     show_tray_notification env title message DefaultPage ((kill_timer BackupStatusTimer t)\<lparr>tr_started := None\<rparr>)"

text \<open>The last part of a poll: what the published state means for the watched run.\<close>

definition conclude_poll :: "tray_env \<Rightarrow> backup_state \<Rightarrow> bool \<Rightarrow> tray \<Rightarrow> tray" where
  "conclude_poll env state finished t =
     (case state of
        Running phase \<Rightarrow>
          (let shown = tr_started_shown t; t = t\<lparr>tr_observed_running := True, tr_started_shown := True\<rparr>
           in if shown then t
              else show_tray_notification env ''Backup started'' ''resticpal is now protecting this PC.'' DefaultPage t)
      | Succeeded \<Rightarrow>
          if finished then finish_backup_status_monitor env ''Backup complete''
            ''The latest backup finished successfully.'' t else t
      | SucceededWithWarnings \<Rightarrow>
          if finished then finish_backup_status_monitor env ''Backup completed with warnings''
            BACKUP_WARNING_NOTIFICATION t else t
      | Failed c \<Rightarrow>
          if finished then finish_backup_status_monitor env ''Backup needs attention''
            ''The backup did not complete. Open resticpal diagnostics for details.'' t else t
      | Cancelled \<Rightarrow>
          if finished then finish_backup_status_monitor env ''Backup cancelled''
            ''The active backup was cancelled.'' t else t
      | Unconfigured \<Rightarrow> finish_backup_status_monitor env ''Backup request stopped''
          ''The service can no longer run the requested backup. Open resticpal to review its configuration.'' t
      | Paused \<Rightarrow> finish_backup_status_monitor env ''Backup request stopped''
          ''The service can no longer run the requested backup. Open resticpal to review its configuration.'' t
      | _ \<Rightarrow> t)"

definition poll_backup_status :: "tray_env \<Rightarrow> tray \<Rightarrow> tray" where
  "poll_backup_status env t =
     (let (answer, t) = refresh_tray_status env t;
          t = t\<lparr>tr_ticks := tr_ticks t + 1\<rparr>
      in case answer of
           Some (Some status) \<Rightarrow>
             if backup_monitor_timed_out env t then
               finish_backup_status_monitor env ''Backup still pending''
                 ''resticpal stopped the dedicated status watch after two hours. Open the app to review current conditions.'' t
             else
               let changed = backup_attempt_changed (tr_baseline_known t) (tr_baseline_attempt t)
                     (map_option timestamp_millis (ss_last_attempt status));
                   finished = (tr_observed_running t \<or> changed);
                   t = (if tr_ticks t = BACKUP_FAST_POLL_TICKS \<and> \<not> finished \<and> \<not> is_running (ss_state status)
                        then set_timer BackupStatusTimer BACKUP_WAITING_INTERVAL_MS
                          (show_tray_notification env ''Backup waiting''
                             ''The request is still queued. resticpal will keep watching its power, network, and service conditions.''
                             DefaultPage t)
                        else t)
               in conclude_poll env (ss_state status) finished t
         | _ \<Rightarrow>
             if backup_monitor_timed_out env t then
               finish_backup_status_monitor env ''Backup status unavailable''
                 ''resticpal stopped the dedicated status watch. Open the app to review the service.'' t
             else if tr_ticks t = BACKUP_FAST_POLL_TICKS then
               set_timer BackupStatusTimer BACKUP_WAITING_INTERVAL_MS t
             else t)"

section \<open>Messages\<close>

definition should_launch_onboarding :: "bool \<Rightarrow> backup_state \<Rightarrow> bool" where
  "should_launch_onboarding marker_exists state \<longleftrightarrow> \<not> marker_exists \<and> state = Unconfigured"

definition maybe_launch_onboarding :: "tray_env \<Rightarrow> tray \<Rightarrow> bool \<times> tray" where
  "maybe_launch_onboarding env t =
     (if te_onboarding_marker env then (True, t)
      else
        let (answer, t) = send_request env GetStatus t
        in case answer of
             Some (StatusResponse status) \<Rightarrow>
               if should_launch_onboarding (te_onboarding_marker env) (ss_state status) then
                 (True, snd (launch_ui env SetupPage (kill_timer OnboardingTimer t)))
               else (case ss_state status of Waiting reason \<Rightarrow> False | _ \<Rightarrow> True, t)
           | _ \<Rightarrow> (False, t))"

definition tray_left_click_is_distinct :: "u32 option \<Rightarrow> u32 \<Rightarrow> u32 \<Rightarrow> bool" where
  "tray_left_click_is_distinct previous message_time double_click_time =
     (case previous of None \<Rightarrow> True | Some before \<Rightarrow> double_click_time < message_time - before)"

datatype tray_event =
    LeftButtonUp | LeftDoubleClick | IconSelect | IconKeySelect | BalloonShow | BalloonHide | BalloonTimeout
  | BalloonUserClick | RightButtonUp | ContextMenu | OtherEvent

datatype tray_icon_action = OpenSettings | OpenUpdates | ShowContextMenu

fun tray_icon_action_of :: "tray_event \<Rightarrow> bool \<Rightarrow> tray_icon_action option" where
  "tray_icon_action_of LeftButtonUp opens_updates = Some OpenSettings"
| "tray_icon_action_of LeftDoubleClick opens_updates = Some OpenSettings"
| "tray_icon_action_of IconSelect opens_updates = Some OpenSettings"
| "tray_icon_action_of IconKeySelect opens_updates = Some OpenSettings"
| "tray_icon_action_of BalloonUserClick opens_updates = Some (if opens_updates then OpenUpdates else OpenSettings)"
| "tray_icon_action_of RightButtonUp opens_updates = Some ShowContextMenu"
| "tray_icon_action_of ContextMenu opens_updates = Some ShowContextMenu"
| "tray_icon_action_of _ opens_updates = None"

definition destroy_window :: "tray \<Rightarrow> tray" where
  "destroy_window t = t\<lparr>tr_timers := Map.empty, tr_open := False\<rparr>"

definition show_context_menu :: "tray_env \<Rightarrow> tray \<Rightarrow> tray" where
  "show_context_menu env t =
     (let (status, t) = fetch_service_status env t;
          backup_running = (case status of Some (Some s) \<Rightarrow> is_running (ss_state s) | _ \<Rightarrow> False);
          t = (if tr_update_available t then
                 (let (setting, t) = automatic_update_setting_of env t
                  in case user_update_action_of setting of
                       OpenManualUi \<Rightarrow> t
                     | CheckSilently \<Rightarrow> check_update_silently t
                     | RetryUser \<Rightarrow> retry_update_silently t)
               else t)
      in if \<not> te_menu_ok env then show_error ''The menu could not be shown.'' t
         else case te_menu_choice env of
                MenuOpen \<Rightarrow> snd (launch_ui env DefaultPage t)
              | MenuUpdate \<Rightarrow> handle_user_update_request env t
              | MenuRunBackup \<Rightarrow> send_backup_action env (if backup_running then CancelBackup else RunBackupNow) t
              | MenuExit \<Rightarrow> destroy_window t
              | MenuNothing \<Rightarrow> t)"

definition tray_callback :: "tray_env \<Rightarrow> tray_event \<Rightarrow> tray \<Rightarrow> tray" where
  "tray_callback env event t =
     (if event = BalloonShow then t\<lparr>tr_routes := balloon_shown (tr_routes t)\<rparr>
      else if event = BalloonHide \<or> event = BalloonTimeout then t\<lparr>tr_routes := balloon_dismissed (tr_routes t)\<rparr>
      else
        let (opens_updates, t) =
              (if event = BalloonUserClick then
                 let (destination, routes) = balloon_clicked (tr_routes t)
                 in (destination = UpdatesPage, t\<lparr>tr_routes := routes\<rparr>)
               else (False, t))
        in case tray_icon_action_of event opens_updates of
             Some OpenSettings \<Rightarrow>
               if tray_left_click_is_distinct (tr_last_left_click t) (te_message_time env) (te_double_click_time env)
               then snd (launch_ui env DefaultPage (t\<lparr>tr_last_left_click := Some (te_message_time env)\<rparr>))
               else t
           | Some OpenUpdates \<Rightarrow> handle_user_update_request env t
           | Some ShowContextMenu \<Rightarrow> show_context_menu env t
           | None \<Rightarrow> t)"

datatype tray_message =
    TaskbarCreated | TrayCallback tray_event | CloseWindow | TimerFired tray_timer | UpdateAvailableMessage bool
  | DestroyMessage | OtherMessage

fun window_proc :: "tray_env \<Rightarrow> tray_message \<Rightarrow> tray \<Rightarrow> tray" where
  "window_proc env TaskbarCreated t = t\<lparr>tr_routes := no_routes\<rparr>"
| "window_proc env (TrayCallback event) t = tray_callback env event t"
| "window_proc env CloseWindow t = destroy_window t"
| "window_proc env (TimerFired OnboardingTimer) t =
     (let t = t\<lparr>tr_onboarding_attempts := tr_onboarding_attempts t + 1\<rparr>;
          attempts = tr_onboarding_attempts t;
          (done, t) = maybe_launch_onboarding env t
      in if done \<or> ONBOARDING_MAX_ATTEMPTS \<le> attempts then kill_timer OnboardingTimer t else t)"
| "window_proc env (TimerFired UpdateTimer) t = snd (start_update_check t)"
| "window_proc env (TimerFired UpdateRetryTimer) t = snd (start_update_check (kill_timer UpdateRetryTimer t))"
| "window_proc env (TimerFired BackupStatusTimer) t = poll_backup_status env t"
| "window_proc env (UpdateAvailableMessage posted) t =
     (if posted then
        let (setting, t) = automatic_update_setting_of env t
        in case user_update_action_of setting of
             OpenManualUi \<Rightarrow> show_update_notification env t
           | CheckSilently \<Rightarrow> check_update_silently t
           | RetryUser \<Rightarrow> retry_update_silently t
      else t)"
| "window_proc env DestroyMessage t = destroy_window t"
| "window_proc env OtherMessage t = t"

section \<open>Properties\<close>

lemma parse_version_component_eq: "map_option unat (parse_version_component v) = parse_component v"
proof -
  have "\<not> is_ascii_digit (CHR ''+'')"
    by (simp add: ascii_simps)
  then have "v \<noteq> [] \<and> list_all is_ascii_digit v \<Longrightarrow> \<not> (v \<noteq> [] \<and> hd v = CHR ''+'')"
    by (cases v) auto
  then show ?thesis
    by (auto simp: parse_version_component_def parse_component_def parse_u64_def unsigned_of_nat take_bit_nat_eq_self)
qed

lemma parse_version_eq:
  "parse_version v = map_option (\<lambda>(x, y, z). (unat x, unat y, unat z)) (parse_product_version v)"
  by (auto simp: parse_version_def parse_product_version_def parse_version_component_eq [symmetric]
      split: list.split option.split)

lemma version_less_eq:
  "version_less (unat a, unat b, unat c) (unat x, unat y, unat z) \<longleftrightarrow> product_version_less (a, b, c) (x, y, z)"
  by (simp add: word_less_nat_alt word_unat_eq_iff)

lemma check_update_source_Available:
  assumes "check_update_source feed source = Some (Available package)"
  obtains appcast signature key sig where
    "fe_fetch feed (us_appcast_url source) (MAX_UPDATE_APPCAST_BYTES + 1) = Some appcast" "length appcast \<le> MAX_UPDATE_APPCAST_BYTES"
    "fe_base64 feed (trim UPDATE_PUBLIC_KEY) = Some key" "fe_valid_key feed key" "fe_base64 feed (trim signature) = Some sig"
    "fe_verify_strict feed key appcast sig" "extract_update_package appcast = Some package"
    "\<exists>version current. parse_version (up_version package) = Some version \<and> parse_version CARGO_PKG_VERSION = Some current
       \<and> version_less current version"
proof -
  from assms obtain appcast signature available current where
    fetched: "fetch_bounded feed (us_appcast_url source) MAX_UPDATE_APPCAST_BYTES = Some appcast"
    and verified: "verify_signed_document feed appcast signature UPDATE_PUBLIC_KEY"
    and package: "extract_update_package appcast = Some package"
    and versions: "parse_product_version (up_version package) = Some available"
      "parse_product_version CARGO_PKG_VERSION = Some current" "product_version_less current available"
    by (auto simp: check_update_source_def Option.bind_eq_Some_conv split: if_splits)
  from verified obtain key sig where "fe_base64 feed (trim UPDATE_PUBLIC_KEY) = Some key" "fe_valid_key feed key"
    "fe_base64 feed (trim signature) = Some sig" "fe_verify_strict feed key appcast sig"
    by (auto simp: verify_signed_document_def split: option.splits if_splits)
  moreover have "\<exists>version current. parse_version (up_version package) = Some version
      \<and> parse_version CARGO_PKG_VERSION = Some current \<and> version_less current version"
    using versions version_less_eq by (cases available; cases current) (auto simp: parse_version_eq)
  moreover have "fe_fetch feed (us_appcast_url source) (MAX_UPDATE_APPCAST_BYTES + 1) = Some appcast"
    "length appcast \<le> MAX_UPDATE_APPCAST_BYTES"
    using fetched by (auto simp: fetch_bounded_def Option.bind_eq_Some_conv split: if_splits)
  ultimately show thesis
    using package that by blast
qed

lemma check_update_sources_Available:
  "check_update_sources sources check seen = Some (Available package) \<Longrightarrow> \<exists>source \<in> set sources. check source = Some (Available package)"
  by (induction sources check seen rule: check_update_sources.induct) (auto split: option.splits update_check.splits if_splits)

text \<open>
  C13. The tray asks the service only for updates that the vendor signed. When the end of an update
  check sends an installation request, the service had said that automatic installation is on, the
  package was read from a feed of at most the allowed size from one of the two built-in addresses
  whose signature verifies under the built-in key, and its version is newer than this one in the
  service's own reading of versions, so that the service cannot refuse it as old or malformed. No
  notification is shown then, and another check is planned.
\<close>

theorem tray_requests_signed_updates:
  assumes "finish_update_check env prompt_due (check_for_update feed) t = t'"
    and "tr_requests t' = tr_requests t @ sent" and "r \<in> set sent" and "rq_command r = InstallUpdate package"
  shows "(\<exists>source \<in> set UPDATE_APPCAST_SOURCES. \<exists>appcast signature key sig.
       fe_fetch feed (us_appcast_url source) (MAX_UPDATE_APPCAST_BYTES + 1) = Some appcast
       \<and> length appcast \<le> MAX_UPDATE_APPCAST_BYTES \<and> fe_base64 feed (trim UPDATE_PUBLIC_KEY) = Some key
       \<and> fe_base64 feed (trim signature) = Some sig \<and> fe_verify_strict feed key appcast sig
       \<and> extract_update_package appcast = Some package)
    \<and> (\<exists>version current. parse_version (up_version package) = Some version
         \<and> parse_version CARGO_PKG_VERSION = Some current \<and> version_less current version)
    \<and> (\<exists>v. te_respond env GetUpdateSettings = Some (UpdateSettingsResponse v) \<and> uv_automatic_install v)
    \<and> tr_notifications t' = tr_notifications t \<and> \<not> tr_update_available t' \<and> tr_timers t' UpdateRetryTimer \<noteq> None"
proof -
  have requested: "check_for_update feed = Some (Available package)
      \<and> (\<exists>v. te_respond env GetUpdateSettings = Some (UpdateSettingsResponse v) \<and> uv_automatic_install v)
      \<and> tr_notifications t' = tr_notifications t \<and> \<not> tr_update_available t' \<and> tr_timers t' UpdateRetryTimer \<noteq> None"
    using assms
    by (auto simp: finish_update_check_def automatic_update_setting_of_def request_automatic_update_def send_request_def
        set_timer_def new_request_def Let_def
        split: option.splits update_check.splits response_payload.splits if_splits)
  then obtain source where source: "source \<in> set UPDATE_APPCAST_SOURCES" "check_update_source feed source = Some (Available package)"
    using check_update_sources_Available [of UPDATE_APPCAST_SOURCES "check_update_source feed" False package]
    by (auto simp: check_for_update_def)
  from source(2) show ?thesis
  proof (rule check_update_source_Available)
    fix appcast signature key sig
    assume "fe_fetch feed (us_appcast_url source) (MAX_UPDATE_APPCAST_BYTES + 1) = Some appcast"
      "length appcast \<le> MAX_UPDATE_APPCAST_BYTES" "fe_base64 feed (trim UPDATE_PUBLIC_KEY) = Some key"
      "fe_base64 feed (trim signature) = Some sig" "fe_verify_strict feed key appcast sig"
      "extract_update_package appcast = Some package"
      "\<exists>version current. parse_version (up_version package) = Some version \<and> parse_version CARGO_PKG_VERSION = Some current
         \<and> version_less current version"
    with source(1) requested show ?thesis by blast
  qed
qed

definition sample_appcast :: string where
  "sample_appcast = ''<sparkle:version>1.0.9</sparkle:version><enclosure url='' @ [CHR 0x22] @ ''u'' @ [CHR 0x22]
     @ '' sparkle:signature='' @ [CHR 0x22] @ ''s'' @ [CHR 0x22] @ '' length='' @ [CHR 0x22] @ ''5'' @ [CHR 0x22] @ ''>''"

definition sample_feed :: feed_env where
  "sample_feed = \<lparr>fe_fetch = (\<lambda>url n. Some (if n = MAX_UPDATE_SIGNATURE_BYTES + 1 then ''!'' else sample_appcast)),
     fe_base64 = (\<lambda>s. Some (replicate (if s = ''!'' then 64 else 32) 0)), fe_valid_key = (\<lambda>key. True),
     fe_verify_strict = (\<lambda>key document sig. document = sample_appcast)\<rparr>"

definition sample_package :: update_package where
  "sample_package = \<lparr>up_version = ''1.0.9'', up_url = ''u'', up_signature = ''s'', up_length = 5\<rparr>"

lemma sample_trimmed: "trim ''!'' = ''!''" "trim ''1.0.9'' = ''1.0.9''"
  by (simp_all add: trim_printable printable_def)

lemma sample_versions:
  "parse_product_version ''1.0.9'' = Some (1, 0, 9)" "parse_product_version CARGO_PKG_VERSION = Some (1, 0, 8)"
  by (simp_all add: parse_product_version_def CARGO_PKG_VERSION_def parse_version_component_def parse_u64_def decimal_value_def
      ascii_simps)

lemma sample_extracted: "extract_update_package sample_appcast = Some sample_package"
  by (simp add: extract_update_package_def sample_appcast_def sample_package_def extract_between_def extract_xml_attribute_def
      find_str.simps sample_trimmed sample_versions parse_u64_def decimal_value_def ascii_simps)

lemma sample_appcast_bytes: "valid_utf8 sample_appcast" "length sample_appcast \<le> 262144" "sample_appcast \<noteq> ''!''"
  by (simp_all add: sample_appcast_def)

lemma sample_key: "trim UPDATE_PUBLIC_KEY \<noteq> ''!''"
proof -
  have "CHR ''!'' \<notin> set UPDATE_PUBLIC_KEY"
    by (simp add: UPDATE_PUBLIC_KEY_def)
  then show ?thesis
    using set_trim [of UPDATE_PUBLIC_KEY] by auto
qed

lemma sample_check: "check_for_update sample_feed = Some (Available sample_package)"
  by (simp add: check_for_update_def UPDATE_APPCAST_SOURCES_def check_update_source_def fetch_bounded_def sample_feed_def
      MAX_UPDATE_SIGNATURE_BYTES_def MAX_UPDATE_APPCAST_BYTES_def sample_extracted sample_versions sample_appcast_bytes
      sample_key sample_trimmed verify_signed_document_def sample_package_def)

definition sample_tray :: tray where
  "sample_tray = \<lparr>tr_routes = no_routes, tr_update_available = False, tr_update_check_running = True, tr_timers = Map.empty,
     tr_onboarding_attempts = 0, tr_last_left_click = None, tr_baseline_known = False, tr_baseline_attempt = None, tr_ticks = 0,
     tr_started = None, tr_observed_running = False, tr_started_shown = False, tr_next_request_id = 1, tr_requests = [],
     tr_notifications = [], tr_launches = [], tr_errors = [], tr_update_posted = 0, tr_open = True\<rparr>"

definition sample_session :: "(request_command \<Rightarrow> response_payload option) \<Rightarrow> nat \<Rightarrow> tray_env" where
  "sample_session respond now = \<lparr>te_respond = respond, te_shell_ok = True, te_now = now, te_onboarding_marker = True,
     te_launch_in_progress = False, te_executable_known = True, te_launched = True, te_menu_ok = True,
     te_menu_choice = MenuNothing, te_message_time = 0, te_double_click_time = 500\<rparr>"

definition sample_answers :: "request_command \<Rightarrow> response_payload option" where
  "sample_answers command =
     (if command = GetUpdateSettings
      then Some (UpdateSettingsResponse \<lparr>uv_automatic_install = True, uv_automatic_install_locked = False\<rparr>)
      else Some (Accepted ''The update was accepted.''))"

theorem tray_requests_signed_updates_witness:
  "\<exists>version current. parse_version (up_version sample_package) = Some version
     \<and> parse_version CARGO_PKG_VERSION = Some current \<and> version_less current version"
proof -
  have "tr_requests (finish_update_check (sample_session sample_answers 0) False (check_for_update sample_feed) sample_tray)
      = tr_requests sample_tray @ [new_request 1 GetUpdateSettings, new_request 2 (InstallUpdate sample_package)]"
    by (simp add: sample_check finish_update_check_def automatic_update_setting_of_def request_automatic_update_def
        send_request_def set_timer_def sample_session_def sample_answers_def sample_tray_def)
  from tray_requests_signed_updates [OF refl this, of "new_request 2 (InstallUpdate sample_package)" sample_package]
  show ?thesis
    by (simp add: new_request_def)
qed

text \<open>The watch of a backup: the timer fires only while it is set.\<close>

fun watch_backup :: "tray_env list \<Rightarrow> tray \<Rightarrow> tray" where
  "watch_backup [] t = t"
| "watch_backup (env # envs) t =
     watch_backup envs (if tr_timers t BackupStatusTimer = None then t else poll_backup_status env t)"

definition closing_titles :: "string set" where
  "closing_titles = {''Backup status unavailable'', ''Backup still pending'', ''Backup complete'',
     ''Backup completed with warnings'', ''Backup needs attention'', ''Backup cancelled'', ''Backup request stopped''}"

definition closings :: "tray \<Rightarrow> (string \<times> string \<times> ui_destination) list" where
  "closings t = filter (\<lambda>(title, message, destination). title \<in> closing_titles) (tr_notifications t)"

lemma show_notification_fields [simp]:
  "tr_timers (show_tray_notification env title message d t) = tr_timers t"
  "tr_started (show_tray_notification env title message d t) = tr_started t"
  "tr_observed_running (show_tray_notification env title message d t) = tr_observed_running t"
  by (auto simp: show_tray_notification_def split: prod.split bool.split)

lemma show_notification_closings:
  "closings (show_tray_notification env title message d t) = closings t
   \<or> title \<in> closing_titles \<and> closings (show_tray_notification env title message d t) = closings t @ [(title, message, d)]"
  by (auto simp: show_tray_notification_def closings_def split: prod.split bool.split)

lemma finish_monitor_result:
  assumes "title \<in> closing_titles" and "t' = finish_backup_status_monitor env title message t"
  shows "tr_timers t' BackupStatusTimer = None \<and> tr_started t' = None \<and> prefix (closings t) (closings t')
    \<and> length (closings t') \<le> Suc (length (closings t))
    \<and> set (closings t') \<subseteq> insert (title, message, DefaultPage) (set (closings t))"
proof -
  have "closings ((kill_timer BackupStatusTimer t)\<lparr>tr_started := None\<rparr>) = closings t"
    by (simp add: closings_def kill_timer_def)
  then show ?thesis
    using assms show_notification_closings [of env title message DefaultPage "(kill_timer BackupStatusTimer t)\<lparr>tr_started := None\<rparr>"]
    by (auto simp: finish_backup_status_monitor_def kill_timer_def)
qed

text \<open>A poll either keeps watching and closes nothing, or ends the watch with at most one closing message.\<close>

definition poll_continues :: "tray \<Rightarrow> tray \<Rightarrow> bool" where
  "poll_continues t t' \<longleftrightarrow> (tr_timers t BackupStatusTimer = None \<longleftrightarrow> tr_timers t' BackupStatusTimer = None)
     \<and> tr_started t' = tr_started t \<and> closings t' = closings t"

definition poll_ends :: "tray \<Rightarrow> bool \<Rightarrow> tray \<Rightarrow> bool" where
  "poll_ends t finished t' \<longleftrightarrow> tr_timers t' BackupStatusTimer = None \<and> tr_started t' = None
     \<and> length (closings t') \<le> Suc (length (closings t))
     \<and> (\<forall>c \<in> set (closings t'). c \<in> set (closings t) \<or> (fst c = ''Backup complete'' \<longrightarrow> finished))"

lemma finish_monitor_ends:
  "title \<in> closing_titles \<Longrightarrow> (title = ''Backup complete'' \<longrightarrow> finished) \<Longrightarrow>
     poll_ends t finished (finish_backup_status_monitor env title message t)"
  using finish_monitor_result [OF _ refl, of title env message t] by (auto simp: poll_ends_def)

lemma poll_continues_refl: "poll_continues t t"
  by (simp add: poll_continues_def)

lemma notification_continues:
  assumes "title \<notin> closing_titles" and "poll_continues t t'"
  shows "poll_continues t (show_tray_notification env title message d t')"
  using assms show_notification_closings [of env title message d t'] by (auto simp: poll_continues_def)

lemma conclude_poll_result:
  "poll_continues t (conclude_poll env state finished t)
   \<or> poll_ends t (state = Succeeded \<and> finished) (conclude_poll env state finished t)"
proof -
  have "poll_continues t (t\<lparr>tr_observed_running := b, tr_started_shown := c\<rparr>)" for b c
    by (simp add: poll_continues_def closings_def)
  then show ?thesis
    by (cases state) (auto simp: conclude_poll_def Let_def closing_titles_def
        intro: finish_monitor_ends notification_continues poll_continues_refl)
qed

lemma poll_continues_trans:
  "poll_continues t1 t2 \<Longrightarrow> poll_continues t2 t3 \<Longrightarrow> poll_continues t1 t3"
  "poll_continues t1 t2 \<Longrightarrow> poll_ends t2 finished t3 \<Longrightarrow> poll_ends t1 finished t3"
  by (auto simp: poll_continues_def poll_ends_def)

definition reported_finished :: "tray_env \<Rightarrow> tray \<Rightarrow> bool" where
  "reported_finished env t \<longleftrightarrow> (\<exists>status. te_respond env GetStatus = Some (StatusResponse status)
     \<and> ss_state status = Succeeded \<and> (tr_observed_running t
        \<or> backup_attempt_changed (tr_baseline_known t) (tr_baseline_attempt t) (map_option timestamp_millis (ss_last_attempt status))))"

lemma poll_result:
  assumes "tr_timers t BackupStatusTimer \<noteq> None"
  shows "(poll_continues t (poll_backup_status env t) \<and> \<not> backup_monitor_timed_out env t)
    \<or> poll_ends t (reported_finished env t) (poll_backup_status env t)"
proof -
  define t1 where "t1 = (snd (refresh_tray_status env t))\<lparr>tr_ticks := tr_ticks t + 1\<rparr>"
  have t1: "poll_continues t t1" "tr_started t1 = tr_started t" "tr_timers t1 = tr_timers t"
    "tr_observed_running t1 = tr_observed_running t" "tr_baseline_known t1 = tr_baseline_known t"
    "tr_baseline_attempt t1 = tr_baseline_attempt t" "tr_ticks t1 = tr_ticks t + 1"
    by (simp_all add: t1_def poll_continues_def refresh_tray_status_def fetch_service_status_def send_request_def closings_def
        split_beta Let_def)
  have slow: "poll_continues t1 (set_timer BackupStatusTimer BACKUP_WAITING_INTERVAL_MS t2)" if "poll_continues t1 t2" for t2
    using that assms t1 by (simp add: poll_continues_def set_timer_def closings_def)
  have timed_out: "backup_monitor_timed_out env t1 = backup_monitor_timed_out env t"
    by (simp add: backup_monitor_timed_out_def t1)
  have ticks: "tr_ticks (snd (refresh_tray_status env t)) = tr_ticks t"
    by (simp add: refresh_tray_status_def fetch_service_status_def send_request_def split_beta Let_def)
  have titles: "''Backup still pending'' \<in> closing_titles" "''Backup status unavailable'' \<in> closing_titles"
    "''Backup waiting'' \<notin> closing_titles"
    by (simp_all add: closing_titles_def)
  show ?thesis
  proof (cases "\<exists>status. fst (refresh_tray_status env t) = Some (Some status)")
    case True
    then obtain status where answer: "fst (refresh_tray_status env t) = Some (Some status)" by blast
    then have reported: "te_respond env GetStatus = Some (StatusResponse status)"
      by (auto simp: refresh_tray_status_def fetch_service_status_def send_request_def split_beta Let_def
          split: option.splits response_payload.splits if_splits)
    let ?finished = "tr_observed_running t1 \<or> backup_attempt_changed (tr_baseline_known t1) (tr_baseline_attempt t1)
      (map_option timestamp_millis (ss_last_attempt status))"
    define t2 where "t2 = (if tr_ticks t1 = BACKUP_FAST_POLL_TICKS \<and> \<not> ?finished \<and> \<not> is_running (ss_state status)
      then set_timer BackupStatusTimer BACKUP_WAITING_INTERVAL_MS (show_tray_notification env ''Backup waiting''
        ''The request is still queued. resticpal will keep watching its power, network, and service conditions.'' DefaultPage t1)
      else t1)"
    have "poll_continues t1 t2"
      unfolding t2_def using slow notification_continues [OF titles(3) poll_continues_refl] poll_continues_refl by simp
    then have t2: "poll_continues t t2"
      using t1(1) poll_continues_trans(1) by blast
    have finished: "reported_finished env t \<longleftrightarrow> ss_state status = Succeeded \<and> ?finished"
      by (simp add: reported_finished_def reported t1)
    have poll: "poll_backup_status env t = (if backup_monitor_timed_out env t1 then
        finish_backup_status_monitor env ''Backup still pending''
          ''resticpal stopped the dedicated status watch after two hours. Open the app to review current conditions.'' t1
        else conclude_poll env (ss_state status) ?finished t2)"
      by (simp add: poll_backup_status_def answer split_beta Let_def t1_def [unfolded ticks [symmetric]] t2_def)
    show ?thesis
    proof (cases "backup_monitor_timed_out env t1")
      case True
      then show ?thesis
        unfolding poll using poll_continues_trans(2) [OF t1(1) finish_monitor_ends [OF titles(1)]] by simp
    next
      case False
      then have poll: "poll_backup_status env t = conclude_poll env (ss_state status) ?finished t2"
        by (simp only: poll if_False)
      from conclude_poll_result [of t2 env "ss_state status" ?finished] show ?thesis
      proof
        assume "poll_continues t2 (conclude_poll env (ss_state status) ?finished t2)"
        with False timed_out poll_continues_trans(1) [OF t2] show ?thesis
          unfolding poll by blast
      next
        assume "poll_ends t2 (ss_state status = Succeeded \<and> ?finished) (conclude_poll env (ss_state status) ?finished t2)"
        then show ?thesis
          unfolding poll finished using poll_continues_trans(2) [OF t2] by blast
      qed
    qed
  next
    case False
    then have "poll_backup_status env t = (if backup_monitor_timed_out env t1 then
        finish_backup_status_monitor env ''Backup status unavailable''
          ''resticpal stopped the dedicated status watch. Open the app to review the service.'' t1
        else if tr_ticks t1 = BACKUP_FAST_POLL_TICKS then set_timer BackupStatusTimer BACKUP_WAITING_INTERVAL_MS t1 else t1)"
      by (auto simp: poll_backup_status_def split_beta Let_def t1_def [unfolded ticks [symmetric]] split: option.split)
    then show ?thesis
      using poll_continues_trans(1) [OF t1(1) slow [OF poll_continues_refl]] t1(1) timed_out
        poll_continues_trans(2) [OF t1(1) finish_monitor_ends [OF titles(2), of "reported_finished env t"]]
      by simp
  qed
qed

text \<open>
  C40. The watch that follows a backup request ends, and says how it ended at most once. As soon as
  a poll finds the watch two hours old it stops, whatever the service answers and even when it does not;
  before that it stops only with a closing message. In the whole watch at most one closing message is
  shown, none while it goes on, and success is announced only when the service reports a successful
  backup after a run was seen or the time of the last attempt has changed.
\<close>

theorem backup_watch_ends:
  assumes "tr_timers t BackupStatusTimer \<noteq> None" and "tr_started t = Some started"
  shows "(\<forall>env \<in> set envs. started + BACKUP_MONITOR_TIMEOUT \<le> te_now env \<longrightarrow>
       tr_timers (watch_backup envs t) BackupStatusTimer = None)
    \<and> (tr_timers (watch_backup envs t) BackupStatusTimer = None \<longleftrightarrow> tr_started (watch_backup envs t) = None)
    \<and> length (closings (watch_backup envs t)) \<le> Suc (length (closings t))
    \<and> (tr_timers (watch_backup envs t) BackupStatusTimer \<noteq> None \<longrightarrow> closings (watch_backup envs t) = closings t)
    \<and> (\<forall>c \<in> set (closings (watch_backup envs t)). c \<in> set (closings t) \<or> fst c \<noteq> ''Backup complete''
         \<or> (\<exists>env \<in> set envs. \<exists>n. reported_finished env (watch_backup (take n envs) t)))"
  using assms
proof (induction envs arbitrary: t)
  case (Cons env envs)
  let ?t = "poll_backup_status env t"
  have stays: "watch_backup envs t' = t'" if "tr_timers t' BackupStatusTimer = None" for t'
    using that by (induction envs) simp_all
  have step: "watch_backup (env # envs) t = watch_backup envs ?t"
    using Cons.prems by auto
  consider "poll_continues t ?t" "\<not> backup_monitor_timed_out env t" | "poll_ends t (reported_finished env t) ?t"
    using poll_result [OF Cons.prems(1)] by blast
  then show ?case
  proof cases
    case 1
    then have next_poll: "tr_timers ?t BackupStatusTimer \<noteq> None" "tr_started ?t = Some started" "closings ?t = closings t"
      using Cons.prems by (auto simp: poll_continues_def)
    have "te_now env < started + BACKUP_MONITOR_TIMEOUT"
      using 1(2) Cons.prems(2) by (auto simp: backup_monitor_timed_out_def)
    moreover have "watch_backup (take n envs) ?t = watch_backup (take (Suc n) (env # envs)) t" for n
      using Cons.prems by auto
    ultimately show ?thesis
      using Cons.IH [OF next_poll(1,2)] unfolding step next_poll(3) by (metis leD list.set_intros(2) set_ConsD)
  next
    case 2
    have "reported_finished env (watch_backup (take 0 (env # envs)) t) = reported_finished env t"
      by simp
    with 2 stays [of ?t] show ?thesis
      unfolding step poll_ends_def by (metis list.set_intros(1) option.distinct(1))
  qed
qed simp

theorem backup_watch_ends_witness:
  "tr_timers (watch_backup [sample_session (\<lambda>_. None) 5, sample_session (\<lambda>_. None) 7200]
     (start_backup_status_monitor (sample_session (\<lambda>_. None) 0) unknown_baseline False sample_tray)) BackupStatusTimer = None"
proof -
  let ?t = "start_backup_status_monitor (sample_session (\<lambda>_. None) 0) unknown_baseline False sample_tray"
  have "tr_timers ?t BackupStatusTimer \<noteq> None" "tr_started ?t = Some 0"
    by (simp_all add: start_backup_status_monitor_def set_timer_def sample_session_def)
  from backup_watch_ends [OF this, of "[sample_session (\<lambda>_. None) 5, sample_session (\<lambda>_. None) 7200]"] show ?thesis
    by (simp add: sample_session_def BACKUP_MONITOR_TIMEOUT_def)
qed

end
