(* ===== verification/Spec2Isabelle.thy ===== *)
theory Spec2Isabelle
  imports EventLoop NamedPipe Diagnostics Tray
begin

text \<open>
  A verification library for resticpal, a Windows backup agent around the restic program.

  \<^bold>\<open>The program.\<close> A Windows service (\<^verbatim>\<open>apps/resticpal-service\<close>) decides when to back up, runs restic,
  keeps the history and applies policies that an organisation signs; it talks to the settings
  application and to a tray program (\<^verbatim>\<open>apps/resticpal-tray\<close>) over a named pipe. The crates
  \<^verbatim>\<open>resticpal-core\<close> (pure rules), \<^verbatim>\<open>resticpal-protocol\<close> (messages) and \<^verbatim>\<open>resticpal-windows\<close> (pipe,
  credentials) are shared. One thread runs the event loop, others serve requests, refresh the
  managed policy, run a backup with its retention, a repository operation or an update.

  \<^bold>\<open>Theories and sources.\<close> Paths are below \<^verbatim>\<open>src\<close>; \<^verbatim>\<open>core\<close> and \<^verbatim>\<open>service\<close> abbreviate the source
  directories of \<^verbatim>\<open>crates/resticpal-core\<close> and \<^verbatim>\<open>apps/resticpal-service\<close>.

  \<^item> Prelude: machine integers, outcomes of fallible code, UTF-8 strings, ordered maps, instants.
    Paths and Net: the parts of the standard library that parse Windows paths and IP addresses.
  \<^item> Config, Policy, Status, Schedule, Restic, Manifests: \<^verbatim>\<open>core/config.rs\<close>, \<^verbatim>\<open>policy.rs\<close>, \<^verbatim>\<open>status.rs\<close>,
    \<^verbatim>\<open>schedule.rs\<close>, \<^verbatim>\<open>restic.rs\<close>, \<^verbatim>\<open>management.rs\<close>, one definition per function. Validators that
    are one long function in the source are split at their sections.
  \<^item> Protocol: messages and frames of \<^verbatim>\<open>crates/resticpal-protocol/src/lib.rs\<close>. NamedPipe:
    \<^verbatim>\<open>crates/resticpal-windows/src/named_pipe.rs\<close> and the request loop of \<^verbatim>\<open>service/main.rs\<close>.
    Credentials: \<^verbatim>\<open>credentials.rs\<close> of the same crate.
  \<^item> Stores: \<^verbatim>\<open>service/atomic_file.rs\<close>, \<^verbatim>\<open>config_store.rs\<close>, \<^verbatim>\<open>state.rs\<close>. History, Diagnostics, Conditions,
    Updater: the files of these names. Outcomes and Execution: the parsing half and the running half
    of \<^verbatim>\<open>executor.rs\<close>.
  \<^item> Runtime: \<^verbatim>\<open>service/runtime/state.rs\<close>, \<^verbatim>\<open>scheduler.rs\<close>, \<^verbatim>\<open>lifecycle.rs\<close>, \<^verbatim>\<open>events.rs\<close>, \<^verbatim>\<open>helpers.rs\<close>; the
    record \<open>runtime\<close> is the shared state, with the channel of events as a list. ManagementClient:
    \<^verbatim>\<open>service/management.rs\<close>. Enrollment: \<^verbatim>\<open>runtime/enrollment.rs\<close>. Settings and Requests:
    \<^verbatim>\<open>runtime/ipc.rs\<close>, the handlers that change the configuration and all others.
  \<^item> ManagementWorker and EventLoop: \<^verbatim>\<open>service/main.rs\<close>, one pass of the management thread, start-up,
    the event loop and the worker threads as an inductive step relation.
  \<^item> Tray: \<^verbatim>\<open>apps/resticpal-tray/src/main.rs\<close>, the window procedure over the variables it shares.

  \<^bold>\<open>What is shown.\<close> Config and Policy: the validator accepts exactly the declarative reading, and
  resolution takes each setting from the layer that has precedence. Schedule and Runtime: a backup
  starts exactly when due, ready and unblocked, the next deadline after a run, and no start without a
  verified repository after a restart. Restic and Execution: append-only repositories are never
  rewritten, exact command lines, protected directories never backed up, processes confined to the
  checked plan, pruning only after forgetting, every operation returns. Outcomes, History, Diagnostics:
  parsing does not depend on how the output is cut, histories and logs stay bounded and return what
  was recorded. Stores and Credentials: atomic replacement under crashes and failing calls, stored
  secrets read back. Updater and Tray: only signed installers run, only signed feeds lead to a
  request, the service directory is protected, and the watch of a backup ends. Manifests,
  ManagementClient, Enrollment, ManagementWorker: loaded policies and enrolments are authentic, a
  failed enrolment leaves nothing behind, activation keeps verification, refreshes keep their pace.
  Settings and Requests: locked settings cannot be changed, the active configuration is the one a
  restart computes, users without administrator rights reach nothing protected, an update hold is
  temporary. NamedPipe: answers belong to their requests and no client stalls the service. EventLoop: at
  most one operation is in progress in every reachable state. Four properties are negative and
  belong to findings: removing a device from management can skip verification, a blanked address comes
  back, a busy activation allows a rollback, and a squatted pipe name is joined.

  \<^bold>\<open>Interfaces.\<close> Contracts that several operations share are locales with an interpretation on the model:
  the settings handlers, the polled calls of a pipe, and the guarded transition system that
  EventLoop instantiates as the service, among others.

  \<^bold>\<open>Decisions.\<close> Strings and bytes are lists of characters or of 8-bit words. A function that can panic
  has \<open>Panic\<close> or \<open>None\<close> as a value, and its properties say that it does not. Code outside the
  repository (JSON, TOML, URL, base64, signatures, HTTP, the data protection interface, Windows and
  the clock) is an argument: a function, a record of answers, or a set of failing calls; the laws a
  property needs of it are hypotheses, with a witness that they can hold. A request reads the clock
  once. Handlers hold the lock of the state and are one step; enrolment, which releases it, is two. The
  request thread serves one client at a time.

  \<^bold>\<open>Bounds and fuel.\<close> Limits have the names and values of the source. Loops that consume a list are
  structural; the polling loops of the pipe are partial functions whose result \<open>None\<close> is excluded for
  every clock that advances; supervision loops run over the list of polls and end within it. No
  property rests on a fuel bound.

  \<^bold>\<open>Not modelled.\<close> \<^verbatim>\<open>user_profiles.rs\<close> (enumeration of the registry; its result is an argument of the request
  handlers), \<^verbatim>\<open>power_request.rs\<close> (a handle guard), registration with the service manager and the console
  test of \<^verbatim>\<open>main.rs\<close>, opening and migrating the history database, access control lists and buffers of
  Windows calls, icons, menus and text buffers of the tray, erasure of secrets from memory, debug
  formatting, the C# settings application, the installer and the scripts: they are calls of
  operating-system interfaces or presentation, with no rule of the program of their own.
\<close>

end
